(* ===== verification/Prelude.thy ===== *)
theory Prelude
  imports Main "HOL-Library.Sublist"
begin

text \<open>
  Prelude: the collections of rewrite rules the component theories share, the type
  synonyms of the model, and generic lemmas on lists, options and association lists.
  A JavaScript object used as a dictionary is an association list here (\<open>lookup\<close> is
  \<^const>\<open>map_of\<close>); a JavaScript exception is the left value of a sum.
\<close>

named_theorems text_simps \<open>evaluation of the JavaScript string operations\<close>
named_theorems zod_simps \<open>unfolding of the response schemas\<close>
named_theorems request_simps \<open>unfolding of the endpoint definitions\<close>

type_synonym ('e, 'a) result = "'e + 'a"

text \<open>What a component shows in the corner of the screen: \<open>toast.success\<close> and \<open>toast.error\<close>.\<close>

datatype toast = ToastSuccess string | ToastError string

section \<open>Options and results\<close>

text \<open>The nullish-coalescing operator \<open>a ?? b\<close>.\<close>

definition coalesce :: "'a option \<Rightarrow> 'a \<Rightarrow> 'a" where
  "coalesce v d = (case v of None \<Rightarrow> d | Some x \<Rightarrow> x)"

lemma coalesce_simps [simp]:
  "coalesce None d = d"
  "coalesce (Some x) d = x"
  by (simp_all add: coalesce_def)

lemma coalesce_split [split]:
  "P (coalesce v d) \<longleftrightarrow> (v = None \<longrightarrow> P d) \<and> (\<forall>x. v = Some x \<longrightarrow> P x)"
  by (cases v) simp_all

text \<open>\<open>?.\<close> on an optional value.\<close>

definition opt_chain :: "'a option \<Rightarrow> ('a \<Rightarrow> 'b option) \<Rightarrow> 'b option" where
  "opt_chain v f = (case v of None \<Rightarrow> None | Some x \<Rightarrow> f x)"

lemma opt_chain_simps [simp]:
  "opt_chain None f = None"
  "opt_chain (Some x) f = f x"
  by (simp_all add: opt_chain_def)

lemma opt_chain_eq_Some:
  "opt_chain v f = Some y \<longleftrightarrow> (\<exists>x. v = Some x \<and> f x = Some y)"
  by (cases v) simp_all

section \<open>Lists\<close>

lemma find_eq_None: "List.find P xs = None \<longleftrightarrow> (\<forall>x \<in> set xs. \<not> P x)"
  by (induction xs) auto

lemma find_eq_SomeD: "List.find P xs = Some x \<Longrightarrow> x \<in> set xs \<and> P x"
  by (induction xs) (auto split: if_splits)

lemma list_all2_map_left: "list_all2 P (map f xs) ys \<longleftrightarrow> list_all2 (\<lambda>x y. P (f x) y) xs ys"
  by (simp add: list_all2_map1)

lemma filter_partition_length: "length (filter P xs) + length (filter (\<lambda>x. \<not> P x) xs) = length xs"
  by (induction xs) auto

text \<open>The first element of a filtered list.\<close>

lemma length_dropWhile_less:
  "xs \<noteq> [] \<Longrightarrow> P (hd xs) \<Longrightarrow> length (dropWhile P xs) < length xs"
  by (cases xs) (auto intro: le_imp_less_Suc length_dropWhile_le)

lemma dropWhile_idem [simp]: "dropWhile P (dropWhile P xs) = dropWhile P xs"
  by (induction xs) auto

section \<open>Association lists\<close>

text \<open>\<open>obj[k] = v\<close> on an object kept in insertion order.\<close>

fun alist_set :: "'k \<Rightarrow> 'v \<Rightarrow> ('k \<times> 'v) list \<Rightarrow> ('k \<times> 'v) list" where
  "alist_set k v [] = [(k, v)]"
| "alist_set k v ((k', v') # kvs) =
     (if k = k' then (k, v) # kvs else (k', v') # alist_set k v kvs)"

lemma map_of_alist_set [simp]: "map_of (alist_set k v kvs) = (map_of kvs)(k \<mapsto> v)"
  by (induction k v kvs rule: alist_set.induct) (auto simp: fun_eq_iff)

lemma keys_alist_set: "set (map fst (alist_set k v kvs)) = insert k (set (map fst kvs))"
  by (induction k v kvs rule: alist_set.induct) auto

lemma distinct_alist_set:
  "distinct (map fst kvs) \<Longrightarrow> distinct (map fst (alist_set k v kvs))"
  by (induction k v kvs rule: alist_set.induct) (auto simp: keys_alist_set[unfolded set_map])

end
