(* ===== verification/Js_Text.thy ===== *)
theory Js_Text
  imports Prelude
begin

text \<open>
  The JavaScript string operations the source uses, on \<^typ>\<open>string\<close>. A \<^typ>\<open>char\<close> is a
  code unit below 256, so a \<^typ>\<open>string\<close> is a JavaScript string of Latin-1 code units; the
  one place where wider units change the behaviour of the code, the DN codec, has its own
  model over 16-bit code units (theory \<open>Dn_Codec\<close>).
\<close>

section \<open>Characters\<close>

definition code :: "char \<Rightarrow> nat" where
  "code c = of_char c"

text \<open>White space as \<open>trim\<close> and \<open>\s\<close> read it, below 256.\<close>

definition is_space :: "char \<Rightarrow> bool" where
  "is_space c \<longleftrightarrow> code c \<in> {9, 10, 11, 12, 13, 32, 160}"

definition is_digit :: "char \<Rightarrow> bool" where
  "is_digit c \<longleftrightarrow> 48 \<le> code c \<and> code c \<le> 57"

definition digit_val :: "char \<Rightarrow> nat" where
  "digit_val c = code c - 48"

definition digit_char :: "nat \<Rightarrow> char" where
  "digit_char d = char_of (48 + d)"

definition is_upper :: "char \<Rightarrow> bool" where
  "is_upper c \<longleftrightarrow> (65 \<le> code c \<and> code c \<le> 90) \<or> (192 \<le> code c \<and> code c \<le> 222 \<and> code c \<noteq> 215)"

definition lower :: "char \<Rightarrow> char" where
  "lower c = (if is_upper c then char_of (code c + 32) else c)"

lemma code_char_of [simp]: "n < 256 \<Longrightarrow> code (char_of n) = n"
  by (simp add: code_def)

lemma char_of_code [simp]: "char_of (code c) = c"
  by (simp add: code_def)

lemma code_less_256 [simp]: "code c < 256"
  unfolding code_def by (metis char_of_char of_char_of mod_less_divisor zero_less_numeral)

lemma code_inject [simp]: "code c = code d \<longleftrightarrow> c = d"
  by (metis char_of_code)

lemma digit_val_digit_char [simp]: "d < 10 \<Longrightarrow> digit_val (digit_char d) = d"
  by (simp add: digit_val_def digit_char_def)

lemma is_digit_digit_char [simp]: "d < 10 \<Longrightarrow> is_digit (digit_char d)"
  by (simp add: is_digit_def digit_char_def)

lemma digit_char_digit_val [simp]: "is_digit c \<Longrightarrow> digit_char (digit_val c) = c"
  by (auto simp: is_digit_def digit_val_def digit_char_def)

lemma digit_val_less [simp]: "is_digit c \<Longrightarrow> digit_val c < 10"
  by (auto simp: is_digit_def digit_val_def)

lemma lower_not_upper [simp]: "\<not> is_upper (lower c)"
  using code_less_256[of c] by (auto simp: lower_def is_upper_def)

lemma lower_idem [simp]: "lower (lower c) = lower c"
  using lower_not_upper[of c] by (simp add: lower_def[of "lower c"])

section \<open>String.prototype operations\<close>

definition strip_left :: "string \<Rightarrow> string" where
  "strip_left s = dropWhile is_space s"

definition strip_right :: "string \<Rightarrow> string" where
  "strip_right s = rev (dropWhile is_space (rev s))"

definition trim :: "string \<Rightarrow> string" where
  "trim s = strip_right (strip_left s)"

definition to_lower :: "string \<Rightarrow> string" where
  "to_lower s = map lower s"

text \<open>\<open>s.split(c)\<close> for a one-character separator: never an empty list.\<close>

fun split_on :: "char \<Rightarrow> string \<Rightarrow> string list" where
  "split_on c [] = [[]]"
| "split_on c (x # xs) =
     (if x = c then [] # split_on c xs
      else (case split_on c xs of [] \<Rightarrow> [[x]] | w # ws \<Rightarrow> (x # w) # ws))"

text \<open>\<open>ws.join(sep)\<close>.\<close>

fun join_with :: "string \<Rightarrow> string list \<Rightarrow> string" where
  "join_with sep [] = []"
| "join_with sep [w] = w"
| "join_with sep (w # ws) = w @ sep @ join_with sep ws"

fun str_starts :: "string \<Rightarrow> string \<Rightarrow> bool" where
  "str_starts s [] = True"
| "str_starts [] (p # ps) = False"
| "str_starts (x # xs) (p # ps) = (x = p \<and> str_starts xs ps)"

text \<open>\<open>s.includes(t)\<close>.\<close>

fun str_includes :: "string \<Rightarrow> string \<Rightarrow> bool" where
  "str_includes [] t = (t = [])"
| "str_includes (x # xs) t = (str_starts (x # xs) t \<or> str_includes xs t)"

text \<open>The part before and the part after the first \<open>c\<close>: \<open>indexOf\<close> with its two slices.\<close>

fun cut_at :: "char \<Rightarrow> string \<Rightarrow> (string \<times> string) option" where
  "cut_at c [] = None"
| "cut_at c (x # xs) =
     (if x = c then Some ([], xs)
      else (case cut_at c xs of None \<Rightarrow> None | Some (a, b) \<Rightarrow> Some (x # a, b)))"

text \<open>\<open>String(n)\<close> of a non-negative integer, and of any integer.\<close>

fun nat_str :: "nat \<Rightarrow> string" where
  "nat_str n = (if n < 10 then [digit_char n] else nat_str (n div 10) @ [digit_char (n mod 10)])"

declare nat_str.simps [simp del]

definition int_str :: "int \<Rightarrow> string" where
  "int_str i = (if i < 0 then ''-'' @ nat_str (nat (- i)) else nat_str (nat i))"

text \<open>The value of a run of digits, as \<open>parseInt\<close> reads it.\<close>

definition digits_val :: "string \<Rightarrow> nat" where
  "digits_val ds = foldl (\<lambda>acc d. acc * 10 + digit_val d) 0 ds"

subsection \<open>Laws\<close>

lemma split_on_not_Nil [simp]: "split_on c s \<noteq> []"
  by (induction s) (auto split: list.splits)

lemma split_on_parts: "w \<in> set (split_on c s) \<Longrightarrow> c \<notin> set w"
  by (induction s arbitrary: w) (auto split: if_splits list.splits)

lemma split_on_append:
  "split_on c (a @ c # b) = split_on c a @ split_on c b"
proof (induction a)
  case (Cons x a)
  then show ?case
    by (cases "split_on c a") auto
qed simp

lemma split_on_no_sep: "c \<notin> set w \<Longrightarrow> split_on c w = [w]"
  by (induction w) auto

lemma join_with_Cons:
  "ws \<noteq> [] \<Longrightarrow> join_with sep (w # ws) = w @ sep @ join_with sep ws"
  by (cases ws) auto

lemma join_with_head: "join_with sep ((x # w) # ws) = x # join_with sep (w # ws)"
  by (cases ws) auto

lemma join_split [simp]: "join_with [c] (split_on c s) = s"
proof (induction s)
  case (Cons x xs)
  then show ?case
    by (cases "split_on c xs") (auto simp: join_with_Cons join_with_head simp del: join_with.simps(3))
qed simp

lemma split_join:
  "ws \<noteq> [] \<Longrightarrow> \<forall>w \<in> set ws. c \<notin> set w \<Longrightarrow> split_on c (join_with [c] ws) = ws"
proof (induction ws)
  case (Cons w ws)
  then show ?case
    by (cases ws) (auto simp: split_on_no_sep split_on_append)
qed simp

lemma set_strip_left: "set (strip_left s) \<subseteq> set s"
  using set_dropWhileD by (fastforce simp: strip_left_def)

lemma set_strip_right: "set (strip_right s) \<subseteq> set s"
  using set_dropWhileD by (fastforce simp: strip_right_def)

lemma set_trim: "set (trim s) \<subseteq> set s"
  using set_strip_left[of s] set_strip_right[of "strip_left s"] by (auto simp: trim_def)

lemma strip_Nil [simp]: "strip_left [] = []" "strip_right [] = []"
  by (simp_all add: strip_left_def strip_right_def)

lemma dropWhile_snoc_ex: "\<not> P x \<Longrightarrow> \<exists>zs. dropWhile P (ys @ [x]) = zs @ [x]"
  by (induction ys) auto

lemma strip_right_hd: "s \<noteq> [] \<Longrightarrow> \<not> is_space (hd s) \<Longrightarrow> strip_left (strip_right s) = strip_right s"
proof (cases s)
  case (Cons x xs)
  assume "\<not> is_space (hd s)"
  with Cons have x: "\<not> is_space x" by simp
  then obtain zs where "dropWhile is_space (rev xs @ [x]) = zs @ [x]"
    using dropWhile_snoc_ex[of is_space x "rev xs"] by blast
  with Cons x show ?thesis by (simp add: strip_right_def strip_left_def)
qed simp

lemma trim_idem [simp]: "trim (trim s) = trim s"
proof (cases "strip_left s = []")
  case True
  then show ?thesis by (simp add: trim_def)
next
  case False
  then have "\<not> is_space (hd (strip_left s))"
    by (simp add: strip_left_def hd_dropWhile)
  with False have "strip_left (strip_right (strip_left s)) = strip_right (strip_left s)"
    by (rule strip_right_hd)
  then show ?thesis by (simp add: trim_def strip_right_def)
qed

lemma str_starts_iff: "str_starts s p \<longleftrightarrow> (\<exists>t. s = p @ t)"
  by (induction s p rule: str_starts.induct) auto

lemma str_includes_iff: "str_includes s t \<longleftrightarrow> (\<exists>a b. s = a @ t @ b)"
proof (induction s)
  case (Cons x xs)
  show ?case
  proof
    assume "str_includes (x # xs) t"
    then consider b where "x # xs = t @ b" | a b where "xs = a @ t @ b"
      by (auto simp: str_starts_iff Cons.IH simp del: str_starts.simps)
    then show "\<exists>a b. x # xs = a @ t @ b"
      by cases (metis append_Nil, metis append_Cons)
  next
    assume "\<exists>a b. x # xs = a @ t @ b"
    then obtain a b where "x # xs = a @ t @ b" by blast
    then show "str_includes (x # xs) t"
    proof (cases a)
      case Nil
      with \<open>x # xs = a @ t @ b\<close> have "str_starts (x # xs) t"
        by (auto simp: str_starts_iff)
      then show ?thesis by simp
    next
      case (Cons y a')
      with \<open>x # xs = a @ t @ b\<close> have "xs = a' @ t @ b" by simp
      with Cons.IH have "str_includes xs t" by blast
      then show ?thesis by simp
    qed
  qed
qed auto

lemma cut_at_None: "cut_at c s = None \<longleftrightarrow> c \<notin> set s"
  by (induction s) (auto split: option.splits)

lemma cut_at_append: "c \<notin> set a \<Longrightarrow> cut_at c (a @ c # b) = Some (a, b)"
  by (induction a) auto

lemma cut_at_SomeD: "cut_at c s = Some (a, b) \<Longrightarrow> s = a @ c # b \<and> c \<notin> set a"
  by (induction s arbitrary: a) (auto split: if_splits option.splits)

lemma cut_at_Some: "cut_at c s = Some (a, b) \<longleftrightarrow> s = a @ c # b \<and> c \<notin> set a"
  using cut_at_append cut_at_SomeD by blast

lemma to_lower_idem [simp]: "to_lower (to_lower s) = to_lower s"
  by (simp add: to_lower_def)

lemma to_lower_append [simp]: "to_lower (a @ b) = to_lower a @ to_lower b"
  by (simp add: to_lower_def)

lemma digits_val_snoc [simp]: "digits_val (ds @ [d]) = digits_val ds * 10 + digit_val d"
  by (simp add: digits_val_def)

lemma digits_val_nat_str [simp]: "digits_val (nat_str n) = n"
proof (induction n rule: nat_str.induct)
  case (1 n)
  show ?case
  proof (cases "n < 10")
    case True
    then show ?thesis by (simp add: nat_str.simps[of n] digits_val_def)
  next
    case False
    with 1 show ?thesis by (simp add: nat_str.simps[of n])
  qed
qed

lemma nat_str_digits: "c \<in> set (nat_str n) \<Longrightarrow> is_digit c"
proof (induction n rule: nat_str.induct)
  case (1 n)
  then show ?case
    by (cases "n < 10") (auto simp: nat_str.simps[of n])
qed

lemma nat_str_not_Nil [simp]: "nat_str n \<noteq> []"
  by (subst nat_str.simps) simp

lemma nat_str_inject [simp]: "nat_str m = nat_str n \<longleftrightarrow> m = n"
  by (metis digits_val_nat_str)

end
