(* ===== verification/Js_Value.thy ===== *)
theory Js_Value
  imports Js_Text Complex_Main
begin

text \<open>
  JSON values, JavaScript numbers and the coercions the source applies to values of type
  \<open>unknown\<close>. The value \<open>undefined\<close> (an absent property) is \<^const>\<open>None\<close> of
  \<open>json option\<close>. Finite numbers are exact rationals: they agree with the doubles of
  the source on integers up to \<open>2^53\<close>, far above every number the source compares.
\<close>

datatype json =
    JNull
  | JBool bool
  | JNum rat
  | JStr string
  | JArr "json list"
  | JObj "(string \<times> json) list"

datatype jsnum = JNaN | JInf bool | JFin rat

section \<open>The coercion \<open>Number(v)\<close>\<close>

definition scale10 :: "nat \<Rightarrow> int \<Rightarrow> rat" where
  "scale10 m k = (if 0 \<le> k then of_nat m * 10 ^ nat k else of_nat m / 10 ^ nat (- k))"

text \<open>The exponent part of a decimal literal: \<^const>\<open>None\<close> where the rest is malformed.\<close>

definition exponent_part :: "string \<Rightarrow> int option" where
  "exponent_part s =
     (case s of
        [] \<Rightarrow> Some 0
      | e # r \<Rightarrow>
          if e = CHR ''e'' \<or> e = CHR ''E'' then
            (let neg = (r \<noteq> [] \<and> hd r = CHR ''-'');
                 ds = (if r \<noteq> [] \<and> (hd r = CHR ''-'' \<or> hd r = CHR ''+'') then tl r else r)
             in if ds \<noteq> [] \<and> list_all is_digit ds
                then Some (if neg then - int (digits_val ds) else int (digits_val ds))
                else None)
          else None)"

definition unsigned_decimal :: "string \<Rightarrow> jsnum" where
  "unsigned_decimal s =
     (if s = ''Infinity'' then JInf True else
      (let ip = takeWhile is_digit s;
           r1 = dropWhile is_digit s;
           fp = (case r1 of [] \<Rightarrow> [] | c # r \<Rightarrow> if c = CHR ''.'' then takeWhile is_digit r else []);
           r2 = (case r1 of [] \<Rightarrow> [] | c # r \<Rightarrow> if c = CHR ''.'' then dropWhile is_digit r else r1)
       in if ip = [] \<and> fp = [] then JNaN
          else (case exponent_part r2 of
                  None \<Rightarrow> JNaN
                | Some e \<Rightarrow> JFin (scale10 (digits_val (ip @ fp)) (e - int (length fp))))))"

definition num_neg :: "jsnum \<Rightarrow> jsnum" where
  "num_neg n = (case n of JNaN \<Rightarrow> JNaN | JInf b \<Rightarrow> JInf (\<not> b) | JFin r \<Rightarrow> JFin (- r))"

definition hex_val :: "char \<Rightarrow> nat option" where
  "hex_val c =
     (if is_digit c then Some (digit_val c)
      else if 97 \<le> code c \<and> code c \<le> 102 then Some (code c - 87)
      else if 65 \<le> code c \<and> code c \<le> 70 then Some (code c - 55)
      else None)"

fun radix_val :: "nat \<Rightarrow> nat \<Rightarrow> string \<Rightarrow> jsnum" where
  "radix_val b acc [] = JFin (of_nat acc)"
| "radix_val b acc (c # cs) =
     (case hex_val c of
        None \<Rightarrow> JNaN
      | Some d \<Rightarrow> if d < b then radix_val b (acc * b + d) cs else JNaN)"

definition str_to_number :: "string \<Rightarrow> jsnum" where
  "str_to_number s0 =
     (case trim s0 of
        [] \<Rightarrow> JFin 0
      | c # r \<Rightarrow>
          if c = CHR ''0'' \<and> length r \<ge> 2 \<and> hd r \<in> set ''xX'' then radix_val 16 0 (tl r)
          else if c = CHR ''0'' \<and> length r \<ge> 2 \<and> hd r \<in> set ''oO'' then radix_val 8 0 (tl r)
          else if c = CHR ''0'' \<and> length r \<ge> 2 \<and> hd r \<in> set ''bB'' then radix_val 2 0 (tl r)
          else if c = CHR ''-'' then num_neg (unsigned_decimal r)
          else if c = CHR ''+'' then unsigned_decimal r
          else unsigned_decimal (c # r))"

text \<open>
  An array goes through \<open>join\<close>: the empty one gives \<open>''''\<close> and so 0, a single element its
  own text, two or more a text with a comma, which is no number.
\<close>

fun json_to_number :: "json \<Rightarrow> jsnum" where
  "json_to_number JNull = JFin 0"
| "json_to_number (JBool b) = JFin (if b then 1 else 0)"
| "json_to_number (JNum r) = JFin r"
| "json_to_number (JStr s) = str_to_number s"
| "json_to_number (JArr []) = JFin 0"
| "json_to_number (JArr [x]) = (case x of JBool b \<Rightarrow> JNaN | _ \<Rightarrow> json_to_number x)"
| "json_to_number (JArr (x # y # zs)) = JNaN"
| "json_to_number (JObj kvs) = JNaN"

definition to_number :: "json option \<Rightarrow> jsnum" where
  "to_number v = (case v of None \<Rightarrow> JNaN | Some j \<Rightarrow> json_to_number j)"

text \<open>\<open>Number.isInteger\<close>, and the integer itself.\<close>

definition num_integer :: "jsnum \<Rightarrow> int option" where
  "num_integer n =
     (case n of JFin r \<Rightarrow> if of_int \<lfloor>r\<rfloor> = r then Some \<lfloor>r\<rfloor> else None | _ \<Rightarrow> None)"

section \<open>Truthiness and property access\<close>

fun json_truthy :: "json \<Rightarrow> bool" where
  "json_truthy JNull = False"
| "json_truthy (JBool b) = b"
| "json_truthy (JNum r) = (r \<noteq> 0)"
| "json_truthy (JStr s) = (s \<noteq> [])"
| "json_truthy (JArr xs) = True"
| "json_truthy (JObj kvs) = True"

definition truthy :: "json option \<Rightarrow> bool" where
  "truthy v = (case v of None \<Rightarrow> False | Some j \<Rightarrow> json_truthy j)"

text \<open>\<open>v.key\<close> on a value that is not \<open>null\<close>: absent on anything but an object.\<close>

definition get_prop :: "json \<Rightarrow> string \<Rightarrow> json option" where
  "get_prop v k = (case v of JObj kvs \<Rightarrow> map_of kvs k | _ \<Rightarrow> None)"

text \<open>An object literal whose \<open>undefined\<close> members \<open>JSON.stringify\<close> leaves out.\<close>

fun present :: "('k \<times> 'v option) list \<Rightarrow> ('k \<times> 'v) list" where
  "present [] = []"
| "present ((k, None) # fs) = present fs"
| "present ((k, Some v) # fs) = (k, v) # present fs"

definition jobj :: "(string \<times> json option) list \<Rightarrow> json" where
  "jobj fs = JObj (present fs)"

lemma set_fst_present: "fst ` set (present fs) \<subseteq> fst ` set fs"
  by (induction fs rule: present.induct) auto

lemma map_of_present:
  "distinct (map fst fs) \<Longrightarrow> map_of (present fs) k = opt_chain (map_of fs k) id"
proof (induction fs rule: present.induct)
  case (2 k' fs)
  then have "map_of fs k' = None" by (simp add: map_of_eq_None_iff)
  with 2 show ?case by auto
qed auto

lemma get_prop_jobj:
  "distinct (map fst fs) \<Longrightarrow> get_prop (jobj fs) k = opt_chain (map_of fs k) id"
  by (simp add: get_prop_def jobj_def map_of_present)

lemma present_map:
  "present (map (\<lambda>k. (k, m k)) ks) = map (\<lambda>k. (k, the (m k))) (filter (\<lambda>k. m k \<noteq> None) ks)"
proof (induction ks)
  case (Cons k ks)
  then show ?case by (cases "m k") auto
qed simp

lemma map_of_distinct_eq:
  "distinct (map fst kvs) \<Longrightarrow> map (\<lambda>k. (k, the (map_of kvs k))) (map fst kvs) = kvs"
proof (induction kvs)
  case (Cons kv kvs)
  have "\<And>k. k \<in> fst ` set kvs \<Longrightarrow> k \<noteq> fst kv"
    using Cons.prems by (metis distinct.simps(2) list.simps(9) list.set_map)
  then have "map (\<lambda>k. (k, the (map_of (kv # kvs) k))) (map fst kvs)
      = map (\<lambda>k. (k, the (map_of kvs k))) (map fst kvs)"
    by (intro map_cong) auto
  with Cons show ?case by simp
qed simp

lemma present_own_keys:
  assumes "map fst kvs = filter (\<lambda>k. map_of kvs k \<noteq> None) ks" and "distinct ks"
  shows "present (map (\<lambda>k. (k, map_of kvs k)) ks) = kvs"
proof -
  have d: "distinct (map fst kvs)" by (metis assms distinct_filter)
  have "present (map (\<lambda>k. (k, map_of kvs k)) ks)
      = map (\<lambda>k. (k, the (map_of kvs k))) (filter (\<lambda>k. map_of kvs k \<noteq> None) ks)"
    by (rule present_map)
  also have "\<dots> = map (\<lambda>k. (k, the (map_of kvs k))) (map fst kvs)"
    by (simp only: assms(1)[symmetric])
  also have "\<dots> = kvs"
    using d by (rule map_of_distinct_eq)
  finally show ?thesis .
qed

lemma fst_present_map: "map fst (present (map (\<lambda>k. (k, m k)) ks)) = filter (\<lambda>k. m k \<noteq> None) ks"
  by (simp add: present_map comp_def)

section \<open>Integers written by the source and read back\<close>

lemma is_digit_not_space: "is_digit c \<Longrightarrow> \<not> is_space c"
  by (auto simp: is_digit_def is_space_def)

lemma trim_no_space: "\<forall>c \<in> set s. \<not> is_space c \<Longrightarrow> trim s = s"
proof -
  assume a: "\<forall>c \<in> set s. \<not> is_space c"
  have "dropWhile is_space xs = xs" if "set xs = set s" for xs
    using a that by (cases xs) auto
  then show ?thesis by (simp add: trim_def strip_left_def strip_right_def)
qed

lemma all_digits_takeWhile:
  "list_all is_digit ds \<Longrightarrow> takeWhile is_digit ds = ds \<and> dropWhile is_digit ds = []"
  by (simp add: list_all_iff)

lemma unsigned_decimal_digits:
  assumes "list_all is_digit ds" and "ds \<noteq> []"
  shows "unsigned_decimal ds = JFin (of_nat (digits_val ds))"
proof -
  have "ds \<noteq> ''Infinity''"
    using assms by (auto simp: is_digit_def code_def)
  moreover have "takeWhile is_digit ds = ds" "dropWhile is_digit ds = []"
    using all_digits_takeWhile[OF assms(1)] by auto
  ultimately show ?thesis
    using assms(2) by (simp only: unsigned_decimal_def Let_def)
      (simp add: exponent_part_def scale10_def)
qed

lemma str_to_number_digits:
  assumes d: "list_all is_digit ds" and n: "ds \<noteq> []"
  shows "str_to_number ds = JFin (of_nat (digits_val ds))"
proof -
  have t: "trim ds = ds"
    using d by (intro trim_no_space) (auto simp: list_all_iff is_digit_not_space)
  obtain c r where ds: "ds = c # r" using n by (cases ds) auto
  have "r \<noteq> [] \<Longrightarrow> is_digit (hd r)" and c: "is_digit c"
    using d ds by (cases r; auto)+
  then have "\<not> (length r \<ge> 2 \<and> hd r \<in> set ''xX'')" "\<not> (length r \<ge> 2 \<and> hd r \<in> set ''oO'')"
    "\<not> (length r \<ge> 2 \<and> hd r \<in> set ''bB'')"
    by (cases r; auto simp: is_digit_def code_def)+
  moreover have "c \<noteq> CHR ''-''" "c \<noteq> CHR ''+''"
    using c by (auto simp: is_digit_def code_def)
  ultimately show ?thesis
    using unsigned_decimal_digits[OF d n] t unfolding str_to_number_def ds
    by (simp only: list.case if_False simp_thms)
qed

lemma str_to_number_nat_str [simp]: "str_to_number (nat_str n) = JFin (of_nat n)"
  using str_to_number_digits[of "nat_str n"] nat_str_digits by (simp add: list_all_iff)

lemma num_integer_of_nat [simp]: "num_integer (JFin (of_nat n)) = Some (int n)"
  by (simp add: num_integer_def)

lemma num_integer_of_int [simp]: "num_integer (JFin (of_int i)) = Some i"
  by (simp add: num_integer_def)

lemma num_integerD: "num_integer n = Some i \<Longrightarrow> n = JFin (of_int i)"
  by (auto simp: num_integer_def split: jsnum.splits if_splits)

end
