(* ===== verification/Zod.thy ===== *)
theory Zod
  imports Js_Value
begin

text \<open>
  Response schemas. The source describes every response of the API with the combinators of
  the zod package and hands the schema to its \<open>safeParse\<close>. The schemas are data here (one
  constructor per combinator the source uses); the package is not part of the repository, so
  \<open>safeParse\<close> is a parameter: the locale \<open>zod\<close> states what the package documents about each
  combinator. \<open>zod_run\<close> is a function with these laws; it shows that they can hold together.
\<close>

datatype schema =
    ZString
  | ZNumber
  | ZBoolean
  | ZUnknown
  | ZEnum "string list"
  | ZArray schema
  | ZRecord schema
  | ZUnion "schema list"
  | ZObject "(string \<times> schema) list"
  | ZOptional schema
  | ZNullable schema
  | ZDefault schema json
  | ZCatch schema json
  | ZNullishElse schema json \<comment> \<open>\<open>s.nullish().transform((v) => v ?? d)\<close>\<close>

text \<open>\<open>A.extend({...})\<close>: the fields of \<open>A\<close>, the new ones replacing their namesakes.\<close>

definition zextend :: "schema \<Rightarrow> (string \<times> schema) list \<Rightarrow> schema" where
  "zextend s fs =
     (case s of ZObject gs \<Rightarrow> ZObject (fold (\<lambda>(k, t) acc. alist_set k t acc) fs gs) | _ \<Rightarrow> s)"

text \<open>
  The result of \<open>safeParse\<close>: \<^const>\<open>None\<close> where it fails, otherwise the parsed value, which
  may itself be \<open>undefined\<close> (\<^term>\<open>Some None\<close>).
\<close>

type_synonym parsed = "json option option"

type_synonym parser = "schema \<Rightarrow> json option \<Rightarrow> parsed"

text \<open>All of a list of results, or failure if one failed.\<close>

fun all_parsed :: "parsed list \<Rightarrow> json list option" where
  "all_parsed [] = Some []"
| "all_parsed (r # rs) =
     (case r of
        Some (Some v) \<Rightarrow> map_option ((#) v) (all_parsed rs)
      | _ \<Rightarrow> None)"

text \<open>
  The fields of a parsed object, in the order of the schema: a field parsed to \<open>undefined\<close> is
  not added to the result, and fields the schema does not name are dropped.
\<close>

fun all_fields :: "(string \<times> parsed) list \<Rightarrow> (string \<times> json) list option" where
  "all_fields [] = Some []"
| "all_fields ((k, r) # rs) =
     (case r of
        None \<Rightarrow> None
      | Some None \<Rightarrow> all_fields rs
      | Some (Some v) \<Rightarrow> map_option ((#) (k, v)) (all_fields rs))"

fun first_success :: "parsed list \<Rightarrow> parsed" where
  "first_success [] = None"
| "first_success (r # rs) = (case r of None \<Rightarrow> first_success rs | Some v \<Rightarrow> Some v)"

definition nullish_else :: "json \<Rightarrow> json option \<Rightarrow> json option" where
  "nullish_else d v = (case v of None \<Rightarrow> Some d | Some JNull \<Rightarrow> Some d | Some j \<Rightarrow> Some j)"

lemma nullish_else_cases: "nullish_else d v = Some d \<or> nullish_else d v = v"
  by (auto simp: nullish_else_def split: option.split json.split)

lemma nullish_else_id: "v \<noteq> None \<Longrightarrow> v \<noteq> Some JNull \<Longrightarrow> nullish_else d v = v"
  by (auto simp: nullish_else_def split: option.split json.split)

section \<open>What the package documents\<close>

locale zod =
  fixes safe_parse :: parser
  assumes string: "safe_parse ZString v = (case v of Some (JStr s) \<Rightarrow> Some (Some (JStr s)) | _ \<Rightarrow> None)"
    and number: "safe_parse ZNumber v = (case v of Some (JNum n) \<Rightarrow> Some (Some (JNum n)) | _ \<Rightarrow> None)"
    and boolean: "safe_parse ZBoolean v = (case v of Some (JBool b) \<Rightarrow> Some (Some (JBool b)) | _ \<Rightarrow> None)"
    and unknown: "safe_parse ZUnknown v = Some v"
    and enum: "safe_parse (ZEnum names) v =
      (case v of Some (JStr s) \<Rightarrow> if s \<in> set names then Some (Some (JStr s)) else None | _ \<Rightarrow> None)"
    and array: "safe_parse (ZArray s) v =
      (case v of Some (JArr xs) \<Rightarrow> map_option (Some \<circ> JArr) (all_parsed (map (\<lambda>x. safe_parse s (Some x)) xs))
       | _ \<Rightarrow> None)"
    and record_of: "safe_parse (ZRecord s) v =
      (case v of Some (JObj kvs) \<Rightarrow>
         map_option (Some \<circ> JObj) (all_fields (map (\<lambda>(k, x). (k, safe_parse s (Some x))) kvs))
       | _ \<Rightarrow> None)"
    and union_of: "safe_parse (ZUnion ss) v = first_success (map (\<lambda>s. safe_parse s v) ss)"
    and object: "safe_parse (ZObject fs) v =
      (case v of Some (JObj kvs) \<Rightarrow>
         map_option (Some \<circ> JObj) (all_fields (map (\<lambda>(k, s). (k, safe_parse s (map_of kvs k))) fs))
       | _ \<Rightarrow> None)"
    and optional: "safe_parse (ZOptional s) v = (if v = None then Some None else safe_parse s v)"
    and nullable: "safe_parse (ZNullable s) v = (if v = Some JNull then Some v else safe_parse s v)"
    and default_to: "safe_parse (ZDefault s d) v = (if v = None then Some (Some d) else safe_parse s v)"
    and catch: "safe_parse (ZCatch s d) v = (case safe_parse s v of None \<Rightarrow> Some (Some d) | Some w \<Rightarrow> Some w)"
    and nullish: "safe_parse (ZNullishElse s d) v =
      (if v = None \<or> v = Some JNull then Some (Some d) else map_option (nullish_else d) (safe_parse s v))"
begin

lemmas laws = string number boolean unknown enum array record_of union_of object optional nullable
  default_to catch nullish

end

section \<open>A function with these laws\<close>

fun zod_run :: parser where
  "zod_run ZString v = (case v of Some (JStr s) \<Rightarrow> Some (Some (JStr s)) | _ \<Rightarrow> None)"
| "zod_run ZNumber v = (case v of Some (JNum n) \<Rightarrow> Some (Some (JNum n)) | _ \<Rightarrow> None)"
| "zod_run ZBoolean v = (case v of Some (JBool b) \<Rightarrow> Some (Some (JBool b)) | _ \<Rightarrow> None)"
| "zod_run ZUnknown v = Some v"
| "zod_run (ZEnum names) v =
     (case v of Some (JStr s) \<Rightarrow> if s \<in> set names then Some (Some (JStr s)) else None | _ \<Rightarrow> None)"
| "zod_run (ZArray s) v =
     (case v of Some (JArr xs) \<Rightarrow> map_option (Some \<circ> JArr) (all_parsed (map (\<lambda>x. zod_run s (Some x)) xs))
      | _ \<Rightarrow> None)"
| "zod_run (ZRecord s) v =
     (case v of Some (JObj kvs) \<Rightarrow>
        map_option (Some \<circ> JObj) (all_fields (map (\<lambda>(k, x). (k, zod_run s (Some x))) kvs))
      | _ \<Rightarrow> None)"
| "zod_run (ZUnion ss) v = first_success (map (\<lambda>s. zod_run s v) ss)"
| "zod_run (ZObject fs) v =
     (case v of Some (JObj kvs) \<Rightarrow>
        map_option (Some \<circ> JObj) (all_fields (map (\<lambda>(k, s). (k, zod_run s (map_of kvs k))) fs))
      | _ \<Rightarrow> None)"
| "zod_run (ZOptional s) v = (if v = None then Some None else zod_run s v)"
| "zod_run (ZNullable s) v = (if v = Some JNull then Some v else zod_run s v)"
| "zod_run (ZDefault s d) v = (if v = None then Some (Some d) else zod_run s v)"
| "zod_run (ZCatch s d) v = (case zod_run s v of None \<Rightarrow> Some (Some d) | Some w \<Rightarrow> Some w)"
| "zod_run (ZNullishElse s d) v =
     (if v = None \<or> v = Some JNull then Some (Some d) else map_option (nullish_else d) (zod_run s v))"

interpretation run: zod zod_run
  by unfold_locales (rule zod_run.simps)+

section \<open>Well-formed schemas and the shape of parsed values\<close>

text \<open>What \<open>z.infer\<close> reads off a schema: the values a successful parse can return.\<close>

fun out_ok :: "schema \<Rightarrow> json option \<Rightarrow> bool" where
  "out_ok ZString v = (case v of Some (JStr s) \<Rightarrow> True | _ \<Rightarrow> False)"
| "out_ok ZNumber v = (case v of Some (JNum n) \<Rightarrow> True | _ \<Rightarrow> False)"
| "out_ok ZBoolean v = (case v of Some (JBool b) \<Rightarrow> True | _ \<Rightarrow> False)"
| "out_ok ZUnknown v = True"
| "out_ok (ZEnum names) v = (case v of Some (JStr s) \<Rightarrow> s \<in> set names | _ \<Rightarrow> False)"
| "out_ok (ZArray s) v = (case v of Some (JArr xs) \<Rightarrow> list_all (\<lambda>x. out_ok s (Some x)) xs | _ \<Rightarrow> False)"
| "out_ok (ZRecord s) v =
     (case v of Some (JObj kvs) \<Rightarrow> list_all (\<lambda>(k, x). out_ok s (Some x)) kvs | _ \<Rightarrow> False)"
| "out_ok (ZUnion ss) v = list_ex (\<lambda>s. out_ok s v) ss"
| "out_ok (ZObject fs) v =
     (case v of
        Some (JObj kvs) \<Rightarrow>
          list_all (\<lambda>(k, s). out_ok s (map_of kvs k)) fs
          \<and> map fst kvs = filter (\<lambda>k. map_of kvs k \<noteq> None) (map fst fs)
      | _ \<Rightarrow> False)"
| "out_ok (ZOptional s) v = (v = None \<or> out_ok s v)"
| "out_ok (ZNullable s) v = (v = Some JNull \<or> out_ok s v)"
| "out_ok (ZDefault s d) v = out_ok s v"
| "out_ok (ZCatch s d) v = out_ok s v"
| "out_ok (ZNullishElse s d) v = out_ok s v"

text \<open>Schemas whose successful parse returns its input: the options of a union.\<close>

fun plain :: "schema \<Rightarrow> bool" where
  "plain (ZArray s) = (s = ZString \<or> s = ZNumber \<or> s = ZBoolean)"
| "plain s = (s = ZString \<or> s = ZNumber \<or> s = ZBoolean)"

text \<open>
  Well-formed: field names are distinct, a default or fallback is itself a value of the
  schema, and the schema under a nullish fallback takes neither \<open>undefined\<close> nor \<open>null\<close>.
\<close>

fun wf_schema :: "schema \<Rightarrow> bool" where
  "wf_schema (ZArray s) = wf_schema s"
| "wf_schema (ZRecord s) = wf_schema s"
| "wf_schema (ZUnion ss) = list_all plain ss"
| "wf_schema (ZObject fs) = (distinct (map fst fs) \<and> list_all (\<lambda>(k, s). wf_schema s) fs)"
| "wf_schema (ZOptional s) = wf_schema s"
| "wf_schema (ZNullable s) = wf_schema s"
| "wf_schema (ZDefault s d) = (wf_schema s \<and> out_ok s (Some d) \<and> \<not> out_ok s None)"
| "wf_schema (ZCatch s d) = (wf_schema s \<and> out_ok s (Some d))"
| "wf_schema (ZNullishElse s d) =
     (wf_schema s \<and> out_ok s (Some d) \<and> \<not> out_ok s None \<and> \<not> out_ok s (Some JNull))"
| "wf_schema s = True"

lemma all_parsed_Some:
  "all_parsed rs = Some xs \<longleftrightarrow> rs = map (Some \<circ> Some) xs"
proof (induction rs arbitrary: xs)
  case (Cons r rs)
  show ?case
    by (cases xs) (auto simp: Cons split: option.splits)
qed auto

lemma all_fields_eq:
  "all_fields rs =
     (if list_all (\<lambda>(k, r). r \<noteq> None) rs then Some (present (map (\<lambda>(k, r). (k, the r)) rs)) else None)"
proof (induction rs rule: all_fields.induct)
  case (2 k r rs)
  then show ?case
    by (cases r; cases "the r") auto
qed simp

lemma first_success_SomeD:
  "first_success rs = Some v \<Longrightarrow> Some v \<in> set rs"
  by (induction rs) (auto split: option.splits)

lemma map_of_map_keys: "k \<in> set ks \<Longrightarrow> map_of (map (\<lambda>k. (k, f k)) ks) k = Some (f k)"
  by (induction ks) auto

lemma out_ok_object:
  "out_ok (ZObject fs) w \<longleftrightarrow>
     (\<exists>kvs. w = Some (JObj kvs) \<and> list_all (\<lambda>(k, s). out_ok s (map_of kvs k)) fs
        \<and> map fst kvs = filter (\<lambda>k. map_of kvs k \<noteq> None) (map fst fs))"
  by (simp split: option.split json.split)

lemma all_fields_success:
  "all_fields (map (\<lambda>(k, s). (k, Some (m k))) fs) = Some (present (map (\<lambda>k. (k, m k)) (map fst fs)))"
proof (induction fs)
  case (Cons f fs)
  then show ?case by (cases "m (fst f)") (auto simp: case_prod_unfold)
qed simp

lemma first_success_unique:
  "Some v \<in> set rs \<Longrightarrow> \<forall>r \<in> set rs. r = None \<or> r = Some v \<Longrightarrow> first_success rs = Some v"
  by (induction rs) auto

context zod
begin

lemma plain_same: "plain s \<Longrightarrow> safe_parse s v = Some w \<Longrightarrow> w = v"
proof (cases s)
  case (ZArray t)
  assume p: "plain s" and r: "safe_parse s v = Some w"
  from r ZArray obtain xs ys where v: "v = Some (JArr xs)" and w: "w = Some (JArr ys)"
    and eq: "map (\<lambda>x. safe_parse t (Some x)) xs = map (Some \<circ> Some) ys"
    by (auto simp: array all_parsed_Some split: option.splits json.splits)
  from p ZArray have leaf: "safe_parse t (Some x) = Some (Some y) \<Longrightarrow> y = x" for x y
    by (auto simp: string number boolean split: json.splits)
  have "xs = ys"
    using eq by (induction xs arbitrary: ys) (auto dest: leaf)
  with v w show "w = v" by simp
qed (auto simp: string number boolean split: option.splits json.splits)

lemma plain_accepts: "plain s \<Longrightarrow> out_ok s v \<Longrightarrow> safe_parse s v = Some v"
proof (cases s)
  case (ZArray t)
  assume p: "plain s" and r: "out_ok s v"
  from r ZArray obtain xs where v: "v = Some (JArr xs)" and xs: "list_all (\<lambda>x. out_ok t (Some x)) xs"
    by (auto split: option.splits json.splits)
  from p ZArray have leaf: "out_ok t (Some x) \<Longrightarrow> safe_parse t (Some x) = Some (Some x)" for x
    by (auto simp: string number boolean split: json.splits)
  have "map (\<lambda>x. safe_parse t (Some x)) xs = map (Some \<circ> Some) xs"
    using xs by (induction xs) (auto simp: leaf)
  then have "all_parsed (map (\<lambda>x. safe_parse t (Some x)) xs) = Some xs"
    by (simp only: all_parsed_Some)
  with v ZArray show ?thesis by (simp add: array)
qed (auto simp: string number boolean split: option.splits json.splits)

lemma plain_out_ok:
  assumes "plain s" and "safe_parse s v = Some w"
  shows "out_ok s w"
proof (cases s)
  case (ZArray t)
  from assms(2) ZArray obtain xs ys where w: "w = Some (JArr ys)"
    and eq: "map (\<lambda>x. safe_parse t (Some x)) xs = map (Some \<circ> Some) ys"
    by (auto simp: array all_parsed_Some split: option.splits json.splits)
  from assms(1) ZArray have leaf: "safe_parse t (Some x) = Some (Some y) \<Longrightarrow> out_ok t (Some y)" for x y
    by (auto simp: string number boolean split: json.splits)
  have "list_all (\<lambda>y. out_ok t (Some y)) ys"
    using eq by (induction xs arbitrary: ys) (auto dest: leaf)
  with w ZArray show ?thesis by simp
qed (use assms in \<open>auto simp: string number boolean split: option.splits json.splits\<close>)

text \<open>A successful parse returns a value of the type the schema describes.\<close>

lemma parse_out_ok:
  "wf_schema s \<Longrightarrow> safe_parse s v = Some w \<Longrightarrow> out_ok s w"
proof (induction s arbitrary: v w rule: wf_schema.induct)
  case (1 s)
  from "1.prems"(2) obtain xs ys where w: "w = Some (JArr ys)"
    and eq: "map (\<lambda>x. safe_parse s (Some x)) xs = map (Some \<circ> Some) ys"
    by (auto simp: array all_parsed_Some split: option.splits json.splits)
  have "list_all (\<lambda>y. out_ok s (Some y)) ys"
    using eq "1.IH" "1.prems"(1) by (induction xs arbitrary: ys) auto
  with w show ?case by simp
next
  case (2 s)
  from "2.prems"(2) obtain kvs ys where w: "w = Some (JObj ys)"
    and eq: "all_fields (map (\<lambda>(k, x). (k, safe_parse s (Some x))) kvs) = Some ys"
    by (auto simp: record_of split: option.splits json.splits)
  have "list_all (\<lambda>(k, y). out_ok s (Some y)) ys"
    using eq
  proof (induction kvs arbitrary: ys)
    case (Cons kv kvs)
    then show ?case
      using "2.IH" "2.prems"(1) by (cases kv) (auto split: option.splits)
  qed simp
  with w show ?case by simp
next
  case (3 ss)
  from "3.prems"(2) have "Some w \<in> set (map (\<lambda>s. safe_parse s v) ss)"
    by (auto simp: union_of dest: first_success_SomeD)
  then obtain s where "s \<in> set ss" and "safe_parse s v = Some w" by auto
  moreover from this "3.prems"(1) have "out_ok s w"
    by (intro plain_out_ok) (auto simp: list_all_iff)
  ultimately show ?case by (auto simp: list_ex_iff)
next
  case (4 fs)
  from "4.prems"(2) obtain kvs ys where w: "w = Some (JObj ys)"
    and eq: "all_fields (map (\<lambda>(k, s). (k, safe_parse s (map_of kvs k))) fs) = Some ys"
    by (auto simp: object split: option.splits json.splits)
  let ?m = "\<lambda>k. the (safe_parse (the (map_of fs k)) (map_of kvs k))"
  from "4.prems"(1) have dist: "distinct (map fst fs)" by simp
  from eq have ok: "\<And>k s. (k, s) \<in> set fs \<Longrightarrow> safe_parse s (map_of kvs k) \<noteq> None"
    by (auto simp: all_fields_eq list_all_iff split: if_splits)
  have "ys = present (map (\<lambda>(k, s). (k, the (safe_parse s (map_of kvs k)))) fs)"
    using eq by (auto simp: all_fields_eq split: if_splits intro!: arg_cong[where f = present])
  also have "map (\<lambda>(k, s). (k, the (safe_parse s (map_of kvs k)))) fs = map (\<lambda>k. (k, ?m k)) (map fst fs)"
    using dist by auto
  finally have ys: "ys = present (map (\<lambda>k. (k, ?m k)) (map fst fs))" .
  have look: "map_of ys k = the (safe_parse s (map_of kvs k))" if "(k, s) \<in> set fs" for k s
  proof -
    have "map_of (map (\<lambda>k. (k, ?m k)) (map fst fs)) k = Some (?m k)"
      using that by (intro map_of_map_keys) force
    then have "map_of ys k = ?m k"
      using dist by (simp add: ys map_of_present comp_def)
    with that dist show ?thesis by simp
  qed
  have "list_all (\<lambda>(k, s). out_ok s (map_of ys k)) fs"
  proof (clarsimp simp: list_all_iff)
    fix k s assume ks: "(k, s) \<in> set fs"
    with ok obtain u where u: "safe_parse s (map_of kvs k) = Some u" by blast
    with "4.IH"[OF ks refl] "4.prems"(1) ks have "out_ok s u" by (auto simp: list_all_iff)
    with look[OF ks] u show "out_ok s (map_of ys k)" by simp
  qed
  moreover have "map fst ys = filter (\<lambda>k. map_of ys k \<noteq> None) (map fst fs)"
  proof -
    have "map fst ys = filter (\<lambda>k. ?m k \<noteq> None) (map fst fs)"
      unfolding ys by (rule fst_present_map)
    also have "\<dots> = filter (\<lambda>k. map_of ys k \<noteq> None) (map fst fs)"
      using look dist by (intro filter_cong) auto
    finally show ?thesis .
  qed
  ultimately show ?case using w unfolding out_ok_object by blast
next
  case (8 s d)
  then show ?case
    by (cases "safe_parse s v") (auto simp: catch)
next
  case (9 s d)
  show ?case
  proof (cases "v = None \<or> v = Some JNull")
    case True
    with 9 show ?thesis by (auto simp: nullish)
  next
    case False
    with "9.prems"(2) obtain u where "safe_parse s v = Some u" and "w = nullish_else d u"
      by (auto simp: nullish)
    with 9 show ?thesis using nullish_else_cases[of d u] by auto
  qed
qed (auto simp: laws split: if_splits option.splits json.splits)

text \<open>Parsing a parsed value again changes nothing.\<close>

lemma reparse_out:
  "wf_schema s \<Longrightarrow> out_ok s w \<Longrightarrow> safe_parse s w = Some w"
proof (induction s arbitrary: w rule: wf_schema.induct)
  case (1 s)
  then obtain xs where w: "w = Some (JArr xs)" and xs: "list_all (\<lambda>x. out_ok s (Some x)) xs"
    by (auto split: option.splits json.splits)
  have "map (\<lambda>x. safe_parse s (Some x)) xs = map (Some \<circ> Some) xs"
    using xs "1.IH" "1.prems"(1) by (auto simp: list_all_iff)
  then have "all_parsed (map (\<lambda>x. safe_parse s (Some x)) xs) = Some xs"
    by (simp only: all_parsed_Some)
  with w show ?case by (simp add: array)
next
  case (2 s)
  then obtain kvs where w: "w = Some (JObj kvs)" and "list_all (\<lambda>(k, x). out_ok s (Some x)) kvs"
    by (auto split: option.splits json.splits)
  moreover have "all_fields (map (\<lambda>(k, x). (k, safe_parse s (Some x))) kvs) = Some kvs"
    if "list_all (\<lambda>(k, x). out_ok s (Some x)) kvs" for kvs
    using that "2.IH" "2.prems"(1) by (induction kvs) auto
  ultimately show ?case by (simp add: record_of)
next
  case (3 ss)
  then obtain s where s: "s \<in> set ss" and "out_ok s w"
    by (auto simp: list_ex_iff)
  from s "3.prems"(1) have "plain s" by (auto simp: list_all_iff)
  with s \<open>out_ok s w\<close> have "Some w \<in> set (map (\<lambda>s. safe_parse s w) ss)"
    using plain_accepts by force
  moreover have "\<forall>r \<in> set (map (\<lambda>s. safe_parse s w) ss). r = None \<or> r = Some w"
  proof
    fix r assume "r \<in> set (map (\<lambda>s. safe_parse s w) ss)"
    then obtain t where "t \<in> set ss" and r: "r = safe_parse t w" by auto
    with "3.prems"(1) have "plain t" by (auto simp: list_all_iff)
    then have "\<And>u. r = Some u \<Longrightarrow> u = w" using plain_same[of t w] r by simp
    then show "r = None \<or> r = Some w" by (cases r) auto
  qed
  ultimately have "first_success (map (\<lambda>s. safe_parse s w) ss) = Some w"
    by (rule first_success_unique)
  then show ?case by (simp add: union_of)
next
  case (4 fs)
  from "4.prems"(2) obtain kvs where w: "w = Some (JObj kvs)"
    and ok: "list_all (\<lambda>(k, s). out_ok s (map_of kvs k)) fs"
    and keys: "map fst kvs = filter (\<lambda>k. map_of kvs k \<noteq> None) (map fst fs)"
    unfolding out_ok_object by blast
  have "map (\<lambda>(k, s). (k, safe_parse s (map_of kvs k))) fs = map (\<lambda>(k, s). (k, Some (map_of kvs k))) fs"
    using ok "4.IH" "4.prems"(1) by (force simp: list_all_iff)
  moreover have "distinct (map fst fs)" using "4.prems"(1) by simp
  then have "present (map (\<lambda>k. (k, map_of kvs k)) (map fst fs)) = kvs"
    by (rule present_own_keys[OF keys])
  ultimately have "all_fields (map (\<lambda>(k, s). (k, safe_parse s (map_of kvs k))) fs) = Some kvs"
    by (simp only: all_fields_success)
  with w show ?case by (simp add: object)
next
  case (7 s d)
  then have "w \<noteq> None" by (metis wf_schema.simps(7) out_ok.simps(12))
  with 7 show ?case by (simp only: default_to) simp
next
  case (9 s d)
  then have n: "w \<noteq> None" "w \<noteq> Some JNull" by (metis wf_schema.simps(9) out_ok.simps(14))+
  moreover from 9 have "safe_parse s w = Some w" by simp
  moreover have "nullish_else d w = w" using n by (rule nullish_else_id)
  ultimately show ?case by (simp only: nullish) simp
qed (auto simp: laws split: if_splits option.splits json.splits)

lemma reparse:
  assumes "wf_schema s" and "safe_parse s v = Some w"
  shows "safe_parse s w = Some w"
  using assms by (blast intro: reparse_out parse_out_ok)

text \<open>A required string field of an accepted object is there, and is a string.\<close>

lemma object_field:
  assumes "wf_schema (ZObject fs)" and "safe_parse (ZObject fs) v = Some w" and "map_of fs k = Some s"
  obtains kvs where "w = Some (JObj kvs)" and "out_ok s (map_of kvs k)"
proof -
  from parse_out_ok[OF assms(1,2)] obtain kvs where w: "w = Some (JObj kvs)"
    and ok: "list_all (\<lambda>(k, s). out_ok s (map_of kvs k)) fs"
    unfolding out_ok_object by blast
  have "(k, s) \<in> set fs" using assms(3) by (rule map_of_SomeD)
  with ok have "out_ok s (map_of kvs k)" by (auto simp: list_all_iff)
  with w that show ?thesis by blast
qed

end

end
