(* ===== verification/Api_Schemas.thy ===== *)
theory Api_Schemas
  imports Zod
begin

text \<open>
  The response schemas of \<open>web/src/lib/api.ts\<close>, combinator by combinator and field by field,
  with the facts that make them a boundary: every schema is well-formed, so whatever
  \<open>safeParse\<close> accepts has the type the rest of the application assumes, and parsing an
  already parsed response changes nothing.
\<close>

section \<open>Schemas\<close>

definition SessionSchema :: schema where
  "SessionSchema =
    ZObject [
     (''id'', ZOptional ZString),
     (''userDn'', ZString),
     (''userUid'', ZString),
     (''displayName'', ZString),
     (''mail'', ZOptional ZString),
     (''roleName'', ZString),
     (''permissions'', ZArray ZString),
     (''expiresAt'', ZString)]"

definition LoginResponseSchema :: schema where
  "LoginResponseSchema =
    ZObject [
     (''token'', ZString),
     (''session'', SessionSchema)]"

definition MeAvatarSchema :: schema where
  "MeAvatarSchema =
    ZObject [
     (''jpegPhoto'', ZOptional ZString)]"

definition LockoutSchema :: schema where
  "LockoutSchema =
    ZObject [
     (''state'', ZEnum [''none'', ''manual'', ''active'', ''lifted'', ''unknown'']),
     (''lockedAt'', ZOptional ZString),
     (''liftsAt'', ZOptional ZString),
     (''durationSeconds'', ZOptional ZNumber),
     (''policyDn'', ZOptional ZString)]"

definition UserSchema :: schema where
  "UserSchema =
    ZObject [
     (''dn'', ZString),
     (''uid'', ZString),
     (''cn'', ZString),
     (''givenName'', ZOptional ZString),
     (''sn'', ZString),
     (''displayName'', ZOptional ZString),
     (''mail'', ZOptional ZString),
     (''telephoneNumber'', ZOptional ZString),
     (''title'', ZOptional ZString),
     (''departmentNumber'', ZOptional ZString),
     (''o'', ZOptional ZString),
     (''employeeNumber'', ZOptional ZString),
     (''employeeType'', ZOptional ZString),
     (''initials'', ZOptional ZString),
     (''manager'', ZOptional ZString),
     (''uidNumber'', ZOptional ZNumber),
     (''gidNumber'', ZOptional ZNumber),
     (''homeDirectory'', ZOptional ZString),
     (''loginShell'', ZOptional ZString),
     (''gecos'', ZOptional ZString),
     (''description'', ZOptional ZString),
     (''jpegPhoto'', ZOptional ZString),
     (''sshPublicKey'', ZOptional (ZArray ZString)),
     (''hasPassword'', ZOptional ZBoolean),
     (''accountLocked'', ZOptional ZBoolean),
     (''objectClasses'', ZOptional (ZArray ZString)),
     (''sambaSID'', ZOptional ZString),
     (''sambaPrimaryGroupSID'', ZOptional ZString),
     (''sambaAcctFlags'', ZOptional ZString),
     (''sambaHomePath'', ZOptional ZString),
     (''sambaHomeDrive'', ZOptional ZString),
     (''sambaLogonScript'', ZOptional ZString),
     (''sambaProfilePath'', ZOptional ZString),
     (''sambaDomainName'', ZOptional ZString),
     (''sambaPwdLastSet'', ZOptional ZString),
     (''sambaPwdCanChange'', ZOptional ZString),
     (''sambaPwdMustChange'', ZOptional ZString),
     (''sambaKickoffTime'', ZOptional ZString),
     (''shadowLastChange'', ZOptional ZNumber),
     (''shadowMin'', ZOptional ZNumber),
     (''shadowMax'', ZOptional ZNumber),
     (''shadowWarning'', ZOptional ZNumber),
     (''shadowInactive'', ZOptional ZNumber),
     (''shadowExpire'', ZOptional ZNumber),
     (''shadowFlag'', ZOptional ZNumber),
     (''pwdAccountLockedTime'', ZOptional ZString),
     (''pwdEndTime'', ZOptional ZString),
     (''pwdFailureTime'', ZOptional (ZArray ZString)),
     (''pwdChangedTime'', ZOptional ZString),
     (''pwdGraceUseTime'', ZOptional (ZArray ZString)),
     (''pwdReset'', ZOptional ZBoolean),
     (''pwdPolicySubentry'', ZOptional ZString),
     (''lockout'', ZOptional LockoutSchema)]"

definition UserListItemSchema :: schema where
  "UserListItemSchema =
    ZObject [
     (''dn'', ZString),
     (''uid'', ZString),
     (''cn'', ZString),
     (''displayName'', ZOptional ZString),
     (''mail'', ZOptional ZString),
     (''employeeType'', ZOptional ZString),
     (''hasPhoto'', ZOptional ZBoolean),
     (''groupsCount'', ZOptional ZNumber),
     (''accountLocked'', ZOptional ZBoolean),
     (''pwdAccountLockedTime'', ZOptional ZString),
     (''pwdEndTime'', ZOptional ZString),
     (''lockout'', ZOptional LockoutSchema)]"

definition UsersResponseSchema :: schema where
  "UsersResponseSchema =
    ZObject [
     (''data'', ZArray UserListItemSchema),
     (''total'', ZNumber),
     (''inactiveCount'', ZOptional ZNumber),
     (''limit'', ZOptional ZNumber),
     (''offset'', ZOptional ZNumber),
     (''truncated'', ZOptional ZBoolean)]"

definition ImportResultSchema :: schema where
  "ImportResultSchema =
    ZObject [
     (''created'', ZNumber),
     (''failed'', ZNumber),
     (''results'', ZArray (ZObject [
       (''index'', ZNumber),
       (''key'', ZString),
       (''status'', ZEnum [''created'', ''error'']),
       (''error'', ZOptional ZString)]))]"

definition ChangeUidResultSchema :: schema where
  "ChangeUidResultSchema =
    ZObject [
     (''user'', UserSchema),
     (''warnings'', ZNullishElse (ZArray ZString) (JArr []))]"

definition ChangePosixIDsResultSchema :: schema where
  "ChangePosixIDsResultSchema =
    ZObject [
     (''user'', UserSchema),
     (''warnings'', ZNullishElse (ZArray ZString) (JArr []))]"

definition WarningsResultSchema :: schema where
  "WarningsResultSchema =
    ZObject [
     (''message'', ZOptional ZString),
     (''warnings'', ZNullishElse (ZArray ZString) (JArr []))]"

definition GroupSchema :: schema where
  "GroupSchema =
    ZObject [
     (''dn'', ZString),
     (''cn'', ZString),
     (''gidNumber'', ZNumber),
     (''description'', ZOptional ZString),
     (''memberUid'', ZOptional (ZArray ZString)),
     (''objectClasses'', ZOptional (ZArray ZString)),
     (''sambaSID'', ZOptional ZString),
     (''sambaGroupType'', ZOptional ZString),
     (''displayName'', ZOptional ZString)]"

definition GroupsResponseSchema :: schema where
  "GroupsResponseSchema =
    ZObject [
     (''data'', ZArray GroupSchema),
     (''total'', ZNumber),
     (''truncated'', ZOptional ZBoolean)]"

definition ChangeGroupCNResultSchema :: schema where
  "ChangeGroupCNResultSchema =
    ZObject [
     (''group'', GroupSchema),
     (''warnings'', ZNullishElse (ZArray ZString) (JArr []))]"

definition GroupListItemSchema :: schema where
  "GroupListItemSchema =
    ZObject [
     (''dn'', ZString),
     (''cn'', ZString),
     (''gidNumber'', ZNumber),
     (''description'', ZOptional ZString),
     (''membersCount'', ZOptional ZNumber)]"

definition GroupMemberSchema :: schema where
  "GroupMemberSchema =
    ZObject [
     (''uid'', ZString),
     (''dn'', ZOptional ZString),
     (''cn'', ZOptional ZString),
     (''displayName'', ZOptional ZString),
     (''hasPhoto'', ZOptional ZBoolean),
     (''pwdAccountLockedTime'', ZOptional ZString),
     (''pwdEndTime'', ZOptional ZString),
     (''lockout'', ZOptional LockoutSchema)]"

definition GroupMembersResponseSchema :: schema where
  "GroupMembersResponseSchema =
    ZObject [
     (''data'', ZArray GroupMemberSchema)]"

definition GroupListResponseSchema :: schema where
  "GroupListResponseSchema =
    ZObject [
     (''data'', ZArray GroupListItemSchema),
     (''total'', ZNumber),
     (''limit'', ZOptional ZNumber),
     (''offset'', ZOptional ZNumber),
     (''truncated'', ZOptional ZBoolean)]"

definition AuditLogSchema :: schema where
  "AuditLogSchema =
    ZObject [
     (''id'', ZString),
     (''actorDn'', ZString),
     (''actorUid'', ZString),
     (''action'', ZString),
     (''resourceType'', ZString),
     (''resourceDn'', ZOptional ZString),
     (''details'', ZOptional (ZRecord ZUnknown)),
     (''ipAddress'', ZOptional ZString),
     (''userAgent'', ZOptional ZString),
     (''createdAt'', ZString)]"

definition AuditLogsResponseSchema :: schema where
  "AuditLogsResponseSchema =
    ZObject [
     (''data'', ZArray AuditLogSchema),
     (''total'', ZNumber),
     (''limit'', ZNumber),
     (''offset'', ZNumber)]"

definition DirectoryChangeOriginSchema :: schema where
  "DirectoryChangeOriginSchema =
    ZEnum [''external'', ''ldapwarden'', ''policy'']"

definition valueList :: schema where
  "valueList =
    ZNullishElse (ZArray ZString) (JArr [])"

definition DirectoryChangeSchema :: schema where
  "DirectoryChangeSchema =
    ZObject [
     (''id'', ZString),
     (''time'', ZString),
     (''type'', ZString),
     (''dn'', ZString),
     (''actor'', ZString),
     (''changes'', ZNullishElse (ZArray (ZObject [
       (''attribute'', ZString),
       (''op'', ZString),
       (''values'', valueList),
       (''redacted'', ZOptional ZBoolean)])) (JArr [])),
     (''old'', ZNullishElse (ZArray (ZObject [
       (''attribute'', ZString),
       (''values'', valueList),
       (''redacted'', ZOptional ZBoolean)])) (JArr [])),
     (''newRdn'', ZOptional ZString),
     (''deleteOldRdn'', ZOptional ZBoolean),
     (''newSuperior'', ZOptional ZString),
     (''origin'', ZCatch DirectoryChangeOriginSchema (JStr ''external'')),
     (''auditLogId'', ZOptional ZString)]"

definition DirectoryChangesResponseSchema :: schema where
  "DirectoryChangesResponseSchema =
    ZObject [
     (''status'', ZEnum [''ok'', ''not-configured'', ''unreadable'']),
     (''base'', ZOptional ZString),
     (''bindDn'', ZString),
     (''from'', ZString),
     (''to'', ZString),
     (''data'', ZArray DirectoryChangeSchema),
     (''total'', ZNumber),
     (''limit'', ZNumber),
     (''offset'', ZNumber),
     (''truncated'', ZBoolean),
     (''counts'', ZRecord ZNumber)]"

definition AuditActorsResponseSchema :: schema where
  "AuditActorsResponseSchema =
    ZObject [
     (''data'', ZArray ZString)]"

definition FieldChangeSchema :: schema where
  "FieldChangeSchema =
    ZObject [
     (''field'', ZString),
     (''old'', ZOptional ZString),
     (''new'', ZOptional ZString),
     (''masked'', ZOptional ZBoolean)]"

definition OverviewSchema :: schema where
  "OverviewSchema =
    ZObject [
     (''users'', ZObject [
       (''total'', ZNumber),
       (''active'', ZNumber),
       (''locked'', ZNumber),
       (''expired'', ZNumber),
       (''expiring'', ZNullishElse (ZArray (ZObject [
         (''dn'', ZString),
         (''uid'', ZString),
         (''displayName'', ZOptional ZString),
         (''expiresAt'', ZString)])) (JArr []))]),
     (''groups'', ZNumber),
     (''sudoRoles'', ZNumber),
     (''policies'', ZNumber),
     (''truncated'', ZOptional ZBoolean)]"

definition NextIDsSchema :: schema where
  "NextIDsSchema =
    ZObject [
     (''nextUid'', ZNumber),
     (''nextGid'', ZNumber),
     (''minUid'', ZNumber),
     (''minGid'', ZNumber)]"

definition SudoRoleSchema :: schema where
  "SudoRoleSchema =
    ZObject [
     (''dn'', ZString),
     (''cn'', ZString),
     (''description'', ZOptional ZString),
     (''sudoUser'', ZOptional (ZArray ZString)),
     (''sudoHost'', ZOptional (ZArray ZString)),
     (''sudoCommand'', ZOptional (ZArray ZString)),
     (''sudoRunAs'', ZOptional (ZArray ZString)),
     (''sudoRunAsUser'', ZOptional (ZArray ZString)),
     (''sudoRunAsGroup'', ZOptional (ZArray ZString)),
     (''sudoOption'', ZOptional (ZArray ZString)),
     (''sudoOrder'', ZOptional ZNumber),
     (''sudoNotBefore'', ZOptional ZString),
     (''sudoNotAfter'', ZOptional ZString)]"

definition ServerInfoSchema :: schema where
  "ServerInfoSchema =
    ZObject [
     (''version'', ZObject [
       (''version'', ZString),
       (''revision'', ZOptional ZString),
       (''modified'', ZOptional ZBoolean)]),
     (''modules'', ZNullishElse (ZArray ZString) (JArr [])),
     (''usersObjects'', ZNullishElse (ZArray ZString) (JArr [])),
     (''groupsObjects'', ZNullishElse (ZArray ZString) (JArr [])),
     (''capabilities'', ZObject [
       (''scheduledExpirySupported'', ZOptional ZBoolean),
       (''policyEnforcement'', ZOptional ZString),
       (''netgroupsSupported'', ZOptional ZBoolean)])]"

definition NetgroupTripleSchema :: schema where
  "NetgroupTripleSchema =
    ZObject [
     (''host'', ZString),
     (''user'', ZString),
     (''domain'', ZString)]"

definition NetgroupSchema :: schema where
  "NetgroupSchema =
    ZObject [
     (''dn'', ZString),
     (''cn'', ZString),
     (''description'', ZOptional ZString),
     (''triples'', ZArray NetgroupTripleSchema),
     (''malformed'', ZOptional (ZArray ZString)),
     (''members'', ZOptional (ZArray ZString))]"

definition NetgroupsResponseSchema :: schema where
  "NetgroupsResponseSchema =
    ZObject [
     (''data'', ZArray NetgroupSchema),
     (''total'', ZNumber),
     (''limit'', ZOptional ZNumber),
     (''offset'', ZOptional ZNumber),
     (''truncated'', ZOptional ZBoolean)]"

definition NetgroupMemberSchema :: schema where
  "NetgroupMemberSchema =
    ZObject [
     (''name'', ZString),
     (''via'', ZOptional ZString)]"

definition NetgroupExpansionSchema :: schema where
  "NetgroupExpansionSchema =
    ZObject [
     (''root'', ZString),
     (''users'', ZArray NetgroupMemberSchema),
     (''hosts'', ZArray NetgroupMemberSchema),
     (''openUser'', ZOptional (ZArray ZString)),
     (''openHost'', ZOptional (ZArray ZString)),
     (''cycles'', ZOptional (ZArray ZString)),
     (''dangling'', ZOptional (ZArray ZString))]"

definition PolicyDeleteResponseSchema :: schema where
  "PolicyDeleteResponseSchema =
    ZObject [
     (''message'', ZString),
     (''warnings'', ZDefault (ZArray ZString) (JArr []))]"

definition GroupDeleteResponseSchema :: schema where
  "GroupDeleteResponseSchema =
    ZObject [
     (''message'', ZString),
     (''warnings'', ZDefault (ZArray ZString) (JArr []))]"

definition NetgroupDeleteResponseSchema :: schema where
  "NetgroupDeleteResponseSchema =
    ZObject [
     (''message'', ZString),
     (''warnings'', ZDefault (ZArray ZString) (JArr []))]"

definition SudoRoleGrantSchema :: schema where
  "SudoRoleGrantSchema =
    zextend SudoRoleSchema [
     (''via'', ZDefault (ZArray ZString) (JArr []))]"

definition SudoRoleGrantsResponseSchema :: schema where
  "SudoRoleGrantsResponseSchema =
    ZObject [
     (''data'', ZArray SudoRoleGrantSchema),
     (''total'', ZOptional ZNumber)]"

definition UserNetgroupsResponseSchema :: schema where
  "UserNetgroupsResponseSchema =
    ZObject [
     (''data'', ZArray (ZObject [
       (''cn'', ZString),
       (''direct'', ZBoolean)]))]"

definition SudoRolesResponseSchema :: schema where
  "SudoRolesResponseSchema =
    ZObject [
     (''data'', ZArray SudoRoleSchema),
     (''total'', ZNumber),
     (''limit'', ZOptional ZNumber),
     (''offset'', ZOptional ZNumber),
     (''truncated'', ZOptional ZBoolean)]"

definition PasswordPolicySchema :: schema where
  "PasswordPolicySchema =
    ZObject [
     (''dn'', ZString),
     (''cn'', ZString),
     (''description'', ZOptional ZString),
     (''pwdAttribute'', ZOptional ZString),
     (''pwdMinAge'', ZOptional ZNumber),
     (''pwdMaxAge'', ZOptional ZNumber),
     (''pwdInHistory'', ZOptional ZNumber),
     (''pwdCheckQuality'', ZOptional ZNumber),
     (''pwdMinLength'', ZOptional ZNumber),
     (''pwdExpireWarning'', ZOptional ZNumber),
     (''pwdGraceAuthNLimit'', ZOptional ZNumber),
     (''pwdLockout'', ZOptional ZBoolean),
     (''pwdLockoutDuration'', ZOptional ZNumber),
     (''pwdMaxFailure'', ZOptional ZNumber),
     (''pwdFailureCountInterval'', ZOptional ZNumber),
     (''pwdMustChange'', ZOptional ZBoolean),
     (''pwdAllowUserChange'', ZOptional ZBoolean),
     (''pwdSafeModify'', ZOptional ZBoolean),
     (''pwdCheckModule'', ZOptional ZString)]"

definition PasswordPoliciesResponseSchema :: schema where
  "PasswordPoliciesResponseSchema =
    ZObject [
     (''data'', ZArray PasswordPolicySchema),
     (''total'', ZNumber),
     (''limit'', ZOptional ZNumber),
     (''offset'', ZOptional ZNumber),
     (''truncated'', ZOptional ZBoolean)]"

definition PolicyEnforcementSchema :: schema where
  "PolicyEnforcementSchema =
    ZCatch (ZEnum [''enforced'', ''not-enforced'', ''unknown'']) (JStr ''unknown'')"

definition PolicySelfTestSchema :: schema where
  "PolicySelfTestSchema =
    ZObject [
     (''result'', PolicyEnforcementSchema),
     (''probeDn'', ZString),
     (''steps'', ZNullishElse (ZArray ZString) (JArr [])),
     (''cleanedUp'', ZBoolean),
     (''detail'', ZOptional ZString)]"

definition ConfigValueSchema :: schema where
  "ConfigValueSchema =
    ZObject [
     (''value'', ZUnion [ZString, ZNumber, ZBoolean, ZArray ZString]),
     (''source'', ZEnum [''env'', ''file'', ''default'']),
     (''envVar'', ZOptional ZString)]"

definition ConfigResponseSchema :: schema where
  "ConfigResponseSchema =
    ZObject [
     (''server'', ZObject [
       (''host'', ConfigValueSchema),
       (''port'', ConfigValueSchema)]),
     (''database'', ZObject [
       (''url'', ConfigValueSchema)]),
     (''ldap'', ZObject [
       (''url'', ConfigValueSchema),
       (''baseDn'', ConfigValueSchema),
       (''bindDn'', ConfigValueSchema),
       (''userOu'', ConfigValueSchema),
       (''groupOu'', ConfigValueSchema),
       (''sudoersOu'', ConfigValueSchema),
       (''ppolicyOu'', ConfigValueSchema),
       (''defaultPolicyDn'', ConfigValueSchema),
       (''minUid'', ConfigValueSchema),
       (''minGid'', ConfigValueSchema),
       (''tlsMode'', ConfigValueSchema),
       (''tlsSkipVerify'', ConfigValueSchema),
       (''tlsCaFile'', ConfigValueSchema),
       (''tlsCertFile'', ConfigValueSchema),
       (''tlsKeyFile'', ConfigValueSchema)]),
     (''session'', ZObject [
       (''ttl'', ConfigValueSchema)]),
     (''app'', ZObject [
       (''adminGroup'', ConfigValueSchema),
       (''organization'', ConfigValueSchema),
       (''publicUrl'', ConfigValueSchema),
       (''modules'', ConfigValueSchema),
       (''usersObjects'', ConfigValueSchema),
       (''groupsObjects'', ConfigValueSchema)]),
     (''capabilities'', ZOptional (ZObject [
       (''scheduledExpirySupported'', ZBoolean),
       (''policyEnforcement'', PolicyEnforcementSchema),
       (''netgroupsSupported'', ZDefault ZBoolean (JBool False))])),
     (''mail'', ZObject [
       (''host'', ConfigValueSchema),
       (''port'', ConfigValueSchema),
       (''user'', ConfigValueSchema),
       (''password'', ConfigValueSchema),
       (''from'', ConfigValueSchema),
       (''ssl'', ConfigValueSchema)])]"

definition PasswordResetInfoSchema :: schema where
  "PasswordResetInfoSchema =
    ZObject [
     (''uid'', ZString),
     (''displayName'', ZString),
     (''organization'', ZString)]"

definition SchemaSchema :: schema where
  "SchemaSchema =
    ZObject [
     (''objectClasses'', ZRecord (ZObject [
       (''oid'', ZString),
       (''name'', ZString),
       (''description'', ZOptional ZString),
       (''superior'', ZOptional (ZArray ZString)),
       (''kind'', ZString),
       (''must'', ZOptional (ZArray ZString)),
       (''may'', ZOptional (ZArray ZString))])),
     (''attributeTypes'', ZRecord (ZObject [
       (''oid'', ZString),
       (''name'', ZString),
       (''description'', ZOptional ZString),
       (''syntax'', ZOptional ZString),
       (''singleValue'', ZBoolean),
       (''noUserModification'', ZBoolean),
       (''usage'', ZOptional ZString)]))]"

definition TaskRunSchema :: schema where
  "TaskRunSchema =
    ZObject [
     (''id'', ZString),
     (''taskName'', ZString),
     (''startedAt'', ZString),
     (''completedAt'', ZOptional (ZNullable ZString)),
     (''status'', ZString),
     (''usersChecked'', ZNumber),
     (''notificationsSent'', ZNumber),
     (''errors'', ZOptional (ZNullable (ZArray ZString))),
     (''triggeredBy'', ZString)]"

definition TaskRunsResponseSchema :: schema where
  "TaskRunsResponseSchema =
    ZObject [
     (''data'', ZArray TaskRunSchema),
     (''total'', ZNumber)]"

definition TaskHealthSchema :: schema where
  "TaskHealthSchema =
    ZObject [
     (''taskName'', ZString),
     (''schedule'', ZString),
     (''lastRun'', ZNullable TaskRunSchema),
     (''overdue'', ZBoolean),
     (''expectedAt'', ZOptional ZString),
     (''nextRun'', ZString)]"

definition TaskHealthResponseSchema :: schema where
  "TaskHealthResponseSchema =
    ZObject [
     (''data'', ZArray TaskHealthSchema)]"

definition TriggerTaskResponseSchema :: schema where
  "TriggerTaskResponseSchema =
    ZObject [
     (''runId'', ZString),
     (''taskName'', ZString),
     (''usersChecked'', ZNumber),
     (''notificationsSent'', ZNumber),
     (''errors'', ZOptional (ZNullable (ZArray ZString)))]"

definition ScheduledTasksConfigSchema :: schema where
  "ScheduledTasksConfigSchema =
    ZObject [
     (''usersExpiration'', ConfigValueSchema),
     (''passwordsExpiration'', ConfigValueSchema),
     (''lockoutScan'', ConfigValueSchema)]"

lemmas schema_defs [zod_simps] =
  SessionSchema_def
  LoginResponseSchema_def
  MeAvatarSchema_def
  LockoutSchema_def
  UserSchema_def
  UserListItemSchema_def
  UsersResponseSchema_def
  ImportResultSchema_def
  ChangeUidResultSchema_def
  ChangePosixIDsResultSchema_def
  WarningsResultSchema_def
  GroupSchema_def
  GroupsResponseSchema_def
  ChangeGroupCNResultSchema_def
  GroupListItemSchema_def
  GroupMemberSchema_def
  GroupMembersResponseSchema_def
  GroupListResponseSchema_def
  AuditLogSchema_def
  AuditLogsResponseSchema_def
  DirectoryChangeOriginSchema_def
  valueList_def
  DirectoryChangeSchema_def
  DirectoryChangesResponseSchema_def
  AuditActorsResponseSchema_def
  FieldChangeSchema_def
  OverviewSchema_def
  NextIDsSchema_def
  SudoRoleSchema_def
  ServerInfoSchema_def
  NetgroupTripleSchema_def
  NetgroupSchema_def
  NetgroupsResponseSchema_def
  NetgroupMemberSchema_def
  NetgroupExpansionSchema_def
  PolicyDeleteResponseSchema_def
  GroupDeleteResponseSchema_def
  NetgroupDeleteResponseSchema_def
  SudoRoleGrantSchema_def
  SudoRoleGrantsResponseSchema_def
  UserNetgroupsResponseSchema_def
  SudoRolesResponseSchema_def
  PasswordPolicySchema_def
  PasswordPoliciesResponseSchema_def
  PolicyEnforcementSchema_def
  PolicySelfTestSchema_def
  ConfigValueSchema_def
  ConfigResponseSchema_def
  PasswordResetInfoSchema_def
  SchemaSchema_def
  TaskRunSchema_def
  TaskRunsResponseSchema_def
  TaskHealthSchema_def
  TaskHealthResponseSchema_def
  TriggerTaskResponseSchema_def
  ScheduledTasksConfigSchema_def

text \<open>Every exported schema.\<close>

definition response_schemas :: "schema list" where
  "response_schemas =
    [SessionSchema,
     LoginResponseSchema,
     MeAvatarSchema,
     LockoutSchema,
     UserSchema,
     UserListItemSchema,
     UsersResponseSchema,
     ImportResultSchema,
     ChangeUidResultSchema,
     ChangePosixIDsResultSchema,
     WarningsResultSchema,
     GroupSchema,
     GroupsResponseSchema,
     ChangeGroupCNResultSchema,
     GroupListItemSchema,
     GroupMemberSchema,
     GroupMembersResponseSchema,
     GroupListResponseSchema,
     AuditLogSchema,
     AuditLogsResponseSchema,
     DirectoryChangeOriginSchema,
     DirectoryChangeSchema,
     DirectoryChangesResponseSchema,
     AuditActorsResponseSchema,
     FieldChangeSchema,
     OverviewSchema,
     NextIDsSchema,
     SudoRoleSchema,
     ServerInfoSchema,
     NetgroupTripleSchema,
     NetgroupSchema,
     NetgroupsResponseSchema,
     NetgroupMemberSchema,
     NetgroupExpansionSchema,
     PolicyDeleteResponseSchema,
     GroupDeleteResponseSchema,
     NetgroupDeleteResponseSchema,
     SudoRoleGrantSchema,
     SudoRoleGrantsResponseSchema,
     UserNetgroupsResponseSchema,
     SudoRolesResponseSchema,
     PasswordPolicySchema,
     PasswordPoliciesResponseSchema,
     PolicyEnforcementSchema,
     PolicySelfTestSchema,
     ConfigValueSchema,
     ConfigResponseSchema,
     PasswordResetInfoSchema,
     SchemaSchema,
     TaskRunSchema,
     TaskRunsResponseSchema,
     TaskHealthSchema,
     TaskHealthResponseSchema,
     TriggerTaskResponseSchema,
     ScheduledTasksConfigSchema]"

section \<open>Every schema is well-formed\<close>

lemma wf_leaf_schemas [simp]:
  "wf_schema SessionSchema"
  "wf_schema MeAvatarSchema"
  "wf_schema LockoutSchema"
  "wf_schema ImportResultSchema"
  "wf_schema WarningsResultSchema"
  "wf_schema GroupSchema"
  "wf_schema GroupListItemSchema"
  "wf_schema AuditLogSchema"
  "wf_schema DirectoryChangeOriginSchema"
  "wf_schema valueList"
  "wf_schema AuditActorsResponseSchema"
  "wf_schema FieldChangeSchema"
  "wf_schema OverviewSchema"
  "wf_schema NextIDsSchema"
  "wf_schema SudoRoleSchema"
  "wf_schema ServerInfoSchema"
  "wf_schema NetgroupTripleSchema"
  "wf_schema NetgroupMemberSchema"
  "wf_schema PolicyDeleteResponseSchema"
  "wf_schema GroupDeleteResponseSchema"
  "wf_schema NetgroupDeleteResponseSchema"
  "wf_schema UserNetgroupsResponseSchema"
  "wf_schema PasswordPolicySchema"
  "wf_schema PolicyEnforcementSchema"
  "wf_schema ConfigValueSchema"
  "wf_schema PasswordResetInfoSchema"
  "wf_schema SchemaSchema"
  "wf_schema TaskRunSchema"
  "wf_schema TriggerTaskResponseSchema"
  by (simp_all add: SessionSchema_def MeAvatarSchema_def LockoutSchema_def ImportResultSchema_def WarningsResultSchema_def GroupSchema_def GroupListItemSchema_def AuditLogSchema_def DirectoryChangeOriginSchema_def valueList_def AuditActorsResponseSchema_def FieldChangeSchema_def OverviewSchema_def NextIDsSchema_def SudoRoleSchema_def ServerInfoSchema_def NetgroupTripleSchema_def NetgroupMemberSchema_def PolicyDeleteResponseSchema_def GroupDeleteResponseSchema_def NetgroupDeleteResponseSchema_def UserNetgroupsResponseSchema_def PasswordPolicySchema_def PolicyEnforcementSchema_def ConfigValueSchema_def PasswordResetInfoSchema_def SchemaSchema_def TaskRunSchema_def TriggerTaskResponseSchema_def)

lemma wf_composite_schemas [simp]:
  "wf_schema LoginResponseSchema"
  "wf_schema UserSchema"
  "wf_schema UserListItemSchema"
  "wf_schema GroupsResponseSchema"
  "wf_schema ChangeGroupCNResultSchema"
  "wf_schema GroupMemberSchema"
  "wf_schema GroupListResponseSchema"
  "wf_schema AuditLogsResponseSchema"
  "wf_schema DirectoryChangeSchema"
  "wf_schema NetgroupSchema"
  "wf_schema NetgroupExpansionSchema"
  "wf_schema SudoRoleGrantSchema"
  "wf_schema SudoRolesResponseSchema"
  "wf_schema PasswordPoliciesResponseSchema"
  "wf_schema PolicySelfTestSchema"
  "wf_schema ConfigResponseSchema"
  "wf_schema TaskRunsResponseSchema"
  "wf_schema TaskHealthSchema"
  "wf_schema ScheduledTasksConfigSchema"
  by (simp_all add: LoginResponseSchema_def UserSchema_def UserListItemSchema_def GroupsResponseSchema_def ChangeGroupCNResultSchema_def GroupMemberSchema_def GroupListResponseSchema_def AuditLogsResponseSchema_def DirectoryChangeSchema_def NetgroupSchema_def NetgroupExpansionSchema_def SudoRoleGrantSchema_def SudoRolesResponseSchema_def PasswordPoliciesResponseSchema_def PolicySelfTestSchema_def ConfigResponseSchema_def TaskRunsResponseSchema_def TaskHealthSchema_def ScheduledTasksConfigSchema_def zextend_def SudoRoleSchema_def DirectoryChangeOriginSchema_def)

lemma wf_response_schemas [simp]:
  "wf_schema UsersResponseSchema"
  "wf_schema ChangeUidResultSchema"
  "wf_schema ChangePosixIDsResultSchema"
  "wf_schema GroupMembersResponseSchema"
  "wf_schema DirectoryChangesResponseSchema"
  "wf_schema NetgroupsResponseSchema"
  "wf_schema SudoRoleGrantsResponseSchema"
  "wf_schema TaskHealthResponseSchema"
  by (simp_all add: UsersResponseSchema_def ChangeUidResultSchema_def ChangePosixIDsResultSchema_def GroupMembersResponseSchema_def DirectoryChangesResponseSchema_def NetgroupsResponseSchema_def SudoRoleGrantsResponseSchema_def TaskHealthResponseSchema_def)

lemma response_schemas_wf: "list_all wf_schema response_schemas"
  by (simp add: response_schemas_def)

end
