(* ===== verification/Api_Types.thy ===== *)
theory Api_Types
  imports Api_Schemas
begin

text \<open>
  The TypeScript types the application computes with, as \<open>z.infer\<close> reads them off the
  schemas, and the reading of an accepted response as such a value. The reading of a parsed
  value never fails and loses nothing (\<open>to_X\<close> and \<open>of_X\<close> are inverse on accepted values).
\<close>

section \<open>Reading fields\<close>

definition str_req :: "(string \<times> json) list \<Rightarrow> string \<Rightarrow> string option" where
  "str_req kvs k = (case map_of kvs k of Some (JStr s) \<Rightarrow> Some s | _ \<Rightarrow> None)"

definition str_opt :: "(string \<times> json) list \<Rightarrow> string \<Rightarrow> string option" where
  "str_opt kvs k = (case map_of kvs k of Some (JStr s) \<Rightarrow> Some s | _ \<Rightarrow> None)"

definition num_opt :: "(string \<times> json) list \<Rightarrow> string \<Rightarrow> rat option" where
  "num_opt kvs k = (case map_of kvs k of Some (JNum n) \<Rightarrow> Some n | _ \<Rightarrow> None)"

definition bool_opt :: "(string \<times> json) list \<Rightarrow> string \<Rightarrow> bool option" where
  "bool_opt kvs k = (case map_of kvs k of Some (JBool b) \<Rightarrow> Some b | _ \<Rightarrow> None)"

definition json_str :: "json \<Rightarrow> string option" where
  "json_str j = (case j of JStr s \<Rightarrow> Some s | _ \<Rightarrow> None)"

definition json_list :: "(json \<Rightarrow> 'a option) \<Rightarrow> json \<Rightarrow> 'a list option" where
  "json_list f j = (case j of JArr xs \<Rightarrow> those (map f xs) | _ \<Rightarrow> None)"

definition list_opt :: "(json \<Rightarrow> 'a option) \<Rightarrow> (string \<times> json) list \<Rightarrow> string \<Rightarrow> 'a list option" where
  "list_opt f kvs k = opt_chain (map_of kvs k) (json_list f)"

definition of_list :: "('a \<Rightarrow> json) \<Rightarrow> 'a list \<Rightarrow> json" where
  "of_list f xs = JArr (map f xs)"

section \<open>The types\<close>

datatype lockout_state = LNone | LManual | LActive | LLifted | LUnknown

definition lockout_states :: "(string \<times> lockout_state) list" where
  "lockout_states = [(''none'', LNone), (''manual'', LManual), (''active'', LActive),
     (''lifted'', LLifted), (''unknown'', LUnknown)]"

record lockout =
  lk_state :: lockout_state
  lk_lockedAt :: "string option"
  lk_liftsAt :: "string option"
  lk_durationSeconds :: "rat option"
  lk_policyDn :: "string option"

record session =
  ses_id :: "string option"
  ses_userDn :: string
  ses_userUid :: string
  ses_displayName :: string
  ses_mail :: "string option"
  ses_roleName :: string
  ses_permissions :: "string list"
  ses_expiresAt :: string

record netgroup_triple =
  t_host :: string
  t_user :: string
  t_domain :: string

record netgroup =
  ng_dn :: string
  ng_cn :: string
  ng_description :: "string option"
  ng_triples :: "netgroup_triple list"
  ng_malformed :: "string list option"
  ng_members :: "string list option"

text \<open>The fields of the netgroup listing and expansion the application computes with.\<close>

record netgroups_response =
  nr_data :: "netgroup list"
  nr_total :: rat
  nr_limit :: "rat option"
  nr_offset :: "rat option"
  nr_truncated :: "bool option"

record netgroup_member =
  nm_name :: string
  nm_via :: "string option"

record netgroup_expansion =
  nx_root :: string
  nx_users :: "netgroup_member list"
  nx_hosts :: "netgroup_member list"
  nx_openUser :: "string list option"
  nx_openHost :: "string list option"
  nx_cycles :: "string list option"
  nx_dangling :: "string list option"

section \<open>Reading and writing\<close>

definition to_lockout :: "json \<Rightarrow> lockout option" where
  "to_lockout j =
     (case j of
        JObj kvs \<Rightarrow>
          opt_chain (opt_chain (str_req kvs ''state'') (map_of lockout_states)) (\<lambda>st.
            Some \<lparr>lk_state = st, lk_lockedAt = str_opt kvs ''lockedAt'',
              lk_liftsAt = str_opt kvs ''liftsAt'',
              lk_durationSeconds = num_opt kvs ''durationSeconds'',
              lk_policyDn = str_opt kvs ''policyDn''\<rparr>)
      | _ \<Rightarrow> None)"

fun lockout_state_name :: "lockout_state \<Rightarrow> string" where
  "lockout_state_name LNone = ''none''"
| "lockout_state_name LManual = ''manual''"
| "lockout_state_name LActive = ''active''"
| "lockout_state_name LLifted = ''lifted''"
| "lockout_state_name LUnknown = ''unknown''"

definition of_lockout :: "lockout \<Rightarrow> json" where
  "of_lockout l = jobj [
     (''state'', Some (JStr (lockout_state_name (lk_state l)))),
     (''lockedAt'', map_option JStr (lk_lockedAt l)),
     (''liftsAt'', map_option JStr (lk_liftsAt l)),
     (''durationSeconds'', map_option JNum (lk_durationSeconds l)),
     (''policyDn'', map_option JStr (lk_policyDn l))]"

definition to_session :: "json \<Rightarrow> session option" where
  "to_session j =
     (case j of
        JObj kvs \<Rightarrow>
          opt_chain (str_req kvs ''userDn'') (\<lambda>dn.
          opt_chain (str_req kvs ''userUid'') (\<lambda>uid.
          opt_chain (str_req kvs ''displayName'') (\<lambda>name.
          opt_chain (str_req kvs ''roleName'') (\<lambda>role.
          opt_chain (list_opt json_str kvs ''permissions'') (\<lambda>perms.
          opt_chain (str_req kvs ''expiresAt'') (\<lambda>ex.
            Some \<lparr>ses_id = str_opt kvs ''id'', ses_userDn = dn, ses_userUid = uid,
              ses_displayName = name, ses_mail = str_opt kvs ''mail'', ses_roleName = role,
              ses_permissions = perms, ses_expiresAt = ex\<rparr>))))))
      | _ \<Rightarrow> None)"

definition of_session :: "session \<Rightarrow> json" where
  "of_session s = jobj [
     (''id'', map_option JStr (ses_id s)),
     (''userDn'', Some (JStr (ses_userDn s))),
     (''userUid'', Some (JStr (ses_userUid s))),
     (''displayName'', Some (JStr (ses_displayName s))),
     (''mail'', map_option JStr (ses_mail s)),
     (''roleName'', Some (JStr (ses_roleName s))),
     (''permissions'', Some (of_list JStr (ses_permissions s))),
     (''expiresAt'', Some (JStr (ses_expiresAt s)))]"

definition to_triple :: "json \<Rightarrow> netgroup_triple option" where
  "to_triple j =
     (case j of
        JObj kvs \<Rightarrow>
          opt_chain (str_req kvs ''host'') (\<lambda>h.
          opt_chain (str_req kvs ''user'') (\<lambda>u.
          opt_chain (str_req kvs ''domain'') (\<lambda>d.
            Some \<lparr>t_host = h, t_user = u, t_domain = d\<rparr>)))
      | _ \<Rightarrow> None)"

definition of_triple :: "netgroup_triple \<Rightarrow> json" where
  "of_triple t = jobj [
     (''host'', Some (JStr (t_host t))),
     (''user'', Some (JStr (t_user t))),
     (''domain'', Some (JStr (t_domain t)))]"

definition to_netgroup :: "json \<Rightarrow> netgroup option" where
  "to_netgroup j =
     (case j of
        JObj kvs \<Rightarrow>
          opt_chain (str_req kvs ''dn'') (\<lambda>dn.
          opt_chain (str_req kvs ''cn'') (\<lambda>cn.
          opt_chain (list_opt to_triple kvs ''triples'') (\<lambda>ts.
            Some \<lparr>ng_dn = dn, ng_cn = cn, ng_description = str_opt kvs ''description'',
              ng_triples = ts, ng_malformed = list_opt json_str kvs ''malformed'',
              ng_members = list_opt json_str kvs ''members''\<rparr>)))
      | _ \<Rightarrow> None)"

definition of_netgroup :: "netgroup \<Rightarrow> json" where
  "of_netgroup n = jobj [
     (''dn'', Some (JStr (ng_dn n))),
     (''cn'', Some (JStr (ng_cn n))),
     (''description'', map_option JStr (ng_description n)),
     (''triples'', Some (of_list of_triple (ng_triples n))),
     (''malformed'', map_option (of_list JStr) (ng_malformed n)),
     (''members'', map_option (of_list JStr) (ng_members n))]"

section \<open>The readings lose nothing\<close>

text \<open>\<open>f\<close> reads every value the schema can return, and \<open>g\<close> writes it back as it was.\<close>

definition lossless :: "schema \<Rightarrow> (json \<Rightarrow> 'a option) \<Rightarrow> ('a \<Rightarrow> json) \<Rightarrow> bool" where
  "lossless s f g \<longleftrightarrow> (\<forall>x. out_ok s (Some x) \<longrightarrow> (\<exists>a. f x = Some a \<and> g a = x))"

lemma losslessD: "lossless s f g \<Longrightarrow> out_ok s (Some x) \<Longrightarrow> \<exists>a. f x = Some a \<and> g a = x"
  by (simp add: lossless_def)

lemma object_canonical:
  assumes "out_ok (ZObject fs) (Some j)" and "distinct (map fst fs)"
  obtains kvs where "j = JObj kvs" and "\<And>k s. (k, s) \<in> set fs \<Longrightarrow> out_ok s (map_of kvs k)"
    and "j = jobj (map (\<lambda>k. (k, map_of kvs k)) (map fst fs))"
proof -
  from assms(1) obtain kvs where j: "j = JObj kvs"
    and ok: "list_all (\<lambda>(k, s). out_ok s (map_of kvs k)) fs"
    and keys: "map fst kvs = filter (\<lambda>k. map_of kvs k \<noteq> None) (map fst fs)"
    unfolding out_ok_object by blast
  have "present (map (\<lambda>k. (k, map_of kvs k)) (map fst fs)) = kvs"
    by (rule present_own_keys[OF keys assms(2)])
  then have "j = jobj (map (\<lambda>k. (k, map_of kvs k)) (map fst fs))"
    by (simp only: j jobj_def)
  moreover have "out_ok s (map_of kvs k)" if "(k, s) \<in> set fs" for k s
    using ok that by (auto simp: list_all_iff)
  ultimately show ?thesis using j that by blast
qed

lemma str_req_exact:
  "out_ok ZString (map_of kvs k) \<Longrightarrow> \<exists>s. str_req kvs k = Some s \<and> map_of kvs k = Some (JStr s)"
  by (auto simp: str_req_def split: option.splits json.splits)

lemma str_opt_exact:
  "out_ok (ZOptional ZString) (map_of kvs k) \<Longrightarrow> map_option JStr (str_opt kvs k) = map_of kvs k"
  by (auto simp: str_opt_def split: option.splits json.splits)

lemma num_opt_exact:
  "out_ok (ZOptional ZNumber) (map_of kvs k) \<Longrightarrow> map_option JNum (num_opt kvs k) = map_of kvs k"
  by (auto simp: num_opt_def split: option.splits json.splits)

lemma lossless_str: "lossless ZString json_str JStr"
  by (auto simp: lossless_def json_str_def split: json.splits)

lemma lossless_list:
  assumes "lossless s f g"
  shows "lossless (ZArray s) (json_list f) (of_list g)"
proof -
  have "\<exists>as. those (map f xs) = Some as \<and> map g as = xs"
    if "list_all (\<lambda>x. out_ok s (Some x)) xs" for xs
    using that
  proof (induction xs)
    case (Cons x xs)
    then obtain as where "those (map f xs) = Some as" and "map g as = xs" by auto
    moreover from Cons.prems assms obtain a where "f x = Some a" and "g a = x"
      by (auto dest: losslessD)
    ultimately show ?case by (intro exI[of _ "a # as"]) simp
  qed simp
  then show ?thesis
    by (fastforce simp: lossless_def json_list_def of_list_def split: json.splits)
qed

lemma list_req_exact:
  assumes "lossless s f g" and "out_ok (ZArray s) (map_of kvs k)"
  shows "\<exists>xs. list_opt f kvs k = Some xs \<and> map_of kvs k = Some (of_list g xs)"
  using losslessD[OF lossless_list[OF assms(1)]] assms(2)
  by (cases "map_of kvs k") (auto simp: list_opt_def simp del: out_ok.simps(6), auto)

lemma list_opt_exact:
  assumes "lossless s f g" and "out_ok (ZOptional (ZArray s)) (map_of kvs k)"
  shows "map_option (of_list g) (list_opt f kvs k) = map_of kvs k"
proof (cases "map_of kvs k")
  case (Some x)
  with assms(2) have "out_ok (ZArray s) (Some x)" by simp
  from losslessD[OF lossless_list[OF assms(1)] this] Some show ?thesis
    by (auto simp: list_opt_def)
qed (simp add: list_opt_def)

lemma lockout_state_named:
  "x \<in> set (map fst lockout_states) \<Longrightarrow>
   \<exists>st. map_of lockout_states x = Some st \<and> lockout_state_name st = x"
  by (auto simp: lockout_states_def)

lemma lossless_lockout: "lossless LockoutSchema to_lockout of_lockout"
  unfolding lossless_def
proof (intro allI impI)
  fix j assume "out_ok LockoutSchema (Some j)"
  then obtain kvs where j: "j = JObj kvs"
    and f: "\<And>k s. (k, s) \<in> set [(''state'', ZEnum [''none'', ''manual'', ''active'', ''lifted'', ''unknown'']),
       (''lockedAt'', ZOptional ZString), (''liftsAt'', ZOptional ZString),
       (''durationSeconds'', ZOptional ZNumber), (''policyDn'', ZOptional ZString)] \<Longrightarrow> out_ok s (map_of kvs k)"
    and e: "j = jobj (map (\<lambda>k. (k, map_of kvs k)) [''state'', ''lockedAt'', ''liftsAt'', ''durationSeconds'', ''policyDn''])"
    unfolding LockoutSchema_def by (erule_tac object_canonical) auto
  from f[of "''state''"] obtain x where x: "map_of kvs ''state'' = Some (JStr x)"
    and "x \<in> set (map fst lockout_states)"
    by (auto simp: lockout_states_def split: option.splits json.splits)
  then obtain st where st: "map_of lockout_states x = Some st" "lockout_state_name st = x"
    using lockout_state_named by blast
  have "str_req kvs ''state'' = Some x" using x by (simp add: str_req_def)
  with st j have "to_lockout j = Some \<lparr>lk_state = st, lk_lockedAt = str_opt kvs ''lockedAt'',
      lk_liftsAt = str_opt kvs ''liftsAt'', lk_durationSeconds = num_opt kvs ''durationSeconds'',
      lk_policyDn = str_opt kvs ''policyDn''\<rparr>" (is "_ = Some ?l")
    by (simp add: to_lockout_def)
  moreover have "of_lockout ?l = j"
    by (subst e) (simp add: of_lockout_def st x f str_opt_exact num_opt_exact del: out_ok.simps)
  ultimately show "\<exists>l. to_lockout j = Some l \<and> of_lockout l = j" by blast
qed

lemma lossless_triple: "lossless NetgroupTripleSchema to_triple of_triple"
  unfolding lossless_def
proof (intro allI impI)
  fix j assume "out_ok NetgroupTripleSchema (Some j)"
  then obtain kvs where j: "j = JObj kvs"
    and f: "\<And>k s. (k, s) \<in> set [(''host'', ZString), (''user'', ZString), (''domain'', ZString)]
      \<Longrightarrow> out_ok s (map_of kvs k)"
    and e: "j = jobj (map (\<lambda>k. (k, map_of kvs k)) [''host'', ''user'', ''domain''])"
    unfolding NetgroupTripleSchema_def by (erule_tac object_canonical) auto
  obtain h u d where fs: "str_req kvs ''host'' = Some h" "map_of kvs ''host'' = Some (JStr h)"
    "str_req kvs ''user'' = Some u" "map_of kvs ''user'' = Some (JStr u)"
    "str_req kvs ''domain'' = Some d" "map_of kvs ''domain'' = Some (JStr d)"
    using str_req_exact f by (metis list.set_intros)
  have "to_triple j = Some \<lparr>t_host = h, t_user = u, t_domain = d\<rparr>"
    by (simp add: to_triple_def j fs)
  moreover have "of_triple \<lparr>t_host = h, t_user = u, t_domain = d\<rparr> = j"
    by (subst e) (simp add: of_triple_def fs)
  ultimately show "\<exists>t. to_triple j = Some t \<and> of_triple t = j" by blast
qed

lemma lossless_netgroup: "lossless NetgroupSchema to_netgroup of_netgroup"
  unfolding lossless_def
proof (intro allI impI)
  fix j assume "out_ok NetgroupSchema (Some j)"
  then obtain kvs where j: "j = JObj kvs"
    and f: "\<And>k s. (k, s) \<in> set [(''dn'', ZString), (''cn'', ZString), (''description'', ZOptional ZString),
       (''triples'', ZArray NetgroupTripleSchema), (''malformed'', ZOptional (ZArray ZString)),
       (''members'', ZOptional (ZArray ZString))] \<Longrightarrow> out_ok s (map_of kvs k)"
    and e: "j = jobj (map (\<lambda>k. (k, map_of kvs k))
       [''dn'', ''cn'', ''description'', ''triples'', ''malformed'', ''members''])"
    unfolding NetgroupSchema_def by (erule_tac object_canonical) auto
  obtain dn cn where fs: "str_req kvs ''dn'' = Some dn" "map_of kvs ''dn'' = Some (JStr dn)"
    "str_req kvs ''cn'' = Some cn" "map_of kvs ''cn'' = Some (JStr cn)"
    using str_req_exact f by (metis list.set_intros)
  obtain ts where ts: "list_opt to_triple kvs ''triples'' = Some ts"
    "map_of kvs ''triples'' = Some (of_list of_triple ts)"
    using list_req_exact[OF lossless_triple] f by (metis list.set_intros)
  have opt: "map_option (of_list JStr) (list_opt json_str kvs k) = map_of kvs k"
    if "k = ''malformed'' \<or> k = ''members''" for k
    using that by (intro list_opt_exact[OF lossless_str] f) auto
  let ?n = "\<lparr>ng_dn = dn, ng_cn = cn, ng_description = str_opt kvs ''description'', ng_triples = ts,
      ng_malformed = list_opt json_str kvs ''malformed'', ng_members = list_opt json_str kvs ''members''\<rparr>"
  have "to_netgroup j = Some ?n"
    by (simp add: to_netgroup_def j fs ts)
  moreover have "of_netgroup ?n = j"
    by (subst e) (simp add: of_netgroup_def fs ts opt f str_opt_exact del: out_ok.simps)
  ultimately show "\<exists>n. to_netgroup j = Some n \<and> of_netgroup n = j" by blast
qed

lemma lossless_session: "lossless SessionSchema to_session of_session"
  unfolding lossless_def
proof (intro allI impI)
  fix j assume "out_ok SessionSchema (Some j)"
  then obtain kvs where j: "j = JObj kvs"
    and f: "\<And>k s. (k, s) \<in> set [(''id'', ZOptional ZString), (''userDn'', ZString), (''userUid'', ZString),
       (''displayName'', ZString), (''mail'', ZOptional ZString), (''roleName'', ZString),
       (''permissions'', ZArray ZString), (''expiresAt'', ZString)] \<Longrightarrow> out_ok s (map_of kvs k)"
    and e: "j = jobj (map (\<lambda>k. (k, map_of kvs k))
       [''id'', ''userDn'', ''userUid'', ''displayName'', ''mail'', ''roleName'', ''permissions'', ''expiresAt''])"
    unfolding SessionSchema_def by (erule_tac object_canonical) auto
  have req: "\<exists>s. str_req kvs k = Some s \<and> map_of kvs k = Some (JStr s)"
    if "k \<in> {''userDn'', ''userUid'', ''displayName'', ''roleName'', ''expiresAt''}" for k
    using that by (intro str_req_exact f) auto
  from req[of "''userDn''"] req[of "''userUid''"] req[of "''displayName''"] req[of "''roleName''"]
    req[of "''expiresAt''"]
  obtain dn uid name role ex where fs:
    "str_req kvs ''userDn'' = Some dn" "map_of kvs ''userDn'' = Some (JStr dn)"
    "str_req kvs ''userUid'' = Some uid" "map_of kvs ''userUid'' = Some (JStr uid)"
    "str_req kvs ''displayName'' = Some name" "map_of kvs ''displayName'' = Some (JStr name)"
    "str_req kvs ''roleName'' = Some role" "map_of kvs ''roleName'' = Some (JStr role)"
    "str_req kvs ''expiresAt'' = Some ex" "map_of kvs ''expiresAt'' = Some (JStr ex)"
    by auto
  obtain ps where ps: "list_opt json_str kvs ''permissions'' = Some ps"
    "map_of kvs ''permissions'' = Some (of_list JStr ps)"
    using list_req_exact[OF lossless_str f, of "''permissions''"] by auto
  let ?s = "\<lparr>ses_id = str_opt kvs ''id'', ses_userDn = dn, ses_userUid = uid, ses_displayName = name,
      ses_mail = str_opt kvs ''mail'', ses_roleName = role, ses_permissions = ps, ses_expiresAt = ex\<rparr>"
  have "to_session j = Some ?s"
    by (simp add: to_session_def j fs ps)
  moreover have "of_session ?s = j"
    by (subst e) (simp add: of_session_def fs ps f str_opt_exact del: out_ok.simps)
  ultimately show "\<exists>s. to_session j = Some s \<and> of_session s = j" by blast
qed

end
