(* ===== verification/Netgroups.thy ===== *)
theory Netgroups
  imports Api_Types
begin

text \<open>
  Netgroups (\<open>web/src/lib/netgroup.ts\<close>): which side of a sudo rule a netgroup can be used on,
  how its triples are written, and what a page of search results proves about a
  \<open>+name\<close> reference.
\<close>

section \<open>Kinds and sides\<close>

definition NETGROUP_NO_MATCH :: string where
  "NETGROUP_NO_MATCH = ''-''"

datatype netgroup_kind = KUsers | KHosts | KMixed | KEmpty

datatype netgroup_side = SideUsers | SideHosts

datatype netgroup_side_fit = FitOk | FitIgnored | FitPartial

text \<open>A slot that names somebody: neither open nor the no-match marker.\<close>

definition slot_names :: "string \<Rightarrow> bool" where
  "slot_names v \<longleftrightarrow> v \<noteq> [] \<and> v \<noteq> NETGROUP_NO_MATCH"

text \<open>The loop over the triples, with its two flags.\<close>

fun kind_flags :: "netgroup_triple list \<Rightarrow> bool \<Rightarrow> bool \<Rightarrow> bool \<times> bool" where
  "kind_flags [] users hosts = (users, hosts)"
| "kind_flags (t # ts) users hosts =
     kind_flags ts (if slot_names (t_user t) then True else users)
       (if slot_names (t_host t) then True else hosts)"

definition netgroupKind :: "netgroup \<Rightarrow> netgroup_kind" where
  "netgroupKind n =
     (let (users, hosts) = kind_flags (ng_triples n) False False in
      if users \<and> hosts then KMixed
      else if users then KUsers
      else if hosts then KHosts
      else KEmpty)"

definition kind_is_side :: "netgroup_kind \<Rightarrow> netgroup_side \<Rightarrow> bool" where
  "kind_is_side k s \<longleftrightarrow> (k = KUsers \<and> s = SideUsers) \<or> (k = KHosts \<and> s = SideHosts)"

definition netgroupSideFit :: "netgroup_kind \<Rightarrow> netgroup_side \<Rightarrow> netgroup_side_fit" where
  "netgroupSideFit k s =
     (if k = KEmpty then FitOk
      else if k = KMixed then FitPartial
      else if kind_is_side k s then FitOk else FitIgnored)"

section \<open>Triples as text\<close>

definition slotLabel :: "string \<Rightarrow> string \<Rightarrow> string \<Rightarrow> string" where
  "slotLabel v open_label none_label =
     (if v = [] then open_label else if v = NETGROUP_NO_MATCH then none_label else v)"

definition describeTriple :: "netgroup_triple \<Rightarrow> string" where
  "describeTriple t =
     slotLabel (t_user t) ''any user'' ''no user'' @ '' on '' @
     slotLabel (t_host t) ''any host'' ''no host''"

definition formatTriple :: "netgroup_triple \<Rightarrow> string" where
  "formatTriple t = ''('' @ t_host t @ '','' @ t_user t @ '','' @ t_domain t @ '')''"

text \<open>The expression \<open>^\([^,()]*,[^,()]*,[^,()]*\)$\<close>.\<close>

definition slot_text :: "string \<Rightarrow> bool" where
  "slot_text w \<longleftrightarrow> list_all (\<lambda>c. c \<noteq> CHR '','' \<and> c \<noteq> CHR ''('' \<and> c \<noteq> CHR '')'') w"

definition NETGROUP_TRIPLE_TEXT :: "string \<Rightarrow> bool" where
  "NETGROUP_TRIPLE_TEXT s =
     (case s of
        [] \<Rightarrow> False
      | c # r \<Rightarrow>
          c = CHR ''('' \<and> r \<noteq> [] \<and> last r = CHR '')''
          \<and> (let ws = split_on CHR '','' (butlast r) in length ws = 3 \<and> list_all slot_text ws))"

section \<open>Expansions\<close>

definition matchesAnyHost :: "netgroup_expansion \<Rightarrow> bool" where
  "matchesAnyHost x \<longleftrightarrow> coalesce (map_option length (nx_openHost x)) 0 > 0"

definition matchesAnyUser :: "netgroup_expansion \<Rightarrow> bool" where
  "matchesAnyUser x \<longleftrightarrow> coalesce (map_option length (nx_openUser x)) 0 > 0"

section \<open>References by name\<close>

datatype netgroup_resolution = Found netgroup | Absent | Unknown

definition resolveNetgroupByName :: "string \<Rightarrow> netgroups_response option \<Rightarrow> netgroup_resolution" where
  "resolveNetgroupByName name page =
     (case page of
        None \<Rightarrow> Unknown
      | Some p \<Rightarrow>
          (case List.find (\<lambda>n. ng_cn n = name) (nr_data p) of
             Some n \<Rightarrow> Found n
           | None \<Rightarrow>
               if nr_truncated p \<noteq> Some True \<and> of_nat (length (nr_data p)) \<ge> nr_total p
               then Absent else Unknown))"

definition namedNetgroups :: "string list \<Rightarrow> string list" where
  "namedNetgroups values =
     map (\<lambda>v. drop 1 v) (filter (\<lambda>v. str_starts v ''+'' \<and> length v > 1) values)"

definition DEFAULT_MODULES :: "string list" where
  "DEFAULT_MODULES = [''users'', ''groups'', ''sudo'', ''policies'', ''netgroups'']"

definition netgroupsEnabled :: "string list \<Rightarrow> bool \<Rightarrow> bool" where
  "netgroupsEnabled modules supported \<longleftrightarrow> supported \<and> ''netgroups'' \<in> set modules"

section \<open>Lemmas\<close>

lemma kind_flags_eq:
  "kind_flags ts u h =
     (u \<or> (\<exists>t \<in> set ts. slot_names (t_user t)), h \<or> (\<exists>t \<in> set ts. slot_names (t_host t)))"
  by (induction ts arbitrary: u h) auto

text \<open>The names a netgroup's own triples contribute on a side: what sudo reads there.\<close>

definition side_slot :: "netgroup_side \<Rightarrow> netgroup_triple \<Rightarrow> string" where
  "side_slot s t = (case s of SideUsers \<Rightarrow> t_user t | SideHosts \<Rightarrow> t_host t)"

definition side_names :: "netgroup_side \<Rightarrow> netgroup \<Rightarrow> string list" where
  "side_names s n = filter slot_names (map (side_slot s) (ng_triples n))"

definition other_side :: "netgroup_side \<Rightarrow> netgroup_side" where
  "other_side s = (case s of SideUsers \<Rightarrow> SideHosts | SideHosts \<Rightarrow> SideUsers)"

lemma netgroupKind_sides:
  "netgroupKind n =
     (if side_names SideUsers n \<noteq> [] \<and> side_names SideHosts n \<noteq> [] then KMixed
      else if side_names SideUsers n \<noteq> [] then KUsers
      else if side_names SideHosts n \<noteq> [] then KHosts else KEmpty)"
  by (auto simp: netgroupKind_def kind_flags_eq side_names_def side_slot_def filter_empty_conv)

text \<open>
  How a netgroup fits a side of a sudo rule, in terms of what the two sides of its own
  triples name: it is reported as ignored exactly when that side names nobody while the other
  names somebody, as partial exactly when both name somebody, and as fitting otherwise.
\<close>

theorem side_fit_meaning:
  "netgroupSideFit (netgroupKind n) s =
     (if side_names s n = [] \<and> side_names (other_side s) n \<noteq> [] then FitIgnored
      else if side_names s n \<noteq> [] \<and> side_names (other_side s) n \<noteq> [] then FitPartial
      else FitOk)"
  by (cases s) (auto simp: netgroupKind_sides netgroupSideFit_def kind_is_side_def other_side_def)

subsection \<open>The text of a triple\<close>

definition slots_clean :: "netgroup_triple \<Rightarrow> bool" where
  "slots_clean t \<longleftrightarrow> slot_text (t_host t) \<and> slot_text (t_user t) \<and> slot_text (t_domain t)"

lemma formatTriple_join:
  "formatTriple t = CHR ''('' # join_with '','' [t_host t, t_user t, t_domain t] @ '')''"
  by (simp add: formatTriple_def)

lemma slot_text_no_comma: "slot_text w \<Longrightarrow> CHR '','' \<notin> set w"
  by (auto simp: slot_text_def list_all_iff)

lemma format_split:
  assumes "slots_clean t"
  shows "split_on CHR '','' (join_with '','' [t_host t, t_user t, t_domain t]) = [t_host t, t_user t, t_domain t]"
  using assms by (intro split_join) (auto simp: slots_clean_def slot_text_no_comma)

lemma triple_text_format: "slots_clean t \<Longrightarrow> NETGROUP_TRIPLE_TEXT (formatTriple t)"
  using format_split[of t]
  by (simp only: formatTriple_join NETGROUP_TRIPLE_TEXT_def list.case)
     (simp add: slots_clean_def butlast_append)

lemma triple_text_cases:
  assumes "NETGROUP_TRIPLE_TEXT s"
  obtains t where "slots_clean t" and "formatTriple t = s"
proof -
  from assms obtain r where s: "s = CHR ''('' # r" and r: "r \<noteq> []" "last r = CHR '')''"
    and ws: "length (split_on CHR '','' (butlast r)) = 3" "list_all slot_text (split_on CHR '','' (butlast r))"
    by (auto simp: NETGROUP_TRIPLE_TEXT_def Let_def split: list.splits)
  from ws(1) obtain h u d where parts: "split_on CHR '','' (butlast r) = [h, u, d]"
    by (auto simp: length_Suc_conv eval_nat_numeral)
  have "r = butlast r @ '')''"
    using r append_butlast_last_id[of r] by simp
  also have "butlast r = join_with '','' [h, u, d]"
    using join_split[of "CHR '',''" "butlast r"] parts by simp
  finally have "formatTriple \<lparr>t_host = h, t_user = u, t_domain = d\<rparr> = s"
    by (simp add: s formatTriple_join)
  moreover have "slots_clean \<lparr>t_host = h, t_user = u, t_domain = d\<rparr>"
    using ws(2) parts by (simp add: slots_clean_def)
  ultimately show ?thesis using that by blast
qed

lemma formatTriple_inject:
  assumes "slots_clean t" and "slots_clean t'" and "formatTriple t = formatTriple t'"
  shows "t = t'"
proof -
  from assms(3) have "join_with '','' [t_host t, t_user t, t_domain t]
      = join_with '','' [t_host t', t_user t', t_domain t']"
    by (simp only: formatTriple_join list.inject append_same_eq)
  then have "[t_host t, t_user t, t_domain t] = [t_host t', t_user t', t_domain t']"
    using format_split[OF assms(1)] format_split[OF assms(2)] by metis
  then show ?thesis by (cases t; cases t') simp
qed

text \<open>
  The shape check for triple text accepts exactly the stored spellings of triples whose
  slots hold no comma and no parenthesis, and each accepted text is the spelling of exactly
  one such triple.
\<close>

theorem triple_text_exact:
  "NETGROUP_TRIPLE_TEXT s \<longleftrightarrow> (\<exists>!t. slots_clean t \<and> formatTriple t = s)"
  by (metis triple_text_cases triple_text_format formatTriple_inject)

subsection \<open>What a page proves\<close>

text \<open>
  What the listing endpoint answers for a search that matches \<open>matches\<close>: different matching
  entries, and the number of all of them as its total.
\<close>

definition page_of :: "netgroup list \<Rightarrow> netgroups_response \<Rightarrow> bool" where
  "page_of matches p \<longleftrightarrow>
     distinct (nr_data p) \<and> set (nr_data p) \<subseteq> set matches
     \<and> (nr_truncated p \<noteq> Some True \<longrightarrow> nr_total p = of_nat (card (set matches)))"

lemma complete_page:
  assumes "page_of matches p" and "nr_truncated p \<noteq> Some True"
    and "of_nat (length (nr_data p)) \<ge> nr_total p"
  shows "set (nr_data p) = set matches"
proof -
  from assms have sub: "set (nr_data p) \<subseteq> set matches" and len: "card (set (nr_data p)) \<ge> card (set matches)"
    by (auto simp: page_of_def distinct_card)
  with card_seteq[of "set matches" "set (nr_data p)"] show ?thesis by simp
qed

text \<open>
  C27: A reference is reported as absent only when no matching entry has that name, and as found
  only with a matching entry of that name. Whatever the page left out, the answer is then
  \<open>unknown\<close>, never \<open>absent\<close>.
\<close>

theorem resolve_sound:
  assumes "page_of matches p"
  shows "case resolveNetgroupByName name (Some p) of
      Found n \<Rightarrow> n \<in> set matches \<and> ng_cn n = name
    | Absent \<Rightarrow> \<forall>n \<in> set matches. ng_cn n \<noteq> name
    | Unknown \<Rightarrow> \<forall>n \<in> set (nr_data p). ng_cn n \<noteq> name"
proof (cases "List.find (\<lambda>n. ng_cn n = name) (nr_data p)")
  case None
  then have "\<forall>n \<in> set (nr_data p). ng_cn n \<noteq> name"
    by (simp add: find_eq_None)
  with None complete_page[OF assms] show ?thesis
    by (auto simp: resolveNetgroupByName_def)
next
  case (Some n)
  with assms show ?thesis
    by (auto simp: resolveNetgroupByName_def page_of_def dest: find_eq_SomeD)
qed

definition sample_netgroup :: "string \<Rightarrow> netgroup" where
  "sample_netgroup cn = \<lparr>ng_dn = ''cn='' @ cn, ng_cn = cn, ng_description = None,
     ng_triples = [\<lparr>t_host = [], t_user = ''jdoe'', t_domain = []\<rparr>],
     ng_malformed = None, ng_members = None\<rparr>"

theorem resolve_sound_witness:
  "let p = \<lparr>nr_data = [sample_netgroup ''ops''], nr_total = 2, nr_limit = None, nr_offset = None,
       nr_truncated = None\<rparr>;
     ms = [sample_netgroup ''ops'', sample_netgroup ''dev'']
   in page_of ms p \<and> resolveNetgroupByName ''dev'' (Some p) = Unknown \<and> (\<forall>n \<in> set (nr_data p). ng_cn n \<noteq> ''dev'')"
proof -
  let ?p = "\<lparr>nr_data = [sample_netgroup ''ops''], nr_total = 2, nr_limit = None, nr_offset = None,
       nr_truncated = None\<rparr>"
  let ?ms = "[sample_netgroup ''ops'', sample_netgroup ''dev'']"
  have p: "page_of ?ms ?p"
    by (simp add: page_of_def sample_netgroup_def)
  have u: "resolveNetgroupByName ''dev'' (Some ?p) = Unknown"
    by (simp add: resolveNetgroupByName_def sample_netgroup_def)
  from resolve_sound[OF p, of "''dev''"] p u show ?thesis
    by (simp add: Let_def)
qed

lemma named_netgroups_iff:
  "n \<in> set (namedNetgroups vs) \<longleftrightarrow> n \<noteq> [] \<and> ''+'' @ n \<in> set vs"
proof -
  have "n \<in> set (namedNetgroups vs) \<longleftrightarrow> (\<exists>v \<in> set vs. str_starts v ''+'' \<and> length v > 1 \<and> n = drop 1 v)"
    by (auto simp: namedNetgroups_def)
  also have "\<dots> \<longleftrightarrow> n \<noteq> [] \<and> ''+'' @ n \<in> set vs"
    by (auto simp: str_starts_iff intro!: bexI[of _ "''+'' @ n"])
  finally show ?thesis .
qed

end
