(* ===== verification/Auth_State.thy ===== *)
theory Auth_State
  imports Api_Types
begin

text \<open>
  The session of the client (\<open>web/src/lib/auth.tsx\<close>, mounted by \<open>web/src/main.tsx\<close>): the state
  \<open>AuthProvider\<close> keeps and its callbacks, as steps of a machine. A step is one callback
  together with the effect React runs after the commit it causes, which copies "there is a
  session" into the reference the 401 handler reads.
\<close>

record auth_state =
  au_session :: "session option"
  au_sessionExpired :: bool
  au_hadSession :: bool
  au_isLoading :: bool
  au_loginPending :: bool
  au_cache :: "string list" \<comment> \<open>keys of the query cache\<close>

definition initial_auth :: auth_state where
  "initial_auth = \<lparr>au_session = None, au_sessionExpired = False, au_hadSession = False,
     au_isLoading = True, au_loginPending = False, au_cache = []\<rparr>"

datatype auth_event =
    ProbeAnswered "session option" \<comment> \<open>\<open>/auth/me\<close>: a session, or a rejection\<close>
  | AuthError \<comment> \<open>the callback of \<open>setOnAuthError\<close>: some request came back 401\<close>
  | LoginStarted
  | LoginAnswered "session option" \<comment> \<open>a session, or the rejection \<open>login\<close> passes on\<close>
  | LogoutSettled \<comment> \<open>the \<open>finally\<close> of \<open>logout\<close>\<close>
  | QueryCached string

text \<open>The effect on \<open>[session]\<close>.\<close>

definition session_effect :: "auth_state \<Rightarrow> auth_state" where
  "session_effect s = (if au_session s \<noteq> None then s\<lparr>au_hadSession := True\<rparr> else s)"

definition probe_answered :: "session option \<Rightarrow> auth_state \<Rightarrow> auth_state" where
  "probe_answered r s =
     (case r of
        Some ses \<Rightarrow> s\<lparr>au_session := Some ses, au_isLoading := False\<rparr>
      | None \<Rightarrow> s\<lparr>au_isLoading := False\<rparr>)"

definition on_auth_error :: "auth_state \<Rightarrow> auth_state" where
  "on_auth_error s = s\<lparr>au_sessionExpired := (if au_hadSession s then True else au_sessionExpired s),
     au_hadSession := False, au_session := None, au_cache := []\<rparr>"

definition login_started :: "auth_state \<Rightarrow> auth_state" where
  "login_started s = s\<lparr>au_sessionExpired := False, au_loginPending := True\<rparr>"

definition login_answered :: "session option \<Rightarrow> auth_state \<Rightarrow> auth_state" where
  "login_answered r s =
     (case r of
        Some ses \<Rightarrow> s\<lparr>au_session := Some ses, au_loginPending := False\<rparr>
      | None \<Rightarrow> s\<lparr>au_loginPending := False\<rparr>)"

definition logout_settled :: "auth_state \<Rightarrow> auth_state" where
  "logout_settled s = s\<lparr>au_sessionExpired := False, au_hadSession := False, au_session := None, au_cache := []\<rparr>"

definition auth_handler :: "auth_event \<Rightarrow> auth_state \<Rightarrow> auth_state" where
  "auth_handler e s =
     (case e of
        ProbeAnswered r \<Rightarrow> probe_answered r s
      | AuthError \<Rightarrow> on_auth_error s
      | LoginStarted \<Rightarrow> login_started s
      | LoginAnswered r \<Rightarrow> login_answered r s
      | LogoutSettled \<Rightarrow> logout_settled s
      | QueryCached k \<Rightarrow> s\<lparr>au_cache := k # au_cache s\<rparr>)"

definition auth_step :: "auth_event \<Rightarrow> auth_state \<Rightarrow> auth_state" where
  "auth_step e s = session_effect (auth_handler e s)"

text \<open>
  Which callbacks can fire. The probe answers once. \<open>main.tsx\<close> renders a loading screen instead
  of the router until then, so the login form exists only afterwards, and the form renders
  nothing while somebody is signed in.
\<close>

definition auth_enabled :: "auth_event \<Rightarrow> auth_state \<Rightarrow> bool" where
  "auth_enabled e s =
     (case e of
        ProbeAnswered r \<Rightarrow> au_isLoading s
      | LoginStarted \<Rightarrow> \<not> au_isLoading s \<and> au_session s = None
      | LoginAnswered r \<Rightarrow> au_loginPending s
      | LogoutSettled \<Rightarrow> \<not> au_isLoading s
      | _ \<Rightarrow> True)"

inductive auth_reach :: "auth_state \<Rightarrow> bool" where
  auth_init: "auth_reach initial_auth"
| auth_more: "auth_reach s \<Longrightarrow> auth_enabled e s \<Longrightarrow> auth_reach (auth_step e s)"

definition isAuthenticated :: "auth_state \<Rightarrow> bool" where
  "isAuthenticated s \<longleftrightarrow> au_session s \<noteq> None"

definition hasPermission :: "session option \<Rightarrow> string \<Rightarrow> bool" where
  "hasPermission ses permission =
     coalesce (map_option (\<lambda>s. permission \<in> set (ses_permissions s)) ses) False"

section \<open>The invariant\<close>

text \<open>
  The reference tells whether somebody is signed in, an expiry is announced only while nobody
  is, and nothing has happened yet while the probe is out.
\<close>

definition auth_inv :: "auth_state \<Rightarrow> bool" where
  "auth_inv s \<longleftrightarrow>
     (au_hadSession s \<longleftrightarrow> au_session s \<noteq> None)
     \<and> (au_sessionExpired s \<longrightarrow> au_session s = None)
     \<and> (au_isLoading s \<longrightarrow> au_session s = None \<and> \<not> au_sessionExpired s \<and> \<not> au_loginPending s)
     \<and> (au_loginPending s \<longrightarrow> au_session s = None \<and> \<not> au_sessionExpired s)"

lemmas auth_step_defs = auth_step_def auth_handler_def session_effect_def probe_answered_def
  on_auth_error_def login_started_def login_answered_def logout_settled_def

lemma auth_inv_init: "auth_inv initial_auth"
  by (simp add: auth_inv_def initial_auth_def)

lemma probe_answered_inv:
  "auth_inv s \<Longrightarrow> au_isLoading s \<Longrightarrow> auth_inv (session_effect (probe_answered r s))"
  by (cases r) (simp_all add: auth_inv_def session_effect_def probe_answered_def)

lemma on_auth_error_inv: "auth_inv s \<Longrightarrow> auth_inv (session_effect (on_auth_error s))"
  by (cases "au_session s") (simp_all add: auth_inv_def session_effect_def on_auth_error_def)

lemma login_started_inv:
  "auth_inv s \<Longrightarrow> \<not> au_isLoading s \<Longrightarrow> au_session s = None \<Longrightarrow> auth_inv (session_effect (login_started s))"
  by (simp add: auth_inv_def session_effect_def login_started_def)

lemma login_answered_inv:
  "auth_inv s \<Longrightarrow> au_loginPending s \<Longrightarrow> auth_inv (session_effect (login_answered r s))"
  by (cases r) (simp_all add: auth_inv_def session_effect_def login_answered_def)

lemma logout_settled_inv:
  "auth_inv s \<Longrightarrow> auth_inv (session_effect (logout_settled s))"
  by (simp add: auth_inv_def session_effect_def logout_settled_def)

lemma query_cached_inv:
  "auth_inv s \<Longrightarrow> auth_inv (session_effect (s\<lparr>au_cache := c\<rparr>))"
  by (simp add: auth_inv_def session_effect_def)

lemma auth_step_inv: "auth_inv s \<Longrightarrow> auth_enabled e s \<Longrightarrow> auth_inv (auth_step e s)"
  by (cases e) (simp_all add: auth_step_def auth_handler_def auth_enabled_def probe_answered_inv
      on_auth_error_inv login_started_inv login_answered_inv logout_settled_inv query_cached_inv)

lemma auth_reach_inv: "auth_reach s \<Longrightarrow> auth_inv s"
  by (induction rule: auth_reach.induct) (auto intro: auth_inv_init auth_step_inv)

section \<open>Histories\<close>

text \<open>The callbacks that fired since the page was loaded, each possible when it fired.\<close>

fun possible :: "auth_event list \<Rightarrow> auth_state \<Rightarrow> bool" where
  "possible [] s = True"
| "possible (e # es) s = (auth_enabled e s \<and> possible es (auth_step e s))"

definition auth_run :: "auth_event list \<Rightarrow> auth_state" where
  "auth_run es = fold auth_step es initial_auth"

lemma auth_run_simps [simp]: "auth_run [] = initial_auth" "auth_run (es @ [e]) = auth_step e (auth_run es)"
  by (simp_all add: auth_run_def)

lemma possible_append: "possible (es @ es') s \<longleftrightarrow> possible es s \<and> possible es' (fold auth_step es s)"
  by (induction es arbitrary: s) auto

lemma possible_snoc: "possible (es @ [e]) initial_auth \<longleftrightarrow> possible es initial_auth \<and> auth_enabled e (auth_run es)"
  by (simp add: possible_append auth_run_def)

lemma possible_reach: "possible es initial_auth \<Longrightarrow> auth_reach (auth_run es)"
  by (induction es rule: rev_induct) (auto simp: possible_snoc intro: auth_init auth_more)

lemma possible_inv: "possible es initial_auth \<Longrightarrow> auth_inv (auth_run es)"
  by (intro auth_reach_inv possible_reach)

text \<open>An event of a history after which none of some kinds came.\<close>

definition lastly :: "('e list \<Rightarrow> 'e \<Rightarrow> bool) \<Rightarrow> ('e \<Rightarrow> bool) \<Rightarrow> 'e list \<Rightarrow> bool" where
  "lastly P undone es \<longleftrightarrow> (\<exists>es1 e es2. es = es1 @ e # es2 \<and> P es1 e \<and> \<not> list_ex undone es2)"

lemma lastly_Nil [simp]: "\<not> lastly P undone []"
  by (simp add: lastly_def)

lemma lastly_snoc: "lastly P undone (es @ [e]) \<longleftrightarrow> P es e \<or> \<not> undone e \<and> lastly P undone es"
proof
  assume "lastly P undone (es @ [e])"
  then obtain es1 x es2 where h: "es @ [e] = es1 @ x # es2" "P es1 x" "\<not> list_ex undone es2"
    unfolding lastly_def by blast
  show "P es e \<or> \<not> undone e \<and> lastly P undone es"
  proof (cases es2 rule: rev_cases)
    case Nil
    with h show ?thesis by simp
  next
    case (snoc ys y)
    with h have "es = es1 @ x # ys" "e = y" by simp_all
    with h snoc show ?thesis unfolding lastly_def by auto
  qed
next
  assume "P es e \<or> \<not> undone e \<and> lastly P undone es"
  then show "lastly P undone (es @ [e])"
  proof
    assume "P es e"
    then show ?thesis unfolding lastly_def by (intro exI[of _ es] exI[of _ e] exI[of _ "[]"]) simp
  next
    assume "\<not> undone e \<and> lastly P undone es"
    then obtain es1 x es2 where "es = es1 @ x # es2" "P es1 x" "\<not> list_ex undone es2" "\<not> undone e"
      unfolding lastly_def by blast
    then show ?thesis unfolding lastly_def by (intro exI[of _ es1] exI[of _ x] exI[of _ "es2 @ [e]"]) simp
  qed
qed

definition signs_out :: "auth_event \<Rightarrow> bool" where
  "signs_out e \<longleftrightarrow> e = AuthError \<or> e = LogoutSettled"

definition takes_notice_down :: "auth_event \<Rightarrow> bool" where
  "takes_notice_down e \<longleftrightarrow> e = LoginStarted \<or> e = LogoutSettled"

lemma expired_history:
  "possible es initial_auth \<Longrightarrow>
   au_sessionExpired (auth_run es) \<longleftrightarrow>
     lastly (\<lambda>es1 e. e = AuthError \<and> isAuthenticated (auth_run es1)) takes_notice_down es"
proof (induction es rule: rev_induct)
  case Nil
  then show ?case by (simp add: initial_auth_def)
next
  case (snoc e es)
  then have p: "possible es initial_auth" by (simp add: possible_snoc)
  show ?case using snoc.IH[OF p] possible_inv[OF p]
    by (cases e) (auto simp: lastly_snoc takes_notice_down_def auth_step_defs auth_inv_def isAuthenticated_def
        split: option.splits)
qed

lemma session_history:
  "possible es initial_auth \<Longrightarrow>
   au_session (auth_run es) = Some ses \<longleftrightarrow>
     lastly (\<lambda>es1 e. e = ProbeAnswered (Some ses) \<or> e = LoginAnswered (Some ses)) signs_out es"
proof (induction es rule: rev_induct)
  case Nil
  then show ?case by (simp add: initial_auth_def)
next
  case (snoc e es)
  then have p: "possible es initial_auth" "auth_enabled e (auth_run es)" by (simp_all add: possible_snoc)
  show ?case using snoc.IH[OF p(1)] possible_inv[OF p(1)] p(2)
    by (cases e) (auto simp: lastly_snoc signs_out_def auth_step_defs auth_inv_def auth_enabled_def split: option.splits)
qed

lemma cache_history:
  "k \<in> set (au_cache (auth_run es)) \<longleftrightarrow> lastly (\<lambda>es1 e. e = QueryCached k) signs_out es"
proof (induction es rule: rev_induct)
  case Nil
  then show ?case by (simp add: initial_auth_def)
next
  case (snoc e es)
  then show ?case
    by (cases e) (auto simp: lastly_snoc signs_out_def auth_step_defs split: option.splits)
qed

text \<open>
  C28: What the session of the client says of its history, whatever callbacks fired in whatever order the
  application allows. Somebody is signed in exactly if the probe or a login was answered with that session and
  neither a 401 nor a logout came since. The notice of an expired session is up exactly if a 401 came while
  somebody was signed in, and nobody started a login or logged out since; it is never up while somebody is signed
  in. And the query cache holds exactly the keys cached since the last 401 or logout, so nothing read in one session
  is left for the next.
\<close>

theorem auth_history_exact:
  assumes "possible es initial_auth"
  shows "(au_session (auth_run es) = Some ses \<longleftrightarrow>
       (\<exists>es1 e es2. es = es1 @ e # es2 \<and> (e = ProbeAnswered (Some ses) \<or> e = LoginAnswered (Some ses)) \<and>
          AuthError \<notin> set es2 \<and> LogoutSettled \<notin> set es2)) \<and>
    (au_sessionExpired (auth_run es) \<longleftrightarrow>
       (\<exists>es1 es2. es = es1 @ AuthError # es2 \<and> isAuthenticated (auth_run es1) \<and>
          LoginStarted \<notin> set es2 \<and> LogoutSettled \<notin> set es2)) \<and>
    (au_sessionExpired (auth_run es) \<longrightarrow> \<not> isAuthenticated (auth_run es)) \<and>
    (k \<in> set (au_cache (auth_run es)) \<longleftrightarrow>
       (\<exists>es1 es2. es = es1 @ QueryCached k # es2 \<and> AuthError \<notin> set es2 \<and> LogoutSettled \<notin> set es2))"
proof -
  have s: "\<not> list_ex signs_out es2 \<longleftrightarrow> AuthError \<notin> set es2 \<and> LogoutSettled \<notin> set es2"
    and t: "\<not> list_ex takes_notice_down es2 \<longleftrightarrow> LoginStarted \<notin> set es2 \<and> LogoutSettled \<notin> set es2" for es2
    by (auto simp: list_ex_iff signs_out_def takes_notice_down_def)
  have n: "au_sessionExpired (auth_run es) \<longrightarrow> \<not> isAuthenticated (auth_run es)"
    using possible_inv[OF assms] by (auto simp: auth_inv_def isAuthenticated_def)
  show ?thesis
    unfolding session_history[OF assms] expired_history[OF assms] cache_history lastly_def s t
    using n[unfolded expired_history[OF assms] lastly_def t] by auto
qed

definition sample_session :: session where
  "sample_session = \<lparr>ses_id = None, ses_userDn = ''uid=a,ou=People'', ses_userUid = ''a'',
     ses_displayName = ''A'', ses_mail = None, ses_roleName = ''admin'',
     ses_permissions = [''users:read'', ''users:write''], ses_expiresAt = ''2026-01-01T00:00:00Z''\<rparr>"

definition sample_history :: "auth_event list" where
  "sample_history =
     [ProbeAnswered (Some sample_session), QueryCached ''users'', AuthError, QueryCached ''config'']"

theorem auth_history_exact_witness:
  "possible sample_history initial_auth \<and> au_sessionExpired (auth_run sample_history) \<and>
   ''config'' \<in> set (au_cache (auth_run sample_history)) \<and> ''users'' \<notin> set (au_cache (auth_run sample_history))"
proof -
  have p: "possible sample_history initial_auth" by code_simp
  have "isAuthenticated (auth_run [ProbeAnswered (Some sample_session), QueryCached ''users''])" by code_simp
  then have "\<exists>es1 es2. sample_history = es1 @ AuthError # es2 \<and> isAuthenticated (auth_run es1) \<and>
      LoginStarted \<notin> set es2 \<and> LogoutSettled \<notin> set es2"
    by (intro exI[of _ "[ProbeAnswered (Some sample_session), QueryCached ''users'']"] exI[of _ "[QueryCached ''config'']"])
      (simp add: sample_history_def)
  moreover have "\<exists>es1 es2. sample_history = es1 @ QueryCached ''config'' # es2 \<and> AuthError \<notin> set es2 \<and> LogoutSettled \<notin> set es2"
    by (intro exI[of _ "[ProbeAnswered (Some sample_session), QueryCached ''users'', AuthError]"] exI[of _ "[]"])
      (simp add: sample_history_def)
  moreover have "\<not> (\<exists>es1 es2. sample_history = es1 @ QueryCached ''users'' # es2 \<and> AuthError \<notin> set es2 \<and> LogoutSettled \<notin> set es2)"
    by (auto simp: sample_history_def Cons_eq_append_conv)
  ultimately show ?thesis
    using p auth_history_exact[OF p, of sample_session "''config''"] auth_history_exact[OF p, of sample_session "''users''"]
    by blast
qed

end
