(* ===== verification/Access.thy ===== *)
theory Access
  imports Auth_State Netgroups
begin

text \<open>
  What a session may see: the modules a deployment offers (\<open>lib/use-server-info.ts\<close>), the
  sections listed in the navigation (\<open>lib/sections.ts\<close>), and the guards in front of the routes
  (\<open>routes/**\<close>), with the agreement between the links shown and the guards behind them.
\<close>

section \<open>Modules\<close>

datatype module_id = MUsers | MGroups | MSudo | MPolicies | MNetgroups

fun mod_name :: "module_id \<Rightarrow> string" where
  "mod_name MUsers = ''users''"
| "mod_name MGroups = ''groups''"
| "mod_name MSudo = ''sudo''"
| "mod_name MPolicies = ''policies''"
| "mod_name MNetgroups = ''netgroups''"

record server_info =
  si_modules :: "string list"
  si_usersObjects :: "string list"
  si_groupsObjects :: "string list"
  si_netgroupsSupported :: "bool option"

text \<open>\<open>info?.modules?.length ? info.modules : DEFAULT_MODULES\<close>\<close>

definition useEnabledModules :: "server_info option \<Rightarrow> string list" where
  "useEnabledModules info =
     (case info of
        None \<Rightarrow> DEFAULT_MODULES
      | Some i \<Rightarrow> if length (si_modules i) \<noteq> 0 then si_modules i else DEFAULT_MODULES)"

definition moduleAvailable :: "module_id \<Rightarrow> server_info option \<Rightarrow> bool" where
  "moduleAvailable m info =
     (let modules = useEnabledModules info in
      if m = MNetgroups
      then netgroupsEnabled modules (coalesce (opt_chain info si_netgroupsSupported) False)
      else mod_name m \<in> set modules)"

datatype objects_kind = UsersObjects | GroupsObjects

definition useEnabledObjects :: "objects_kind \<Rightarrow> string list \<Rightarrow> server_info option \<Rightarrow> string set" where
  "useEnabledObjects kind fallback info =
     (let configured = (case kind of
            UsersObjects \<Rightarrow> map_option si_usersObjects info
          | GroupsObjects \<Rightarrow> map_option si_groupsObjects info);
          values = (case configured of Some (v # vs) \<Rightarrow> v # vs | _ \<Rightarrow> fallback)
      in set (map to_lower values))"

section \<open>Navigation outcomes\<close>

datatype nav = Pass | Redirect string

text \<open>Guards run in order: the first redirect wins (it is thrown).\<close>

definition and_then :: "nav \<Rightarrow> nav \<Rightarrow> nav" where
  "and_then a b = (case a of Pass \<Rightarrow> b | Redirect t \<Rightarrow> Redirect t)"

lemma and_then_Pass: "and_then a b = Pass \<longleftrightarrow> a = Pass \<and> b = Pass"
  by (cases a) (simp_all add: and_then_def)

text \<open>
  \<open>requireModule\<close>: \<open>answer\<close> is what \<open>ensureQueryData(serverInfoQuery)\<close> yields, \<^const>\<open>None\<close>
  when it rejects; the page is let through then.
\<close>

definition requireModule :: "server_info option \<Rightarrow> module_id \<Rightarrow> nav" where
  "requireModule answer m =
     (case answer of
        None \<Rightarrow> Pass
      | Some info \<Rightarrow> if \<not> moduleAvailable m (Some info) then Redirect ''/'' else Pass)"

definition require_login :: "session option \<Rightarrow> nav" where
  "require_login ses = (if ses = None then Redirect ''/login'' else Pass)"

definition require_permission :: "session option \<Rightarrow> string \<Rightarrow> string \<Rightarrow> nav" where
  "require_permission ses permission target =
     (if \<not> hasPermission ses permission then Redirect target else Pass)"

section \<open>The guards of the routes\<close>

definition users_list_guard :: "session option \<Rightarrow> server_info option \<Rightarrow> nav" where
  "users_list_guard ses answer = and_then (require_login ses) (requireModule answer MUsers)"

definition user_detail_guard :: "session option \<Rightarrow> server_info option \<Rightarrow> nav" where
  "user_detail_guard ses answer = and_then (require_login ses) (requireModule answer MUsers)"

definition user_new_guard :: "session option \<Rightarrow> server_info option \<Rightarrow> nav" where
  "user_new_guard ses answer =
     and_then (require_login ses) (and_then (requireModule answer MUsers)
       (require_permission ses ''users:write'' ''/users''))"

definition users_import_guard :: "session option \<Rightarrow> server_info option \<Rightarrow> nav" where
  "users_import_guard ses answer =
     and_then (require_login ses) (and_then (requireModule answer MUsers)
       (require_permission ses ''users:write'' ''/users''))"

definition groups_list_guard :: "session option \<Rightarrow> server_info option \<Rightarrow> nav" where
  "groups_list_guard ses answer = and_then (require_login ses) (requireModule answer MGroups)"

definition group_detail_guard :: "session option \<Rightarrow> server_info option \<Rightarrow> nav" where
  "group_detail_guard ses answer = and_then (require_login ses) (requireModule answer MGroups)"

definition group_new_guard :: "session option \<Rightarrow> server_info option \<Rightarrow> nav" where
  "group_new_guard ses answer =
     and_then (require_login ses) (and_then (requireModule answer MGroups)
       (require_permission ses ''groups:write'' ''/groups''))"

definition groups_import_guard :: "session option \<Rightarrow> server_info option \<Rightarrow> nav" where
  "groups_import_guard ses answer =
     and_then (require_login ses) (and_then (requireModule answer MGroups)
       (require_permission ses ''groups:write'' ''/groups''))"

definition sudo_list_guard :: "session option \<Rightarrow> server_info option \<Rightarrow> nav" where
  "sudo_list_guard ses answer = and_then (require_login ses) (requireModule answer MSudo)"

definition sudo_detail_guard :: "session option \<Rightarrow> server_info option \<Rightarrow> nav" where
  "sudo_detail_guard ses answer = and_then (require_login ses) (requireModule answer MSudo)"

definition sudo_new_guard :: "session option \<Rightarrow> server_info option \<Rightarrow> nav" where
  "sudo_new_guard ses answer =
     and_then (require_login ses) (and_then (requireModule answer MSudo)
       (require_permission ses ''users:write'' ''/sudo-roles''))"

definition netgroups_list_guard :: "session option \<Rightarrow> server_info option \<Rightarrow> nav" where
  "netgroups_list_guard ses answer = and_then (require_login ses) (requireModule answer MNetgroups)"

definition netgroup_detail_guard :: "session option \<Rightarrow> server_info option \<Rightarrow> nav" where
  "netgroup_detail_guard ses answer = and_then (require_login ses) (requireModule answer MNetgroups)"

definition netgroup_new_guard :: "session option \<Rightarrow> server_info option \<Rightarrow> nav" where
  "netgroup_new_guard ses answer =
     and_then (require_login ses) (and_then (requireModule answer MNetgroups)
       (require_permission ses ''groups:write'' ''/netgroups''))"

definition netgroups_import_guard :: "session option \<Rightarrow> server_info option \<Rightarrow> nav" where
  "netgroups_import_guard ses answer =
     and_then (require_login ses) (and_then (requireModule answer MNetgroups)
       (require_permission ses ''groups:write'' ''/netgroups''))"

definition policies_list_guard :: "session option \<Rightarrow> server_info option \<Rightarrow> nav" where
  "policies_list_guard ses answer =
     and_then (require_login ses) (and_then (requireModule answer MPolicies)
       (require_permission ses ''settings:read'' ''/''))"

definition policy_detail_guard :: "session option \<Rightarrow> server_info option \<Rightarrow> nav" where
  "policy_detail_guard ses answer =
     and_then (require_login ses) (and_then (requireModule answer MPolicies)
       (require_permission ses ''settings:read'' ''/''))"

definition policy_new_guard :: "session option \<Rightarrow> server_info option \<Rightarrow> nav" where
  "policy_new_guard ses answer =
     and_then (require_login ses) (and_then (requireModule answer MPolicies)
       (require_permission ses ''settings:write'' ''/password-policies''))"

definition audit_guard :: "session option \<Rightarrow> server_info option \<Rightarrow> nav" where
  "audit_guard ses answer = and_then (require_login ses) (require_permission ses ''audit:read'' ''/'')"

definition admin_guard :: "session option \<Rightarrow> server_info option \<Rightarrow> nav" where
  "admin_guard ses answer =
     and_then (require_login ses)
       (if map_option ses_roleName ses \<noteq> Some ''admin'' then Redirect ''/'' else Pass)"

definition useIsAdmin :: "session option \<Rightarrow> bool" where
  "useIsAdmin ses \<longleftrightarrow> map_option ses_roleName ses = Some ''admin''"

definition dashboard_guard :: "session option \<Rightarrow> server_info option \<Rightarrow> nav" where
  "dashboard_guard ses answer = require_login ses"

text \<open>The routes of the application that have a guard, by path (\<open>$dn\<close> a parameter).\<close>

definition route_guards :: "(string \<times> (session option \<Rightarrow> server_info option \<Rightarrow> nav)) list" where
  "route_guards = [
     (''/'', dashboard_guard),
     (''/users'', users_list_guard), (''/users/$dn'', user_detail_guard),
     (''/users/new'', user_new_guard), (''/users/import'', users_import_guard),
     (''/groups'', groups_list_guard), (''/groups/$dn'', group_detail_guard),
     (''/groups/new'', group_new_guard), (''/groups/import'', groups_import_guard),
     (''/sudo-roles'', sudo_list_guard), (''/sudo-roles/$dn'', sudo_detail_guard),
     (''/sudo-roles/new'', sudo_new_guard),
     (''/netgroups'', netgroups_list_guard), (''/netgroups/$dn'', netgroup_detail_guard),
     (''/netgroups/new'', netgroup_new_guard), (''/netgroups/import'', netgroups_import_guard),
     (''/password-policies'', policies_list_guard), (''/password-policies/$dn'', policy_detail_guard),
     (''/password-policies/new'', policy_new_guard),
     (''/audit-logs'', audit_guard), (''/admin'', admin_guard)]"

section \<open>The sections of the navigation\<close>

datatype section_key = SecUsers | SecGroups | SecSudo | SecNetgroups | SecPolicies | SecAudit

record section_action =
  act_to :: string
  act_label :: string

record nav_section =
  sec_key :: section_key
  sec_to :: string
  sec_label :: string
  sec_shortLabel :: "string option"
  sec_create :: "section_action option"
  sec_import :: "section_action option"

definition action_if :: "bool \<Rightarrow> string \<Rightarrow> string \<Rightarrow> section_action option" where
  "action_if allowed target label =
     (if allowed then Some \<lparr>act_to = target, act_label = label\<rparr> else None)"

definition useSections :: "session option \<Rightarrow> server_info option \<Rightarrow> nav_section list" where
  "useSections ses info =
     (let may = hasPermission ses in
      (if moduleAvailable MUsers info \<and> may ''users:read''
       then [\<lparr>sec_key = SecUsers, sec_to = ''/users'', sec_label = ''Users'', sec_shortLabel = None,
              sec_create = action_if (may ''users:write'') ''/users/new'' ''New User'',
              sec_import = action_if (may ''users:write'') ''/users/import'' ''Import Users''\<rparr>] else [])
      @ (if moduleAvailable MGroups info \<and> may ''groups:read''
       then [\<lparr>sec_key = SecGroups, sec_to = ''/groups'', sec_label = ''Groups'', sec_shortLabel = None,
              sec_create = action_if (may ''groups:write'') ''/groups/new'' ''New Group'',
              sec_import = action_if (may ''groups:write'') ''/groups/import'' ''Import Groups''\<rparr>] else [])
      @ (if moduleAvailable MSudo info \<and> may ''users:read''
       then [\<lparr>sec_key = SecSudo, sec_to = ''/sudo-roles'', sec_label = ''Sudo Roles'', sec_shortLabel = None,
              sec_create = action_if (may ''users:write'') ''/sudo-roles/new'' ''New Sudo Role'',
              sec_import = None\<rparr>] else [])
      @ (if moduleAvailable MNetgroups info \<and> may ''groups:read''
       then [\<lparr>sec_key = SecNetgroups, sec_to = ''/netgroups'', sec_label = ''Netgroups'', sec_shortLabel = None,
              sec_create = action_if (may ''groups:write'') ''/netgroups/new'' ''New Netgroup'',
              sec_import = action_if (may ''groups:write'') ''/netgroups/import'' ''Import Netgroups''\<rparr>] else [])
      @ (if moduleAvailable MPolicies info \<and> may ''settings:read''
       then [\<lparr>sec_key = SecPolicies, sec_to = ''/password-policies'', sec_label = ''Password Policies'',
              sec_shortLabel = Some ''Policies'',
              sec_create = action_if (may ''settings:write'') ''/password-policies/new'' ''New Password Policy'',
              sec_import = None\<rparr>] else [])
      @ (if may ''audit:read''
       then [\<lparr>sec_key = SecAudit, sec_to = ''/audit-logs'', sec_label = ''Audit Logs'', sec_shortLabel = None,
              sec_create = None, sec_import = None\<rparr>] else []))"

text \<open>Every link a section shows.\<close>

definition section_links :: "nav_section \<Rightarrow> string list" where
  "section_links s =
     sec_to s # (case sec_create s of None \<Rightarrow> [] | Some a \<Rightarrow> [act_to a])
              @ (case sec_import s of None \<Rightarrow> [] | Some a \<Rightarrow> [act_to a])"

section \<open>Links agree with guards\<close>

lemma hasPermission_signed_in: "hasPermission ses p \<Longrightarrow> require_login ses = Pass"
  by (cases ses) (simp_all add: hasPermission_def require_login_def)

lemma no_sections_signed_out: "useSections None info = []"
  by (simp add: useSections_def hasPermission_def)

lemma module_passes:
  "moduleAvailable m info \<Longrightarrow> answer = info \<or> answer = None \<Longrightarrow> requireModule answer m = Pass"
  by (auto simp: requireModule_def split: option.split)

lemmas guard_defs = users_list_guard_def user_detail_guard_def user_new_guard_def users_import_guard_def
  groups_list_guard_def group_detail_guard_def group_new_guard_def groups_import_guard_def
  sudo_list_guard_def sudo_detail_guard_def sudo_new_guard_def netgroups_list_guard_def
  netgroup_detail_guard_def netgroup_new_guard_def netgroups_import_guard_def policies_list_guard_def
  policy_detail_guard_def policy_new_guard_def audit_guard_def admin_guard_def dashboard_guard_def

lemma guard_lookup [simp]:
  "map_of route_guards ''/users'' = Some users_list_guard"
  "map_of route_guards ''/users/new'' = Some user_new_guard"
  "map_of route_guards ''/users/import'' = Some users_import_guard"
  "map_of route_guards ''/groups'' = Some groups_list_guard"
  "map_of route_guards ''/groups/new'' = Some group_new_guard"
  "map_of route_guards ''/groups/import'' = Some groups_import_guard"
  "map_of route_guards ''/sudo-roles'' = Some sudo_list_guard"
  "map_of route_guards ''/sudo-roles/new'' = Some sudo_new_guard"
  "map_of route_guards ''/netgroups'' = Some netgroups_list_guard"
  "map_of route_guards ''/netgroups/new'' = Some netgroup_new_guard"
  "map_of route_guards ''/netgroups/import'' = Some netgroups_import_guard"
  "map_of route_guards ''/password-policies'' = Some policies_list_guard"
  "map_of route_guards ''/password-policies/new'' = Some policy_new_guard"
  "map_of route_guards ''/audit-logs'' = Some audit_guard"
  "map_of route_guards ''/admin'' = Some admin_guard"
  by (simp_all add: route_guards_def)

lemma section_guard_passes:
  assumes "s \<in> set (useSections ses info)" and "link \<in> set (section_links s)"
    and "answer = info \<or> answer = None"
  shows "\<exists>guard. map_of route_guards link = Some guard \<and> guard ses answer = Pass"
proof -
  have login: "require_login ses = Pass"
    using assms(1) no_sections_signed_out[of info] by (cases ses) (simp_all add: require_login_def)
  have m: "\<And>m. moduleAvailable m info \<Longrightarrow> requireModule answer m = Pass"
    using assms(3) module_passes by blast
  show ?thesis
    using assms(1,2)
    by (auto simp: useSections_def section_links_def action_if_def Let_def guard_defs and_then_Pass
        login m require_permission_def split: if_splits)
qed

text \<open>
  Every link the navigation offers leads somewhere: the guard of its route lets the session
  through, with the server-info answer the section was listed from or with none.
\<close>

theorem section_links_pass:
  assumes "s \<in> set (useSections ses info)" and "link \<in> set (section_links s)"
    and "answer = info \<or> answer = None"
  shows "\<exists>guard. map_of route_guards link = Some guard \<and> guard ses answer = Pass"
  using section_guard_passes[OF assms] .

theorem section_links_pass_witness:
  "\<exists>guard. map_of route_guards ''/users/new'' = Some guard \<and> guard (Some sample_session) None = Pass"
proof -
  have s: "hd (useSections (Some sample_session) None) \<in> set (useSections (Some sample_session) None)"
    by (simp add: useSections_def sample_session_def hasPermission_def moduleAvailable_def
        useEnabledModules_def DEFAULT_MODULES_def)
  have l: "''/users/new'' \<in> set (section_links (hd (useSections (Some sample_session) None)))"
    by (simp add: useSections_def sample_session_def hasPermission_def moduleAvailable_def
        useEnabledModules_def DEFAULT_MODULES_def section_links_def action_if_def)
  show ?thesis using section_links_pass[OF s l] by blast
qed

text \<open>
  Conversely, a page the guard lets a signed-in session into is missing from the navigation only
  for want of the read permission of its list endpoint.
\<close>

lemma guard_pass_listed:
  assumes "users_list_guard ses (Some i) = Pass" and "hasPermission ses ''users:read''"
  shows "SecUsers \<in> sec_key ` set (useSections ses (Some i))"
  using assms by (auto simp: users_list_guard_def and_then_Pass requireModule_def useSections_def
      Let_def split: if_splits)

end
