(* ===== verification/Dn_Codec.thy ===== *)
theory Dn_Codec
  imports Js_Text "HOL-Library.Word"
begin

text \<open>
  The DN in a page's address (\<open>encodeDN\<close> and \<open>decodeDN\<close> of \<open>web/src/lib/utils.ts\<close>): base64 in its
  URL-safe spelling. A JavaScript string is a list of 16-bit code units here, since \<open>btoa\<close>
  throws on every unit above 255; \<open>btoa\<close> and \<open>atob\<close> are the functions of the platform.
\<close>

type_synonym units = "16 word list"

definition units_of :: "string \<Rightarrow> units" where
  "units_of s = map (\<lambda>c. of_nat (code c)) s"

datatype codec_error = InvalidCharacterError

section \<open>Base64\<close>

definition b64_alphabet :: string where
  "b64_alphabet = ''ABCDEFGHIJKLMNOPQRSTUVWXYZabcdefghijklmnopqrstuvwxyz0123456789+/''"

definition b64_char :: "nat \<Rightarrow> char" where
  "b64_char n = b64_alphabet ! n"

fun index_of :: "char \<Rightarrow> string \<Rightarrow> nat option" where
  "index_of c [] = None"
| "index_of c (x # xs) = (if c = x then Some 0 else map_option Suc (index_of c xs))"

definition b64_val :: "char \<Rightarrow> nat option" where
  "b64_val c = index_of c b64_alphabet"

text \<open>Three bytes are four groups of six bits.\<close>

fun sextets :: "nat list \<Rightarrow> nat list" where
  "sextets [] = []"
| "sextets [a] = [a div 4, (a mod 4) * 16]"
| "sextets [a, b] = [a div 4, (a mod 4) * 16 + b div 16, (b mod 16) * 4]"
| "sextets (a # b # c # r) =
     [a div 4, (a mod 4) * 16 + b div 16, (b mod 16) * 4 + c div 64, c mod 64] @ sextets r"

text \<open>Back to bytes; the unused low bits of a short last group are dropped.\<close>

fun bytes_of :: "nat list \<Rightarrow> nat list option" where
  "bytes_of [] = Some []"
| "bytes_of [p] = None"
| "bytes_of [p, q] = Some [p * 4 + q div 16]"
| "bytes_of [p, q, r] = Some [p * 4 + q div 16, (q mod 16) * 16 + r div 4]"
| "bytes_of (p # q # r # s # t) =
     map_option (\<lambda>bs. [p * 4 + q div 16, (q mod 16) * 16 + r div 4, (r mod 4) * 64 + s] @ bs) (bytes_of t)"

definition pad_count :: "nat \<Rightarrow> nat" where
  "pad_count n = (4 - n mod 4) mod 4"

definition btoa :: "units \<Rightarrow> (codec_error, string) result" where
  "btoa us =
     (if list_all (\<lambda>u. unat u < 256) us
      then Inr (let t = map b64_char (sextets (map unat us))
                in t @ replicate (pad_count (length t)) CHR ''='')
      else Inl InvalidCharacterError)"

definition ascii_space :: "char \<Rightarrow> bool" where
  "ascii_space c \<longleftrightarrow> code c \<in> {9, 10, 12, 13, 32}"

text \<open>At most two trailing \<open>=\<close> signs go.\<close>

definition drop_padding :: "string \<Rightarrow> string" where
  "drop_padding s =
     (case rev s of
        [] \<Rightarrow> s
      | c # r \<Rightarrow>
          if c \<noteq> CHR ''='' then s
          else (case r of
                  [] \<Rightarrow> []
                | d # r' \<Rightarrow> if d = CHR ''='' then rev r' else rev r))"

definition atob :: "string \<Rightarrow> (codec_error, units) result" where
  "atob s0 =
     (let s1 = filter (\<lambda>c. \<not> ascii_space c) s0;
          s2 = (if length s1 mod 4 = 0 then drop_padding s1 else s1)
      in if length s2 mod 4 = 1 then Inl InvalidCharacterError
         else (case those (map b64_val s2) of
                 None \<Rightarrow> Inl InvalidCharacterError
               | Some vs \<Rightarrow> (case bytes_of vs of
                   None \<Rightarrow> Inl InvalidCharacterError
                 | Some bs \<Rightarrow> Inr (map of_nat bs))))"

section \<open>The codec of the source\<close>

definition replace_char :: "char \<Rightarrow> char \<Rightarrow> string \<Rightarrow> string" where
  "replace_char a b s = map (\<lambda>c. if c = a then b else c) s"

definition strip_equals :: "string \<Rightarrow> string" where
  "strip_equals s = rev (dropWhile (\<lambda>c. c = CHR ''='') (rev s))"

definition encodeDN :: "units \<Rightarrow> (codec_error, string) result" where
  "encodeDN dn =
     map_sum id (\<lambda>s. strip_equals (replace_char CHR ''/'' CHR ''_'' (replace_char CHR ''+'' CHR ''-'' s))) (btoa dn)"

lemma pad_count_Suc: "n mod 4 \<noteq> 0 \<Longrightarrow> pad_count n = Suc (pad_count (Suc n))"
proof -
  assume "n mod 4 \<noteq> 0"
  then consider "n mod 4 = 1" | "n mod 4 = 2" | "n mod 4 = 3" by linarith
  then show ?thesis by cases (simp_all add: pad_count_def mod_Suc)
qed

text \<open>The \<open>while\<close> loop that pads to a multiple of four.\<close>

function pad_loop :: "string \<Rightarrow> string" where
  "pad_loop s = (if length s mod 4 \<noteq> 0 then pad_loop (s @ ''='') else s)"
  by pat_completeness auto
termination
proof (relation "measure (\<lambda>s. pad_count (length s))")
  fix s :: string
  assume "length s mod 4 \<noteq> 0"
  then show "(s @ ''='', s) \<in> measure (\<lambda>s. pad_count (length s))"
    by (simp add: pad_count_Suc)
qed simp

declare pad_loop.simps [simp del]

definition decodeDN :: "string \<Rightarrow> (codec_error, units) result" where
  "decodeDN encoded =
     atob (pad_loop (replace_char CHR ''_'' CHR ''/'' (replace_char CHR ''-'' CHR ''+'' encoded)))"

section \<open>Lemmas\<close>

lemma pad_loop_eq: "pad_loop s = s @ replicate (pad_count (length s)) CHR ''=''"
proof (induction s rule: pad_loop.induct)
  case (1 s)
  show ?case
  proof (cases "length s mod 4 = 0")
    case False
    with 1 show ?thesis by (simp add: pad_loop.simps[of s] pad_count_Suc)
  qed (simp add: pad_loop.simps pad_count_def)
qed

lemma index_of_nth: "distinct xs \<Longrightarrow> n < length xs \<Longrightarrow> index_of (xs ! n) xs = Some n"
  by (induction xs arbitrary: n) (auto simp: nth_Cons split: nat.splits)

lemma alphabet_facts: "distinct b64_alphabet" "length b64_alphabet = 64"
  by (simp_all add: b64_alphabet_def)

lemma b64_val_char [simp]: "n < 64 \<Longrightarrow> b64_val (b64_char n) = Some n"
  by (simp add: b64_val_def b64_char_def index_of_nth alphabet_facts)

lemma b64_char_set: "n < 64 \<Longrightarrow> b64_char n \<in> set b64_alphabet"
  by (simp add: b64_char_def alphabet_facts)

lemma sextets_bound: "\<forall>b \<in> set bs. b < 256 \<Longrightarrow> \<forall>v \<in> set (sextets bs). v < 64"
  by (induction bs rule: sextets.induct) auto

lemma byte_arith:
  fixes b :: nat
  assumes "b < 256"
  shows "b div 16 div 16 = 0" "b div 64 div 4 = 0"
    "b div 16 mod 16 * 16 + b mod 16 = b" "b div 64 mod 4 * 64 + b mod 64 = b"
proof -
  have s: "b div 16 < 16" "b div 64 < 4" using assms by (simp_all add: less_mult_imp_div_less)
  then show "b div 16 div 16 = 0" "b div 64 div 4 = 0" by simp_all
  from s show "b div 16 mod 16 * 16 + b mod 16 = b" "b div 64 mod 4 * 64 + b mod 64 = b" by simp_all
qed

lemma bytes_of_sextets: "\<forall>b \<in> set bs. b < 256 \<Longrightarrow> bytes_of (sextets bs) = Some bs"
  by (induction bs rule: sextets.induct) (simp_all add: byte_arith)

lemma length_sextets: "length (sextets bs) mod 4 \<noteq> 1"
  by (induction bs rule: sextets.induct) auto

lemma those_b64: "\<forall>v \<in> set vs. v < 64 \<Longrightarrow> those (map b64_val (map b64_char vs)) = Some vs"
  by (induction vs) auto

lemma alphabet_plain: "c \<in> set b64_alphabet \<Longrightarrow> c \<noteq> CHR ''='' \<and> \<not> ascii_space c \<and> c \<noteq> CHR ''-'' \<and> c \<noteq> CHR ''_''"
  by (auto simp: b64_alphabet_def ascii_space_def code_def)

text \<open>The two spellings of the alphabet.\<close>

definition to_url :: "string \<Rightarrow> string" where
  "to_url s = replace_char CHR ''/'' CHR ''_'' (replace_char CHR ''+'' CHR ''-'' s)"

definition from_url :: "string \<Rightarrow> string" where
  "from_url s = replace_char CHR ''_'' CHR ''/'' (replace_char CHR ''-'' CHR ''+'' s)"

lemma from_to_url: "set t \<subseteq> set b64_alphabet \<Longrightarrow> from_url (to_url t) = t"
  by (induction t) (auto simp: from_url_def to_url_def replace_char_def dest: alphabet_plain)

lemma strip_equals_padding:
  "CHR ''='' \<notin> set t \<Longrightarrow> strip_equals (t @ replicate n CHR ''='') = t"
proof -
  assume t: "CHR ''='' \<notin> set t"
  have "dropWhile (\<lambda>c. c = CHR ''='') (replicate n CHR ''='' @ rev t) = dropWhile (\<lambda>c. c = CHR ''='') (rev t)"
    by (rule dropWhile_append2) auto
  also have "dropWhile (\<lambda>c. c = CHR ''='') xs = xs" if "set xs = set t" for xs
    using t that by (cases xs) auto
  then have "dropWhile (\<lambda>c. c = CHR ''='') (rev t) = rev t" by simp
  finally show ?thesis by (simp add: strip_equals_def)
qed

lemma drop_padding_padded:
  assumes "CHR ''='' \<notin> set t" and "n \<le> 2"
  shows "drop_padding (t @ replicate n CHR ''='') = t"
proof -
  from assms(2) have n: "n = 0 \<or> n = 1 \<or> n = 2" by linarith
  show ?thesis
  proof (cases t rule: rev_cases)
    case Nil
    with n show ?thesis
      by (elim disjE) (simp_all add: drop_padding_def numeral_2_eq_2)
  next
    case (snoc u c)
    with assms(1) have "c \<noteq> CHR ''=''" by auto
    with n snoc show ?thesis
      by (elim disjE) (simp_all add: drop_padding_def numeral_2_eq_2)
  qed
qed

lemma pad_count_le_2: "n mod 4 \<noteq> 1 \<Longrightarrow> pad_count n \<le> 2"
proof -
  assume "n mod 4 \<noteq> 1"
  then consider "n mod 4 = 0" | "n mod 4 = 2" | "n mod 4 = 3" by linarith
  then show ?thesis by cases (simp_all add: pad_count_def)
qed

lemma pad_count_total: "(n + pad_count n) mod 4 = 0"
proof -
  consider "n mod 4 = 0" | "n mod 4 = 1" | "n mod 4 = 2" | "n mod 4 = 3" by linarith
  then show ?thesis by cases (simp_all add: pad_count_def mod_add_eq[symmetric] mod_Suc)
qed

text \<open>The text \<open>btoa\<close> makes of a list of bytes, before its padding.\<close>

definition b64_text :: "units \<Rightarrow> string" where
  "b64_text us = map b64_char (sextets (map unat us))"

lemma b64_text_alphabet:
  assumes "list_all (\<lambda>u. unat u < 256) us"
  shows "set (b64_text us) \<subseteq> set b64_alphabet"
proof -
  have "\<forall>v \<in> set (sextets (map unat us)). v < 64"
    using assms by (intro sextets_bound) (auto simp: list_all_iff)
  then show ?thesis by (auto simp: b64_text_def b64_char_set)
qed

lemma encodeDN_text:
  assumes "list_all (\<lambda>u. unat u < 256) us"
  shows "encodeDN us = Inr (to_url (b64_text us))"
proof -
  let ?t = "b64_text us"
  have pad: "to_url (?t @ replicate n CHR ''='') = to_url ?t @ replicate n CHR ''=''" for n
    by (simp add: to_url_def replace_char_def)
  have "CHR ''='' \<notin> set (to_url ?t)"
    using b64_text_alphabet[OF assms] by (auto simp: to_url_def replace_char_def dest: alphabet_plain)
  then have "strip_equals (to_url (?t @ replicate n CHR ''='')) = to_url ?t" for n
    by (simp add: pad strip_equals_padding)
  moreover have "btoa us = Inr (?t @ replicate (pad_count (length ?t)) CHR ''='')"
    using assms by (simp add: btoa_def b64_text_def Let_def)
  ultimately show ?thesis
    by (simp add: encodeDN_def to_url_def)
qed

lemma atob_padded:
  assumes "list_all (\<lambda>u. unat u < 256) us"
  shows "atob (b64_text us @ replicate (pad_count (length (b64_text us))) CHR ''='') = Inr us"
proof -
  let ?t = "b64_text us" and ?vs = "sextets (map unat us)"
  let ?s = "?t @ replicate (pad_count (length ?t)) CHR ''=''"
  have al: "set ?t \<subseteq> set b64_alphabet" by (rule b64_text_alphabet[OF assms])
  have len: "length ?t mod 4 \<noteq> 1"
    using length_sextets[of "map unat us"] by (simp add: b64_text_def)
  have b: "\<forall>b \<in> set (map unat us). b < 256" using assms by (auto simp: list_all_iff)
  have f: "filter (\<lambda>c. \<not> ascii_space c) ?s = ?s"
    using al by (intro filter_True) (auto simp: ascii_space_def code_def dest!: subsetD alphabet_plain)
  have d: "drop_padding ?s = ?t"
    using al len by (intro drop_padding_padded pad_count_le_2) (auto dest!: subsetD alphabet_plain)
  have l: "length ?s mod 4 = 0" by (simp add: pad_count_total)
  have "those (map b64_val ?t) = Some ?vs"
    unfolding b64_text_def by (rule those_b64[OF sextets_bound[OF b]])
  moreover have "bytes_of ?vs = Some (map unat us)" by (rule bytes_of_sextets[OF b])
  ultimately show ?thesis
    using len by (simp only: atob_def Let_def f l if_True d) (simp add: comp_def)
qed

lemma decode_encode:
  assumes "encodeDN us = Inr s"
  shows "decodeDN s = Inr us"
proof -
  have lat: "list_all (\<lambda>u. unat u < 256) us"
    using assms by (auto simp: encodeDN_def btoa_def split: if_splits)
  then have s: "s = to_url (b64_text us)"
    using assms encodeDN_text by simp
  have "from_url s = b64_text us"
    unfolding s by (rule from_to_url[OF b64_text_alphabet[OF lat]])
  then show ?thesis
    using atob_padded[OF lat] by (simp add: decodeDN_def from_url_def pad_loop_eq)
qed

text \<open>Characters that stand for themselves in a path segment.\<close>

definition url_char :: "char \<Rightarrow> bool" where
  "url_char c \<longleftrightarrow>
     (97 \<le> code c \<and> code c \<le> 122) \<or> (65 \<le> code c \<and> code c \<le> 90) \<or> is_digit c
     \<or> c = CHR ''-'' \<or> c = CHR ''_''"

lemma alphabet_to_url: "list_all (\<lambda>c. list_all url_char (to_url [c])) b64_alphabet"
  by code_simp

lemma to_url_chars: "set t \<subseteq> set b64_alphabet \<Longrightarrow> list_all url_char (to_url t)"
proof (induction t)
  case (Cons c t)
  then have "list_all url_char (to_url [c])"
    using alphabet_to_url by (auto simp: list_all_iff)
  with Cons show ?case by (simp add: to_url_def replace_char_def)
qed (simp add: to_url_def replace_char_def)

section \<open>A parameter of a page's address\<close>

text \<open>
  What the routes need of the codec: whatever it encodes can be read back from the address, and
  the encoding is one path segment that no part of the URL machinery rewrites.
\<close>

locale address_param =
  fixes enc :: "'a \<Rightarrow> ('e, string) result"
    and dec :: "string \<Rightarrow> ('e, 'a) result"
  assumes dec_enc: "enc x = Inr s \<Longrightarrow> dec s = Inr x"
    and enc_chars: "enc x = Inr s \<Longrightarrow> list_all url_char s"
begin

lemma enc_inject: "enc x = Inr s \<Longrightarrow> enc y = Inr s \<Longrightarrow> x = y"
  by (metis dec_enc sum.inject(2))

lemma one_segment:
  assumes "enc x = Inr s"
  shows "split_on CHR ''/'' s = [s]"
  using enc_chars[OF assms]
  by (intro split_on_no_sep) (auto simp: list_all_iff url_char_def is_digit_def code_def)

text \<open>The page a link \<open>/section/enc x\<close> opens finds \<open>x\<close> in its address again.\<close>

lemma open_link:
  assumes "enc x = Inr s" and "CHR ''/'' \<notin> set section"
  shows "split_on CHR ''/'' (''/'' @ section @ ''/'' @ s) = [[], section, s] \<and> dec s = Inr x"
  using one_segment[OF assms(1)] dec_enc[OF assms(1)] assms(2)
  by (simp add: split_on_append split_on_no_sep)

end

interpretation dn: address_param encodeDN decodeDN
proof
  fix us s
  assume e: "encodeDN us = Inr s"
  then show "decodeDN s = Inr us" by (rule decode_encode)
  from e have lat: "list_all (\<lambda>u. unat u < 256) us"
    by (auto simp: encodeDN_def btoa_def split: if_splits)
  with e have "s = to_url (b64_text us)" by (simp add: encodeDN_text)
  then show "list_all url_char s"
    using to_url_chars[OF b64_text_alphabet[OF lat]] by simp
qed

text \<open>
  C15: Every DN whose code units are all below 256 is encoded into letters, digits, \<open>-\<close> and \<open>_\<close>
  only, and decoding the result gives the DN back; every other DN makes the encoder throw.
\<close>

theorem dn_roundtrip:
  "if list_all (\<lambda>u. unat u < 256) dn
   then \<exists>s. encodeDN dn = Inr s \<and> list_all url_char s \<and> decodeDN s = Inr dn
   else encodeDN dn = Inl InvalidCharacterError"
  using encodeDN_text[of dn] dn.dec_enc[of dn] dn.enc_chars[of dn]
  by (auto simp: encodeDN_def btoa_def)

end
