(* ===== verification/Uri.thy ===== *)
theory Uri
  imports Dn_Codec Js_Value
begin

text \<open>
  The URI functions of the language the source uses: \<open>encodeURIComponent\<close> on Latin-1 text,
  \<open>decodeURIComponent\<close>, and the serialisation of \<open>URLSearchParams\<close>.
\<close>

section \<open>Escaping\<close>

definition hex_char :: "nat \<Rightarrow> char" where
  "hex_char n = ''0123456789ABCDEF'' ! n"

definition percent :: "nat \<Rightarrow> string" where
  "percent b = [CHR ''%'', hex_char (b div 16), hex_char (b mod 16)]"

definition utf8 :: "char \<Rightarrow> nat list" where
  "utf8 c = (if code c < 128 then [code c] else [192 + code c div 64, 128 + code c mod 64])"

definition alnum :: "char \<Rightarrow> bool" where
  "alnum c \<longleftrightarrow> (97 \<le> code c \<and> code c \<le> 122) \<or> (65 \<le> code c \<and> code c \<le> 90) \<or> is_digit c"

definition uri_plain :: "char \<Rightarrow> bool" where
  "uri_plain c \<longleftrightarrow> alnum c \<or> c \<in> set [CHR ''-'', CHR ''_'', CHR ''.'', CHR ''!'', CHR ''~'', CHR ''*'',
     CHR 0x27, CHR ''('', CHR '')'']"

definition escape_char :: "char \<Rightarrow> string" where
  "escape_char c = (if uri_plain c then [c] else concat (map percent (utf8 c)))"

definition encodeURIComponent :: "string \<Rightarrow> string" where
  "encodeURIComponent s = concat (map escape_char s)"

section \<open>Unescaping\<close>

definition octet :: "string \<Rightarrow> (nat \<times> string) option" where
  "octet s =
     (case s of
        p # h # l # r \<Rightarrow>
          if p = CHR ''%''
          then (case (hex_val h, hex_val l) of
                  (Some a, Some b) \<Rightarrow> Some (a * 16 + b, r)
                | _ \<Rightarrow> None)
          else None
      | _ \<Rightarrow> None)"

text \<open>The continuation octets a lead octet announces, and the code point they make.\<close>

definition continuation_count :: "nat \<Rightarrow> nat option" where
  "continuation_count b =
     (if 192 \<le> b \<and> b < 224 then Some 1
      else if 224 \<le> b \<and> b < 240 then Some 2
      else if 240 \<le> b \<and> b < 248 then Some 3
      else None)"

fun octets :: "nat \<Rightarrow> string \<Rightarrow> (nat list \<times> string) option" where
  "octets 0 s = Some ([], s)"
| "octets (Suc n) s =
     (case octet s of
        None \<Rightarrow> None
      | Some (b, r) \<Rightarrow>
          if 128 \<le> b \<and> b < 192
          then map_option (\<lambda>(bs, r'). (b # bs, r')) (octets n r)
          else None)"

definition code_point :: "nat \<Rightarrow> nat list \<Rightarrow> nat option" where
  "code_point b bs =
     (let n = length bs;
          v = foldl (\<lambda>acc x. acc * 64 + (x - 128)) (if n = 1 then b - 192 else if n = 2 then b - 224 else b - 240) bs
      in if (n = 1 \<and> v < 128) \<or> (n = 2 \<and> v < 2048) \<or> (n = 3 \<and> v < 65536) then None
         else if 55296 \<le> v \<and> v < 57344 then None
         else if v > 1114111 then None
         else Some v)"

definition utf16 :: "nat \<Rightarrow> units" where
  "utf16 v =
     (if v < 65536 then [of_nat v]
      else [of_nat (55296 + (v - 65536) div 1024), of_nat (56320 + (v - 65536) mod 1024)])"

lemma octet_shorter: "octet s = Some (b, r) \<Longrightarrow> length r < length s"
  by (auto simp: octet_def split: list.splits option.splits if_splits)

lemma octets_shorter: "octets n s = Some (bs, r) \<Longrightarrow> length r \<le> length s"
  by (induction n s arbitrary: bs r rule: octets.induct)
    (fastforce dest: octet_shorter split: option.splits if_splits)+

text \<open>\<^const>\<open>None\<close> is the \<open>URIError\<close>.\<close>

function decodeURIComponent :: "string \<Rightarrow> units option" where
  "decodeURIComponent [] = Some []"
| "decodeURIComponent (c # cs) =
     (if c \<noteq> CHR ''%'' then map_option (\<lambda>us. of_nat (code c) # us) (decodeURIComponent cs)
      else
        case octet (c # cs) of
          None \<Rightarrow> None
        | Some (b, r) \<Rightarrow>
            if b < 128 then map_option (\<lambda>us. of_nat b # us) (decodeURIComponent r)
            else
              case continuation_count b of
                None \<Rightarrow> None
              | Some n \<Rightarrow>
                  (case octets n r of
                     None \<Rightarrow> None
                   | Some (bs, r') \<Rightarrow>
                       (case code_point b bs of
                          None \<Rightarrow> None
                        | Some v \<Rightarrow> map_option (\<lambda>us. utf16 v @ us) (decodeURIComponent r'))))"
  by pat_completeness auto
termination
  by (relation "measure length") (auto dest!: octet_shorter octets_shorter)

declare decodeURIComponent.simps(2) [simp del]

lemma hex_val_hex_char: "n < 16 \<Longrightarrow> hex_val (hex_char n) = Some n"
proof -
  have "list_all (\<lambda>n. hex_val (hex_char n) = Some n) [0..<16]" by code_simp
  then show "n < 16 \<Longrightarrow> hex_val (hex_char n) = Some n" by (simp add: list_all_iff)
qed

lemma octet_percent [simp]: "b < 256 \<Longrightarrow> octet (percent b @ r) = Some (b, r)"
  by (simp add: octet_def percent_def hex_val_hex_char less_mult_imp_div_less)

lemma decode_percent:
  assumes "b < 256"
  shows "decodeURIComponent (percent b @ r) =
     (if b < 128 then map_option (\<lambda>us. of_nat b # us) (decodeURIComponent r)
      else
        case continuation_count b of
          None \<Rightarrow> None
        | Some n \<Rightarrow>
            (case octets n r of
               None \<Rightarrow> None
             | Some (bs, r') \<Rightarrow>
                 (case code_point b bs of
                    None \<Rightarrow> None
                  | Some v \<Rightarrow> map_option (\<lambda>us. utf16 v @ us) (decodeURIComponent r'))))"
proof -
  obtain cs where cs: "percent b @ r = CHR ''%'' # cs" by (simp add: percent_def)
  then have "octet (CHR ''%'' # cs) = Some (b, r)"
    using octet_percent[OF assms, of r] by simp
  then show ?thesis
    unfolding cs decodeURIComponent.simps(2) by simp
qed

lemma code_div_64: "code c div 64 < 4"
  by (rule less_mult_imp_div_less) (use code_less_256[of c] in simp)

lemma decode_utf8:
  "decodeURIComponent (concat (map percent (utf8 c)) @ r) =
   map_option (\<lambda>us. of_nat (code c) # us) (decodeURIComponent r)"
proof (cases "code c < 128")
  case True
  then show ?thesis by (simp add: utf8_def decode_percent)
next
  case False
  let ?n = "code c"
  have n: "128 \<le> ?n" "?n < 256" using False by simp_all
  then have b: "194 \<le> 192 + ?n div 64" "192 + ?n div 64 < 196" "128 + ?n mod 64 < 192"
    using code_div_64[of c] div_le_mono[OF n(1), of 64] by simp_all
  have "(?n div 64) * 64 + ?n mod 64 = ?n" by simp
  then have v: "code_point (192 + ?n div 64) [128 + ?n mod 64] = Some ?n"
    using n by (simp add: code_point_def Let_def del: code_less_256)
  have k: "continuation_count (192 + ?n div 64) = Some 1" using b by (simp add: continuation_count_def)
  have o: "octets 1 (percent (128 + ?n mod 64) @ r) = Some ([128 + ?n mod 64], r)"
    using b by simp
  have u: "utf16 ?n = [of_nat ?n]" using n(2) by (simp add: utf16_def del: code_less_256)
  have c1: "(@) [x] = (#) x" for x :: "16 word" by (rule ext) simp
  have e: "concat (map percent (utf8 c)) @ r = percent (192 + ?n div 64) @ (percent (128 + ?n mod 64) @ r)"
    using False by (simp add: utf8_def)
  have "\<not> 192 + ?n div 64 < 128" "192 + ?n div 64 < 256" using b by simp_all
  then show ?thesis
    unfolding e by (simp only: decode_percent if_False k o v option.case prod.case) (simp only: u c1)
qed

lemma decode_escape:
  "decodeURIComponent (escape_char c @ r) = map_option (\<lambda>us. of_nat (code c) # us) (decodeURIComponent r)"
proof (cases "uri_plain c")
  case True
  then have "c \<noteq> CHR ''%''" by (auto simp: uri_plain_def alnum_def is_digit_def code_def)
  with True show ?thesis by (simp add: escape_char_def decodeURIComponent.simps(2))
next
  case False
  then show ?thesis by (simp add: escape_char_def decode_utf8)
qed

lemma decode_encode_uri: "decodeURIComponent (encodeURIComponent s) = Some (units_of s)"
  by (induction s) (simp_all add: encodeURIComponent_def units_of_def decode_escape)

text \<open>No escaped component holds a character that would end it.\<close>

definition component_char :: "char \<Rightarrow> bool" where
  "component_char c \<longleftrightarrow> uri_plain c \<or> c = CHR ''%''"

lemma hex_char_alnum: "n < 16 \<Longrightarrow> alnum (hex_char n)"
proof -
  have "list_all (\<lambda>n. alnum (hex_char n)) [0..<16]" by code_simp
  then show "n < 16 \<Longrightarrow> alnum (hex_char n)" by (simp add: list_all_iff)
qed

lemma percent_chars: "b < 256 \<Longrightarrow> list_all component_char (percent b)"
  by (simp add: percent_def component_char_def uri_plain_def hex_char_alnum less_mult_imp_div_less)

lemma utf8_bytes: "b \<in> set (utf8 c) \<Longrightarrow> b < 256"
  using code_less_256[of c] code_div_64[of c] by (auto simp: utf8_def simp del: code_less_256 split: if_splits)

lemma encode_component_chars: "list_all component_char (encodeURIComponent s)"
proof (induction s)
  case (Cons c s)
  have "list_all component_char (escape_char c)"
    using percent_chars utf8_bytes[of _ c]
    by (auto simp: escape_char_def component_char_def[of c] list_all_iff)
  with Cons show ?case by (simp add: encodeURIComponent_def)
qed (simp add: encodeURIComponent_def)

lemma encode_plain: "list_all uri_plain s \<Longrightarrow> encodeURIComponent s = s"
  by (induction s) (simp_all add: encodeURIComponent_def escape_char_def)

lemma encode_inject: "encodeURIComponent s = encodeURIComponent t \<Longrightarrow> s = t"
proof -
  assume "encodeURIComponent s = encodeURIComponent t"
  then have "units_of s = units_of t"
    using decode_encode_uri[of s] decode_encode_uri[of t] by simp
  moreover have "inj (\<lambda>c. of_nat (code c) :: 16 word)"
  proof (rule injI)
    fix c d
    assume "(of_nat (code c) :: 16 word) = of_nat (code d)"
    then have "unat (of_nat (code c) :: 16 word) = unat (of_nat (code d) :: 16 word)" by simp
    moreover have "code x < 2 ^ 16" for x using code_less_256[of x] by (rule less_trans) simp
    ultimately have "code c = code d" by (simp add: unat_of_nat)
    then show "c = d" by simp
  qed
  ultimately show "s = t" by (simp add: units_of_def inj_map_eq_map)
qed

section \<open>URLSearchParams\<close>

text \<open>The \<open>application/x-www-form-urlencoded\<close> serializer.\<close>

definition form_plain :: "char \<Rightarrow> bool" where
  "form_plain c \<longleftrightarrow> alnum c \<or> c \<in> set [CHR ''*'', CHR ''-'', CHR ''.'', CHR ''_'']"

definition form_char :: "char \<Rightarrow> string" where
  "form_char c =
     (if c = CHR '' '' then ''+'' else if form_plain c then [c] else concat (map percent (utf8 c)))"

definition form_encode :: "string \<Rightarrow> string" where
  "form_encode s = concat (map form_char s)"

definition search_params :: "(string \<times> string) list \<Rightarrow> string" where
  "search_params ps = join_with ''&'' (map (\<lambda>(k, v). form_encode k @ ''='' @ form_encode v) ps)"

text \<open>How a server reads a query: the pairs between the \<open>&\<close> signs, their blanks and escapes undone.\<close>

definition form_decode :: "string \<Rightarrow> units option" where
  "form_decode s = decodeURIComponent (replace_char CHR ''+'' CHR '' '' s)"

definition read_pair :: "string \<Rightarrow> units option \<times> units option" where
  "read_pair p =
     (case cut_at CHR ''='' p of
        None \<Rightarrow> (form_decode p, Some [])
      | Some (k, v) \<Rightarrow> (form_decode k, form_decode v))"

definition read_query :: "string \<Rightarrow> (units option \<times> units option) list" where
  "read_query q = map read_pair (filter (\<lambda>p. p \<noteq> []) (split_on CHR ''&'' q))"

lemma replace_append [simp]: "replace_char a b (s @ t) = replace_char a b s @ replace_char a b t"
  by (simp add: replace_char_def)

lemma replace_plus_utf8: "replace_char CHR ''+'' CHR '' '' (concat (map percent (utf8 c))) = concat (map percent (utf8 c))"
proof -
  have "CHR ''+'' \<notin> set (percent b)" if "b < 256" for b
    using percent_chars[OF that] by (auto simp: list_all_iff component_char_def uri_plain_def alnum_def is_digit_def code_def)
  then have "CHR ''+'' \<notin> set (concat (map percent (utf8 c)))" using utf8_bytes[of _ c] by auto
  then show ?thesis unfolding replace_char_def by (intro map_idI) auto
qed

lemma form_decode_char:
  "decodeURIComponent (replace_char CHR ''+'' CHR '' '' (form_char c) @ r) =
   map_option (\<lambda>us. of_nat (code c) # us) (decodeURIComponent r)"
proof -
  consider "c = CHR '' ''" | "c \<noteq> CHR '' ''" "form_plain c" | "c \<noteq> CHR '' ''" "\<not> form_plain c" by blast
  then show ?thesis
  proof cases
    case 1
    then show ?thesis by (simp add: form_char_def replace_char_def decodeURIComponent.simps(2))
  next
    case 2
    then have "c \<noteq> CHR ''%''" "c \<noteq> CHR ''+''" by (auto simp: form_plain_def alnum_def is_digit_def code_def)
    with 2 show ?thesis by (simp add: form_char_def replace_char_def decodeURIComponent.simps(2))
  next
    case 3
    then have "form_char c = concat (map percent (utf8 c))" by (simp add: form_char_def)
    then show ?thesis by (simp only: replace_plus_utf8 decode_utf8)
  qed
qed

lemma form_decode_encode [simp]: "form_decode (form_encode s) = Some (units_of s)"
  unfolding form_decode_def
proof (induction s)
  case (Cons c s)
  then show ?case by (simp add: form_encode_def form_decode_char units_of_def)
qed (simp add: form_encode_def replace_char_def units_of_def)

lemma form_encode_chars: "c \<in> set (form_encode s) \<Longrightarrow> c \<noteq> CHR ''='' \<and> c \<noteq> CHR ''&''"
proof -
  have "x \<noteq> CHR ''='' \<and> x \<noteq> CHR ''&''" if "x \<in> set (form_char y)" for x y
  proof -
    have "component_char x" if "x \<in> set (concat (map percent (utf8 y)))"
      using that percent_chars utf8_bytes[of _ y] by (auto simp: list_all_iff)
    then have "component_char x \<or> x = CHR ''+''"
      using \<open>x \<in> set (form_char y)\<close>
      by (auto simp: form_char_def component_char_def uri_plain_def form_plain_def split: if_splits)
    then show ?thesis by (auto simp: component_char_def uri_plain_def alnum_def is_digit_def code_def)
  qed
  then show "c \<in> set (form_encode s) \<Longrightarrow> c \<noteq> CHR ''='' \<and> c \<noteq> CHR ''&''" by (auto simp: form_encode_def)
qed

lemma form_encode_free [simp]: "CHR ''='' \<notin> set (form_encode s)" "CHR ''&'' \<notin> set (form_encode s)"
  using form_encode_chars by blast+

lemma read_search_params:
  "read_query (search_params ps) = map (\<lambda>(k, v). (Some (units_of k), Some (units_of v))) ps"
proof (cases "ps = []")
  case False
  let ?w = "\<lambda>(k, v). form_encode k @ ''='' @ form_encode v"
  have "split_on CHR ''&'' (search_params ps) = map ?w ps"
    unfolding search_params_def using False by (intro split_join) (auto dest: form_encode_chars)
  moreover have "filter (\<lambda>p. p \<noteq> []) (map ?w ps) = map ?w ps" by (induction ps) auto
  moreover have "read_pair (?w kv) = (case kv of (k, v) \<Rightarrow> (Some (units_of k), Some (units_of v)))" for kv
    by (cases kv) (simp add: read_pair_def cut_at_append)
  ultimately show ?thesis by (simp add: read_query_def)
qed (simp add: search_params_def read_query_def)

end
