(* ===== verification/Dn_Names.thy ===== *)
theory Dn_Names
  imports Uri
begin

text \<open>
  What the client reads out of a DN: whether two spellings name the same entry (\<open>sameDn\<close>), the
  value of the first component (\<open>rdnValue\<close>, both in \<open>lib/utils.ts\<close>), and the tab title of a page
  (\<open>lib/page-title.ts\<close>).
\<close>

section \<open>Same DN\<close>

text \<open>\<open>part.trim().replace(/\s*=\s*/, '=')\<close>: the first equals sign, with the blanks around it.\<close>

definition normalise_part :: "string \<Rightarrow> string" where
  "normalise_part part =
     (case cut_at (CHR ''='') (trim part) of
        None \<Rightarrow> trim part
      | Some (a, v) \<Rightarrow> strip_right a @ ''='' @ strip_left v)"

definition normalise_dn :: "string \<Rightarrow> string" where
  "normalise_dn dn = to_lower (join_with '','' (map normalise_part (split_on (CHR '','') dn)))"

definition sameDn :: "string option \<Rightarrow> string option \<Rightarrow> bool" where
  "sameDn a b =
     (case (a, b) of
        (Some x, Some y) \<Rightarrow> x \<noteq> '''' \<and> y \<noteq> '''' \<and> normalise_dn x = normalise_dn y
      | _ \<Rightarrow> False)"

text \<open>What two components have in common when they are the same up to case and blanks.\<close>

definition same_part :: "string \<Rightarrow> string \<Rightarrow> bool" where
  "same_part p q =
     (case (cut_at (CHR ''='') p, cut_at (CHR ''='') q) of
        (Some (a, v), Some (b, w)) \<Rightarrow>
          to_lower (trim a) = to_lower (trim b) \<and> to_lower (trim v) = to_lower (trim w)
      | (None, None) \<Rightarrow> to_lower (trim p) = to_lower (trim q)
      | _ \<Rightarrow> False)"

lemma lower_eq_code:
  assumes "code c < 65 \<or> (90 < code c \<and> code c < 97)"
  shows "lower x = c \<longleftrightarrow> x = c"
proof
  assume l: "lower x = c"
  have "\<not> is_upper x"
  proof
    assume u: "is_upper x"
    then have "code (lower x) = code x + 32"
      by (auto simp: lower_def is_upper_def)
    with l u assms show False by (auto simp: is_upper_def)
  qed
  with l show "x = c" by (simp add: lower_def)
next
  assume "x = c"
  with assms show "lower x = c" by (auto simp: lower_def is_upper_def)
qed

lemma to_lower_split: "to_lower x = to_lower y \<longleftrightarrow>
    map to_lower (split_on (CHR '','') x) = map to_lower (split_on (CHR '','') y)"
proof -
  have eq: "split_on (CHR '','') (to_lower s) = map to_lower (split_on (CHR '','') s)" for s
  proof (induction s)
    case (Cons c s)
    have "lower c = CHR '','' \<longleftrightarrow> c = CHR '',''"
      by (rule lower_eq_code) (simp add: code_def)
    with Cons show ?case
      by (cases "split_on (CHR '','') s") (auto simp: to_lower_def)
  qed (simp add: to_lower_def)
  show ?thesis
    by (metis eq join_split)
qed

lemma split_join_parts:
  "ws \<noteq> [] \<Longrightarrow> \<forall>w \<in> set ws. CHR '','' \<notin> set w \<Longrightarrow> split_on (CHR '','') (join_with '','' ws) = ws"
  by (rule split_join)

lemma strip_parts:
  assumes "\<forall>y \<in> set a. is_space y" and "\<not> is_space x"
  shows "strip_left (a @ x # t) = x # t"
  using assms by (simp add: strip_left_def dropWhile_append2)

lemma strip_right_at: "\<not> is_space x \<Longrightarrow> strip_right (a @ x # b) = a @ x # strip_right b"
  by (simp add: strip_right_def dropWhile_append3)

lemma strip_left_at: "\<not> is_space x \<Longrightarrow> strip_left (a @ x # b) = strip_left a @ x # b"
  by (simp add: strip_left_def dropWhile_append3)

lemma strip_comm: "strip_left (strip_right s) = strip_right (strip_left s)"
proof (cases "\<exists>x \<in> set s. \<not> is_space x")
  case True
  then obtain a x b where s: "s = a @ x # b" "\<not> is_space x" "\<forall>y \<in> set a. is_space y"
    using split_list_first_prop[OF True] by blast
  then show ?thesis
    using strip_right_at[of x "[]" b] by (simp add: strip_right_at strip_parts)
next
  case False
  then show ?thesis by (simp add: strip_left_def strip_right_def dropWhile_eq_Nil_conv[THEN iffD2])
qed

lemma equals_not_space: "\<not> is_space (CHR ''='')"
  by (simp add: is_space_def code_def)

lemma normalise_part_eq:
  "normalise_part p =
     (case cut_at (CHR ''='') p of
        None \<Rightarrow> trim p
      | Some (a, v) \<Rightarrow> trim a @ ''='' @ trim v)"
proof (cases "cut_at (CHR ''='') p")
  case None
  then have "cut_at (CHR ''='') (trim p) = None"
    using set_trim[of p] by (auto simp: cut_at_None)
  with None show ?thesis by (simp add: normalise_part_def)
next
  case (Some av)
  obtain a v where av: "av = (a, v)" by (cases av)
  with Some have p: "p = a @ CHR ''='' # v" "CHR ''='' \<notin> set a" by (auto dest: cut_at_SomeD)
  have "trim p = strip_left a @ CHR ''='' # strip_right v"
    unfolding p(1) trim_def by (simp only: strip_left_at strip_right_at equals_not_space not_False_eq_True)
  moreover have "CHR ''='' \<notin> set (strip_left a)"
    using p(2) set_strip_left[of a] by auto
  ultimately have "cut_at (CHR ''='') (trim p) = Some (strip_left a, strip_right v)"
    by (simp add: cut_at_append)
  with Some av show ?thesis
    by (simp add: normalise_part_def trim_def strip_comm)
qed

lemma normalise_part_chars: "set (normalise_part p) \<subseteq> insert (CHR ''='') (set p)"
  using set_trim[of p] set_trim by (auto simp: normalise_part_eq cut_at_Some split: option.split)

lemma to_lower_equals: "CHR ''='' \<in> set (to_lower s) \<longleftrightarrow> CHR ''='' \<in> set s"
proof -
  have "lower c = CHR ''='' \<longleftrightarrow> c = CHR ''=''" for c
    by (rule lower_eq_code) (simp add: code_def)
  then show ?thesis by (simp add: to_lower_def image_iff) metis
qed

lemma same_part_normalised:
  "to_lower (normalise_part p) = to_lower (normalise_part q) \<longleftrightarrow> same_part p q"
proof -
  have low: "to_lower (CHR ''='' # t) = CHR ''='' # to_lower t" for t
    using lower_eq_code[of "CHR ''=''" "CHR ''=''"] by (simp add: to_lower_def code_def)
  have cut: "cut_at (CHR ''='') (to_lower (trim a) @ CHR ''='' # t) = Some (to_lower (trim a), t)"
    if "CHR ''='' \<notin> set a" for a t
    using that set_trim[of a] by (intro cut_at_append) (auto simp: to_lower_equals)
  have none: "CHR ''='' \<notin> set (to_lower (trim s))" if "CHR ''='' \<notin> set s" for s
    using that set_trim[of s] by (auto simp: to_lower_equals)
  show ?thesis
  proof (cases "cut_at (CHR ''='') p"; cases "cut_at (CHR ''='') q")
    fix x y
    assume xy: "cut_at (CHR ''='') p = Some x" "cut_at (CHR ''='') q = Some y"
    obtain a v b w where av: "x = (a, v)" "y = (b, w)" by (cases x; cases y) blast
    with xy have n: "CHR ''='' \<notin> set a" "CHR ''='' \<notin> set b" by (auto dest: cut_at_SomeD)
    have "to_lower (trim a) @ CHR ''='' # to_lower (trim v) = to_lower (trim b) @ CHR ''='' # to_lower (trim w)
        \<longleftrightarrow> to_lower (trim a) = to_lower (trim b) \<and> to_lower (trim v) = to_lower (trim w)"
      using cut[OF n(1), of "to_lower (trim v)"] cut[OF n(2), of "to_lower (trim w)"]
      by (metis option.inject prod.inject)
    then show ?thesis by (simp add: normalise_part_eq same_part_def xy av low)
  next
    assume "cut_at (CHR ''='') p = None" "cut_at (CHR ''='') q = None"
    then show ?thesis by (simp add: normalise_part_eq same_part_def)
  next
    fix y
    assume xy: "cut_at (CHR ''='') p = None" "cut_at (CHR ''='') q = Some y"
    then have "CHR ''='' \<notin> set (to_lower (trim p))" by (simp add: cut_at_None none)
    then have "to_lower (trim p) \<noteq> s @ CHR ''='' # t" for s t by auto
    with xy show ?thesis by (cases y) (simp add: normalise_part_eq same_part_def low)
  next
    fix x
    assume xy: "cut_at (CHR ''='') p = Some x" "cut_at (CHR ''='') q = None"
    then have "CHR ''='' \<notin> set (to_lower (trim q))" by (simp add: cut_at_None none)
    then have "s @ CHR ''='' # t \<noteq> to_lower (trim q)" for s t by (metis in_set_conv_decomp)
    with xy show ?thesis by (cases x) (simp add: normalise_part_eq same_part_def low)
  qed
qed

lemma map_eq_list_all2: "map f xs = map f ys \<longleftrightarrow> list_all2 (\<lambda>x y. f x = f y) xs ys"
proof (induction xs arbitrary: ys)
  case (Cons x xs)
  then show ?case by (cases ys) simp_all
qed simp

text \<open>
  Two DNs are taken for the same entry exactly when neither is missing or empty and they have the
  same number of components, equal one by one in attribute and value up to case and up to blanks
  around the component, the attribute and the value.
\<close>

theorem same_dn_spelling:
  "sameDn a b \<longleftrightarrow>
     (\<exists>x y. a = Some x \<and> b = Some y \<and> x \<noteq> '''' \<and> y \<noteq> '''' \<and>
        list_all2 same_part (split_on (CHR '','') x) (split_on (CHR '','') y))"
proof -
  have parts: "split_on (CHR '','') (join_with '','' (map normalise_part (split_on (CHR '','') x))) =
      map normalise_part (split_on (CHR '','') x)" for x
    using normalise_part_chars split_on_parts[of _ "CHR '',''" x] by (intro split_join) fastforce+
  have "normalise_dn x = normalise_dn y \<longleftrightarrow>
      list_all2 same_part (split_on (CHR '','') x) (split_on (CHR '','') y)" for x y
    unfolding normalise_dn_def to_lower_split parts
    by (simp add: same_part_normalised map_eq_list_all2 list_all2_map1 list_all2_map2)
  then show ?thesis
    by (auto simp: sameDn_def split: option.splits)
qed

section \<open>The first value\<close>

definition rdnValue :: "string \<Rightarrow> string" where
  "rdnValue dn =
     (let first = hd (split_on (CHR '','') dn)
      in case cut_at (CHR ''='') first of
           None \<Rightarrow> dn
         | Some (a, v) \<Rightarrow> trim v)"

section \<open>The title of a page\<close>

definition APP_NAME :: string where
  "APP_NAME = ''LDAP Warden''"

definition SECTIONS :: "(string \<times> string) list" where
  "SECTIONS = [(''users'', ''Users''), (''groups'', ''Groups''), (''sudo-roles'', ''Sudo Roles''),
     (''netgroups'', ''Netgroups''), (''password-policies'', ''Password Policies''),
     (''audit-logs'', ''Audit Logs''), (''admin'', ''Administration''), (''login'', ''Sign in''),
     (''reset-password'', ''Reset password'')]"

definition SUBPAGES :: "(string \<times> string) list" where
  "SUBPAGES = [(''new'', ''New''), (''import'', ''Import'')]"

text \<open>
  An object literal also answers for the names its prototype has; in a template string such a
  value is its text.
\<close>

definition inherited_names :: "string list" where
  "inherited_names = [''constructor'', ''__defineGetter__'', ''__defineSetter__'', ''hasOwnProperty'',
     ''__lookupGetter__'', ''__lookupSetter__'', ''isPrototypeOf'', ''propertyIsEnumerable'',
     ''toString'', ''valueOf'', ''__proto__'', ''toLocaleString'']"

definition inherited_text :: "string \<Rightarrow> string option" where
  "inherited_text k =
     (if k = ''__proto__'' then Some ''[object Object]''
      else if k = ''constructor'' then Some ''function Object() { [native code] }''
      else if k \<in> set inherited_names then Some (''function '' @ k @ ''() { [native code] }'')
      else None)"

definition object_text :: "(string \<times> string) list \<Rightarrow> string \<Rightarrow> string option" where
  "object_text tbl k = (case map_of tbl k of Some v \<Rightarrow> Some v | None \<Rightarrow> inherited_text k)"

text \<open>The longest match of \<open>((?:\\.|[^,\\])+)\<close>, and the \<open>replace\<close> that undoes the escapes.\<close>

definition line_end :: "char \<Rightarrow> bool" where
  "line_end c \<longleftrightarrow> code c = 10 \<or> code c = 13"

abbreviation backslash :: char where
  "backslash \<equiv> CHR 0x5C"

fun take_value :: "string \<Rightarrow> string" where
  "take_value [] = []"
| "take_value [c] = (if c = CHR '','' \<or> c = backslash then [] else [c])"
| "take_value (c # d # r) =
     (if c = backslash then (if line_end d then [] else c # d # take_value r)
      else if c = CHR '','' then []
      else c # take_value (d # r))"

fun unescape :: "string \<Rightarrow> string" where
  "unescape [] = []"
| "unescape [c] = [c]"
| "unescape (c # d # r) =
     (if c = backslash \<and> \<not> line_end d then d # unescape r else c # unescape (d # r))"

definition first_rdn_value :: "string \<Rightarrow> string option" where
  "first_rdn_value dn =
     (let attr = takeWhile (\<lambda>c. c \<noteq> CHR ''='' \<and> c \<noteq> CHR '','') dn
      in case dropWhile (\<lambda>c. c \<noteq> CHR ''='' \<and> c \<noteq> CHR '','') dn of
           [] \<Rightarrow> None
         | c # body \<Rightarrow>
             if attr = [] \<or> c \<noteq> CHR ''='' \<or> take_value body = [] then None
             else Some (unescape (take_value body)))"

text \<open>Text whose code units are all below 256, as Latin-1.\<close>

definition narrow :: "units \<Rightarrow> string option" where
  "narrow us =
     (if list_all (\<lambda>u. unat u < 256) us then Some (map (\<lambda>u. char_of (unat u)) us) else None)"

definition title_rdnValue :: "string \<Rightarrow> string option" where
  "title_rdnValue encoded =
     (case opt_chain (decodeURIComponent encoded) narrow of
        None \<Rightarrow> None
      | Some t \<Rightarrow>
          (case decodeDN t of
             Inl e \<Rightarrow> None
           | Inr dn \<Rightarrow> opt_chain (narrow dn) first_rdn_value))"

definition dot_join :: "string list \<Rightarrow> string" where
  "dot_join ws = join_with [CHR '' '', CHR 0xB7, CHR '' ''] ws"

definition pageTitle :: "string \<Rightarrow> string" where
  "pageTitle pathname =
     (case filter (\<lambda>p. p \<noteq> []) (split_on (CHR ''/'') pathname) of
        [] \<Rightarrow> APP_NAME
      | seg # rest \<Rightarrow>
          (case object_text SECTIONS seg of
             None \<Rightarrow> APP_NAME
           | Some sect \<Rightarrow>
               (case rest of
                  [] \<Rightarrow> dot_join [sect, APP_NAME]
                | sub # _ \<Rightarrow>
                    (let name = (case object_text SUBPAGES sub of
                           Some n \<Rightarrow> Some n
                         | None \<Rightarrow> title_rdnValue sub)
                     in case name of
                          None \<Rightarrow> dot_join [sect, APP_NAME]
                        | Some n \<Rightarrow>
                            if n = [] then dot_join [sect, APP_NAME]
                            else dot_join [n, sect, APP_NAME]))))"

subsection \<open>The title of an entry's page\<close>

text \<open>RFC 4514: a backslash before each special character.\<close>

definition rdn_escape :: "string \<Rightarrow> string" where
  "rdn_escape v = concat (map (\<lambda>c. if c \<in> set [CHR '','', backslash, CHR ''+'', CHR 0x22, CHR ''<'',
       CHR ''>'', CHR '';'', CHR ''='', CHR ''#''] then [backslash, c] else [c]) v)"

lemma take_value_plain:
  "c \<noteq> CHR '','' \<Longrightarrow> c \<noteq> backslash \<Longrightarrow> take_value (c # s) = c # take_value s"
  by (cases s) simp_all

lemma take_value_escape:
  "\<forall>c \<in> set v. \<not> line_end c \<Longrightarrow> rest = [] \<or> hd rest = CHR '','' \<Longrightarrow>
   take_value (rdn_escape v @ rest) = rdn_escape v"
proof (induction v)
  case Nil
  then show ?case by (cases rest rule: take_value.cases) (auto simp: rdn_escape_def)
next
  case (Cons c v)
  have e: "rdn_escape (c # v) = rdn_escape [c] @ rdn_escape v" by (simp add: rdn_escape_def)
  from Cons show ?case
    unfolding e by (auto simp: take_value_plain) (auto simp: rdn_escape_def take_value_plain)
qed

lemma unescape_plain: "c \<noteq> backslash \<Longrightarrow> unescape (c # s) = c # unescape s"
  by (cases s) simp_all

lemma unescape_escape: "\<forall>c \<in> set v. \<not> line_end c \<Longrightarrow> unescape (rdn_escape v) = v"
  by (induction v) (auto simp: rdn_escape_def unescape_plain)

lemma rdn_escape_Nil: "rdn_escape v = [] \<longleftrightarrow> v = []"
  by (cases v) (auto simp: rdn_escape_def)

lemma first_value_of:
  assumes "attr \<noteq> []" "CHR ''='' \<notin> set attr" "CHR '','' \<notin> set attr"
    and "v \<noteq> []" "\<forall>c \<in> set v. \<not> line_end c" "rest = [] \<or> hd rest = CHR '',''"
  shows "first_rdn_value (attr @ ''='' @ rdn_escape v @ rest) = Some v"
proof -
  let ?P = "\<lambda>c. c \<noteq> CHR ''='' \<and> c \<noteq> CHR '',''"
  have all: "\<forall>c \<in> set attr. ?P c" using assms by auto
  then have "takeWhile ?P (attr @ CHR ''='' # t) = attr" "dropWhile ?P (attr @ CHR ''='' # t) = CHR ''='' # t" for t
    by (simp_all add: takeWhile_append2 dropWhile_append2)
  then show ?thesis
    using assms by (simp add: first_rdn_value_def take_value_escape unescape_escape rdn_escape_Nil)
qed

lemma narrow_units [simp]: "narrow (units_of s) = Some s"
proof -
  have "code c < 2 ^ 16" for c using code_less_256[of c] by (rule less_trans) simp
  then have u: "unat (of_nat (code c) :: 16 word) = code c" for c by (simp add: unat_of_nat)
  have "list_all (\<lambda>u. unat u < 256) (units_of s)"
    by (induction s) (simp_all add: units_of_def u)
  moreover have "map (\<lambda>u. char_of (unat u)) (units_of s) = s"
    by (induction s) (simp_all add: units_of_def u)
  ultimately show ?thesis by (simp add: narrow_def)
qed

text \<open>The values of the alphabet, one rule each, so that \<open>simp\<close> decodes literals quickly.\<close>

lemma b64_table: "map b64_val b64_alphabet = map Some (0 # Suc 0 # [2..<64])"
proof -
  have "(0::nat) # Suc 0 # [2..<64] = [0..<64]" by (simp add: upt_conv_Cons numeral_2_eq_2)
  moreover have "map b64_val b64_alphabet = map Some [0..<64]"
    by (rule nth_equalityI) (simp_all add: alphabet_facts b64_val_def index_of_nth)
  ultimately show ?thesis by simp
qed

lemmas b64_vals = b64_table[unfolded b64_alphabet_def, simplified]

lemma b64_pad: "b64_val CHR ''='' = None"
  by (simp add: b64_val_def b64_alphabet_def)

lemma short_replicates: "replicate 2 c = [c, c]" "replicate 3 c = [c, c, c]"
  by (simp_all add: numeral_2_eq_2 numeral_3_eq_3)

lemma names_decode_plain:
  "list_all (\<lambda>k. case decodeDN k of Inl _ \<Rightarrow> True | Inr u \<Rightarrow> of_nat 61 \<notin> set u)
     (map fst SUBPAGES @ inherited_names)"
  by (simp add: SUBPAGES_def inherited_names_def decodeDN_def atob_def pad_loop_eq pad_count_def replace_char_def
      drop_padding_def ascii_space_def b64_vals b64_pad Let_def code_def short_replicates)

lemma not_reserved:
  assumes "decodeDN s = Inr us" "of_nat 61 \<in> set us"
  shows "s \<notin> set (map fst SUBPAGES @ inherited_names)"
proof -
  have "s \<in> set (map fst SUBPAGES @ inherited_names) \<Longrightarrow>
      (case decodeDN s of Inl _ \<Rightarrow> True | Inr u \<Rightarrow> of_nat 61 \<notin> set u)"
    using names_decode_plain unfolding list_all_iff by blast
  with assms show ?thesis by auto
qed

lemma url_char_plain: "url_char c \<Longrightarrow> uri_plain c"
  by (auto simp: url_char_def uri_plain_def alnum_def)

lemma title_of_param:
  assumes "encodeDN (units_of dn) = Inr s"
  shows "title_rdnValue s = first_rdn_value dn"
proof -
  have "list_all uri_plain s"
    using dn.enc_chars[OF assms] url_char_plain by (auto simp: list_all_iff)
  then have "decodeURIComponent s = Some (units_of s)"
    using decode_encode_uri[of s] by (simp add: encode_plain)
  then show ?thesis
    using dn.dec_enc[OF assms] by (simp add: title_rdnValue_def)
qed

lemma sections_segments:
  "map_of SECTIONS seg = Some sect \<Longrightarrow> seg \<noteq> [] \<and> CHR ''/'' \<notin> set seg"
  by (auto simp: SECTIONS_def split: if_splits)

text \<open>
  The tab of an entry's page is titled after the entry: the value of the DN's first component, its
  escapes undone, then the section. This holds for every section of the application and every
  first value without a line break, whatever follows it in the DN.
\<close>

theorem page_title_names_entry:
  assumes "map_of SECTIONS seg = Some sect"
    and "attr \<noteq> []" "CHR ''='' \<notin> set attr" "CHR '','' \<notin> set attr"
    and "v \<noteq> []" "\<forall>c \<in> set v. \<not> line_end c" "rest = [] \<or> hd rest = CHR '',''"
    and "encodeDN (units_of (attr @ ''='' @ rdn_escape v @ rest)) = Inr s"
  shows "pageTitle (''/'' @ seg @ ''/'' @ s) = dot_join [v, sect, APP_NAME]"
proof -
  let ?dn = "attr @ ''='' @ rdn_escape v @ rest"
  have seg: "seg \<noteq> []" "CHR ''/'' \<notin> set seg" using sections_segments[OF assms(1)] by auto
  have "of_nat 61 \<in> set (units_of ?dn)" by (simp add: units_of_def code_def)
  then have names: "s \<notin> set (map fst SUBPAGES @ inherited_names)"
    by (rule not_reserved[OF dn.dec_enc[OF assms(8)]])
  then have sub: "object_text SUBPAGES s = None"
    by (auto simp: object_text_def inherited_text_def inherited_names_def map_of_eq_None_iff split: option.split)
  have "s \<noteq> []"
  proof
    assume "s = []"
    moreover have "decodeDN [] = Inr []" by code_simp
    ultimately have "units_of ?dn = []" using dn.dec_enc[OF assms(8)] by simp
    with \<open>of_nat 61 \<in> set (units_of ?dn)\<close> show False by simp
  qed
  moreover have "split_on (CHR ''/'') (''/'' @ seg @ ''/'' @ s) = [[], seg, s]"
    using dn.open_link[OF assms(8) seg(2)] by simp
  ultimately have parts: "filter (\<lambda>p. p \<noteq> []) (split_on (CHR ''/'') (''/'' @ seg @ ''/'' @ s)) = [seg, s]"
    using seg(1) by simp
  have "title_rdnValue s = Some v"
    using title_of_param[OF assms(8)] first_value_of[OF assms(2-7)] by simp
  then show ?thesis
    unfolding pageTitle_def parts using assms(1,5) sub by (simp add: object_text_def)
qed

lemma page_title_names_entry_witness:
  "pageTitle ''/users/dWlkPWpkb2UsZGM9eA'' = dot_join [''jdoe'', ''Users'', ''LDAP Warden'']"
proof -
  have "encodeDN (units_of (''uid'' @ ''='' @ rdn_escape ''jdoe'' @ '',dc=x'')) = Inr ''dWlkPWpkb2UsZGM9eA''"
    by code_simp
  from page_title_names_entry[of "''users''" "''Users''" "''uid''" "''jdoe''" "'',dc=x''", OF _ _ _ _ _ _ _ this]
  show ?thesis by (simp add: SECTIONS_def line_end_def code_def APP_NAME_def)
qed

end
