(* ===== verification/Js_Date.thy ===== *)
theory Js_Date
  imports Js_Text
begin

text \<open>
  The part of the \<open>Date\<close> object the source uses: \<open>Date.UTC\<close>, the UTC getters and
  \<open>toISOString\<close>, by the day and time functions of the language definition. A date is its time
  value, in milliseconds since the epoch.
\<close>

type_synonym date = int

definition leap :: "int \<Rightarrow> bool" where
  "leap y \<longleftrightarrow> 4 dvd y \<and> (\<not> 100 dvd y \<or> 400 dvd y)"

definition day_from_year :: "int \<Rightarrow> int" where
  "day_from_year y = 365 * (y - 1970) + (y - 1969) div 4 - (y - 1901) div 100 + (y - 1601) div 400"

definition month_starts :: "bool \<Rightarrow> int list" where
  "month_starts l = (if l then [0, 31, 60, 91, 121, 152, 182, 213, 244, 274, 305, 335]
     else [0, 31, 59, 90, 120, 151, 181, 212, 243, 273, 304, 334])"

definition month_length :: "bool \<Rightarrow> nat \<Rightarrow> int" where
  "month_length l m = [31, if l then 29 else 28, 31, 30, 31, 30, 31, 31, 30, 31, 30, 31] ! m"

text \<open>\<open>MakeDay\<close>: the month counts from 0 and may lie outside the year.\<close>

definition make_day :: "int \<Rightarrow> int \<Rightarrow> int \<Rightarrow> int" where
  "make_day y m dt =
     (let ym = y + m div 12
      in day_from_year ym + month_starts (leap ym) ! nat (m mod 12) + dt - 1)"

definition date_utc :: "int \<Rightarrow> int \<Rightarrow> int \<Rightarrow> int \<Rightarrow> int \<Rightarrow> int \<Rightarrow> date" where
  "date_utc y m dt h mi s =
     (let yr = (if 0 \<le> y \<and> y \<le> 99 then 1900 + y else y)
      in make_day yr m dt * 86400000 + h * 3600000 + mi * 60000 + s * 1000)"

definition day_of :: "date \<Rightarrow> int" where
  "day_of t = t div 86400000"

definition utc_hours :: "date \<Rightarrow> int" where
  "utc_hours t = t div 3600000 mod 24"

definition utc_minutes :: "date \<Rightarrow> int" where
  "utc_minutes t = t div 60000 mod 60"

definition utc_seconds :: "date \<Rightarrow> int" where
  "utc_seconds t = t div 1000 mod 60"

lemma div_next:
  fixes x n :: int
  assumes n: "1 < n"
  shows "(x + 1) div n = x div n + (if n dvd x + 1 then 1 else 0)"
proof -
  define r where "r = x mod n"
  have r: "0 \<le> r" "r < n" using n by (simp_all add: r_def)
  have "(x + 1) div n = x div n + (r + 1) div n"
    using n div_add1_eq[of x 1 n] by (simp add: r_def)
  moreover have "n dvd x + 1 \<longleftrightarrow> r + 1 = n"
  proof -
    have "n dvd x + 1 \<longleftrightarrow> n dvd r + 1"
      by (simp add: r_def dvd_eq_mod_eq_0 mod_add_left_eq)
    also have "\<dots> \<longleftrightarrow> r + 1 = n"
      using r n zdvd_imp_le[of n "r + 1"] by auto
    finally show ?thesis .
  qed
  moreover have "(r + 1) div n = (if r + 1 = n then 1 else 0)"
    using r n by (simp add: div_pos_pos_trivial)
  ultimately show ?thesis by simp
qed

lemma leap_dvds:
  fixes y :: int
  shows "4 dvd y - 1968 \<longleftrightarrow> 4 dvd y" "100 dvd y - 1900 \<longleftrightarrow> 100 dvd y" "400 dvd y - 1600 \<longleftrightarrow> 400 dvd y"
  using dvd_add_left_iff[of 4 "-1968" y] dvd_add_left_iff[of 100 "-1900" y]
    dvd_add_left_iff[of 400 "-1600" y] by simp_all

lemma leap_chain:
  fixes y :: int
  shows "400 dvd y \<Longrightarrow> 100 dvd y" "100 dvd y \<Longrightarrow> 4 dvd y"
  using dvd_trans[of 100 400 y] dvd_trans[of 4 100 y] by simp_all

lemma day_from_year_next: "day_from_year (y + 1) = day_from_year y + (if leap y then 366 else 365)"
proof -
  have 4: "(y + 1 - 1969) div 4 = (y - 1969) div 4 + (if 4 dvd y then 1 else 0)"
    using div_next[of 4 "y - 1969"] leap_dvds(1)[of y] by (simp add: diff_add_eq)
  have 100: "(y + 1 - 1901) div 100 = (y - 1901) div 100 + (if 100 dvd y then 1 else 0)"
    using div_next[of 100 "y - 1901"] leap_dvds(2)[of y] by (simp add: diff_add_eq)
  have 400: "(y + 1 - 1601) div 400 = (y - 1601) div 400 + (if 400 dvd y then 1 else 0)"
    using div_next[of 400 "y - 1601"] leap_dvds(3)[of y] by (simp add: diff_add_eq)
  have "365 * (y + 1 - 1970) = 365 * (y - 1970) + 365" by simp
  with 4 100 400 have "day_from_year (y + 1) = day_from_year y + 365
      + (if 4 dvd y then 1 else 0) - (if 100 dvd y then 1 else 0) + (if 400 dvd y then 1 else 0)"
    unfolding day_from_year_def by linarith
  moreover define a b c where "a = (4 dvd y)" and "b = (100 dvd y)" and "c = (400 dvd y)"
  moreover have "c \<longrightarrow> b" "b \<longrightarrow> a"
    using leap_chain[of y] by (simp_all add: a_def b_def c_def)
  ultimately show ?thesis unfolding leap_def
    by (cases a; cases b; cases c) simp_all
qed

lemma day_from_year_less: "y < z \<Longrightarrow> day_from_year y + 365 * (z - y) \<le> day_from_year z"
proof (induction z rule: int_gr_induct)
  case base
  then show ?case by (simp add: day_from_year_next)
next
  case (step i)
  then have "day_from_year i + 365 \<le> day_from_year (i + 1)"
    by (simp add: day_from_year_next)
  with step.IH show ?case unfolding right_diff_distrib distrib_left by linarith
qed

section \<open>The calendar date of a time value\<close>

text \<open>
  The year a day falls in: the last one that starts no later. The search starts at a year that
  is certainly not too late.
\<close>

function year_up :: "int \<Rightarrow> int \<Rightarrow> int" where
  "year_up d y = (if day_from_year (y + 1) \<le> d then year_up d (y + 1) else y)"
  by auto
termination
proof (relation "measure (\<lambda>(d, y). nat (d + 1 - day_from_year y))", goal_cases)
  case (2 d y)
  then show ?case using day_from_year_next[of y] by (simp split: if_splits)
qed simp

declare year_up.simps [simp del]

definition year_from_day :: "int \<Rightarrow> int" where
  "year_from_day d = year_up d (1970 + (if 0 \<le> d then d div 366 else d div 365))"

definition month_from_day :: "bool \<Rightarrow> int \<Rightarrow> nat" where
  "month_from_day l n = length (takeWhile (\<lambda>s. s \<le> n) (month_starts l)) - 1"

definition utc_year :: "date \<Rightarrow> int" where
  "utc_year t = year_from_day (day_of t)"

definition day_in_year :: "date \<Rightarrow> int" where
  "day_in_year t = day_of t - day_from_year (utc_year t)"

definition utc_month :: "date \<Rightarrow> nat" where
  "utc_month t = month_from_day (leap (utc_year t)) (day_in_year t)"

definition utc_date :: "date \<Rightarrow> int" where
  "utc_date t = day_in_year t - month_starts (leap (utc_year t)) ! utc_month t + 1"

text \<open>\<open>toISOString\<close>.\<close>

definition pad :: "nat \<Rightarrow> nat \<Rightarrow> string" where
  "pad w n = replicate (w - length (nat_str n)) (CHR ''0'') @ nat_str n"

definition iso_year :: "int \<Rightarrow> string" where
  "iso_year y =
     (if 0 \<le> y \<and> y \<le> 9999 then pad 4 (nat y)
      else (if y < 0 then ''-'' else ''+'') @ pad 6 (nat \<bar>y\<bar>))"

definition to_iso_string :: "date \<Rightarrow> string" where
  "to_iso_string t =
     iso_year (utc_year t) @ ''-'' @ pad 2 (utc_month t + 1) @ ''-'' @ pad 2 (nat (utc_date t)) @
     ''T'' @ pad 2 (nat (utc_hours t)) @ '':'' @ pad 2 (nat (utc_minutes t)) @ '':'' @
     pad 2 (nat (utc_seconds t)) @ ''.'' @ pad 3 (nat (t mod 1000)) @ ''Z''"

lemma year_up_bounds:
  "day_from_year y \<le> d \<Longrightarrow> day_from_year (year_up d y) \<le> d \<and> d < day_from_year (year_up d y + 1)"
proof (induction d y rule: year_up.induct)
  case (1 d y)
  then show ?case
    by (cases "day_from_year (y + 1) \<le> d") (simp_all add: year_up.simps[of d y])
qed

lemma day_from_year_upper: "day_from_year (1970 + int k) \<le> 366 * int k"
proof (induction k)
  case 0
  show ?case by (simp add: day_from_year_def)
next
  case (Suc k)
  have "1970 + int (Suc k) = 1970 + int k + 1" by simp
  then have "day_from_year (1970 + int (Suc k)) \<le> day_from_year (1970 + int k) + 366"
    using day_from_year_next[of "1970 + int k"] by simp
  with Suc show ?case by simp
qed

lemma year_from_day_start:
  "day_from_year (1970 + (if 0 \<le> d then d div 366 else d div 365)) \<le> d"
proof (cases "0 \<le> d")
  case True
  then have "0 \<le> d div 366" by (simp add: pos_imp_zdiv_nonneg_iff)
  then have "day_from_year (1970 + d div 366) \<le> 366 * (d div 366)"
    using day_from_year_upper[of "nat (d div 366)"] by simp
  also have "\<dots> \<le> d" by simp
  finally show ?thesis using True by simp
next
  case False
  then have neg: "d div 365 < 0" by (simp add: neg_imp_zdiv_neg_iff)
  have "day_from_year 1970 = 0" by (simp add: day_from_year_def)
  moreover have "365 * (d div 365) \<le> d" by simp
  ultimately show ?thesis
    using False neg day_from_year_less[of "1970 + d div 365" 1970] by simp
qed

lemma year_from_day_bounds:
  "day_from_year (year_from_day d) \<le> d" "d < day_from_year (year_from_day d + 1)"
  using year_up_bounds[OF year_from_day_start] by (simp_all add: year_from_day_def)

lemma year_from_day_eqI:
  assumes "day_from_year y \<le> d" "d < day_from_year (y + 1)"
  shows "year_from_day d = y"
proof (rule ccontr)
  assume "year_from_day d \<noteq> y"
  then consider "year_from_day d + 1 = y" | "year_from_day d + 1 < y"
    | "y + 1 = year_from_day d" | "y + 1 < year_from_day d" by linarith
  then show False
    using assms year_from_day_bounds[of d] day_from_year_less[of "year_from_day d + 1" y]
      day_from_year_less[of "y + 1" "year_from_day d"]
    by cases auto
qed

lemma less_12_cases:
  fixes m :: nat
  shows "m < 12 \<Longrightarrow> m = 0 \<or> m = 1 \<or> m = 2 \<or> m = 3 \<or> m = 4 \<or> m = 5 \<or> m = 6 \<or> m = 7 \<or> m = 8
     \<or> m = 9 \<or> m = 10 \<or> m = 11"
  by presburger

lemma month_from_day_eq:
  assumes "m < 12" "1 \<le> dt" "dt \<le> month_length l m"
  shows "month_from_day l (month_starts l ! m + dt - 1) = m"
  using less_12_cases[OF assms(1)] assms(2,3)
  by (cases l; elim disjE) (simp_all add: month_from_day_def month_starts_def month_length_def)

lemma day_in_month_bounds:
  assumes "m < 12" "1 \<le> dt" "dt \<le> month_length l m"
  shows "0 \<le> month_starts l ! m + dt - 1"
    "month_starts l ! m + dt - 1 < (if l then 366 else 365)"
  using less_12_cases[OF assms(1)] assms(2,3)
  by (cases l; elim disjE; simp add: month_starts_def month_length_def)+

section \<open>Date.UTC and the getters\<close>

text \<open>A calendar date and time whose fields are all in range; \<open>m\<close> counts from 0.\<close>

definition civil :: "int \<Rightarrow> nat \<Rightarrow> int \<Rightarrow> int \<Rightarrow> int \<Rightarrow> int \<Rightarrow> bool" where
  "civil y m dt h mi s \<longleftrightarrow> 100 \<le> y \<and> m < 12 \<and> 1 \<le> dt \<and> dt \<le> month_length (leap y) m \<and>
     0 \<le> h \<and> h < 24 \<and> 0 \<le> mi \<and> mi < 60 \<and> 0 \<le> s \<and> s < 60"

lemma block:
  fixes q r k :: int
  assumes "0 \<le> r" "r < k"
  shows "(q * k + r) div k = q" "(q * k + r) mod k = r"
proof -
  have "(q * k + r) div k = q + r div k"
    using assms by (intro div_mult_self3) simp
  then show "(q * k + r) div k = q" using assms by (simp add: div_pos_pos_trivial)
  show "(q * k + r) mod k = r" using assms by (simp add: mod_pos_pos_trivial)
qed

definition year_and_day :: "int \<Rightarrow> nat \<Rightarrow> int \<Rightarrow> int" where
  "year_and_day y m dt = day_from_year y + (month_starts (leap y) ! m + dt - 1)"

lemma date_utc_eq:
  assumes "civil y m dt h mi s"
  shows "date_utc y (int m) dt h mi s =
     year_and_day y m dt * 86400000 + (h * 3600000 + mi * 60000 + s * 1000)"
proof -
  have y: "(if 0 \<le> y \<and> y \<le> 99 then 1900 + y else y) = y" using assms by (auto simp: civil_def)
  have m: "int m div 12 = 0" "nat (int m mod 12) = m" using assms by (simp_all add: civil_def)
  have "make_day y (int m) dt = year_and_day y m dt"
    by (simp add: make_day_def year_and_day_def m)
  then show ?thesis unfolding date_utc_def Let_def y by simp
qed

lemma date_utc_day:
  assumes "civil y m dt h mi s"
  shows "day_of (date_utc y (int m) dt h mi s) = year_and_day y m dt"
  unfolding day_of_def date_utc_eq[OF assms]
  by (rule block(1)) (use assms in \<open>simp_all add: civil_def\<close>)

lemma date_utc_fields:
  assumes "civil y m dt h mi s"
  shows "utc_year (date_utc y (int m) dt h mi s) = y"
    "utc_month (date_utc y (int m) dt h mi s) = m"
    "utc_date (date_utc y (int m) dt h mi s) = dt"
proof -
  let ?n = "month_starts (leap y) ! m + dt - 1"
  have b: "0 \<le> ?n" "?n < (if leap y then 366 else 365)"
    using assms day_in_month_bounds[of m dt "leap y"] by (simp_all add: civil_def)
  then have "year_from_day (year_and_day y m dt) = y"
    by (intro year_from_day_eqI) (simp_all add: day_from_year_next year_and_day_def split: if_splits)
  then show y: "utc_year (date_utc y (int m) dt h mi s) = y"
    by (simp only: utc_year_def date_utc_day[OF assms])
  then have d: "day_in_year (date_utc y (int m) dt h mi s) = ?n"
    by (simp add: day_in_year_def date_utc_day[OF assms] year_and_day_def)
  then show m: "utc_month (date_utc y (int m) dt h mi s) = m"
    using assms y by (simp add: utc_month_def month_from_day_eq civil_def)
  show "utc_date (date_utc y (int m) dt h mi s) = dt"
    using y d m by (simp add: utc_date_def)
qed

lemma date_utc_time:
  assumes "civil y m dt h mi s"
  shows "utc_hours (date_utc y (int m) dt h mi s) = h"
    "utc_minutes (date_utc y (int m) dt h mi s) = mi"
    "utc_seconds (date_utc y (int m) dt h mi s) = s"
proof -
  have r: "0 \<le> h" "h < 24" "0 \<le> mi" "mi < 60" "0 \<le> s" "s < 60"
    using assms by (simp_all add: civil_def)
  let ?t = "date_utc y (int m) dt h mi s"
  define N where "N = year_and_day y m dt"
  have t: "?t = N * 86400000 + (h * 3600000 + mi * 60000 + s * 1000)"
    by (simp only: date_utc_eq[OF assms] N_def)
  have t1: "?t = ((N * 24 + h) * 60 * 60 + mi * 60 + s) * 1000 + 0" unfolding t by simp
  have t2: "?t = ((N * 24 + h) * 60 + mi) * 60000 + s * 1000" unfolding t by simp
  have t3: "?t = (N * 24 + h) * 3600000 + (mi * 60000 + s * 1000)" unfolding t by simp
  have "?t div 3600000 = N * 24 + h" unfolding t3 by (rule block(1)) (use r in simp_all)
  then show "utc_hours ?t = h" unfolding utc_hours_def by (simp only: block(2)[OF r(1,2)])
  have "?t div 60000 = (N * 24 + h) * 60 + mi" unfolding t2 by (rule block(1)) (use r in simp_all)
  then show "utc_minutes ?t = mi" unfolding utc_minutes_def by (simp only: block(2)[OF r(3,4)])
  have "?t div 1000 = (N * 24 + h) * 60 * 60 + mi * 60 + s" unfolding t1 by (rule block(1)) simp_all
  also have "\<dots> = ((N * 24 + h) * 60 + mi) * 60 + s" by simp
  finally show "utc_seconds ?t = s" unfolding utc_seconds_def by (simp only: block(2)[OF r(5,6)])
qed

end
