(* ===== verification/Ldap_Time.thy ===== *)
theory Ldap_Time
  imports Js_Date
begin

text \<open>
  The LDAP generalized times of \<open>web/src/lib/utils.ts\<close>: reading them, comparing them with the
  clock, and the three renderings. The clock and the locale's formatters are arguments; the em
  dash of the tooltip, outside Latin-1, is one too.
\<close>

definition digit_field :: "nat \<Rightarrow> nat \<Rightarrow> string \<Rightarrow> int" where
  "digit_field i n s = int (digits_val (take n (drop i s)))"

text \<open>The regular expression wants fourteen digits and accepts anything after them.\<close>

definition timestamp_shape :: "string \<Rightarrow> bool" where
  "timestamp_shape s \<longleftrightarrow> 14 \<le> length s \<and> list_all is_digit (take 14 s)"

definition parseLdapTimestamp :: "string \<Rightarrow> date option" where
  "parseLdapTimestamp timestamp =
     (if timestamp = '''' then None
      else if \<not> timestamp_shape timestamp then None
      else Some (date_utc (digit_field 0 4 timestamp) (digit_field 4 2 timestamp - 1)
        (digit_field 6 2 timestamp) (digit_field 8 2 timestamp) (digit_field 10 2 timestamp)
        (digit_field 12 2 timestamp)))"

definition isLdapTimestampInFuture :: "date \<Rightarrow> string \<Rightarrow> bool" where
  "isLdapTimestampInFuture now timestamp =
     (case parseLdapTimestamp timestamp of None \<Rightarrow> False | Some d \<Rightarrow> d > now)"

definition text_or_na :: "string \<Rightarrow> string" where
  "text_or_na timestamp = (if timestamp = '''' then ''N/A'' else timestamp)"

definition formatLdapTimestamp :: "(date \<Rightarrow> string) \<Rightarrow> string \<Rightarrow> string" where
  "formatLdapTimestamp toLocaleString timestamp =
     (case parseLdapTimestamp timestamp of
        None \<Rightarrow> text_or_na timestamp
      | Some d \<Rightarrow> toLocaleString d)"

definition ldapTimestampToDateString :: "string \<Rightarrow> string" where
  "ldapTimestampToDateString timestamp =
     (case parseLdapTimestamp timestamp of
        None \<Rightarrow> ''''
      | Some d \<Rightarrow> hd (split_on (CHR ''T'') (to_iso_string d)))"

definition end_of_day :: "date \<Rightarrow> bool" where
  "end_of_day d \<longleftrightarrow> utc_hours d = 23 \<and> utc_minutes d = 59 \<and> utc_seconds d = 59"

definition formatExpiryDate :: "(date \<Rightarrow> string) \<Rightarrow> (date \<Rightarrow> string) \<Rightarrow> string \<Rightarrow> string" where
  "formatExpiryDate longDate shortTime timestamp =
     (case parseLdapTimestamp timestamp of
        None \<Rightarrow> text_or_na timestamp
      | Some d \<Rightarrow>
          if end_of_day d then longDate d else longDate d @ '', '' @ shortTime d @ '' UTC'')"

definition expiryInstantTitle :: "string \<Rightarrow> (date \<Rightarrow> string) \<Rightarrow> string \<Rightarrow> string" where
  "expiryInstantTitle em_dash toLocaleString timestamp =
     (case parseLdapTimestamp timestamp of
        None \<Rightarrow> ''''
      | Some d \<Rightarrow> timestamp @ '' '' @ em_dash @ '' '' @ toLocaleString d @ '' in your local time'')"

section \<open>Reading RFC 3339\<close>

text \<open>
  \<open>new Date(text)\<close>, \<^term>\<open>None\<close> for an invalid date: the date-time format of the language
  definition with a zone, which is what the API sends. The formats an engine accepts beyond it
  are an argument.
\<close>

definition picture :: "string \<Rightarrow> string \<Rightarrow> bool" where
  "picture p s \<longleftrightarrow> length s = length p \<and>
     list_all (\<lambda>(a, c). if a = CHR ''9'' then is_digit c else c = a) (zip p s)"

definition zone_offset :: "string \<Rightarrow> int option" where
  "zone_offset z =
     (if z = ''Z'' then Some 0
      else if picture ''+99:99'' z then Some (digit_field 1 2 z * 60 + digit_field 4 2 z)
      else if picture ''-99:99'' z then Some (- (digit_field 1 2 z * 60 + digit_field 4 2 z))
      else None)"

definition iso_fields_ok :: "string \<Rightarrow> bool" where
  "iso_fields_ok s \<longleftrightarrow> picture ''9999-99-99T99:99:99'' (take 19 s) \<and>
     1 \<le> digit_field 5 2 s \<and> digit_field 5 2 s \<le> 12 \<and> 1 \<le> digit_field 8 2 s \<and>
     digit_field 8 2 s \<le> month_length (leap (digit_field 0 4 s)) (nat (digit_field 5 2 s) - 1) \<and>
     digit_field 11 2 s < 24 \<and> digit_field 14 2 s < 60 \<and> digit_field 17 2 s < 60"

definition iso_parse :: "string \<Rightarrow> date option" where
  "iso_parse s =
     (if \<not> iso_fields_ok s then None
      else
        let frac = picture ''.999'' (take 4 (drop 19 s));
            ms = (if frac then digit_field 20 3 s else 0);
            local_time = make_day (digit_field 0 4 s) (digit_field 5 2 s - 1) (digit_field 8 2 s) * 86400000
              + digit_field 11 2 s * 3600000 + digit_field 14 2 s * 60000 + digit_field 17 2 s * 1000 + ms
        in map_option (\<lambda>z. local_time - z * 60000) (zone_offset (drop (if frac then 23 else 19) s)))"

definition new_date :: "(string \<Rightarrow> date option) \<Rightarrow> string \<Rightarrow> date option" where
  "new_date other_formats s =
     (case iso_parse s of Some t \<Rightarrow> Some t | None \<Rightarrow> other_formats s)"

section \<open>Fixed-width numbers\<close>

lemma length_nat_str: "n < 10 ^ Suc w \<Longrightarrow> length (nat_str n) \<le> Suc w"
proof (induction w arbitrary: n)
  case 0
  then show ?case by (simp add: nat_str.simps[of n])
next
  case (Suc w)
  show ?case
  proof (cases "n < 10")
    case True
    then show ?thesis by (simp add: nat_str.simps[of n])
  next
    case False
    have "n div 10 < 10 ^ Suc w" using Suc.prems by (simp add: less_mult_imp_div_less)
    with Suc.IH[of "n div 10"] False show ?thesis by (simp add: nat_str.simps[of n])
  qed
qed

lemma length_pad: "n < 10 ^ w \<Longrightarrow> 0 < w \<Longrightarrow> length (pad w n) = w"
  using length_nat_str[of n "w - 1"] by (simp add: pad_def)

lemma pad_digits: "list_all is_digit (pad w n)"
  by (auto simp: pad_def list_all_iff is_digit_def[of "CHR ''0''"] code_def dest: nat_str_digits)

lemma digits_val_zeros: "digits_val (replicate k (CHR ''0'') @ ds) = digits_val ds"
proof (induction k)
  case (Suc k)
  have "digit_val (CHR ''0'') = 0" by (simp add: digit_val_def code_def)
  with Suc show ?case by (simp add: digits_val_def)
qed simp

lemma digits_val_pad [simp]: "digits_val (pad w n) = n"
  by (simp add: pad_def digits_val_zeros)

lemma pad_not_T: "CHR ''T'' \<notin> set (pad w n)"
  using pad_digits[of w n] by (auto simp: list_all_iff is_digit_def code_def)

section \<open>Written and read back\<close>

text \<open>The generalized time the directory writes for a date; \<open>m\<close> counts from 0.\<close>

definition stamp :: "int \<Rightarrow> nat \<Rightarrow> int \<Rightarrow> int \<Rightarrow> int \<Rightarrow> int \<Rightarrow> string" where
  "stamp y m dt h mi s = pad 4 (nat y) @ pad 2 (Suc m) @ pad 2 (nat dt) @ pad 2 (nat h) @
     pad 2 (nat mi) @ pad 2 (nat s)"

lemma month_length_le: "m < 12 \<Longrightarrow> month_length l m \<le> 31"
  by (drule less_12_cases, elim disjE) (simp_all add: month_length_def)

lemma parse_stamp:
  assumes c: "civil y m dt h mi s" and y: "y \<le> 9999"
  shows "parseLdapTimestamp (stamp y m dt h mi s @ rest) = Some (date_utc y (int m) dt h mi s)"
proof -
  have b: "nat y < 10 ^ 4" "Suc m < 10 ^ 2" "nat dt < 10 ^ 2" "nat h < 10 ^ 2" "nat mi < 10 ^ 2"
    "nat s < 10 ^ 2"
    using c y month_length_le[of m "leap y"] by (auto simp: civil_def)
  have len: "length (pad 4 (nat y)) = 4" "length (pad 2 (Suc m)) = 2" "length (pad 2 (nat dt)) = 2"
    "length (pad 2 (nat h)) = 2" "length (pad 2 (nat mi)) = 2" "length (pad 2 (nat s)) = 2"
    using b by (simp_all add: length_pad)
  have shape: "timestamp_shape (stamp y m dt h mi s @ rest)"
    by (simp add: timestamp_shape_def stamp_def len pad_digits)
  have ne: "stamp y m dt h mi s @ rest \<noteq> ''''"
    using len(1) by (auto simp: stamp_def)
  have f: "digit_field 0 4 (stamp y m dt h mi s @ rest) = y"
    "digit_field 4 2 (stamp y m dt h mi s @ rest) - 1 = int m"
    "digit_field 6 2 (stamp y m dt h mi s @ rest) = dt"
    "digit_field 8 2 (stamp y m dt h mi s @ rest) = h"
    "digit_field 10 2 (stamp y m dt h mi s @ rest) = mi"
    "digit_field 12 2 (stamp y m dt h mi s @ rest) = s"
    using c by (simp_all add: digit_field_def stamp_def len civil_def)
  show ?thesis
    unfolding parseLdapTimestamp_def f using shape ne by simp
qed

lemma hd_split_on: "c \<notin> set a \<Longrightarrow> hd (split_on c (a @ c # b)) = a"
  by (simp add: split_on_append split_on_no_sep)

lemma iso_date_part:
  assumes c: "civil y m dt h mi s" and y: "y \<le> 9999"
  shows "hd (split_on (CHR ''T'') (to_iso_string (date_utc y (int m) dt h mi s))) =
     pad 4 (nat y) @ ''-'' @ pad 2 (Suc m) @ ''-'' @ pad 2 (nat dt)"
proof -
  let ?d = "pad 4 (nat y) @ ''-'' @ pad 2 (Suc m) @ ''-'' @ pad 2 (nat dt)"
  obtain u where "to_iso_string (date_utc y (int m) dt h mi s) = ?d @ CHR ''T'' # u"
    using c y by (simp add: to_iso_string_def date_utc_fields[OF c] iso_year_def civil_def)
  moreover have "CHR ''T'' \<notin> set ?d" by (simp add: pad_not_T)
  ultimately show ?thesis by (simp only: hd_split_on not_False_eq_True)
qed

text \<open>
  The date field of the account page shows the day a generalized time names: for a stamp with
  fields in range, whatever follows its seconds (a fraction, a zone), the picker's value is that
  year, month and day, and the instant compared with the clock is that of the fields. The expiry
  sentence names the day alone exactly when the instant is the last second of it.
\<close>

theorem timestamp_reads_back:
  assumes "civil y m dt h mi s" "y \<le> 9999"
  shows "ldapTimestampToDateString (stamp y m dt h mi s @ rest) =
       pad 4 (nat y) @ ''-'' @ pad 2 (Suc m) @ ''-'' @ pad 2 (nat dt) \<and>
     isLdapTimestampInFuture now (stamp y m dt h mi s @ rest) =
       (date_utc y (int m) dt h mi s > now) \<and>
     formatExpiryDate longDate shortTime (stamp y m dt h mi s @ rest) =
       (let d = date_utc y (int m) dt h mi s in
        if (h, mi, s) = (23, 59, 59) then longDate d
        else longDate d @ '', '' @ shortTime d @ '' UTC'')"
  using assms date_utc_time[OF assms(1)]
  by (simp add: ldapTimestampToDateString_def isLdapTimestampInFuture_def formatExpiryDate_def
      parse_stamp iso_date_part end_of_day_def Let_def)

lemma timestamp_reads_back_witness:
  "ldapTimestampToDateString (stamp 2024 1 29 23 59 59 @ ''Z'') = ''2024-02-29''"
proof -
  have "civil 2024 1 29 23 59 59" by (simp add: civil_def leap_def month_length_def)
  then have "ldapTimestampToDateString (stamp 2024 1 29 23 59 59 @ ''Z'') =
      pad 4 (nat 2024) @ ''-'' @ pad 2 (Suc 1) @ ''-'' @ pad 2 (nat 29)"
    using timestamp_reads_back[of 2024 1 29 23 59 59 "''Z''"] by simp
  also have "\<dots> = ''2024-02-29''" by code_simp
  finally show ?thesis .
qed

lemma parse_None_iff: "parseLdapTimestamp t = None \<longleftrightarrow> \<not> timestamp_shape t"
  by (auto simp: parseLdapTimestamp_def timestamp_shape_def)

lemma not_future_unparsed: "\<not> timestamp_shape t \<Longrightarrow> \<not> isLdapTimestampInFuture now t"
  by (simp add: isLdapTimestampInFuture_def parse_None_iff[THEN iffD2])

end
