(* ===== verification/Account.thy ===== *)
theory Account
  imports Ldap_Time Api_Types
begin

text \<open>
  The account status the user pages show (\<open>web/src/lib/account.ts\<close>): whether a lock refuses the
  account's binds now, when it lifts, when it was posted, and when the account expires.
\<close>

record account_status =
  ac_accountLocked :: "bool option"
  ac_pwdAccountLockedTime :: "string option"
  ac_pwdEndTime :: "string option"
  ac_lockout :: "lockout option"

text \<open>An absent field and an empty one read alike in a condition.\<close>

definition text_of :: "string option \<Rightarrow> string option" where
  "text_of v = (case v of Some s \<Rightarrow> if s = '''' then None else Some s | None \<Rightarrow> None)"

definition accountExpiration :: "account_status \<Rightarrow> date option" where
  "accountExpiration user =
     (case text_of (ac_pwdEndTime user) of
        None \<Rightarrow> None
      | Some t \<Rightarrow> parseLdapTimestamp t)"

definition isLocked :: "account_status \<Rightarrow> bool" where
  "isLocked user =
     (case ac_lockout user of
        Some l \<Rightarrow> lk_state l \<noteq> LNone \<and> lk_state l \<noteq> LLifted
      | None \<Rightarrow> coalesce (ac_accountLocked user) False)"

definition hasLapsedLock :: "account_status \<Rightarrow> bool" where
  "hasLapsedLock user = (map_option lk_state (ac_lockout user) = Some LLifted)"

definition lockoutLiftsAt :: "(string \<Rightarrow> date option) \<Rightarrow> account_status \<Rightarrow> date option" where
  "lockoutLiftsAt other_formats user =
     (case text_of (opt_chain (ac_lockout user) lk_liftsAt) of
        None \<Rightarrow> None
      | Some liftsAt \<Rightarrow> new_date other_formats liftsAt)"

definition PERMANENT_LOCK_VALUE :: string where
  "PERMANENT_LOCK_VALUE = ''000001010000Z''"

definition lockedAt :: "account_status \<Rightarrow> date option" where
  "lockedAt user =
     (let raw = (case opt_chain (ac_lockout user) lk_lockedAt of
            Some t \<Rightarrow> Some t
          | None \<Rightarrow> ac_pwdAccountLockedTime user)
      in case text_of raw of
           None \<Rightarrow> None
         | Some t \<Rightarrow> if t = PERMANENT_LOCK_VALUE then None else parseLdapTimestamp t)"

section \<open>Correctness\<close>

text \<open>
  A lock the directory stopped honouring is not shown as locked, whatever the raw attribute says; the attribute
  decides only when the backend resolved nothing.
\<close>

lemma lapsed_not_locked: "hasLapsedLock user \<Longrightarrow> \<not> isLocked user"
  by (auto simp: hasLapsedLock_def isLocked_def split: option.splits)

lemma permanent_not_timestamp: "\<not> timestamp_shape (PERMANENT_LOCK_VALUE @ x)" if "length x \<le> 1"
  using that by (auto simp: timestamp_shape_def PERMANENT_LOCK_VALUE_def is_digit_def code_def)

text \<open>No instant is shown for the permanent sentinel.\<close>

lemma lockedAt_stored:
  "lockedAt user = Some t \<Longrightarrow>
   \<exists>raw. raw \<noteq> PERMANENT_LOCK_VALUE \<and> parseLdapTimestamp raw = Some t \<and>
     (opt_chain (ac_lockout user) lk_lockedAt = Some raw \<or> ac_pwdAccountLockedTime user = Some raw)"
  by (auto simp: lockedAt_def text_of_def Let_def split: option.splits if_splits)

end
