(* ===== verification/Bulk.thy ===== *)
theory Bulk
  imports Api_Types "HOL-Library.Multiset"
begin

text \<open>
  Bulk actions (\<open>lib/bulk.ts\<close>): \<open>runBulk\<close> as a step relation, in which the worker promises settle
  in any order, and the summaries built from its result. The callers' \<open>run\<close>
  (\<open>components/bulk-delete-actions.tsx\<close>, \<open>components/users-bulk-actions.tsx\<close>) is at the end.
\<close>

section \<open>The pool\<close>

text \<open>What a worker's promise settles to: an error message, or the endpoint's answer.\<close>

type_synonym answer = "(string, json option) result"

record bulk =
  bk_index :: nat
  bk_succeeded :: nat
  bk_settled :: nat
  bk_failed :: "(nat \<times> string) list" \<comment> \<open>position of the item, and the message\<close>
  bk_spawned :: nat \<comment> \<open>calls of \<open>next()\<close> that \<open>Array.from\<close> has made\<close>
  bk_running :: "nat list" \<comment> \<open>positions whose worker call is in flight\<close>
  bk_progress :: "(nat \<times> nat) list" \<comment> \<open>the calls of \<open>onProgress\<close>\<close>
  bk_log :: "(nat \<times> answer) list" \<comment> \<open>the settlements in order, for stating results\<close>

definition bulk_start :: bulk where
  "bulk_start = \<lparr>bk_index = 0, bk_succeeded = 0, bk_settled = 0, bk_failed = [], bk_spawned = 0,
     bk_running = [], bk_progress = [], bk_log = []\<rparr>"

text \<open>\<open>next()\<close> up to its \<open>await\<close>; a call past the end only consumes an index and ends.\<close>

definition next_call :: "nat \<Rightarrow> bulk \<Rightarrow> bulk" where
  "next_call n s =
     (let i = bk_index s; s' = s\<lparr>bk_index := i + 1\<rparr>
      in if i \<ge> n then s' else s'\<lparr>bk_running := bk_running s' @ [i]\<rparr>)"

text \<open>The rest of \<open>next()\<close>, when the worker of item \<open>i\<close> has settled, up to the recursive call.\<close>

definition settle_item :: "nat \<Rightarrow> nat \<Rightarrow> answer \<Rightarrow> bulk \<Rightarrow> bulk" where
  "settle_item n i r s =
     (let s1 = s\<lparr>bk_running := remove1 i (bk_running s), bk_log := bk_log s @ [(i, r)]\<rparr>;
          s2 = (case r of
                  Inr v \<Rightarrow> s1\<lparr>bk_succeeded := bk_succeeded s1 + 1\<rparr>
                | Inl e \<Rightarrow> s1\<lparr>bk_failed := bk_failed s1 @ [(i, e)]\<rparr>);
          s3 = s2\<lparr>bk_settled := bk_settled s2 + 1\<rparr>
      in s3\<lparr>bk_progress := bk_progress s3 @ [(bk_settled s3, n)]\<rparr>)"

text \<open>
  \<open>n\<close> items, \<open>c\<close> the concurrency. A worker that throws before its first \<open>await\<close> settles while
  later \<open>next()\<close> calls have not been made, so the two kinds of step interleave freely.
\<close>

inductive bulk_step :: "nat \<Rightarrow> nat \<Rightarrow> bulk \<Rightarrow> bulk \<Rightarrow> bool" for n c where
  spawn: "bk_spawned s < min c n \<Longrightarrow>
    bulk_step n c s (next_call n (s\<lparr>bk_spawned := bk_spawned s + 1\<rparr>))"
| settle: "i \<in> set (bk_running s) \<Longrightarrow> bulk_step n c s (next_call n (settle_item n i r s))"

inductive bulk_reach :: "nat \<Rightarrow> nat \<Rightarrow> bulk \<Rightarrow> bool" for n c where
  start: "bulk_reach n c bulk_start"
| step: "bulk_reach n c s \<Longrightarrow> bulk_step n c s s' \<Longrightarrow> bulk_reach n c s'"

inductive_simps bulk_step_iff: "bulk_step n c s s'"

text \<open>\<open>Promise.all(workers)\<close> resolves.\<close>

definition bulk_final :: "nat \<Rightarrow> nat \<Rightarrow> bulk \<Rightarrow> bool" where
  "bulk_final n c s \<longleftrightarrow> bk_spawned s = min c n \<and> bk_running s = []"

section \<open>Invariant\<close>

definition bulk_failures :: "(nat \<times> answer) list \<Rightarrow> (nat \<times> string) list" where
  "bulk_failures lg = concat (map (\<lambda>(i, r). case r of Inl e \<Rightarrow> [(i, e)] | Inr v \<Rightarrow> []) lg)"

definition bulk_answers :: "(nat \<times> answer) list \<Rightarrow> (nat \<times> json option) list" where
  "bulk_answers lg = concat (map (\<lambda>(i, r). case r of Inl e \<Rightarrow> [] | Inr v \<Rightarrow> [(i, v)]) lg)"

definition bulk_inv :: "nat \<Rightarrow> nat \<Rightarrow> bulk \<Rightarrow> bool" where
  "bulk_inv n c s \<longleftrightarrow>
     mset (map fst (bk_log s)) + mset (bk_running s) = mset [0..<min (bk_index s) n] \<and>
     bk_settled s = length (bk_log s) \<and>
     bk_succeeded s = length (bulk_answers (bk_log s)) \<and>
     bk_failed s = bulk_failures (bk_log s) \<and>
     bk_progress s = map (\<lambda>k. (k, n)) [1..<bk_settled s + 1] \<and>
     bk_spawned s \<le> min c n \<and>
     length (bk_running s) \<le> bk_spawned s \<and>
     (length (bk_running s) < bk_spawned s \<longrightarrow> n \<le> bk_index s)"

lemma bulk_inv_start: "bulk_inv n c bulk_start"
  by (simp add: bulk_inv_def bulk_start_def bulk_answers_def bulk_failures_def)

lemma mset_upt_min: "mset [0..<min (Suc i) n] = mset [0..<min i n] + (if i < n then {#i#} else {#})"
  by (cases "i < n") (simp_all add: min_def)

lemma next_call_inv:
  assumes "mset (map fst (bk_log s)) + mset (bk_running s) = mset [0..<min (bk_index s) n]"
    and "bk_settled s = length (bk_log s)"
    and "bk_succeeded s = length (bulk_answers (bk_log s))"
    and "bk_failed s = bulk_failures (bk_log s)"
    and "bk_progress s = map (\<lambda>k. (k, n)) [1..<bk_settled s + 1]"
    and "bk_spawned s \<le> min c n"
    and "length (bk_running s) < bk_spawned s"
    and "Suc (length (bk_running s)) < bk_spawned s \<longrightarrow> n \<le> bk_index s"
  shows "bulk_inv n c (next_call n s)"
  using assms mset_upt_min[of "bk_index s" n]
  by (auto simp: bulk_inv_def next_call_def Let_def)

lemma spawn_inv:
  assumes "bulk_inv n c s" and "bk_spawned s < min c n"
  shows "bulk_inv n c (next_call n (s\<lparr>bk_spawned := bk_spawned s + 1\<rparr>))"
  using assms by (intro next_call_inv) (auto simp: bulk_inv_def)

lemma bulk_log_append [simp]:
  "bulk_answers (lg @ [(i, Inr v)]) = bulk_answers lg @ [(i, v)]"
  "bulk_answers (lg @ [(i, Inl e)]) = bulk_answers lg"
  "bulk_failures (lg @ [(i, Inl e)]) = bulk_failures lg @ [(i, e)]"
  "bulk_failures (lg @ [(i, Inr v)]) = bulk_failures lg"
  by (simp_all add: bulk_answers_def bulk_failures_def)

lemma settle_inv:
  assumes inv: "bulk_inv n c s" and i: "i \<in> set (bk_running s)"
  shows "bulk_inv n c (next_call n (settle_item n i r s))"
proof -
  let ?t = "settle_item n i r s"
  have run: "bk_running ?t = remove1 i (bk_running s)" "bk_log ?t = bk_log s @ [(i, r)]"
    "bk_index ?t = bk_index s" "bk_spawned ?t = bk_spawned s" "bk_settled ?t = Suc (bk_settled s)"
    "bk_progress ?t = bk_progress s @ [(Suc (bk_settled s), n)]"
    by (cases r; simp add: settle_item_def Let_def)+
  have counts: "bk_succeeded ?t = bk_succeeded s + (case r of Inr v \<Rightarrow> 1 | Inl e \<Rightarrow> 0)"
    "bk_failed ?t = bk_failed s @ (case r of Inr v \<Rightarrow> [] | Inl e \<Rightarrow> [(i, e)])"
    by (cases r; simp add: settle_item_def Let_def)+
  have len: "length (bk_running s) = Suc (length (remove1 i (bk_running s)))"
    using i length_pos_if_in_set[OF i] by (simp add: length_remove1)
  have le: "length (bk_running s) \<le> bk_spawned s" and idx: "length (bk_running s) < bk_spawned s \<longrightarrow> n \<le> bk_index s"
    using inv by (simp_all add: bulk_inv_def)
  show ?thesis
  proof (rule next_call_inv)
    show "mset (map fst (bk_log ?t)) + mset (bk_running ?t) = mset [0..<min (bk_index ?t) n]"
    proof -
      have "mset (bk_running s) = add_mset i (mset (remove1 i (bk_running s)))"
        using i by simp
      then have "mset (map fst (bk_log ?t)) + mset (bk_running ?t) = mset (map fst (bk_log s)) + mset (bk_running s)"
        by (simp only: run) (simp del: mset_remove1)
      then show ?thesis using inv by (simp only: run bulk_inv_def)
    qed
    show "bk_settled ?t = length (bk_log ?t)" using inv by (simp add: run bulk_inv_def)
    show "bk_succeeded ?t = length (bulk_answers (bk_log ?t))"
      unfolding run counts using inv by (cases r) (simp_all add: bulk_inv_def)
    show "bk_failed ?t = bulk_failures (bk_log ?t)"
      unfolding run counts using inv by (cases r) (simp_all add: bulk_inv_def)
    show "bk_progress ?t = map (\<lambda>k. (k, n)) [1..<bk_settled ?t + 1]"
      using inv by (simp add: run bulk_inv_def)
    show "bk_spawned ?t \<le> min c n" using inv by (simp add: run bulk_inv_def)
    show "length (bk_running ?t) < bk_spawned ?t" using le len unfolding run by linarith
    show "Suc (length (bk_running ?t)) < bk_spawned ?t \<longrightarrow> n \<le> bk_index ?t"
      using idx len unfolding run by linarith
  qed
qed

lemma bulk_reach_inv: "bulk_reach n c s \<Longrightarrow> bulk_inv n c s"
proof (induction rule: bulk_reach.induct)
  case (step s s')
  from step.hyps(2) step.IH show ?case
    by cases (simp_all only: spawn_inv settle_inv)
qed (rule bulk_inv_start)

lemma no_concurrency: "bulk_reach n 0 s \<Longrightarrow> s = bulk_start"
  by (induction rule: bulk_reach.induct) (auto simp: bulk_step_iff bulk_start_def)

lemma mset_fst_log: "bulk_inv n c s \<Longrightarrow> length (bk_log s) \<le> n"
  by (drule bulk_inv_def[THEN iffD1], drule conjunct1, drule arg_cong[where f = size]) simp

lemma log_partition: "length (bulk_answers lg) + length (bulk_failures lg) = length lg"
  by (induction lg) (auto simp: bulk_answers_def bulk_failures_def split: sum.split)

section \<open>Each item once, within the bound, to the end\<close>

lemma bulk_final_indices:
  assumes "bulk_inv n c s" and "bulk_final n c s" and "c \<noteq> 0"
  shows "mset (map fst (bk_log s)) = mset [0..<n]"
proof -
  have "bk_running s = []" "bk_spawned s = min c n" using assms(2) by (simp_all add: bulk_final_def)
  moreover from this have "n \<le> bk_index s" using assms by (cases "n = 0") (auto simp: bulk_inv_def)
  ultimately show ?thesis using assms(1) by (simp add: bulk_inv_def min_def)
qed

lemma bulk_final_log:
  assumes "bulk_reach n c s" and "bulk_final n c s" and "c \<noteq> 0"
  shows "mset (map fst (bk_log s)) = mset [0..<n]" and "length (bk_log s) = n"
    and "bk_succeeded s + length (bk_failed s) = n"
proof -
  have inv: "bulk_inv n c s" using assms(1) by (rule bulk_reach_inv)
  show m: "mset (map fst (bk_log s)) = mset [0..<n]" using bulk_final_indices[OF inv assms(2,3)] .
  then show len: "length (bk_log s) = n" by (metis length_map length_upt minus_nat.diff_0 size_mset)
  show "bk_succeeded s + length (bk_failed s) = n"
    using inv len log_partition[of "bk_log s"] by (simp add: bulk_inv_def)
qed

text \<open>
  C9: At every moment of a bulk run no more worker calls are in flight than the concurrency allows or
  there are items, no item is handed out twice, and the progress reports count up one by one.
\<close>

theorem bulk_bounded:
  assumes "bulk_reach n c s"
  shows "length (bk_running s) \<le> min c n \<and> distinct (map fst (bk_log s) @ bk_running s) \<and>
    set (map fst (bk_log s) @ bk_running s) \<subseteq> {..<n} \<and>
    bk_progress s = map (\<lambda>k. (k, n)) [1..<length (bk_log s) + 1]"
proof -
  have inv: "bulk_inv n c s" using assms by (rule bulk_reach_inv)
  then have m: "mset (map fst (bk_log s) @ bk_running s) = mset [0..<min (bk_index s) n]"
    by (simp add: bulk_inv_def)
  then have "distinct (map fst (bk_log s) @ bk_running s)" by (metis mset_eq_imp_distinct_iff distinct_upt)
  moreover have "set (map fst (bk_log s) @ bk_running s) = set [0..<min (bk_index s) n]"
    using m by (rule mset_eq_setD)
  ultimately show ?thesis using inv by (auto simp: bulk_inv_def)
qed

text \<open>
  C6: When the run is over and the concurrency is not 0, every item has been handed to the worker
  exactly once, the success and failure counts add up to the batch, each failure is listed with the
  message of its own item, and the last progress report says that all are done. With concurrency
  0 nothing is done.
\<close>

theorem bulk_complete:
  assumes "bulk_reach n c s" and "bulk_final n c s"
  shows "if c = 0 then bk_log s = [] \<and> bk_succeeded s = 0 \<and> bk_failed s = []
     else mset (map fst (bk_log s)) = mset [0..<n] \<and>
       bk_succeeded s + length (bk_failed s) = n \<and>
       (\<forall>i e. (i, e) \<in> set (bk_failed s) \<longleftrightarrow> (i, Inl e) \<in> set (bk_log s)) \<and>
       (n \<noteq> 0 \<longrightarrow> last (bk_progress s) = (n, n))"
proof -
  have inv: "bulk_inv n c s" using assms(1) by (rule bulk_reach_inv)
  show ?thesis
  proof (cases "c = 0")
    case True
    then have "bk_log s = []" using no_concurrency[of n s] assms(1) by (simp add: bulk_start_def)
    with True inv show ?thesis by (simp add: bulk_inv_def bulk_answers_def bulk_failures_def)
  next
    case False
    note m = bulk_final_log(1)[OF assms False] and len = bulk_final_log(2)[OF assms False]
    have "(i, e) \<in> set (bulk_failures lg) \<longleftrightarrow> (i, Inl e) \<in> set lg" for i e lg
      by (force simp: bulk_failures_def split: sum.splits)
    moreover have "n \<noteq> 0 \<longrightarrow> last (bk_progress s) = (n, n)"
      using inv len by (simp add: bulk_inv_def last_map)
    ultimately show ?thesis
      using False inv m bulk_final_log(3)[OF assms False] by (simp add: bulk_inv_def)
  qed
qed

text \<open>Every step spawns one \<open>next()\<close> or settles one item, and both are bounded.\<close>

definition bulk_work :: "bulk \<Rightarrow> nat" where
  "bulk_work s = bk_spawned s + length (bk_log s)"

lemma bulk_work_next [simp]: "bulk_work (next_call n s) = bulk_work s"
  by (simp add: bulk_work_def next_call_def Let_def)

lemma bulk_step_work: "bulk_step n c s s' \<Longrightarrow> bulk_work s' = Suc (bulk_work s)"
proof -
  assume st: "bulk_step n c s s'"
  have w: "bulk_work (settle_item n i r s) = Suc (bulk_work s)" for i r
    by (cases r) (simp_all add: bulk_work_def settle_item_def Let_def)
  from st show ?thesis
    by cases (simp_all add: w, simp add: bulk_work_def)
qed

lemma bulk_reach_steps: "(bulk_step n c ^^ k) bulk_start s \<Longrightarrow> bulk_reach n c s \<and> bulk_work s = k"
proof (induction k arbitrary: s)
  case 0
  then have s: "s = bulk_start" by simp
  show ?case unfolding s
    by (rule conjI[OF bulk_reach.start]) (simp add: bulk_work_def bulk_start_def)
next
  case (Suc k)
  then show ?case using bulk_step_work by (auto intro: bulk_reach.step)
qed

lemma bulk_work_le: "bulk_inv n c s \<Longrightarrow> bulk_work s \<le> n + min c n"
proof -
  assume inv: "bulk_inv n c s"
  then have "bk_spawned s \<le> min c n" by (simp add: bulk_inv_def)
  with mset_fst_log[OF inv] show ?thesis unfolding bulk_work_def by linarith
qed

lemma bulk_stuck: "bulk_inv n c s \<Longrightarrow> bulk_final n c s \<longleftrightarrow> \<not> (\<exists>t. bulk_step n c s t)"
proof
  assume "bulk_final n c s"
  then show "\<not> (\<exists>t. bulk_step n c s t)" by (simp add: bulk_final_def bulk_step_iff)
next
  assume inv: "bulk_inv n c s" and stuck: "\<not> (\<exists>t. bulk_step n c s t)"
  have "\<not> bk_spawned s < min c n" using stuck bulk_step.spawn by blast
  moreover have "bk_spawned s \<le> min c n" using inv by (simp add: bulk_inv_def)
  moreover have "set (bk_running s) = {}"
    using stuck bulk_step.settle[of _ s n c] by (intro equals0I) auto
  ultimately show "bulk_final n c s" unfolding bulk_final_def set_empty by (intro conjI) linarith+
qed

text \<open>
  C7: A bulk run ends: whatever the order in which the workers settle, a run has at most as many steps
  as there are items and workers together, and it can go on exactly while a worker is in flight or
  not yet started. A finished run has taken exactly that many steps.
\<close>

theorem bulk_terminates:
  assumes "(bulk_step n c ^^ k) bulk_start s"
  shows "k \<le> n + min c n \<and> (bulk_final n c s \<longleftrightarrow> \<not> (\<exists>t. bulk_step n c s t)) \<and>
    (c \<noteq> 0 \<and> bulk_final n c s \<longrightarrow> k = n + min c n)"
proof -
  have r: "bulk_reach n c s" "bulk_work s = k" using bulk_reach_steps[OF assms] by auto
  then have inv: "bulk_inv n c s" by (simp add: bulk_reach_inv)
  have "k = n + min c n" if "c \<noteq> 0" "bulk_final n c s"
    using bulk_final_log(2)[OF r(1) that(2,1)] r(2) that by (simp add: bulk_work_def bulk_final_def)
  then show ?thesis using bulk_work_le[OF inv] bulk_stuck[OF inv] r(2) by auto
qed

section \<open>What the operator is told\<close>

definition bulkSummary :: "string \<Rightarrow> string \<Rightarrow> nat \<Rightarrow> nat \<Rightarrow> string" where
  "bulkSummary verb noun succeeded failures =
     (let unit = noun @ (if succeeded = 1 then '''' else ''s'')
      in if failures = 0 then verb @ '' '' @ nat_str succeeded @ '' '' @ unit @ ''.''
         else verb @ '' '' @ nat_str succeeded @ '' '' @ unit @ '', '' @ nat_str failures @ '' failed.'')"

definition warningsOf :: "json option \<Rightarrow> string list" where
  "warningsOf res =
     (case opt_chain res (\<lambda>j. get_prop j ''warnings'') of
        Some (JArr ws) \<Rightarrow> List.map_filter json_str ws
      | _ \<Rightarrow> [])"

text \<open>The report of a bulk action: its toast, and the dialog when there is something to list.\<close>

record bulk_outcome =
  bo_verb :: string
  bo_noun :: string
  bo_succeeded :: nat
  bo_failed :: "(nat \<times> string) list"
  bo_warned :: "(nat \<times> string list) list"

definition warned_items :: "(nat \<times> json option) list \<Rightarrow> (nat \<times> string list) list" where
  "warned_items ans = filter (\<lambda>(i, ws). 0 < length ws) (map (\<lambda>(i, v). (i, warningsOf v)) ans)"

definition bulk_report :: "string \<Rightarrow> string \<Rightarrow> bulk \<Rightarrow> toast \<times> bulk_outcome option" where
  "bulk_report verb noun s =
     (let warned = warned_items (bulk_answers (bk_log s));
          summary = bulkSummary verb noun (bk_succeeded s) (length (bk_failed s))
      in (if length (bk_failed s) = 0 then ToastSuccess summary else ToastError summary,
          if 0 < length (bk_failed s) \<or> 0 < length warned
          then Some \<lparr>bo_verb = verb, bo_noun = noun, bo_succeeded = bk_succeeded s,
            bo_failed = bk_failed s, bo_warned = warned\<rparr>
          else None))"

lemma bulk_answers_mem: "(i, v) \<in> set (bulk_answers lg) \<longleftrightarrow> (i, Inr v) \<in> set lg"
  by (force simp: bulk_answers_def split: sum.splits)

lemma bulk_failures_mem: "(i, e) \<in> set (bulk_failures lg) \<longleftrightarrow> (i, Inl e) \<in> set lg"
  by (force simp: bulk_failures_def split: sum.splits)

lemma no_pairs: "xs = [] \<longleftrightarrow> (\<forall>a b. (a, b) \<notin> set xs)"
  by (cases xs) auto

text \<open>
  C8: Nothing a bulk action left behind goes unreported: at the end of a run the success toast is shown
  exactly when every item went through, and the dialog opens exactly when some item failed or
  answered with warnings, listing each of them with its message or its warnings.
\<close>

theorem bulk_reports_all:
  assumes "bulk_reach n c s"
  shows "((\<exists>m. fst (bulk_report verb noun s) = ToastSuccess m) \<longleftrightarrow> (\<forall>i e. (i, Inl e) \<notin> set (bk_log s))) \<and>
    (snd (bulk_report verb noun s) = None \<longleftrightarrow>
       (\<forall>i r. (i, r) \<in> set (bk_log s) \<longrightarrow> (\<exists>v. r = Inr v \<and> warningsOf v = []))) \<and>
    (\<forall>d. snd (bulk_report verb noun s) = Some d \<longrightarrow>
       set (bo_failed d) = {(i, e). (i, Inl e) \<in> set (bk_log s)} \<and>
       set (bo_warned d) = {(i, warningsOf v) |i v. (i, Inr v) \<in> set (bk_log s) \<and> warningsOf v \<noteq> []})"
proof -
  have f: "bk_failed s = bulk_failures (bk_log s)"
    using bulk_reach_inv[OF assms] by (simp add: bulk_inv_def)
  have nf: "bulk_failures lg = [] \<longleftrightarrow> (\<forall>i e. (i, Inl e) \<notin> set lg)" for lg
    by (simp add: no_pairs bulk_failures_mem)
  have w: "(i, ws) \<in> set (warned_items (bulk_answers lg)) \<longleftrightarrow>
      (\<exists>v. (i, Inr v) \<in> set lg \<and> ws = warningsOf v \<and> ws \<noteq> [])" for i ws lg
    by (auto simp: warned_items_def bulk_answers_mem[symmetric] image_iff Bex_def)
  have nw: "warned_items (bulk_answers lg) = [] \<longleftrightarrow> (\<forall>i v. (i, Inr v) \<in> set lg \<longrightarrow> warningsOf v = [])" for lg
    by (simp only: no_pairs w) blast
  have r: "(\<exists>v. r = Inr v \<and> P v) \<longleftrightarrow> (\<forall>e. r \<noteq> Inl e) \<and> (\<forall>v. r = Inr v \<longrightarrow> P v)" for r :: answer and P
    by (cases r) auto
  let ?lg = "bk_log s"
  have none: "snd (bulk_report verb noun s) = None \<longleftrightarrow>
      bulk_failures ?lg = [] \<and> warned_items (bulk_answers ?lg) = []"
    by (simp add: bulk_report_def Let_def f)
  show ?thesis
  proof (intro conjI allI impI)
    show "(\<exists>m. fst (bulk_report verb noun s) = ToastSuccess m) \<longleftrightarrow> (\<forall>i e. (i, Inl e) \<notin> set ?lg)"
      unfolding nf[symmetric] by (simp add: bulk_report_def Let_def f)
    show "snd (bulk_report verb noun s) = None \<longleftrightarrow>
        (\<forall>i r. (i, r) \<in> set ?lg \<longrightarrow> (\<exists>v. r = Inr v \<and> warningsOf v = []))"
      unfolding none nf nw r by blast
    fix d assume "snd (bulk_report verb noun s) = Some d"
    then have d: "bo_failed d = bulk_failures ?lg" "bo_warned d = warned_items (bulk_answers ?lg)"
      by (auto simp: bulk_report_def Let_def f split: if_splits)
    show "set (bo_failed d) = {(i, e). (i, Inl e) \<in> set ?lg}"
      unfolding d using bulk_failures_mem by auto
    show "set (bo_warned d) = {(i, warningsOf v) |i v. (i, Inr v) \<in> set ?lg \<and> warningsOf v \<noteq> []}"
      unfolding d
    proof (rule set_eqI)
      fix x :: "nat \<times> string list"
      show "x \<in> set (warned_items (bulk_answers ?lg)) \<longleftrightarrow>
          x \<in> {(i, warningsOf v) |i v. (i, Inr v) \<in> set ?lg \<and> warningsOf v \<noteq> []}"
        by (cases x) (simp add: w, metis)
    qed
  qed
qed

section \<open>A run\<close>

text \<open>One item, its worker failing.\<close>

definition sample_run :: bulk where
  "sample_run = next_call 1 (settle_item 1 0 (Inl ''refused'') (next_call 1 (bulk_start\<lparr>bk_spawned := 1\<rparr>)))"

lemma sample_steps: "(bulk_step 1 5 ^^ 2) bulk_start sample_run"
proof -
  have "bulk_step 1 5 bulk_start (next_call 1 (bulk_start\<lparr>bk_spawned := 1\<rparr>))"
    using bulk_step.spawn[of bulk_start 5 1] by (simp add: bulk_start_def)
  moreover have "bulk_step 1 5 (next_call 1 (bulk_start\<lparr>bk_spawned := 1\<rparr>)) sample_run"
    unfolding sample_run_def by (rule bulk_step.settle) (simp add: next_call_def bulk_start_def)
  ultimately show ?thesis by (auto simp: numeral_2_eq_2)
qed

lemma sample_reach: "bulk_reach 1 5 sample_run"
  using bulk_reach_steps[OF sample_steps] by simp

lemma sample_final: "bulk_final 1 5 sample_run"
  by (simp add: bulk_final_def sample_run_def next_call_def settle_item_def bulk_start_def Let_def)

lemma bulk_bounded_witness: "length (bk_running sample_run) \<le> min 5 1"
  using bulk_bounded[OF sample_reach] by simp

lemma bulk_complete_witness: "bk_succeeded sample_run + length (bk_failed sample_run) = 1"
  using bulk_complete[OF sample_reach sample_final] by simp

lemma bulk_terminates_witness: "(2::nat) = 1 + min 5 1"
  using bulk_terminates[OF sample_steps] sample_final by simp

lemma bulk_reports_all_witness: "snd (bulk_report ''Deleted'' ''group'' sample_run) \<noteq> None"
proof -
  have "(0, Inl ''refused'') \<in> set (bk_log sample_run)"
    by (simp add: sample_run_def next_call_def settle_item_def bulk_start_def Let_def)
  then show ?thesis using bulk_reports_all[OF sample_reach, of "''Deleted''" "''group''"] by blast
qed

end
