(* ===== verification/Outcome_Queue.thy ===== *)
theory Outcome_Queue
  imports Js_Text
begin

text \<open>
  The outcomes an operation leaves for the operator (\<open>lib/outcome.ts\<close>): a first-in first-out
  store shown one at a time. The interface \<open>fifo\<close> states what its users rely on; the store of
  the source, with its listeners, provides it.
\<close>

section \<open>The interface\<close>

text \<open>What happens to a queue: an arrival, the front leaving, or something else.\<close>

datatype ('a, 'l) fifo_event = Arrive 'a | Leave | Other 'l

text \<open>A queue that refuses some elements, seen through the list of what waits in it.\<close>

locale fifo =
  fixes waiting :: "'s \<Rightarrow> 'a list"
    and put :: "'a \<Rightarrow> 's \<Rightarrow> 's"
    and drop_front :: "'s \<Rightarrow> 's"
    and other :: "'l \<Rightarrow> 's \<Rightarrow> 's"
    and front :: "'s \<Rightarrow> 'a option"
    and wanted :: "'a \<Rightarrow> bool"
  assumes waiting_put: "waiting (put x s) = (if wanted x then waiting s @ [x] else waiting s)"
    and waiting_drop: "waiting (drop_front s) = tl (waiting s)"
    and waiting_other: "waiting (other l s) = waiting s"
    and front_waiting: "front s = (case waiting s of [] \<Rightarrow> None | x # xs \<Rightarrow> Some x)"
begin

definition fifo_step :: "('a, 'l) fifo_event \<Rightarrow> 's \<Rightarrow> 's" where
  "fifo_step e s =
     (case e of Arrive x \<Rightarrow> put x s | Leave \<Rightarrow> drop_front s | Other l \<Rightarrow> other l s)"

definition leaving :: "('a, 'l) fifo_event \<Rightarrow> 's \<Rightarrow> 'a list" where
  "leaving e s =
     (case e of Leave \<Rightarrow> (case front s of None \<Rightarrow> [] | Some x \<Rightarrow> [x]) | _ \<Rightarrow> [])"

text \<open>What was in front at each dismissal.\<close>

fun dismissed :: "('a, 'l) fifo_event list \<Rightarrow> 's \<Rightarrow> 'a list" where
  "dismissed [] s = []"
| "dismissed (e # es) s = leaving e s @ dismissed es (fifo_step e s)"

definition arrived :: "('a, 'l) fifo_event list \<Rightarrow> 'a list" where
  "arrived es = filter wanted (concat (map (\<lambda>e. case e of Arrive x \<Rightarrow> [x] | _ \<Rightarrow> []) es))"

lemma step_conserves:
  "leaving e s @ waiting (fifo_step e s) = waiting s @ arrived [e]"
  by (cases e; cases "waiting s")
    (simp_all add: leaving_def fifo_step_def arrived_def front_waiting[of s] waiting_put waiting_drop
      waiting_other)

lemma fifo_order: "dismissed es s @ waiting (fold fifo_step es s) = waiting s @ arrived es"
proof (induction es arbitrary: s)
  case (Cons e es)
  have "arrived (e # es) = arrived [e] @ arrived es" by (simp add: arrived_def)
  then show ?case
    using Cons.IH[of "fifo_step e s"] step_conserves[of e s]
    by simp
qed (simp add: arrived_def)

end

section \<open>The store\<close>

datatype tone = ToneWarning | ToneError

record outcome =
  oc_title :: string
  oc_description :: "string option"
  oc_items :: "string list"
  oc_tone :: "tone option"

text \<open>The module's state: its queue and listeners, and the listeners called so far.\<close>

record outcome_store =
  os_queue :: "outcome list"
  os_listeners :: "nat list"
  os_called :: "nat list"

definition no_outcomes :: outcome_store where
  "no_outcomes = \<lparr>os_queue = [], os_listeners = [], os_called = []\<rparr>"

definition emit :: "outcome_store \<Rightarrow> outcome_store" where
  "emit s = s\<lparr>os_called := os_called s @ os_listeners s\<rparr>"

definition showOutcome :: "outcome \<Rightarrow> outcome_store \<Rightarrow> outcome_store" where
  "showOutcome oc s =
     (if length (oc_items oc) = 0 then s else emit (s\<lparr>os_queue := os_queue s @ [oc]\<rparr>))"

definition dismissOutcome :: "outcome_store \<Rightarrow> outcome_store" where
  "dismissOutcome s = emit (s\<lparr>os_queue := tl (os_queue s)\<rparr>)"

text \<open>\<open>listeners\<close> is a \<open>Set\<close>: adding a member again changes nothing.\<close>

definition subscribe :: "nat \<Rightarrow> outcome_store \<Rightarrow> outcome_store" where
  "subscribe l s =
     (if l \<in> set (os_listeners s) then s else s\<lparr>os_listeners := os_listeners s @ [l]\<rparr>)"

definition unsubscribe :: "nat \<Rightarrow> outcome_store \<Rightarrow> outcome_store" where
  "unsubscribe l s = s\<lparr>os_listeners := removeAll l (os_listeners s)\<rparr>"

definition currentOutcome :: "outcome_store \<Rightarrow> outcome option" where
  "currentOutcome s = (case os_queue s of [] \<Rightarrow> None | oc # _ \<Rightarrow> Some oc)"

definition outcomeText :: "outcome \<Rightarrow> string" where
  "outcomeText oc =
     join_with [CHR 0x0A] ([oc_title oc, ''''] @ map (\<lambda>item. ''- '' @ item) (oc_items oc))"

section \<open>Nothing is lost or overtaken\<close>

datatype listener_change = Subscribed nat | Unsubscribed nat

definition change_listeners :: "listener_change \<Rightarrow> outcome_store \<Rightarrow> outcome_store" where
  "change_listeners c s = (case c of Subscribed l \<Rightarrow> subscribe l s | Unsubscribed l \<Rightarrow> unsubscribe l s)"

interpretation outcomes: fifo os_queue showOutcome dismissOutcome change_listeners currentOutcome
    "\<lambda>oc. oc_items oc \<noteq> []"
  by unfold_locales
    (simp_all add: showOutcome_def dismissOutcome_def emit_def currentOutcome_def change_listeners_def
      subscribe_def unsubscribe_def split: list.split listener_change.split)

type_synonym outcome_event = "(outcome, listener_change) fifo_event"

definition outcome_step :: "outcome_event \<Rightarrow> outcome_store \<Rightarrow> outcome_store" where
  "outcome_step e s =
     (case e of
        Arrive oc \<Rightarrow> showOutcome oc s
      | Leave \<Rightarrow> dismissOutcome s
      | Other c \<Rightarrow> change_listeners c s)"

text \<open>The outcomes that were on screen when dismissed, in the order of their dismissal.\<close>

fun read_outcomes :: "outcome_event list \<Rightarrow> outcome_store \<Rightarrow> outcome list" where
  "read_outcomes [] s = []"
| "read_outcomes (e # es) s =
     (if e = Leave then (case currentOutcome s of None \<Rightarrow> [] | Some oc \<Rightarrow> [oc]) else [])
     @ read_outcomes es (outcome_step e s)"

definition reported_outcomes :: "outcome_event list \<Rightarrow> outcome list" where
  "reported_outcomes es =
     filter (\<lambda>oc. oc_items oc \<noteq> []) (concat (map (\<lambda>e. case e of Arrive oc \<Rightarrow> [oc] | _ \<Rightarrow> []) es))"

lemma outcome_step_fifo: "outcome_step = outcomes.fifo_step"
  by (intro ext) (simp add: outcome_step_def outcomes.fifo_step_def)

lemma read_outcomes_fifo: "read_outcomes es s = outcomes.dismissed es s"
proof (induction es arbitrary: s)
  case (Cons e es)
  then show ?case by (cases e) (simp_all add: outcome_step_fifo outcomes.leaving_def)
qed simp

text \<open>
  Whatever the order in which operations report and the operator dismisses, every outcome with
  something to report is shown, in the order of arrival, until it is dismissed: what was read,
  followed by what still waits, is exactly what was reported. An outcome without items changes
  nothing.
\<close>

theorem outcomes_in_order:
  "read_outcomes es no_outcomes @ os_queue (fold outcome_step es no_outcomes) = reported_outcomes es"
  using outcomes.fifo_order[of es no_outcomes]
  by (simp add: read_outcomes_fifo outcome_step_fifo reported_outcomes_def outcomes.arrived_def no_outcomes_def)

text \<open>Every listener still subscribed is called at each change of the queue.\<close>

lemma change_is_announced:
  "os_queue (outcome_step e s) \<noteq> os_queue s \<Longrightarrow>
   os_called (outcome_step e s) = os_called s @ os_listeners s"
  by (cases e) (auto simp: outcome_step_def showOutcome_def dismissOutcome_def emit_def
      change_listeners_def subscribe_def unsubscribe_def split: if_splits listener_change.splits)

end
