(* ===== verification/List_Search.thy ===== *)
theory List_Search
  imports Js_Value Js_Text
begin

text \<open>
  The view state of a list page, as it lives in the URL (\<open>lib/list-search.ts\<close>), the two pages that
  add filters to it (\<open>routes/users/index.tsx\<close>, \<open>routes/audit-logs.tsx\<close>), and the arithmetic of the
  pages a directory is shown in (\<open>components/ui/pagination.tsx\<close>). The raw search is the JSON object
  the router parsed from the address.
\<close>

section \<open>Fields\<close>

datatype sort_dir = Asc | Desc

definition PAGE_SIZES :: "int list" where
  "PAGE_SIZES = [10, 25, 50, 100]"

definition DEFAULT_PAGE_SIZE :: int where
  "DEFAULT_PAGE_SIZE = 25"

definition asString :: "json option \<Rightarrow> string option" where
  "asString v = (case v of Some (JStr s) \<Rightarrow> if s \<noteq> '''' then Some s else None | _ \<Rightarrow> None)"

definition asOneOf :: "json option \<Rightarrow> (string \<times> 'a) list \<Rightarrow> 'a option" where
  "asOneOf v allowed = (case v of Some (JStr s) \<Rightarrow> map_of allowed s | _ \<Rightarrow> None)"

definition asPage :: "json option \<Rightarrow> int option" where
  "asPage v = (case num_integer (to_number v) of Some n \<Rightarrow> if n > 1 then Some n else None | None \<Rightarrow> None)"

definition asSize :: "json option \<Rightarrow> int option" where
  "asSize v =
     (case num_integer (to_number v) of
        Some n \<Rightarrow> if n \<in> set PAGE_SIZES \<and> n \<noteq> DEFAULT_PAGE_SIZE then Some n else None
      | None \<Rightarrow> None)"

definition asBoolean :: "json option \<Rightarrow> bool option" where
  "asBoolean v =
     (if v = Some (JBool True) \<or> v = Some (JStr ''true'') \<or> v = Some (JStr ''1'') then Some True else None)"

definition dir_names :: "(string \<times> sort_dir) list" where
  "dir_names = [(''asc'', Asc), (''desc'', Desc)]"

definition identity_names :: "string list \<Rightarrow> (string \<times> string) list" where
  "identity_names fs = map (\<lambda>f. (f, f)) fs"

section \<open>The search of a list\<close>

record list_search =
  ls_q :: "string option"
  ls_sort :: "string option"
  ls_dir :: "sort_dir option"
  ls_page :: "int option"
  ls_size :: "int option"

definition listSearchValidator :: "string list \<Rightarrow> json \<Rightarrow> list_search" where
  "listSearchValidator sortFields raw = \<lparr>
     ls_q = asString (get_prop raw ''q''),
     ls_sort = asOneOf (get_prop raw ''sort'') (identity_names sortFields),
     ls_dir = asOneOf (get_prop raw ''dir'') dir_names,
     ls_page = asPage (get_prop raw ''page''),
     ls_size = asSize (get_prop raw ''size'')\<rparr>"

record list_values =
  lv_q :: string
  lv_sort :: string
  lv_dir :: sort_dir
  lv_page :: int
  lv_size :: int

definition listSearchValues :: "list_search \<Rightarrow> string \<Rightarrow> list_values" where
  "listSearchValues search defaultSort = \<lparr>
     lv_q = coalesce (ls_q search) '''',
     lv_sort = coalesce (ls_sort search) defaultSort,
     lv_dir = coalesce (ls_dir search) Asc,
     lv_page = coalesce (ls_page search) 1,
     lv_size = coalesce (ls_size search) DEFAULT_PAGE_SIZE\<rparr>"

text \<open>The patch a header click makes: the new sort, and page 1.\<close>

definition nextSort :: "string \<times> sort_dir \<Rightarrow> string \<Rightarrow> string \<times> sort_dir \<times> int option" where
  "nextSort current field =
     (case current of (f, dir) \<Rightarrow>
        (field, if f = field \<and> dir = Asc then Desc else Asc, None))"

section \<open>The search of the users list\<close>

datatype status_filter = StatusAll | StatusInactive

definition STATUS_FILTERS :: "(string \<times> status_filter) list" where
  "STATUS_FILTERS = [(''all'', StatusAll), (''inactive'', StatusInactive)]"

definition USER_SORT_FIELDS :: "string list" where
  "USER_SORT_FIELDS = [''uid'', ''displayName'', ''mail'', ''employeeType'', ''groupsCount'']"

record users_search = list_search +
  us_status :: "status_filter option"

definition parseStatus :: "json \<Rightarrow> status_filter option" where
  "parseStatus raw =
     (case asOneOf (get_prop raw ''status'') STATUS_FILTERS of
        Some s \<Rightarrow> Some s
      | None \<Rightarrow> if asBoolean (get_prop raw ''inactive'') = Some True then Some StatusAll else None)"

definition usersSearch :: "json \<Rightarrow> users_search" where
  "usersSearch raw =
     list_search.extend (listSearchValidator USER_SORT_FIELDS raw) (users_search.fields (parseStatus raw))"

section \<open>Through the URL and back\<close>

text \<open>The value of a search parameter object after the router has written and read it.\<close>

fun dir_text :: "sort_dir \<Rightarrow> string" where
  "dir_text Asc = ''asc''"
| "dir_text Desc = ''desc''"

definition search_json :: "list_search \<Rightarrow> json" where
  "search_json s = jobj [
     (''q'', map_option JStr (ls_q s)), (''sort'', map_option JStr (ls_sort s)),
     (''dir'', map_option (JStr \<circ> dir_text) (ls_dir s)),
     (''page'', map_option (JNum \<circ> of_int) (ls_page s)),
     (''size'', map_option (JNum \<circ> of_int) (ls_size s))]"

text \<open>The view states a list page can be in: what the validator lets through.\<close>

definition canonical_search :: "string list \<Rightarrow> list_search \<Rightarrow> bool" where
  "canonical_search sortFields s \<longleftrightarrow>
     ls_q s \<noteq> Some '''' \<and>
     (\<forall>f. ls_sort s = Some f \<longrightarrow> f \<in> set sortFields) \<and>
     (\<forall>p. ls_page s = Some p \<longrightarrow> 1 < p) \<and>
     (\<forall>n. ls_size s = Some n \<longrightarrow> n \<in> {10, 50, 100})"

lemma map_of_identity: "map_of (identity_names fs) s = (if s \<in> set fs then Some s else None)"
  by (induction fs) (auto simp: identity_names_def)

lemma to_number_int [simp]: "to_number (Some (JNum (of_int i))) = JFin (of_int i)"
  by (simp add: to_number_def)

lemma asString_iff: "asString v = Some s \<longleftrightarrow> v = Some (JStr s) \<and> s \<noteq> ''''"
  by (auto simp: asString_def split: option.splits json.splits if_splits)

lemma asOneOf_identity: "asOneOf v (identity_names fs) = Some s \<longleftrightarrow> v = Some (JStr s) \<and> s \<in> set fs"
  by (auto simp: asOneOf_def map_of_identity split: option.splits json.splits if_splits)

lemma asPage_gt: "asPage v = Some n \<Longrightarrow> 1 < n"
  by (auto simp: asPage_def split: option.splits if_splits)

lemma asSize_mem: "asSize v = Some n \<Longrightarrow> n \<in> {10, 50, 100}"
  by (auto simp: asSize_def PAGE_SIZES_def DEFAULT_PAGE_SIZE_def split: option.splits if_splits)

lemma validator_canonical: "canonical_search fs (listSearchValidator fs raw)"
  by (auto simp: canonical_search_def listSearchValidator_def asString_iff asOneOf_identity
      dest: asPage_gt asSize_mem)

lemma search_json_fields [simp]:
  "get_prop (search_json s) ''q'' = map_option JStr (ls_q s)"
  "get_prop (search_json s) ''sort'' = map_option JStr (ls_sort s)"
  "get_prop (search_json s) ''dir'' = map_option (JStr \<circ> dir_text) (ls_dir s)"
  "get_prop (search_json s) ''page'' = map_option (JNum \<circ> of_int) (ls_page s)"
  "get_prop (search_json s) ''size'' = map_option (JNum \<circ> of_int) (ls_size s)"
  by (simp_all add: search_json_def get_prop_jobj)

lemma none_fields [simp]:
  "asString None = None" "asOneOf None al = None" "asPage None = None" "asSize None = None"
  by (simp_all add: asString_def asOneOf_def asPage_def asSize_def to_number_def num_integer_def)

lemma as_fields [simp]:
  "s \<noteq> '''' \<Longrightarrow> asString (Some (JStr s)) = Some s"
  "s \<in> set fs \<Longrightarrow> asOneOf (Some (JStr s)) (identity_names fs) = Some s"
  "asOneOf (Some (JStr (dir_text d))) dir_names = Some d"
  "1 < p \<Longrightarrow> asPage (Some (JNum (of_int p))) = Some p"
  "n \<in> {10, 50, 100} \<Longrightarrow> asSize (Some (JNum (of_int n))) = Some n"
  by (simp add: asString_def, simp add: asOneOf_def map_of_identity,
      cases d, auto simp: asOneOf_def dir_names_def asPage_def asSize_def PAGE_SIZES_def DEFAULT_PAGE_SIZE_def)

lemma validator_search_json:
  assumes "canonical_search fs s"
  shows "listSearchValidator fs (search_json s) = s"
proof -
  have "asString (map_option JStr (ls_q s)) = ls_q s" using assms by (cases "ls_q s") (simp_all add: canonical_search_def)
  moreover have "asOneOf (map_option JStr (ls_sort s)) (identity_names fs) = ls_sort s"
    using assms by (cases "ls_sort s") (simp_all add: canonical_search_def)
  moreover have "asOneOf (map_option (JStr \<circ> dir_text) (ls_dir s)) dir_names = ls_dir s"
    by (cases "ls_dir s") simp_all
  moreover have "asPage (map_option (JNum \<circ> of_int) (ls_page s)) = ls_page s"
    using assms by (cases "ls_page s") (simp_all add: canonical_search_def)
  moreover have "asSize (map_option (JNum \<circ> of_int) (ls_size s)) = ls_size s"
    using assms by (cases "ls_size s") (simp_all add: canonical_search_def del: insert_iff)
  ultimately show ?thesis by (simp add: listSearchValidator_def)
qed

text \<open>
  C32: Whatever address a list page is opened with, the view state it reads is one it can be in: the
  page is at least 1, the size one the page offers, the sort field one of its own, and writing that
  state to the address and reading it again changes nothing. Every such state is reachable by an
  address.
\<close>

theorem list_search_stable:
  "(let s = listSearchValidator fs raw; v = listSearchValues s d in
      listSearchValidator fs (search_json s) = s \<and>
      1 \<le> lv_page v \<and> lv_size v \<in> set PAGE_SIZES \<and> lv_sort v \<in> insert d (set fs)) \<and>
   {s. \<exists>r. listSearchValidator fs r = s} = {s. canonical_search fs s}"
proof
  let ?s = "listSearchValidator fs raw"
  have c: "canonical_search fs ?s" by (rule validator_canonical)
  have p: "1 \<le> coalesce (ls_page ?s) 1" using c by (auto simp: canonical_search_def)
  have z: "coalesce (ls_size ?s) DEFAULT_PAGE_SIZE \<in> set PAGE_SIZES"
    using c by (auto simp: canonical_search_def PAGE_SIZES_def DEFAULT_PAGE_SIZE_def)
  have f: "coalesce (ls_sort ?s) d \<in> insert d (set fs)" using c by (auto simp: canonical_search_def)
  show "let s = ?s; v = listSearchValues s d in
      listSearchValidator fs (search_json s) = s \<and>
      1 \<le> lv_page v \<and> lv_size v \<in> set PAGE_SIZES \<and> lv_sort v \<in> insert d (set fs)"
    unfolding Let_def listSearchValues_def list_values.simps using validator_search_json[OF c] p z f by blast
  show "{s. \<exists>r. listSearchValidator fs r = s} = {s. canonical_search fs s}"
    using validator_canonical validator_search_json by blast
qed

section \<open>Pages\<close>

definition page_offset :: "list_values \<Rightarrow> int" where
  "page_offset v = (lv_page v - 1) * lv_size v"

definition total_pages :: "int \<Rightarrow> int \<Rightarrow> int" where
  "total_pages n pageSize = max 1 (- ((- n) div pageSize))"

definition start_item :: "int \<Rightarrow> int \<Rightarrow> int \<Rightarrow> int" where
  "start_item currentPage pageSize totalItems = (if totalItems = 0 then 0 else (currentPage - 1) * pageSize + 1)"

definition end_item :: "int \<Rightarrow> int \<Rightarrow> int \<Rightarrow> int" where
  "end_item currentPage pageSize totalItems = min (currentPage * pageSize) totalItems"

lemma page_block:
  fixes p z i :: int
  assumes "0 < z"
  shows "(p - 1) * z \<le> i \<and> i < p * z \<longleftrightarrow> p = i div z + 1"
proof
  assume a: "(p - 1) * z \<le> i \<and> i < p * z"
  then have "i = (p - 1) * z + (i - (p - 1) * z)" "0 \<le> i - (p - 1) * z" "i - (p - 1) * z < z"
    by (simp_all add: algebra_simps)
  then have "i div z = p - 1"
    using assms by (intro int_div_pos_eq) (simp_all add: mult.commute)
  then show "p = i div z + 1" by simp
next
  assume p: "p = i div z + 1"
  have "i = z * (i div z) + i mod z" "0 \<le> i mod z" "i mod z < z" using assms by simp_all
  then show "(p - 1) * z \<le> i \<and> i < p * z"
    unfolding p by (simp only: add_diff_cancel_right' distrib_right mult.commute[of z]) linarith
qed

lemma total_pages_bound:
  assumes "0 < z" "0 \<le> i" "i < n"
  shows "1 \<le> i div z + 1 \<and> i div z + 1 \<le> total_pages n z"
proof -
  have "(- n) div z \<le> (- (i + 1)) div z" using assms by (simp add: zdiv_mono1)
  also have "(- (i + 1)) div z = - (i div z) - 1"
  proof -
    have "i = i div z * z + i mod z" by simp
    then have "- (i + 1) = z * (- (i div z) - 1) + (z - 1 - i mod z)" by (simp add: algebra_simps)
    moreover have "0 \<le> z - 1 - i mod z" "z - 1 - i mod z < z"
      using assms pos_mod_bound[of z i] pos_mod_sign[of z i] by linarith+
    ultimately show ?thesis by (rule int_div_pos_eq)
  qed
  finally have "i div z + 1 \<le> - ((- n) div z)" by linarith
  moreover have "0 \<le> i div z" using assms by (simp add: pos_imp_zdiv_nonneg_iff)
  ultimately show ?thesis by (simp add: total_pages_def)
qed

text \<open>
  The pages a list offers partition its rows: the row with index \<open>i\<close> (from 0) is among the rows
  the request of exactly one page between 1 and the last asks for, and the row counter under that
  page includes it.
\<close>

theorem pages_partition:
  assumes "0 < z" "0 \<le> i" "i < n"
  shows "\<exists>!p. 1 \<le> p \<and> p \<le> total_pages n z \<and> (p - 1) * z \<le> i \<and> i < (p - 1) * z + z \<and>
     start_item p z n \<le> i + 1 \<and> i + 1 \<le> end_item p z n"
proof
  let ?p = "i div z + 1"
  have b: "(?p - 1) * z \<le> i" "i < ?p * z" using page_block[OF assms(1), of ?p i] by simp_all
  then show "1 \<le> ?p \<and> ?p \<le> total_pages n z \<and> (?p - 1) * z \<le> i \<and> i < (?p - 1) * z + z \<and>
      start_item ?p z n \<le> i + 1 \<and> i + 1 \<le> end_item ?p z n"
    using total_pages_bound[OF assms] assms
    by (auto simp: start_item_def end_item_def algebra_simps)
  fix p assume "1 \<le> p \<and> p \<le> total_pages n z \<and> (p - 1) * z \<le> i \<and> i < (p - 1) * z + z \<and>
      start_item p z n \<le> i + 1 \<and> i + 1 \<le> end_item p z n"
  then have "(p - 1) * z \<le> i \<and> i < p * z" by (simp add: algebra_simps)
  then show "p = ?p" using page_block[OF assms(1)] by blast
qed

lemma pages_partition_witness: "\<exists>!p. 1 \<le> p \<and> p \<le> total_pages 60 25 \<and> (p - 1) * 25 \<le> 59 \<and>
    59 < (p - 1) * 25 + 25 \<and> start_item p 25 60 \<le> 59 + 1 \<and> 59 + 1 \<le> end_item p 25 60"
  using pages_partition[of 25 59 60] by simp

end
