(* ===== verification/Api_Requests.thy ===== *)
theory Api_Requests
  imports Uri Api_Schemas
begin

text \<open>
  The endpoints of the API client (\<open>lib/api.ts\<close>, the object \<open>api\<close>): each call as the request it
  hands to \<open>fetchApi\<close> or \<open>fetchApiPublic\<close>, with the query strings they share. A body is the value
  given to \<open>JSON.stringify\<close>.
\<close>

record request =
  rq_method :: string
  rq_path :: string
  rq_body :: "json option"
  rq_schema :: "schema option"
  rq_public :: bool

definition API_BASE :: string where
  "API_BASE = ''/api''"

definition api_call :: "string \<Rightarrow> string \<Rightarrow> json option \<Rightarrow> schema option \<Rightarrow> request" where
  "api_call meth path body sch =
     \<lparr>rq_method = meth, rq_path = path, rq_body = body, rq_schema = sch, rq_public = False\<rparr>"

definition public_call :: "string \<Rightarrow> string \<Rightarrow> json option \<Rightarrow> schema option \<Rightarrow> request" where
  "public_call meth path body sch =
     \<lparr>rq_method = meth, rq_path = path, rq_body = body, rq_schema = sch, rq_public = True\<rparr>"

section \<open>Query strings\<close>

record list_params =
  qp_search :: "string option"
  qp_sort :: "string option"
  qp_order :: "string option"
  qp_limit :: "int option"
  qp_offset :: "int option"
  qp_status :: "string option"

text \<open>\<open>if (v) q.set(name, v)\<close> for a string, and for a number.\<close>

definition set_text :: "string \<Rightarrow> string option \<Rightarrow> (string \<times> string) list" where
  "set_text name v = (case v of Some s \<Rightarrow> if s \<noteq> '''' then [(name, s)] else [] | None \<Rightarrow> [])"

definition set_number :: "string \<Rightarrow> int option \<Rightarrow> (string \<times> string) list" where
  "set_number name v = (case v of Some n \<Rightarrow> if n \<noteq> 0 then [(name, int_str n)] else [] | None \<Rightarrow> [])"

definition query_suffix :: "(string \<times> string) list \<Rightarrow> string" where
  "query_suffix ps = (let query = search_params ps in if query \<noteq> '''' then ''?'' @ query else '''')"

definition list_query_params :: "list_params \<Rightarrow> (string \<times> string) list" where
  "list_query_params p =
     set_text ''search'' (map_option trim (qp_search p)) @ set_text ''sort'' (qp_sort p)
     @ set_text ''order'' (qp_order p) @ set_number ''limit'' (qp_limit p)
     @ set_number ''offset'' (qp_offset p) @ set_text ''status'' (qp_status p)"

definition listQuery :: "list_params option \<Rightarrow> string" where
  "listQuery params =
     (case params of None \<Rightarrow> '''' | Some p \<Rightarrow> query_suffix (list_query_params p))"

text \<open>
  A filter object as its entries, in order and with distinct names; \<^const>\<open>None\<close> is a member that
  is \<open>undefined\<close>.
\<close>

datatype query_value = QText string | QNumber int

fun query_text :: "query_value \<Rightarrow> string" where
  "query_text (QText s) = s"
| "query_text (QNumber n) = int_str n"

definition audit_query_params :: "(string \<times> query_value option) list \<Rightarrow> (string \<times> string) list" where
  "audit_query_params entries =
     concat (map (\<lambda>(k, v). case v of
         None \<Rightarrow> []
       | Some x \<Rightarrow> if x \<noteq> QText '''' \<and> x \<noteq> QNumber 0 then [(k, query_text x)] else []) entries)"

definition auditQuery :: "(string \<times> query_value option) list option \<Rightarrow> string" where
  "auditQuery params =
     (case params of None \<Rightarrow> '''' | Some entries \<Rightarrow> query_suffix (audit_query_params entries))"

definition userPhotoUrl :: "string \<Rightarrow> string" where
  "userPhotoUrl dn = API_BASE @ ''/users/'' @ encodeURIComponent dn @ ''/photo''"

section \<open>Endpoints\<close>

definition auth_login :: "string \<Rightarrow> string \<Rightarrow> request" where
  "auth_login username password =
     api_call ''POST'' (''/auth/login'')
       (Some (jobj [(''username'', Some (JStr username)), (''password'', Some (JStr password))])) (Some LoginResponseSchema)"

definition auth_logout :: "request" where
  "auth_logout =
     api_call ''POST'' (''/auth/logout'')
       None None"

definition auth_me :: "request" where
  "auth_me =
     api_call ''GET'' (''/auth/me'')
       None (Some SessionSchema)"

definition auth_avatar :: "request" where
  "auth_avatar =
     api_call ''GET'' (''/auth/me/avatar'')
       None (Some MeAvatarSchema)"

definition auth_changePassword :: "string \<Rightarrow> string \<Rightarrow> request" where
  "auth_changePassword currentPassword password =
     api_call ''POST'' (''/auth/change-password'')
       (Some (jobj [(''currentPassword'', Some (JStr currentPassword)), (''password'', Some (JStr password))])) None"

definition users_list :: "list_params option \<Rightarrow> request" where
  "users_list params =
     api_call ''GET'' (''/users'' @ listQuery params)
       None (Some UsersResponseSchema)"

definition users_get :: "string \<Rightarrow> request" where
  "users_get dn =
     api_call ''GET'' (''/users/'' @ encodeURIComponent dn)
       None (Some UserSchema)"

definition users_create :: "json \<Rightarrow> request" where
  "users_create data =
     api_call ''POST'' (''/users'')
       (Some data) (Some UserSchema)"

definition users_update :: "string \<Rightarrow> json \<Rightarrow> request" where
  "users_update dn data =
     api_call ''PUT'' (''/users/'' @ encodeURIComponent dn)
       (Some data) (Some UserSchema)"

definition users_delete :: "string \<Rightarrow> request" where
  "users_delete dn =
     api_call ''DELETE'' (''/users/'' @ encodeURIComponent dn)
       None (Some WarningsResultSchema)"

definition users_import :: "json list \<Rightarrow> request" where
  "users_import rows =
     api_call ''POST'' (''/users/import'')
       (Some (jobj [(''rows'', Some (JArr rows))])) (Some ImportResultSchema)"

definition users_getGroups :: "string \<Rightarrow> request" where
  "users_getGroups dn =
     api_call ''GET'' (''/users/'' @ encodeURIComponent dn @ ''/groups'')
       None (Some GroupsResponseSchema)"

definition users_changePosixIds :: "string \<Rightarrow> json \<Rightarrow> request" where
  "users_changePosixIds dn ids =
     api_call ''POST'' (''/users/'' @ encodeURIComponent dn @ ''/change-posix-ids'')
       (Some ids) (Some ChangePosixIDsResultSchema)"

definition users_changeUid :: "string \<Rightarrow> string \<Rightarrow> request" where
  "users_changeUid dn newUid =
     api_call ''POST'' (''/users/'' @ encodeURIComponent dn @ ''/change-uid'')
       (Some (jobj [(''newUid'', Some (JStr newUid))])) (Some ChangeUidResultSchema)"

definition users_lock :: "string \<Rightarrow> request" where
  "users_lock dn =
     api_call ''POST'' (''/users/'' @ encodeURIComponent dn @ ''/lock'')
       None None"

definition users_unlock :: "string \<Rightarrow> request" where
  "users_unlock dn =
     api_call ''POST'' (''/users/'' @ encodeURIComponent dn @ ''/unlock'')
       None None"

definition users_changePassword :: "string \<Rightarrow> string \<Rightarrow> request" where
  "users_changePassword dn password =
     api_call ''POST'' (''/users/'' @ encodeURIComponent dn @ ''/password'')
       (Some (jobj [(''password'', Some (JStr password))])) None"

definition users_removePassword :: "string \<Rightarrow> request" where
  "users_removePassword dn =
     api_call ''DELETE'' (''/users/'' @ encodeURIComponent dn @ ''/password'')
       None None"

definition users_setSSHKeys :: "string \<Rightarrow> string list \<Rightarrow> request" where
  "users_setSSHKeys dn keys =
     api_call ''PUT'' (''/users/'' @ encodeURIComponent dn @ ''/ssh-keys'')
       (Some (jobj [(''keys'', Some (JArr (map JStr keys)))])) (Some UserSchema)"

definition users_addSSHKey :: "string \<Rightarrow> string \<Rightarrow> request" where
  "users_addSSHKey dn key =
     api_call ''POST'' (''/users/'' @ encodeURIComponent dn @ ''/ssh-keys'')
       (Some (jobj [(''key'', Some (JStr key))])) (Some UserSchema)"

definition users_removeSSHKey :: "string \<Rightarrow> string \<Rightarrow> request" where
  "users_removeSSHKey dn key =
     api_call ''DELETE'' (''/users/'' @ encodeURIComponent dn @ ''/ssh-keys'')
       (Some (jobj [(''key'', Some (JStr key))])) (Some UserSchema)"

definition users_getSudoRoles :: "string \<Rightarrow> request" where
  "users_getSudoRoles dn =
     api_call ''GET'' (''/users/'' @ encodeURIComponent dn @ ''/sudo-roles'')
       None (Some SudoRoleGrantsResponseSchema)"

definition users_getNetgroups :: "string \<Rightarrow> request" where
  "users_getNetgroups dn =
     api_call ''GET'' (''/users/'' @ encodeURIComponent dn @ ''/netgroups'')
       None (Some UserNetgroupsResponseSchema)"

definition users_sendPasswordReset :: "string \<Rightarrow> request" where
  "users_sendPasswordReset dn =
     api_call ''POST'' (''/users/'' @ encodeURIComponent dn @ ''/send-password-reset'')
       None None"

definition users_updateSamba :: "string \<Rightarrow> json \<Rightarrow> request" where
  "users_updateSamba dn data =
     api_call ''PUT'' (''/users/'' @ encodeURIComponent dn @ ''/samba'')
       (Some data) (Some UserSchema)"

definition users_updateShadow :: "string \<Rightarrow> json \<Rightarrow> request" where
  "users_updateShadow dn data =
     api_call ''PUT'' (''/users/'' @ encodeURIComponent dn @ ''/shadow'')
       (Some data) (Some UserSchema)"

definition groups_list :: "list_params option \<Rightarrow> request" where
  "groups_list params =
     api_call ''GET'' (''/groups'' @ listQuery params)
       None (Some GroupListResponseSchema)"

definition groups_get :: "string \<Rightarrow> request" where
  "groups_get dn =
     api_call ''GET'' (''/groups/'' @ encodeURIComponent dn)
       None (Some GroupSchema)"

definition groups_create :: "json \<Rightarrow> request" where
  "groups_create data =
     api_call ''POST'' (''/groups'')
       (Some data) (Some GroupSchema)"

definition groups_update :: "string \<Rightarrow> json \<Rightarrow> request" where
  "groups_update dn data =
     api_call ''PUT'' (''/groups/'' @ encodeURIComponent dn)
       (Some data) (Some GroupSchema)"

definition groups_delete :: "string \<Rightarrow> request" where
  "groups_delete dn =
     api_call ''DELETE'' (''/groups/'' @ encodeURIComponent dn)
       None (Some GroupDeleteResponseSchema)"

definition groups_import :: "json list \<Rightarrow> request" where
  "groups_import rows =
     api_call ''POST'' (''/groups/import'')
       (Some (jobj [(''rows'', Some (JArr rows))])) (Some ImportResultSchema)"

definition groups_changeCn :: "string \<Rightarrow> string \<Rightarrow> request" where
  "groups_changeCn dn newCn =
     api_call ''POST'' (''/groups/'' @ encodeURIComponent dn @ ''/change-cn'')
       (Some (jobj [(''newCn'', Some (JStr newCn))])) (Some ChangeGroupCNResultSchema)"

definition groups_addMember :: "string \<Rightarrow> string \<Rightarrow> request" where
  "groups_addMember dn memberUid =
     api_call ''POST'' (''/groups/'' @ encodeURIComponent dn @ ''/members'')
       (Some (jobj [(''memberUid'', Some (JStr memberUid))])) None"

definition groups_removeMember :: "string \<Rightarrow> string \<Rightarrow> request" where
  "groups_removeMember dn memberUid =
     api_call ''DELETE'' (''/groups/'' @ encodeURIComponent dn @ ''/members'')
       (Some (jobj [(''memberUid'', Some (JStr memberUid))])) None"

definition groups_members :: "string \<Rightarrow> request" where
  "groups_members dn =
     api_call ''GET'' (''/groups/'' @ encodeURIComponent dn @ ''/members'')
       None (Some GroupMembersResponseSchema)"

definition groups_getSudoRoles :: "string \<Rightarrow> request" where
  "groups_getSudoRoles dn =
     api_call ''GET'' (''/groups/'' @ encodeURIComponent dn @ ''/sudo-roles'')
       None (Some SudoRolesResponseSchema)"

definition groups_updateSamba :: "string \<Rightarrow> json \<Rightarrow> request" where
  "groups_updateSamba dn data =
     api_call ''PUT'' (''/groups/'' @ encodeURIComponent dn @ ''/samba'')
       (Some data) (Some GroupSchema)"

definition netgroups_list :: "list_params option \<Rightarrow> request" where
  "netgroups_list params =
     api_call ''GET'' (''/netgroups'' @ listQuery params)
       None (Some NetgroupsResponseSchema)"

definition netgroups_get :: "string \<Rightarrow> request" where
  "netgroups_get dn =
     api_call ''GET'' (''/netgroups/'' @ encodeURIComponent dn)
       None (Some NetgroupSchema)"

definition netgroups_expand :: "string \<Rightarrow> request" where
  "netgroups_expand dn =
     api_call ''GET'' (''/netgroups/'' @ encodeURIComponent dn @ ''/expand'')
       None (Some NetgroupExpansionSchema)"

definition netgroups_getSudoRoles :: "string \<Rightarrow> request" where
  "netgroups_getSudoRoles dn =
     api_call ''GET'' (''/netgroups/'' @ encodeURIComponent dn @ ''/sudo-roles'')
       None (Some SudoRolesResponseSchema)"

definition netgroups_create :: "json \<Rightarrow> request" where
  "netgroups_create data =
     api_call ''POST'' (''/netgroups'')
       (Some data) (Some NetgroupSchema)"

definition netgroups_import :: "json list \<Rightarrow> request" where
  "netgroups_import rows =
     api_call ''POST'' (''/netgroups/import'')
       (Some (jobj [(''rows'', Some (JArr rows))])) (Some ImportResultSchema)"

definition netgroups_update :: "string \<Rightarrow> json \<Rightarrow> request" where
  "netgroups_update dn data =
     api_call ''PUT'' (''/netgroups/'' @ encodeURIComponent dn)
       (Some data) (Some NetgroupSchema)"

definition netgroups_delete :: "string \<Rightarrow> request" where
  "netgroups_delete dn =
     api_call ''DELETE'' (''/netgroups/'' @ encodeURIComponent dn)
       None (Some NetgroupDeleteResponseSchema)"

definition sudoRoles_list :: "list_params option \<Rightarrow> request" where
  "sudoRoles_list params =
     api_call ''GET'' (''/sudo-roles'' @ listQuery params)
       None (Some SudoRolesResponseSchema)"

definition sudoRoles_get :: "string \<Rightarrow> request" where
  "sudoRoles_get dn =
     api_call ''GET'' (''/sudo-roles/'' @ encodeURIComponent dn)
       None (Some SudoRoleSchema)"

definition sudoRoles_create :: "json \<Rightarrow> request" where
  "sudoRoles_create data =
     api_call ''POST'' (''/sudo-roles'')
       (Some data) (Some SudoRoleSchema)"

definition sudoRoles_update :: "string \<Rightarrow> json \<Rightarrow> request" where
  "sudoRoles_update dn data =
     api_call ''PUT'' (''/sudo-roles/'' @ encodeURIComponent dn)
       (Some data) (Some SudoRoleSchema)"

definition sudoRoles_delete :: "string \<Rightarrow> request" where
  "sudoRoles_delete dn =
     api_call ''DELETE'' (''/sudo-roles/'' @ encodeURIComponent dn)
       None None"

definition sudoRoles_addUser :: "string \<Rightarrow> string \<Rightarrow> request" where
  "sudoRoles_addUser dn uid =
     api_call ''POST'' (''/sudo-roles/'' @ encodeURIComponent dn @ ''/users'')
       (Some (jobj [(''uid'', Some (JStr uid))])) (Some SudoRoleSchema)"

definition sudoRoles_removeUser :: "string \<Rightarrow> string \<Rightarrow> request" where
  "sudoRoles_removeUser dn uid =
     api_call ''DELETE'' (''/sudo-roles/'' @ encodeURIComponent dn @ ''/users'')
       (Some (jobj [(''uid'', Some (JStr uid))])) (Some SudoRoleSchema)"

definition sudoRoles_addGroup :: "string \<Rightarrow> string \<Rightarrow> request" where
  "sudoRoles_addGroup dn cn =
     api_call ''POST'' (''/sudo-roles/'' @ encodeURIComponent dn @ ''/groups'')
       (Some (jobj [(''cn'', Some (JStr cn))])) (Some SudoRoleSchema)"

definition sudoRoles_removeGroup :: "string \<Rightarrow> string \<Rightarrow> request" where
  "sudoRoles_removeGroup dn cn =
     api_call ''DELETE'' (''/sudo-roles/'' @ encodeURIComponent dn @ ''/groups'')
       (Some (jobj [(''cn'', Some (JStr cn))])) (Some SudoRoleSchema)"

definition passwordPolicies_list :: "list_params option \<Rightarrow> request" where
  "passwordPolicies_list params =
     api_call ''GET'' (''/password-policies'' @ listQuery params)
       None (Some PasswordPoliciesResponseSchema)"

definition passwordPolicies_get :: "string \<Rightarrow> request" where
  "passwordPolicies_get dn =
     api_call ''GET'' (''/password-policies/'' @ encodeURIComponent dn)
       None (Some PasswordPolicySchema)"

definition passwordPolicies_create :: "json \<Rightarrow> request" where
  "passwordPolicies_create data =
     api_call ''POST'' (''/password-policies'')
       (Some data) (Some PasswordPolicySchema)"

definition passwordPolicies_update :: "string \<Rightarrow> json \<Rightarrow> request" where
  "passwordPolicies_update dn data =
     api_call ''PUT'' (''/password-policies/'' @ encodeURIComponent dn)
       (Some data) (Some PasswordPolicySchema)"

definition passwordPolicies_delete :: "string \<Rightarrow> request" where
  "passwordPolicies_delete dn =
     api_call ''DELETE'' (''/password-policies/'' @ encodeURIComponent dn)
       None (Some PolicyDeleteResponseSchema)"

definition schema_get :: "request" where
  "schema_get =
     api_call ''GET'' (''/schema'')
       None (Some SchemaSchema)"

definition schema_refresh :: "request" where
  "schema_refresh =
     api_call ''POST'' (''/schema/refresh'')
       None (Some SchemaSchema)"

definition auditLogs_list :: "(string \<times> query_value option) list option \<Rightarrow> request" where
  "auditLogs_list params =
     api_call ''GET'' (''/audit-logs'' @ auditQuery params)
       None (Some AuditLogsResponseSchema)"

definition auditLogs_actors :: "request" where
  "auditLogs_actors =
     api_call ''GET'' (''/audit-logs/actors'')
       None (Some AuditActorsResponseSchema)"

definition directoryChanges_list :: "(string \<times> query_value option) list \<Rightarrow> request" where
  "directoryChanges_list params =
     api_call ''GET'' (''/directory-changes'' @ auditQuery (Some params))
       None (Some DirectoryChangesResponseSchema)"

definition nextIds_get :: "request" where
  "nextIds_get =
     api_call ''GET'' (''/next-ids'')
       None (Some NextIDsSchema)"

definition overview_get :: "request" where
  "overview_get =
     api_call ''GET'' (''/overview'')
       None (Some OverviewSchema)"

definition serverInfo :: "request" where
  "serverInfo =
     api_call ''GET'' (''/server-info'')
       None (Some ServerInfoSchema)"

definition admin_getConfig :: "request" where
  "admin_getConfig =
     api_call ''GET'' (''/admin/config'')
       None (Some ConfigResponseSchema)"

definition admin_policySelfTest :: "request" where
  "admin_policySelfTest =
     api_call ''POST'' (''/admin/policy-selftest'')
       None (Some PolicySelfTestSchema)"

definition admin_scheduledTasks_getConfig :: "request" where
  "admin_scheduledTasks_getConfig =
     api_call ''GET'' (''/admin/scheduled-tasks/config'')
       None (Some ScheduledTasksConfigSchema)"

definition admin_scheduledTasks_getHealth :: "request" where
  "admin_scheduledTasks_getHealth =
     api_call ''GET'' (''/admin/scheduled-tasks/health'')
       None (Some TaskHealthResponseSchema)"

definition admin_scheduledTasks_triggerUsersExpiration :: "request" where
  "admin_scheduledTasks_triggerUsersExpiration =
     api_call ''POST'' (''/admin/scheduled-tasks/users-expiration/trigger'')
       None (Some TriggerTaskResponseSchema)"

definition admin_scheduledTasks_triggerPasswordsExpiration :: "request" where
  "admin_scheduledTasks_triggerPasswordsExpiration =
     api_call ''POST'' (''/admin/scheduled-tasks/passwords-expiration/trigger'')
       None (Some TriggerTaskResponseSchema)"

definition admin_scheduledTasks_triggerLockoutScan :: "request" where
  "admin_scheduledTasks_triggerLockoutScan =
     api_call ''POST'' (''/admin/scheduled-tasks/lockout-scan/trigger'')
       None (Some TriggerTaskResponseSchema)"

definition passwordReset_getInfo :: "string \<Rightarrow> request" where
  "passwordReset_getInfo token =
     public_call ''GET'' (''/password-reset/'' @ token)
       None (Some PasswordResetInfoSchema)"

definition passwordReset_confirm :: "string \<Rightarrow> string \<Rightarrow> request" where
  "passwordReset_confirm token password =
     public_call ''POST'' (''/password-reset/'' @ token)
       (Some (jobj [(''password'', Some (JStr password))])) None"

definition users_setExpiration :: "string \<Rightarrow> string option \<Rightarrow> request" where
  "users_setExpiration dn expirationDate =
     api_call ''PUT'' (''/users/'' @ encodeURIComponent dn @ ''/expiration'')
       (Some (jobj [(''expirationDate'', Some (JStr (coalesce expirationDate '''')))])) None"

definition auditLogs_exportUrl :: "(string \<times> query_value option) list option \<Rightarrow> string" where
  "auditLogs_exportUrl params = API_BASE @ ''/audit-logs/export'' @ auditQuery params"

definition admin_exportUrl :: "string \<Rightarrow> string \<Rightarrow> bool \<Rightarrow> string" where
  "admin_exportUrl base scope operational =
     API_BASE @ ''/admin/export?'' @ search_params
       ([(''base'', base), (''scope'', scope)] @ (if operational then [(''operational'', ''true'')] else []))"

definition admin_scheduledTasks_getRuns :: "string option \<Rightarrow> request" where
  "admin_scheduledTasks_getRuns taskName =
     api_call ''GET'' (''/admin/scheduled-tasks/runs'' @
         (case taskName of Some t \<Rightarrow> if t \<noteq> '''' then ''?taskName='' @ t else '''' | None \<Rightarrow> ''''))
       None (Some TaskRunsResponseSchema)"

section \<open>Entries are addressed by one path segment\<close>

text \<open>Every request about one entry, with whatever body it carries.\<close>

definition entry_requests :: "string \<Rightarrow> json \<Rightarrow> string \<Rightarrow> string list \<Rightarrow> request list" where
  "entry_requests dn data s keys = [
     users_get dn, users_update dn data, users_delete dn, users_getGroups dn,
     users_changePosixIds dn data, users_changeUid dn s, users_lock dn, users_unlock dn,
     users_setExpiration dn (Some s), users_changePassword dn s, users_removePassword dn,
     users_setSSHKeys dn keys, users_addSSHKey dn s, users_removeSSHKey dn s,
     users_getSudoRoles dn, users_getNetgroups dn, users_sendPasswordReset dn,
     users_updateSamba dn data, users_updateShadow dn data,
     groups_get dn, groups_update dn data, groups_delete dn, groups_changeCn dn s,
     groups_addMember dn s, groups_removeMember dn s, groups_members dn, groups_getSudoRoles dn,
     groups_updateSamba dn data,
     netgroups_get dn, netgroups_expand dn, netgroups_getSudoRoles dn, netgroups_update dn data,
     netgroups_delete dn,
     sudoRoles_get dn, sudoRoles_update dn data, sudoRoles_delete dn, sudoRoles_addUser dn s,
     sudoRoles_removeUser dn s, sudoRoles_addGroup dn s, sudoRoles_removeGroup dn s,
     passwordPolicies_get dn, passwordPolicies_update dn data, passwordPolicies_delete dn]"

definition entry_path :: "string \<Rightarrow> string list \<Rightarrow> string \<Rightarrow> string" where
  "entry_path coll action dn =
     ''/'' @ coll @ ''/'' @ encodeURIComponent dn @ concat (map (\<lambda>a. ''/'' @ a) action)"

text \<open>Collection and action of each of them, in the same order.\<close>

definition entry_table :: "(string \<times> string list) list" where
  "entry_table =
     map (Pair ''users'') [[], [], [], [''groups''], [''change-posix-ids''], [''change-uid''], [''lock''],
       [''unlock''], [''expiration''], [''password''], [''password''], [''ssh-keys''], [''ssh-keys''],
       [''ssh-keys''], [''sudo-roles''], [''netgroups''], [''send-password-reset''], [''samba''],
       [''shadow'']]
     @ map (Pair ''groups'') [[], [], [], [''change-cn''], [''members''], [''members''], [''members''],
       [''sudo-roles''], [''samba'']]
     @ map (Pair ''netgroups'') [[], [''expand''], [''sudo-roles''], [], []]
     @ map (Pair ''sudo-roles'') [[], [], [], [''users''], [''users''], [''groups''], [''groups'']]
     @ map (Pair ''password-policies'') [[], [], []]"

lemmas user_requests = users_get_def users_update_def users_delete_def users_getGroups_def
  users_changePosixIds_def users_changeUid_def users_lock_def users_unlock_def users_setExpiration_def
  users_changePassword_def users_removePassword_def users_setSSHKeys_def users_addSSHKey_def
  users_removeSSHKey_def users_getSudoRoles_def users_getNetgroups_def users_sendPasswordReset_def
  users_updateSamba_def users_updateShadow_def

lemmas other_requests = groups_get_def groups_update_def groups_delete_def groups_changeCn_def
  groups_addMember_def groups_removeMember_def groups_members_def groups_getSudoRoles_def
  groups_updateSamba_def netgroups_get_def netgroups_expand_def netgroups_getSudoRoles_def
  netgroups_update_def netgroups_delete_def sudoRoles_get_def sudoRoles_update_def sudoRoles_delete_def
  sudoRoles_addUser_def sudoRoles_removeUser_def sudoRoles_addGroup_def sudoRoles_removeGroup_def
  passwordPolicies_get_def passwordPolicies_update_def passwordPolicies_delete_def

lemma api_call_path [simp]: "rq_path (api_call m p b s) = p" "rq_method (api_call m p b s) = m"
    "rq_body (api_call m p b s) = b" "rq_schema (api_call m p b s) = s"
  by (simp_all add: api_call_def)

lemma entry_requests_paths:
  "map rq_path (entry_requests dn data s keys) = map (\<lambda>(c, a). entry_path c a dn) entry_table"
  by (simp add: entry_requests_def entry_table_def entry_path_def user_requests other_requests)

lemma entry_table_plain:
  "list_all (\<lambda>(c, a). list_all uri_plain c \<and> list_all (list_all uri_plain) a \<and> length a \<le> 1) entry_table"
  by code_simp

lemma component_plain: "component_char c \<Longrightarrow> c \<noteq> CHR ''/'' \<and> c \<noteq> CHR ''?'' \<and> c \<noteq> CHR ''#''"
  by (auto simp: component_char_def uri_plain_def alnum_def is_digit_def code_def)

lemma plain_free:
  assumes "list_all uri_plain t"
  shows "CHR ''/'' \<notin> set t" "CHR ''?'' \<notin> set t" "CHR ''#'' \<notin> set t"
  using assms component_plain by (auto simp: list_all_iff component_char_def)

lemma component_free:
  "CHR ''/'' \<notin> set (encodeURIComponent s)" "CHR ''?'' \<notin> set (encodeURIComponent s)"
  "CHR ''#'' \<notin> set (encodeURIComponent s)"
  using encode_component_chars[of s] component_plain by (auto simp: list_all_iff)

lemma split_actions:
  "CHR ''/'' \<notin> set t \<Longrightarrow> list_all (\<lambda>a. CHR ''/'' \<notin> set a) action \<Longrightarrow>
   split_on (CHR ''/'') (t @ concat (map ((#) (CHR ''/'')) action)) = t # action"
  by (induction action arbitrary: t) (simp_all add: split_on_append split_on_no_sep)

text \<open>
  C11: Every request about an entry addresses it by one segment of the path, after the collection and
  before at most one action; the segment unescapes to the DN itself, and nothing in the path starts
  a query or a fragment, whatever characters the DN has.
\<close>

theorem entry_requests_address:
  assumes "r \<in> set (entry_requests dn data s keys)"
  shows "\<exists>coll action. split_on (CHR ''/'') (rq_path r) = [[], coll, encodeURIComponent dn] @ action \<and>
     length action \<le> 1 \<and> decodeURIComponent (encodeURIComponent dn) = Some (units_of dn) \<and>
     CHR ''?'' \<notin> set (rq_path r) \<and> CHR ''#'' \<notin> set (rq_path r)"
proof -
  have "rq_path r \<in> set (map (\<lambda>(c, a). entry_path c a dn) entry_table)"
    using assms by (simp only: entry_requests_paths[symmetric, of dn data s keys]) simp
  then obtain c a where ca: "(c, a) \<in> set entry_table" "rq_path r = entry_path c a dn" by auto
  then have p: "list_all uri_plain c" "list_all (list_all uri_plain) a" "length a \<le> 1"
    using entry_table_plain by (auto simp: list_all_iff)
  then have "list_all (\<lambda>x. CHR ''/'' \<notin> set x) a" using plain_free by (auto simp: list_all_iff)
  then have "split_on (CHR ''/'') (rq_path r) = [[], c, encodeURIComponent dn] @ a"
    using plain_free[OF p(1)] component_free(1)[of dn]
    by (simp add: ca(2) entry_path_def split_on_append split_on_no_sep split_actions)
  moreover have pa: "\<forall>w \<in> set a. CHR ''?'' \<notin> set w \<and> CHR ''#'' \<notin> set w"
    using p(2) plain_free by (simp add: list_all_iff)
  have "x \<noteq> CHR ''?'' \<and> x \<noteq> CHR ''#''" if "x \<in> set (rq_path r)" for x
    using that pa plain_free[OF p(1)] component_free[of dn]
    by (auto simp: ca(2) entry_path_def split: if_splits)
  ultimately show ?thesis using p(3) decode_encode_uri by blast
qed

lemma entry_requests_address_witness:
  "\<exists>coll action. split_on (CHR ''/'') (rq_path (users_lock ''uid=a/b,dc=x'')) =
     [[], coll, encodeURIComponent ''uid=a/b,dc=x''] @ action"
proof -
  have "users_lock ''uid=a/b,dc=x'' \<in> set (entry_requests ''uid=a/b,dc=x'' JNull [] [])"
    by (simp add: entry_requests_def)
  from entry_requests_address[OF this] show ?thesis by blast
qed

section \<open>Queries say what was asked\<close>

definition query_of :: "string \<Rightarrow> string" where
  "query_of path = (case cut_at (CHR ''?'') path of None \<Rightarrow> '''' | Some (p, q) \<Rightarrow> q)"

definition as_read :: "(string \<times> string) list \<Rightarrow> (units option \<times> units option) list" where
  "as_read ps = map (\<lambda>(k, v). (Some (units_of k), Some (units_of v))) ps"

lemma search_params_Nil: "search_params ps = [] \<longleftrightarrow> ps = []"
proof (cases ps)
  case (Cons p ps')
  then show ?thesis by (cases p; cases ps') (auto simp: search_params_def)
qed (simp add: search_params_def)

lemma query_of_suffix:
  assumes "CHR ''?'' \<notin> set path"
  shows "read_query (query_of (path @ query_suffix ps)) = as_read ps"
proof (cases "ps = []")
  case True
  then show ?thesis
    using assms by (simp add: query_suffix_def search_params_def query_of_def cut_at_None[THEN iffD2] read_query_def as_read_def)
next
  case False
  then have "query_of (path @ query_suffix ps) = search_params ps"
    using assms by (simp add: query_suffix_def search_params_Nil query_of_def cut_at_append Let_def)
  then show ?thesis by (simp add: read_search_params as_read_def)
qed

lemma audit_listing_reads:
  "read_query (query_of (rq_path (auditLogs_list (Some (filters @ paging))))) =
     read_query (query_of (auditLogs_exportUrl (Some filters))) @ as_read (audit_query_params paging)"
proof -
  have "read_query (query_of (''/audit-logs'' @ query_suffix (audit_query_params (filters @ paging)))) =
      as_read (audit_query_params (filters @ paging))"
    by (rule query_of_suffix) simp
  moreover have "read_query (query_of ((API_BASE @ ''/audit-logs/export'') @ query_suffix (audit_query_params filters))) =
      as_read (audit_query_params filters)"
    by (rule query_of_suffix) (simp add: API_BASE_def)
  ultimately show ?thesis
    by (simp add: auditLogs_list_def auditLogs_exportUrl_def auditQuery_def as_read_def audit_query_params_def)
qed

text \<open>
  C33: What a list request asks for is what the server reads from its query: exactly the parameters that
  are set, the search trimmed, whatever characters they hold; and the CSV export of the audit log
  asks for exactly the filters of the listing, without its paging.
\<close>

theorem queries_read_back:
  "read_query (query_of (rq_path (users_list (Some p)))) = as_read (list_query_params p) \<and>
   read_query (query_of (rq_path (groups_list (Some p)))) = as_read (list_query_params p) \<and>
   read_query (query_of (rq_path (netgroups_list (Some p)))) = as_read (list_query_params p) \<and>
   read_query (query_of (rq_path (sudoRoles_list (Some p)))) = as_read (list_query_params p) \<and>
   read_query (query_of (rq_path (passwordPolicies_list (Some p)))) = as_read (list_query_params p) \<and>
   read_query (query_of (rq_path (auditLogs_list (Some (filters @ paging))))) =
     read_query (query_of (auditLogs_exportUrl (Some filters))) @ as_read (audit_query_params paging)"
proof -
  have q: "CHR ''?'' \<notin> set path \<Longrightarrow> read_query (query_of (path @ listQuery (Some p))) = as_read (list_query_params p)" for path
    by (simp add: listQuery_def query_of_suffix)
  show ?thesis
    using audit_listing_reads q[of "''/users''"] q[of "''/groups''"] q[of "''/netgroups''"] q[of "''/sudo-roles''"]
      q[of "''/password-policies''"]
    by (simp only: users_list_def groups_list_def netgroups_list_def sudoRoles_list_def
        passwordPolicies_list_def api_call_path) simp
qed

end
