(* ===== verification/List_Page.thy ===== *)
theory List_Page
  imports List_Search Api_Requests
begin

text \<open>
  The list pages: the checkbox selection (\<open>lib/use-row-selection.ts\<close>), the handlers that move the
  view (\<open>routes/users/index.tsx\<close> and its siblings), the request a view makes, and the memory of the
  last view of each list (\<open>lib/list-memory.ts\<close>). Rows are known by their DN.
\<close>

section \<open>Selection\<close>

definition selectedRows :: "string list \<Rightarrow> string set \<Rightarrow> string list" where
  "selectedRows rows selected = filter (\<lambda>dn. dn \<in> selected) rows"

definition allSelected :: "string list \<Rightarrow> string set \<Rightarrow> bool" where
  "allSelected rows selected \<longleftrightarrow> 0 < length rows \<and> list_all (\<lambda>dn. dn \<in> selected) rows"

definition someSelected :: "string list \<Rightarrow> string set \<Rightarrow> bool" where
  "someSelected rows selected \<longleftrightarrow> selected \<noteq> {} \<and> \<not> allSelected rows selected"

definition toggleOne :: "string \<Rightarrow> string set \<Rightarrow> string set" where
  "toggleOne dn prev = (if dn \<in> prev then prev - {dn} else insert dn prev)"

definition toggleAll :: "string list \<Rightarrow> string set \<Rightarrow> string set" where
  "toggleAll rows prev = (if list_all (\<lambda>dn. dn \<in> prev) rows then {} else set rows)"

section \<open>The page\<close>

text \<open>The view in the address, the earlier entries of the history, and the selection.\<close>

record 'a list_page =
  lp_search :: "'a list_search_scheme"
  lp_history :: "'a list_search_scheme list"
  lp_selected :: "string set"

text \<open>
  \<open>navigate({ search: prev => ({ ...prev, ...patch }), replace })\<close>; the router reads the new search
  back through the route's validator, \<open>reval\<close>.
\<close>

definition patchSearch :: "('a list_search_scheme \<Rightarrow> 'a list_search_scheme) \<Rightarrow>
    ('a list_search_scheme \<Rightarrow> 'a list_search_scheme) \<Rightarrow> bool \<Rightarrow> 'a list_page \<Rightarrow> 'a list_page" where
  "patchSearch reval patch replace s =
     s\<lparr>lp_search := reval (patch (lp_search s)),
       lp_history := (if replace then lp_history s else lp_search s # lp_history s)\<rparr>"

definition clearSelection :: "'a list_page \<Rightarrow> 'a list_page" where
  "clearSelection s = s\<lparr>lp_selected := {}\<rparr>"

definition page_values :: "string \<Rightarrow> 'a list_page \<Rightarrow> list_values" where
  "page_values defaultSort s = listSearchValues (list_search.truncate (lp_search s)) defaultSort"

definition handleSort :: "('a list_search_scheme \<Rightarrow> 'a list_search_scheme) \<Rightarrow> string \<Rightarrow> string \<Rightarrow> 'a list_page \<Rightarrow> 'a list_page" where
  "handleSort reval defaultSort field s =
     (case nextSort (lv_sort (page_values defaultSort s), lv_dir (page_values defaultSort s)) field of
        (f, d, p) \<Rightarrow> clearSelection
          (patchSearch reval (\<lambda>x. x\<lparr>ls_sort := Some f, ls_dir := Some d, ls_page := p\<rparr>) True s))"

definition handlePageChange :: "('a list_search_scheme \<Rightarrow> 'a list_search_scheme) \<Rightarrow> int \<Rightarrow> 'a list_page \<Rightarrow> 'a list_page" where
  "handlePageChange reval page s =
     clearSelection (patchSearch reval (\<lambda>x. x\<lparr>ls_page := (if page > 1 then Some page else None)\<rparr>) False s)"

definition handlePageSizeChange :: "('a list_search_scheme \<Rightarrow> 'a list_search_scheme) \<Rightarrow> int \<Rightarrow> 'a list_page \<Rightarrow> 'a list_page" where
  "handlePageSizeChange reval sz s =
     clearSelection (patchSearch reval (\<lambda>x. x\<lparr>ls_size := Some sz, ls_page := None\<rparr>) True s)"

text \<open>The \<open>commit\<close> of the search box; it leaves the selection alone.\<close>

definition commitSearch :: "('a list_search_scheme \<Rightarrow> 'a list_search_scheme) \<Rightarrow> string \<Rightarrow> 'a list_page \<Rightarrow> 'a list_page" where
  "commitSearch reval val s =
     patchSearch reval (\<lambda>x. x\<lparr>ls_q := (if val \<noteq> '''' then Some val else None), ls_page := None\<rparr>) True s"

definition select_rows :: "(string set \<Rightarrow> string set) \<Rightarrow> 'a list_page \<Rightarrow> 'a list_page" where
  "select_rows f s = s\<lparr>lp_selected := f (lp_selected s)\<rparr>"

text \<open>The users page also filters by status.\<close>

definition handleStatusChange :: "(users_search \<Rightarrow> users_search) \<Rightarrow> status_filter option \<Rightarrow>
    (unit users_search_ext) list_page \<Rightarrow> (unit users_search_ext) list_page" where
  "handleStatusChange reval status s =
     clearSelection (patchSearch reval (\<lambda>x. x\<lparr>us_status := status, ls_page := None\<rparr>) True s)"

section \<open>The request of a view\<close>

definition list_request :: "list_values \<Rightarrow> list_params" where
  "list_request v = \<lparr>qp_search = Some (lv_q v), qp_sort = Some (lv_sort v),
     qp_order = Some (dir_text (lv_dir v)), qp_limit = Some (lv_size v),
     qp_offset = Some (page_offset v), qp_status = None\<rparr>"

definition status_param :: "status_filter option \<Rightarrow> string option" where
  "status_param f =
     (case f of Some StatusAll \<Rightarrow> None | Some StatusInactive \<Rightarrow> Some ''inactive'' | None \<Rightarrow> Some ''active'')"

definition users_request :: "users_search \<Rightarrow> list_params" where
  "users_request s =
     (list_request (listSearchValues (list_search.truncate s) ''uid''))\<lparr>qp_status := status_param (us_status s)\<rparr>"

section \<open>The memory of a list\<close>

datatype list_path = LUsers | LGroups | LNetgroups | LSudoRoles | LPasswordPolicies

type_synonym 'a list_memory = "list_path \<Rightarrow> 'a option"

definition rememberListSearch :: "list_path \<Rightarrow> 'a \<Rightarrow> 'a list_memory \<Rightarrow> 'a list_memory" where
  "rememberListSearch path search mem = mem(path := Some search)"

definition recallListSearch :: "list_path \<Rightarrow> 'a list_memory \<Rightarrow> 'a option" where
  "recallListSearch path mem = mem path"

lemma recall_remember:
  "recallListSearch p (rememberListSearch q x m) = (if p = q then Some x else recallListSearch p m)"
  by (simp add: recallListSearch_def rememberListSearch_def)

section \<open>What stays selected\<close>

lemma toggleAll_all: "rows \<noteq> [] \<Longrightarrow> allSelected rows (toggleAll rows sel) \<longleftrightarrow> \<not> allSelected rows sel"
  by (auto simp: allSelected_def toggleAll_def list_all_iff)

lemma toggleOne_twice [simp]: "toggleOne dn (toggleOne dn s) = s"
  by (auto simp: toggleOne_def)

lemma toggleOne_mem: "x \<in> toggleOne dn s \<longleftrightarrow> (x \<in> s) \<noteq> (x = dn)"
  by (auto simp: toggleOne_def)

lemma selectedRows_rows: "set (selectedRows rows sel) = set rows \<inter> sel"
  by (auto simp: selectedRows_def)

text \<open>
  The validator of a list route, as the revalidation of its view.
\<close>

definition list_norm :: "string list \<Rightarrow> list_search \<Rightarrow> list_search" where
  "list_norm fs s = listSearchValidator fs (search_json s)"

lemma norm_fields:
  "ls_page (list_norm fs s) = asPage (map_option (JNum \<circ> of_int) (ls_page s))"
  "ls_q (list_norm fs s) = asString (map_option JStr (ls_q s))"
  "ls_size (list_norm fs s) = asSize (map_option (JNum \<circ> of_int) (ls_size s))"
  "ls_sort (list_norm fs s) = asOneOf (map_option JStr (ls_sort s)) (identity_names fs)"
  "ls_dir (list_norm fs s) = asOneOf (map_option (JStr \<circ> dir_text) (ls_dir s)) dir_names"
  by (simp_all add: list_norm_def listSearchValidator_def)

lemma truncate_id [simp]: "list_search.truncate (s :: list_search) = s"
  by (simp add: list_search.truncate_def)

lemma asSize_values: "sz \<in> set PAGE_SIZES \<Longrightarrow>
    coalesce (asSize (Some (JNum (of_int sz)))) DEFAULT_PAGE_SIZE = sz"
  by (auto simp: asSize_def PAGE_SIZES_def DEFAULT_PAGE_SIZE_def)

text \<open>
  A bulk action only ever sees rows on screen: the selected rows are rows of the page. Every change
  of sort, page or page size empties the selection, and every change of sort, size or search goes
  back to page 1; the view afterwards has the field, page, size or search that was asked for.
\<close>

theorem list_page_moves:
  fixes s :: "unit list_page"
  assumes "field \<in> set fs" "sz \<in> set PAGE_SIZES" "1 \<le> page"
  shows "set (selectedRows rows (lp_selected s)) \<subseteq> set rows \<and>
    lp_selected (handleSort (list_norm fs) d field s) = {} \<and>
    lp_selected (handlePageChange (list_norm fs) page s) = {} \<and>
    lp_selected (handlePageSizeChange (list_norm fs) sz s) = {} \<and>
    (let v = page_values d (handleSort (list_norm fs) d field s) in
       lv_page v = 1 \<and> lv_sort v = field \<and>
       (lv_dir v = Desc \<longleftrightarrow> lv_sort (page_values d s) = field \<and> lv_dir (page_values d s) = Asc)) \<and>
    lv_page (page_values d (handlePageChange (list_norm fs) page s)) = page \<and>
    (let v = page_values d (handlePageSizeChange (list_norm fs) sz s) in
       lv_page v = 1 \<and> lv_size v = sz) \<and>
    (let v = page_values d (commitSearch (list_norm fs) val s) in
       lv_page v = 1 \<and> lv_q v = val)"
proof -
  note defs = handleSort_def handlePageChange_def handlePageSizeChange_def commitSearch_def
    clearSelection_def patchSearch_def page_values_def listSearchValues_def nextSort_def
  have a: "set (selectedRows rows (lp_selected s)) \<subseteq> set rows" by (simp add: selectedRows_rows)
  have b: "lp_selected (handleSort (list_norm fs) d field s) = {}"
    "lp_selected (handlePageChange (list_norm fs) page s) = {}"
    "lp_selected (handlePageSizeChange (list_norm fs) sz s) = {}"
    by (simp_all add: defs)
  have c: "let v = page_values d (handleSort (list_norm fs) d field s) in
       lv_page v = 1 \<and> lv_sort v = field \<and>
       (lv_dir v = Desc \<longleftrightarrow> lv_sort (page_values d s) = field \<and> lv_dir (page_values d s) = Asc)"
    using assms(1) by (simp add: defs norm_fields Let_def)
  have e: "lv_page (page_values d (handlePageChange (list_norm fs) page s)) = page"
    using assms(3) by (simp add: defs norm_fields)
  have f: "let v = page_values d (handlePageSizeChange (list_norm fs) sz s) in
       lv_page v = 1 \<and> lv_size v = sz"
    using asSize_values[OF assms(2)] by (simp add: defs norm_fields Let_def)
  have g: "let v = page_values d (commitSearch (list_norm fs) val s) in lv_page v = 1 \<and> lv_q v = val"
    by (simp add: defs norm_fields Let_def)
  show ?thesis using a b c e f g by blast
qed

definition sample_page :: "unit list_page" where
  "sample_page = \<lparr>lp_search = listSearchValidator [''cn''] (JObj [(''page'', JNum 3)]), lp_history = [],
     lp_selected = {''cn=a''}\<rparr>"

lemma list_page_moves_witness:
  "lv_page (page_values ''cn'' (handlePageSizeChange (list_norm [''cn'']) 50 sample_page)) = 1"
  using list_page_moves[of "''cn''" "[''cn'']" 50 1 "[]" sample_page "''cn''" "''''"]
  by (simp add: PAGE_SIZES_def Let_def)

end
