(* ===== verification/Api_Client.thy ===== *)
theory Api_Client
  imports Api_Requests Api_Types
begin

text \<open>
  One call of the API client: \<open>fetchApi\<close> and \<open>fetchApiPublic\<close> of \<open>lib/api.ts\<close> as a machine that the
  network, the timer and the caller's signal drive, and the retry rule of \<open>main.tsx\<close>. The schema
  library's \<open>safeParse\<close>, the text of an error that is no string, and the em dash of one message are
  in the environment.
\<close>

datatype js_error = ApiError int string | AbortError | OtherError string

record api_env =
  env_parse :: parser
  env_text :: "json \<Rightarrow> string"
  env_dash :: string

datatype call_phase =
    AwaitHeaders
  | AwaitBody
  | AwaitErrorBody int \<comment> \<open>the status of a response that is not \<open>ok\<close>\<close>
  | Settled "(js_error, json option) result"

record api_state =
  cl_phase :: call_phase
  cl_timedOut :: bool
  cl_timer :: bool \<comment> \<open>the timeout is armed\<close>
  cl_aborted :: bool \<comment> \<open>of the call's own controller\<close>
  cl_authErrors :: nat \<comment> \<open>calls of \<open>onAuthError\<close>\<close>

datatype call_event =
    Headers int
  | Body "json option" \<comment> \<open>the whole body; \<open>None\<close> when it is not JSON\<close>
  | NetworkError string
  | TimerFires
  | CallerAborts

section \<open>Settling\<close>

definition parseResponse :: "api_env \<Rightarrow> schema \<Rightarrow> json \<Rightarrow> (js_error, json option) result" where
  "parseResponse env sch data =
     (case env_parse env sch (Some data) of
        Some v \<Rightarrow> Inr v
      | None \<Rightarrow> Inl (ApiError 0 (''The server sent something this version of the app does not understand. '' @
          ''It may have been updated '' @ env_dash env @ '' reload the page, and report it if it persists.'')))"

text \<open>The \<open>finally\<close> clause.\<close>

definition settle_call :: "(js_error, json option) result \<Rightarrow> api_state \<Rightarrow> api_state" where
  "settle_call r s = s\<lparr>cl_phase := Settled r, cl_timer := False\<rparr>"

text \<open>The \<open>catch\<close> clause, then \<open>finally\<close>.\<close>

definition call_failed :: "js_error \<Rightarrow> api_state \<Rightarrow> api_state" where
  "call_failed e s =
     settle_call (Inl (if e = AbortError
       then (if \<not> cl_timedOut s then AbortError else ApiError 0 ''Request timed out'')
       else e)) s"

text \<open>
  The error of a response that is not \<open>ok\<close>, from its body: \<^const>\<open>None\<close> when reading the body
  failed, for whatever reason.
\<close>

definition error_response :: "api_env \<Rightarrow> int \<Rightarrow> json option \<Rightarrow> js_error" where
  "error_response env status body =
     (let error = coalesce body (jobj [(''error'', Some (JStr ''Unknown error''))])
      in if error = JNull then OtherError ''Cannot read properties of null''
         else (let m = get_prop error ''error''
               in if truthy m
                  then ApiError status (case m of Some (JStr t) \<Rightarrow> t | Some v \<Rightarrow> env_text env v | None \<Rightarrow> '''')
                  else ApiError status ''Request failed''))"

section \<open>Steps\<close>

definition controller_abort :: "api_env \<Rightarrow> api_state \<Rightarrow> api_state" where
  "controller_abort env s =
     (let s' = s\<lparr>cl_aborted := True\<rparr>
      in case cl_phase s of
           AwaitHeaders \<Rightarrow> call_failed AbortError s'
         | AwaitBody \<Rightarrow> call_failed AbortError s'
         | AwaitErrorBody status \<Rightarrow> call_failed (error_response env status None) s'
         | Settled r \<Rightarrow> s')"

definition headers_arrive :: "bool \<Rightarrow> int \<Rightarrow> api_state \<Rightarrow> api_state" where
  "headers_arrive public status s =
     (if 200 \<le> status \<and> status \<le> 299 then s\<lparr>cl_phase := AwaitBody\<rparr>
      else if \<not> public \<and> status = 401
      then call_failed (ApiError status ''Session expired'') (s\<lparr>cl_authErrors := cl_authErrors s + 1\<rparr>)
      else s\<lparr>cl_phase := AwaitErrorBody status\<rparr>)"

definition body_arrives :: "api_env \<Rightarrow> schema option \<Rightarrow> json option \<Rightarrow> api_state \<Rightarrow> api_state" where
  "body_arrives env sch body s =
     (case body of
        None \<Rightarrow> call_failed (OtherError ''SyntaxError'') s
      | Some data \<Rightarrow>
          (case sch of
             None \<Rightarrow> settle_call (Inr (Some data)) s
           | Some t \<Rightarrow>
               (case parseResponse env t data of
                  Inl e \<Rightarrow> call_failed e s
                | Inr v \<Rightarrow> settle_call (Inr v) s)))"

definition call_step :: "api_env \<Rightarrow> bool \<Rightarrow> schema option \<Rightarrow> call_event \<Rightarrow> api_state \<Rightarrow> api_state" where
  "call_step env public sch e s =
     (case e of
        Headers status \<Rightarrow> if cl_phase s = AwaitHeaders then headers_arrive public status s else s
      | Body b \<Rightarrow>
          (case cl_phase s of
             AwaitBody \<Rightarrow> body_arrives env sch b s
           | AwaitErrorBody status \<Rightarrow> call_failed (error_response env status b) s
           | _ \<Rightarrow> s)
      | NetworkError m \<Rightarrow>
          (case cl_phase s of
             AwaitErrorBody status \<Rightarrow> call_failed (error_response env status None) s
           | Settled r \<Rightarrow> s
           | _ \<Rightarrow> call_failed (OtherError m) s)
      | TimerFires \<Rightarrow>
          if cl_timer s then controller_abort env (s\<lparr>cl_timedOut := True, cl_timer := False\<rparr>) else s
      | CallerAborts \<Rightarrow> controller_abort env s)"

definition call_start :: "api_env \<Rightarrow> bool \<Rightarrow> api_state" where
  "call_start env signal_aborted =
     (let s = \<lparr>cl_phase = AwaitHeaders, cl_timedOut = False, cl_timer = True, cl_aborted = False,
        cl_authErrors = 0\<rparr>
      in if signal_aborted then controller_abort env s else s)"

text \<open>The two functions: what the call has come to after the events so far.\<close>

definition fetchApi :: "api_env \<Rightarrow> schema option \<Rightarrow> bool \<Rightarrow> call_event list \<Rightarrow> api_state" where
  "fetchApi env sch signal_aborted events = fold (call_step env False sch) events (call_start env signal_aborted)"

definition fetchApiPublic :: "api_env \<Rightarrow> schema option \<Rightarrow> bool \<Rightarrow> call_event list \<Rightarrow> api_state" where
  "fetchApiPublic env sch signal_aborted events = fold (call_step env True sch) events (call_start env signal_aborted)"

definition call_result :: "api_state \<Rightarrow> (js_error, json option) result option" where
  "call_result s = (case cl_phase s of Settled r \<Rightarrow> Some r | _ \<Rightarrow> None)"

section \<open>Invariant\<close>

definition call_inv :: "api_env \<Rightarrow> bool \<Rightarrow> schema option \<Rightarrow> api_state \<Rightarrow> bool" where
  "call_inv env public sch s \<longleftrightarrow>
     (case cl_phase s of
        Settled r \<Rightarrow> \<not> cl_timer s \<and>
          (\<forall>v t. r = Inr v \<and> sch = Some t \<longrightarrow> (\<exists>d. env_parse env t (Some d) = Some v)) \<and>
          (\<not> public \<longrightarrow> cl_authErrors s = (if \<exists>m. r = Inl (ApiError 401 m) then 1 else 0)) \<and>
          (public \<longrightarrow> cl_authErrors s = 0) \<and>
          (r = Inl AbortError \<longrightarrow> cl_aborted s \<and> \<not> cl_timedOut s)
      | ph \<Rightarrow> cl_timer s \<and> \<not> cl_timedOut s \<and> \<not> cl_aborted s \<and> cl_authErrors s = 0 \<and>
          (\<forall>status. ph = AwaitErrorBody status \<longrightarrow> \<not> (200 \<le> status \<and> status \<le> 299) \<and> (public \<or> status \<noteq> 401)))"

lemma error_response_no_abort [simp]: "error_response env st b \<noteq> AbortError"
  by (simp add: error_response_def Let_def)

lemma error_response_status: "error_response env st b = ApiError st' m \<Longrightarrow> st' = st"
  by (auto simp: error_response_def Let_def split: if_splits)

lemma parse_response_no_abort: "parseResponse env t d \<noteq> Inl AbortError" "parseResponse env t d \<noteq> Inl (ApiError 401 m)"
  by (simp_all add: parseResponse_def split: option.split)

lemma settle_call_inv:
  assumes "\<And>v t. r = Inr v \<Longrightarrow> sch = Some t \<Longrightarrow> \<exists>d. env_parse env t (Some d) = Some v"
    and "\<not> public \<Longrightarrow> cl_authErrors s = (if \<exists>m. r = Inl (ApiError 401 m) then 1 else 0)"
    and "public \<Longrightarrow> cl_authErrors s = 0"
    and "r = Inl AbortError \<Longrightarrow> cl_aborted s \<and> \<not> cl_timedOut s"
  shows "call_inv env public sch (settle_call r s)"
  using assms by (auto simp: call_inv_def settle_call_def)

text \<open>An abort never reads as a 401, so it needs no condition on the error.\<close>

lemma failed_inv:
  assumes "cl_authErrors s = 0" and "\<not> public \<Longrightarrow> \<forall>m. e \<noteq> ApiError 401 m"
    and "e = AbortError \<Longrightarrow> cl_aborted s"
  shows "call_inv env public sch (call_failed e s)"
  unfolding call_failed_def using assms by (intro settle_call_inv) (auto split: if_splits)

lemma waiting_inv:
  "call_inv env public sch s \<Longrightarrow> (\<forall>r. cl_phase s \<noteq> Settled r) \<Longrightarrow>
   cl_timer s \<and> \<not> cl_timedOut s \<and> \<not> cl_aborted s \<and> cl_authErrors s = 0"
  by (cases "cl_phase s") (auto simp: call_inv_def)

lemma error_phase_inv:
  "call_inv env public sch s \<Longrightarrow> cl_phase s = AwaitErrorBody st \<Longrightarrow> \<not> public \<Longrightarrow>
   error_response env st b \<noteq> ApiError 401 m"
  using error_response_status[of env st b 401 m] by (auto simp: call_inv_def)

lemma settled_inv_aborted:
  "call_inv env public sch s \<Longrightarrow> cl_phase s = Settled r \<Longrightarrow> call_inv env public sch (s\<lparr>cl_aborted := True\<rparr>)"
  by (auto simp: call_inv_def)

lemma abort_inv:
  assumes inv: "call_inv env public sch s" and waiting: "\<And>r. cl_phase s \<noteq> Settled r"
  shows "call_inv env public sch (controller_abort env (s\<lparr>cl_timedOut := b, cl_timer := c\<rparr>))"
  using waiting waiting_inv[OF inv] error_phase_inv[OF inv]
  by (cases "cl_phase s") (auto simp: controller_abort_def Let_def intro!: failed_inv)

lemma call_inv_step:
  assumes inv: "call_inv env public sch s"
  shows "call_inv env public sch (call_step env public sch e s)"
proof (cases "\<exists>r. cl_phase s = Settled r")
  case True
  then obtain r where r: "cl_phase s = Settled r" by blast
  then have "\<not> cl_timer s" using inv by (auto simp: call_inv_def)
  then show ?thesis
    using inv r settled_inv_aborted[OF inv r]
    by (cases e) (simp_all add: call_step_def controller_abort_def Let_def)
next
  case False
  then have w: "cl_timer s" "\<not> cl_timedOut s" "\<not> cl_aborted s" "cl_authErrors s = 0"
    using waiting_inv[OF inv] by auto
  note ab = abort_inv[OF inv] error_phase_inv[OF inv]
  show ?thesis
  proof (cases e)
    case (Headers st)
    have "call_inv env public sch (headers_arrive public st s)"
      using w by (auto simp: headers_arrive_def call_failed_def intro!: settle_call_inv) (auto simp: call_inv_def)
    with Headers inv show ?thesis by (simp add: call_step_def)
  next
    case (Body b)
    have "call_inv env public sch (body_arrives env sch b s)"
      using w parse_response_no_abort
      by (auto simp: body_arrives_def split: option.split sum.split intro!: failed_inv settle_call_inv)
        (auto simp: parseResponse_def split: option.splits)
    moreover have "call_inv env public sch (call_failed (error_response env st b) s)"
      if "cl_phase s = AwaitErrorBody st" for st
      using w ab(2)[OF that] by (intro failed_inv) auto
    ultimately show ?thesis using Body inv by (simp add: call_step_def split: call_phase.split)
  next
    case (NetworkError m)
    have "call_inv env public sch (call_failed (OtherError m) s)" using w by (intro failed_inv) auto
    moreover have "call_inv env public sch (call_failed (error_response env st None) s)"
      if "cl_phase s = AwaitErrorBody st" for st
      using w ab(2)[OF that] by (intro failed_inv) auto
    ultimately show ?thesis using NetworkError inv by (simp add: call_step_def split: call_phase.split)
  next
    case TimerFires
    then show ?thesis using w False ab(1) by (simp add: call_step_def)
  next
    case CallerAborts
    then show ?thesis using False ab(1)[of "cl_timer s" "cl_timedOut s"] by (simp add: call_step_def)
  qed
qed

lemma call_inv_start: "call_inv env public sch (call_start env b)"
  by (auto simp: call_start_def Let_def controller_abort_def intro!: failed_inv) (simp add: call_inv_def)

lemma call_inv_fold: "call_inv env public sch s \<Longrightarrow> call_inv env public sch (fold (call_step env public sch) es s)"
  by (induction es arbitrary: s) (simp_all add: call_inv_step)

lemma fetch_inv:
  "call_inv env False sch (fetchApi env sch b es)" "call_inv env True sch (fetchApiPublic env sch b es)"
  by (simp_all add: fetchApi_def fetchApiPublic_def call_inv_fold call_inv_start)

section \<open>Contracts\<close>

lemma settled_stays:
  assumes "call_inv env public sch s" "cl_phase s = Settled r"
  shows "cl_phase (call_step env public sch e s) = Settled r"
  using assms by (cases e) (auto simp: call_step_def controller_abort_def call_inv_def Let_def)

lemma settled_fold:
  "call_inv env public sch s \<Longrightarrow> cl_phase s = Settled r \<Longrightarrow>
   cl_phase (fold (call_step env public sch) es s) = Settled r"
  by (induction es arbitrary: s) (simp_all add: call_inv_step settled_stays)

lemma timer_settles:
  assumes "call_inv env public sch s"
  shows "\<exists>r. cl_phase (call_step env public sch TimerFires s) = Settled r"
  using assms by (cases "cl_phase s")
    (auto simp: call_step_def controller_abort_def call_failed_def settle_call_def call_inv_def Let_def)

lemma fold_timer_settles:
  assumes "call_inv env public sch s" "TimerFires \<in> set es"
  shows "\<exists>r. cl_phase (fold (call_step env public sch) es s) = Settled r"
proof -
  obtain as bs where es: "es = as @ TimerFires # bs" using assms(2) by (meson split_list)
  let ?s = "fold (call_step env public sch) as s"
  have inv: "call_inv env public sch ?s" by (rule call_inv_fold[OF assms(1)])
  from timer_settles[OF inv] obtain r where "cl_phase (call_step env public sch TimerFires ?s) = Settled r" by blast
  then show ?thesis using settled_fold[OF call_inv_step[OF inv]] es by auto
qed

text \<open>
  C16: No call hangs and none settles twice: once its timeout has fired the promise is settled, whatever
  else happened; a settled promise keeps its result under every later event, and its timeout is
  cleared.
\<close>

theorem fetch_settles:
  assumes "call_result (fetchApi env sch b es) = Some r \<or> TimerFires \<in> set es"
  shows "\<exists>r'. (\<forall>more. call_result (fetchApi env sch b (es @ more)) = Some r') \<and>
    (call_result (fetchApi env sch b es) = Some r \<longrightarrow> r' = r) \<and> \<not> cl_timer (fetchApi env sch b es)"
proof -
  let ?s = "fetchApi env sch b es"
  have inv: "call_inv env False sch ?s" by (rule fetch_inv)
  obtain r' where r': "cl_phase ?s = Settled r'"
    using assms fold_timer_settles[OF call_inv_start, of es env False sch b]
    by (auto simp: call_result_def fetchApi_def split: call_phase.splits)
  have "call_result (fetchApi env sch b (es @ more)) = Some r'" for more
    using settled_fold[OF inv r', of more] by (simp add: fetchApi_def call_result_def)
  moreover have "\<not> cl_timer ?s" using inv r' by (simp add: call_inv_def)
  ultimately show ?thesis using r' by (auto simp: call_result_def)
qed

text \<open>
  C18: The session is declared lost exactly when a call of the signed-in client is answered 401, once per
  call, and never by the public calls of the password reset.
\<close>

theorem auth_error_exact:
  "cl_authErrors (fetchApi env sch b es) =
     (if \<exists>m. call_result (fetchApi env sch b es) = Some (Inl (ApiError 401 m)) then 1 else 0) \<and>
   cl_authErrors (fetchApiPublic env sch b es) = 0"
  using fetch_inv[of env sch b es]
  by (auto simp: call_inv_def call_result_def split: call_phase.splits)

text \<open>
  C17: A call with a schema only ever resolves to a value of that schema: with a schema library that
  behaves as documented, the components that use the answer find every required field, of its type.
\<close>

theorem fetch_typed:
  assumes "zod (env_parse env)" "wf_schema t"
    and "call_result (fetchApi env (Some t) b es) = Some (Inr v)"
  shows "out_ok t v \<and> env_parse env t v = Some v"
proof -
  have "\<exists>d. env_parse env t (Some d) = Some v"
    using fetch_inv(1)[of env "Some t" b es] assms(3)
    by (auto simp: call_inv_def call_result_def split: call_phase.splits)
  then show ?thesis
    using zod.parse_out_ok[OF assms(1,2)] zod.reparse[OF assms(1,2)] by blast
qed

lemma unknown_error: "error_response env st None = ApiError st ''Unknown error''"
  by (simp add: error_response_def jobj_def get_prop_def truthy_def Let_def)

text \<open>
  What a pending call makes of an abort. While it waits for the response, or for the body of a good
  one, the caller's cancellation comes back as the original \<open>AbortError\<close> and only the call's own
  timeout as an error; while it reads the body of an error response, either is swallowed and the
  status comes back with the text \<open>Unknown error\<close>.
\<close>

theorem fetch_abort_meaning:
  assumes "call_result (fetchApi env sch b es) = None"
  shows "call_result (fetchApi env sch b (es @ [CallerAborts])) =
       Some (Inl (case cl_phase (fetchApi env sch b es) of
         AwaitErrorBody st \<Rightarrow> ApiError st ''Unknown error'' | _ \<Rightarrow> AbortError)) \<and>
     call_result (fetchApi env sch b (es @ [TimerFires])) =
       Some (Inl (case cl_phase (fetchApi env sch b es) of
         AwaitErrorBody st \<Rightarrow> ApiError st ''Unknown error'' | _ \<Rightarrow> ApiError 0 ''Request timed out''))"
proof -
  let ?s = "fetchApi env sch b es"
  have w: "cl_timer ?s" "\<not> cl_timedOut ?s"
    using fetch_inv(1)[of env sch b es] assms
    by (auto simp: call_inv_def call_result_def split: call_phase.splits)
  have "call_result (call_step env False sch CallerAborts ?s) =
       Some (Inl (case cl_phase ?s of AwaitErrorBody st \<Rightarrow> ApiError st ''Unknown error'' | _ \<Rightarrow> AbortError))"
    using w assms by (cases "cl_phase ?s")
      (simp_all add: call_step_def controller_abort_def call_failed_def settle_call_def call_result_def
        unknown_error Let_def)
  moreover have "call_result (call_step env False sch TimerFires ?s) =
       Some (Inl (case cl_phase ?s of AwaitErrorBody st \<Rightarrow> ApiError st ''Unknown error'' | _ \<Rightarrow> ApiError 0 ''Request timed out''))"
    using w assms by (cases "cl_phase ?s")
      (simp_all add: call_step_def controller_abort_def call_failed_def settle_call_def call_result_def
        unknown_error Let_def)
  ultimately show ?thesis by (simp add: fetchApi_def)
qed

section \<open>Retries\<close>

text \<open>The \<open>retry\<close> option of the query client; the count is of the failures before this one.\<close>

definition retry_query :: "nat \<Rightarrow> js_error \<Rightarrow> bool" where
  "retry_query failureCount e =
     (if e = AbortError then False
      else if (case e of ApiError st m \<Rightarrow> st = 401 | _ \<Rightarrow> False) then False
      else failureCount < 1)"

text \<open>The attempts a query makes, given what each would come to.\<close>

fun query_attempts :: "nat \<Rightarrow> (js_error, json option) result list \<Rightarrow> (js_error, json option) result list" where
  "query_attempts n [] = []"
| "query_attempts n (r # rs) =
     r # (case r of
            Inr v \<Rightarrow> []
          | Inl e \<Rightarrow> if retry_query n e then query_attempts (n + 1) rs else [])"

lemma attempts_bound: "1 \<le> n \<Longrightarrow> length (query_attempts n rs) \<le> 1"
  by (cases rs) (auto simp: retry_query_def split: sum.split)

lemma attempts_le_2: "length (query_attempts 0 rs) \<le> 2"
  using attempts_bound[of 1] by (cases rs) (auto split: sum.split)

lemma no_retry_after_401: "query_attempts n (Inl (ApiError 401 m) # rs) = [Inl (ApiError 401 m)]"
    "query_attempts n (Inl AbortError # rs) = [Inl AbortError]"
  by (simp_all add: retry_query_def)

section \<open>Calls that happen\<close>

definition sample_env :: api_env where
  "sample_env = \<lparr>env_parse = zod_run, env_text = (\<lambda>j. ''''), env_dash = ''-''\<rparr>"

lemma fetch_settles_witness: "\<not> cl_timer (fetchApi sample_env None False [Headers 500, TimerFires])"
  using fetch_settles[of sample_env None False "[Headers 500, TimerFires]"] by auto

lemma fetch_abort_meaning_witness:
  "call_result (fetchApi sample_env None False ([] @ [CallerAborts])) = Some (Inl AbortError)"
proof -
  have s: "cl_phase (fetchApi sample_env None False []) = AwaitHeaders"
    by (simp add: fetchApi_def call_start_def)
  then have "call_result (fetchApi sample_env None False []) = None" by (simp add: call_result_def)
  from fetch_abort_meaning[OF this] s show ?thesis by simp
qed

lemma fetch_typed_witness:
  "out_ok PolicyEnforcementSchema (Some (JStr ''unknown''))"
proof -
  let ?es = "[Headers 200, Body (Some (JNum 1))]"
  have r: "call_result (fetchApi sample_env (Some PolicyEnforcementSchema) False ?es) = Some (Inr (Some (JStr ''unknown'')))"
    by (simp add: fetchApi_def call_start_def call_step_def headers_arrive_def body_arrives_def
        parseResponse_def settle_call_def call_result_def sample_env_def PolicyEnforcementSchema_def)
  have "zod (env_parse sample_env)" by (simp add: sample_env_def run.zod_axioms)
  moreover have "wf_schema PolicyEnforcementSchema" by (simp add: PolicyEnforcementSchema_def)
  ultimately show ?thesis using fetch_typed[OF _ _ r] by blast
qed

end
