(* ===== verification/Csv_Import.thy ===== *)
theory Csv_Import
  imports Netgroups Api_Requests
begin

text \<open>
  The CSV import (\<open>components/csv-import.tsx\<close>) and the column lists of its three routes: matching
  columns to fields, reading a row, and the screen as a state machine from the chosen file to the
  report. \<open>Papa.parse\<close> is outside the repository: its answer is an input of the machine, one
  association list per data row, with the columns a short row lacks missing.
\<close>

section \<open>Fields\<close>

datatype field_type = FString | FNumber | FStringArray

record import_field =
  fl_key :: string
  fl_label :: string
  fl_type :: field_type
  fl_required :: bool
  fl_aliases :: "string list option"
  fl_pattern :: "(string \<Rightarrow> bool) option"
  fl_hint :: "string option"
  fl_example :: "string option"

text \<open>The members an object literal leaves out.\<close>

definition a_field :: "string \<Rightarrow> string \<Rightarrow> field_type \<Rightarrow> import_field" where
  "a_field key label ty =
     \<lparr>fl_key = key, fl_label = label, fl_type = ty, fl_required = False, fl_aliases = None,
      fl_pattern = None, fl_hint = None, fl_example = None\<rparr>"

text \<open>The expression \<open>/^[a-zA-Z0-9._-]+$/\<close>.\<close>

definition RDN :: "string \<Rightarrow> bool" where
  "RDN s \<longleftrightarrow> s \<noteq> [] \<and> list_all (\<lambda>c. alnum c \<or> c \<in> set ''._-'') s"

definition RDN_HINT :: string where
  "RDN_HINT = ''must contain only letters, digits, '' @ [CHR 0x27, CHR ''.'', CHR 0x27] @ '', ''
     @ [CHR 0x27, CHR ''_'', CHR 0x27] @ '' or '' @ [CHR 0x27, CHR ''-'', CHR 0x27]"

definition USER_FIELDS :: "import_field list" where
  "USER_FIELDS =
    [(a_field ''uid'' ''Username (uid)'' FString)\<lparr>fl_required := True, fl_pattern := Some RDN,
       fl_hint := Some RDN_HINT, fl_aliases := Some [''username'', ''login''], fl_example := Some ''jdoe''\<rparr>,
     (a_field ''givenName'' ''First name'' FString)\<lparr>fl_required := True,
       fl_aliases := Some [''firstname'', ''first name''], fl_example := Some ''Jane''\<rparr>,
     (a_field ''sn'' ''Last name'' FString)\<lparr>fl_required := True,
       fl_aliases := Some [''surname'', ''lastname'', ''last name''], fl_example := Some ''Doe''\<rparr>,
     (a_field ''uidNumber'' ''UID number'' FNumber)\<lparr>fl_required := True,
       fl_aliases := Some [''uidnumber''], fl_example := Some ''10001''\<rparr>,
     (a_field ''gidNumber'' ''GID number'' FNumber)\<lparr>fl_required := True,
       fl_aliases := Some [''gidnumber''], fl_example := Some ''10001''\<rparr>,
     (a_field ''cn'' ''Common name'' FString)\<lparr>fl_example := Some ''Jane Doe''\<rparr>,
     (a_field ''displayName'' ''Display name'' FString)\<lparr>fl_example := Some ''Jane Doe''\<rparr>,
     (a_field ''mail'' ''Email'' FString)\<lparr>fl_aliases := Some [''email''],
       fl_example := Some ''jane.doe@example.com''\<rparr>,
     (a_field ''telephoneNumber'' ''Phone'' FString)\<lparr>fl_aliases := Some [''phone'', ''telephone''],
       fl_example := Some ''+33 1 23 45 67 89''\<rparr>,
     (a_field ''title'' ''Title'' FString)\<lparr>fl_example := Some ''Systems Engineer''\<rparr>,
     (a_field ''departmentNumber'' ''Department'' FString)\<lparr>fl_aliases := Some [''department''],
       fl_example := Some ''Infrastructure''\<rparr>,
     (a_field ''o'' ''Organization'' FString)\<lparr>fl_aliases := Some [''organization'', ''org''],
       fl_example := Some ''Example Corp''\<rparr>,
     (a_field ''employeeType'' ''Employee type'' FString)\<lparr>fl_example := Some ''permanent''\<rparr>,
     (a_field ''description'' ''Description'' FString)\<lparr>fl_example := Some ''Imported from HR export''\<rparr>,
     (a_field ''loginShell'' ''Login shell'' FString)\<lparr>fl_aliases := Some [''shell''],
       fl_example := Some ''/bin/bash''\<rparr>,
     (a_field ''homeDirectory'' ''Home directory'' FString)\<lparr>fl_aliases := Some [''home''],
       fl_example := Some ''/home/jdoe''\<rparr>,
     (a_field ''password'' ''Password'' FString)\<lparr>fl_example := Some ''ChangeMe-2026''\<rparr>,
     (a_field ''groups'' ''Groups (CNs)'' FStringArray)\<lparr>fl_example := Some ''developers;oncall''\<rparr>,
     (a_field ''expirationDate'' ''Expiration date'' FString)\<lparr>fl_aliases := Some [''expiration'', ''expires''],
       fl_example := Some ''2027-01-31''\<rparr>]"

definition GROUP_FIELDS :: "import_field list" where
  "GROUP_FIELDS =
    [(a_field ''cn'' ''Name (cn)'' FString)\<lparr>fl_required := True, fl_pattern := Some RDN,
       fl_hint := Some RDN_HINT, fl_aliases := Some [''name'', ''groupname''], fl_example := Some ''developers''\<rparr>,
     (a_field ''gidNumber'' ''GID number'' FNumber)\<lparr>fl_required := True,
       fl_aliases := Some [''gidnumber'', ''gid''], fl_example := Some ''20001''\<rparr>,
     (a_field ''description'' ''Description'' FString)\<lparr>fl_example := Some ''Application developers''\<rparr>,
     (a_field ''memberUid'' ''Members (uids)'' FStringArray)\<lparr>fl_aliases := Some [''members'', ''memberuid''],
       fl_example := Some ''jdoe;asmith''\<rparr>]"

text \<open>\<open>TRIPLE_HINT\<close> holds typographic quotes, which a Latin-1 text cannot: it is an argument.\<close>

definition NETGROUP_FIELDS :: "string \<Rightarrow> import_field list" where
  "NETGROUP_FIELDS TRIPLE_HINT =
    [(a_field ''cn'' ''Name (cn)'' FString)\<lparr>fl_required := True, fl_pattern := Some RDN,
       fl_hint := Some RDN_HINT, fl_aliases := Some [''name'', ''netgroup''], fl_example := Some ''ops-oncall''\<rparr>,
     (a_field ''description'' ''Description'' FString)\<lparr>fl_example := Some ''On-call operators''\<rparr>,
     (a_field ''triples'' ''Triples'' FStringArray)\<lparr>fl_pattern := Some NETGROUP_TRIPLE_TEXT,
       fl_hint := Some TRIPLE_HINT, fl_aliases := Some [''nisnetgrouptriple'', ''triple'', ''members''],
       fl_example := Some ''(,jdoe,);(,asmith,)''\<rparr>,
     (a_field ''members'' ''Nested netgroups'' FStringArray)\<lparr>fl_pattern := Some RDN,
       fl_hint := Some RDN_HINT, fl_aliases := Some [''membernisnetgroup'', ''nested''],
       fl_example := Some ''ops''\<rparr>]"

section \<open>Matching columns\<close>

definition IGNORE :: string where
  "IGNORE = ''__ignore__''"

definition MULTI_SEP :: char where
  "MULTI_SEP = CHR '';''"

type_synonym column_map = "(string \<times> string) list"

text \<open>\<open>new Map(pairs)\<close>: of two headers with one spelling the later wins.\<close>

definition byLower :: "string list \<Rightarrow> string \<Rightarrow> string option" where
  "byLower headers = map_of (rev (map (\<lambda>h. (to_lower h, h)) headers))"

definition field_candidates :: "import_field \<Rightarrow> string list" where
  "field_candidates f = map to_lower (fl_key f # fl_label f # coalesce (fl_aliases f) [])"

text \<open>The inner loop: the first candidate with a (non-empty) header, and then \<open>break\<close>.\<close>

fun first_match :: "(string \<Rightarrow> string option) \<Rightarrow> string list \<Rightarrow> string option" where
  "first_match by_lower [] = None"
| "first_match by_lower (c # cs) =
     (case by_lower c of
        Some h \<Rightarrow> if h \<noteq> '''' then Some h else first_match by_lower cs
      | None \<Rightarrow> first_match by_lower cs)"

definition autoMap :: "import_field list \<Rightarrow> string list \<Rightarrow> column_map" where
  "autoMap fs headers =
     foldl (\<lambda>mapping f. case first_match (byLower headers) (field_candidates f) of
                          Some h \<Rightarrow> alist_set (fl_key f) h mapping
                        | None \<Rightarrow> mapping)
       [] fs"

definition requiredUnmapped :: "import_field list \<Rightarrow> column_map \<Rightarrow> import_field list" where
  "requiredUnmapped fs mapping =
     filter (\<lambda>f. fl_required f \<and> coalesce (map_of mapping (fl_key f)) '''' = '''') fs"

section \<open>Reading a row\<close>

type_synonym csv_row = "(string \<times> string) list"
type_synonym import_row = "(string \<times> json) list"

record parsed_row =
  pr_row :: import_row
  pr_errors :: "string list"

definition add_error :: "string \<Rightarrow> parsed_row \<Rightarrow> parsed_row" where
  "add_error e r = r\<lparr>pr_errors := pr_errors r @ [e]\<rparr>"

definition put_cell :: "import_field \<Rightarrow> json \<Rightarrow> parsed_row \<Rightarrow> parsed_row" where
  "put_cell f v r = r\<lparr>pr_row := alist_set (fl_key f) v (pr_row r)\<rparr>"

definition multi_values :: "string \<Rightarrow> string list" where
  "multi_values raw = filter (\<lambda>v. v \<noteq> '''') (map trim (split_on MULTI_SEP raw))"

definition read_text :: "import_field \<Rightarrow> string \<Rightarrow> parsed_row \<Rightarrow> parsed_row" where
  "read_text f raw r =
     (case fl_type f of
        FNumber \<Rightarrow>
          (case num_integer (str_to_number raw) of
             None \<Rightarrow> add_error (fl_label f @ '' must be a whole number'') r
           | Some n \<Rightarrow> put_cell f (JNum (of_int n)) r)
      | FStringArray \<Rightarrow>
          (let values = multi_values raw;
               invalid = (case fl_pattern f of Some p \<Rightarrow> filter (\<lambda>v. \<not> p v) values | None \<Rightarrow> [])
           in if 0 < length invalid
              then add_error (fl_label f @ '' '' @ coalesce (fl_hint f) ''has invalid values'' @ '': ''
                     @ join_with '', '' invalid) r
              else put_cell f (JArr (map JStr values)) r)
      | FString \<Rightarrow>
          (if case fl_pattern f of Some p \<Rightarrow> \<not> p raw | None \<Rightarrow> False
           then add_error (fl_label f @ '' '' @ coalesce (fl_hint f) ''has invalid characters'') r
           else put_cell f (JStr raw) r))"

definition require :: "import_field \<Rightarrow> parsed_row \<Rightarrow> parsed_row" where
  "require f r = (if fl_required f then add_error (fl_label f @ '' is required'') r else r)"

text \<open>The body of the loop for one field.\<close>

definition read_field :: "csv_row \<Rightarrow> column_map \<Rightarrow> parsed_row \<Rightarrow> import_field \<Rightarrow> parsed_row" where
  "read_field csvRow mapping r f =
     (let header = coalesce (map_of mapping (fl_key f)) ''''
      in if header = '''' \<or> header = IGNORE then require f r
         else let raw = trim (coalesce (map_of csvRow header) '''')
              in if raw = '''' then require f r else read_text f raw r)"

definition buildRow :: "csv_row \<Rightarrow> import_field list \<Rightarrow> column_map \<Rightarrow> parsed_row" where
  "buildRow csvRow fs mapping =
     foldl (read_field csvRow mapping) \<lparr>pr_row = [], pr_errors = []\<rparr> fs"

definition parsed_rows :: "import_field list \<Rightarrow> column_map \<Rightarrow> csv_row list \<Rightarrow> parsed_row list" where
  "parsed_rows fs mapping rows = map (\<lambda>r. buildRow r fs mapping) rows"

definition validRows :: "parsed_row list \<Rightarrow> parsed_row list" where
  "validRows rows = filter (\<lambda>r. length (pr_errors r) = 0) rows"

definition invalidCount :: "parsed_row list \<Rightarrow> int" where
  "invalidCount rows = int (length rows) - int (length (validRows rows))"

section \<open>The screen\<close>

datatype csv_stage = Upload | MapColumns | Preview | ResultStage

definition STEPS :: "(csv_stage \<times> string) list" where
  "STEPS = [(Upload, ''Choose file''), (MapColumns, ''Map columns''), (Preview, ''Check''),
     (ResultStage, ''Import'')]"

text \<open>\<open>findIndex\<close>, and the two flags a step of the header is drawn with.\<close>

fun index_of :: "csv_stage \<Rightarrow> (csv_stage \<times> string) list \<Rightarrow> int" where
  "index_of k [] = -1"
| "index_of k ((k', _) # ks) = (if k' = k then 0 else (let i = index_of k ks in if i < 0 then i else i + 1))"

definition Steps :: "csv_stage \<Rightarrow> (string \<times> bool \<times> bool) list" where
  "Steps current =
     (let currentIndex = index_of current STEPS
      in map (\<lambda>(i, (k, label)). (label, int i < currentIndex, int i = currentIndex)) (enumerate 0 STEPS))"

record import_outcome_row =
  io_index :: nat
  io_key :: string
  io_status :: string
  io_error :: "string option"

record import_result =
  ir_created :: nat
  ir_failed :: nat
  ir_results :: "import_outcome_row list"

datatype papa_answer = PapaComplete "string list option" "csv_row list" | PapaError

record csv_import =
  ci_headers :: "string list"
  ci_rows :: "csv_row list"
  ci_mapping :: column_map
  ci_stage :: csv_stage
  ci_submitting :: bool
  ci_result :: "import_result option"
  ci_parsing :: nat
  ci_in_flight :: nat
  ci_sent :: "import_row list list"
  ci_settled :: nat
  ci_toasts :: "toast list"
  ci_invalidations :: nat

text \<open>
  The first eight components are the hooks of \<open>CsvImport\<close> and what it waits for: files being
  parsed and calls not yet answered. The rest is a record of what the screen did.
\<close>

definition import_start :: csv_import where
  "import_start =
     \<lparr>ci_headers = [], ci_rows = [], ci_mapping = [], ci_stage = Upload, ci_submitting = False,
      ci_result = None, ci_parsing = 0, ci_in_flight = 0, ci_sent = [], ci_settled = 0,
      ci_toasts = [], ci_invalidations = 0\<rparr>"

definition say :: "toast \<Rightarrow> csv_import \<Rightarrow> csv_import" where
  "say t s = s\<lparr>ci_toasts := ci_toasts s @ [t]\<rparr>"

definition handleFile :: "import_field list \<Rightarrow> papa_answer \<Rightarrow> csv_import \<Rightarrow> csv_import" where
  "handleFile fs p s =
     (case p of
        PapaError \<Rightarrow> say (ToastError ''Could not parse the CSV file.'') s
      | PapaComplete names rows \<Rightarrow>
          (let cols = filter (\<lambda>h. h \<noteq> '''') (map trim (coalesce names []))
           in if length cols = 0 \<or> length rows = 0
              then say (ToastError ''The file has no header row or no data rows.'') s
              else s\<lparr>ci_headers := cols, ci_rows := rows, ci_mapping := autoMap fs cols,
                     ci_stage := MapColumns\<rparr>))"

definition parsedRows :: "import_field list \<Rightarrow> csv_import \<Rightarrow> parsed_row list" where
  "parsedRows fs s =
     (if ci_stage s \<noteq> Preview \<and> ci_stage s \<noteq> ResultStage then []
      else parsed_rows fs (ci_mapping s) (ci_rows s))"

definition setMapping :: "import_field \<Rightarrow> string \<Rightarrow> csv_import \<Rightarrow> csv_import" where
  "setMapping f v s = s\<lparr>ci_mapping := alist_set (fl_key f) v (ci_mapping s)\<rparr>"

definition can_preview :: "import_field list \<Rightarrow> csv_import \<Rightarrow> bool" where
  "can_preview fs s \<longleftrightarrow> \<not> 0 < length (requiredUnmapped fs (ci_mapping s))"

definition can_submit :: "import_field list \<Rightarrow> csv_import \<Rightarrow> bool" where
  "can_submit fs s \<longleftrightarrow> \<not> (length (validRows (parsedRows fs s)) = 0 \<or> ci_submitting s)"

text \<open>\<open>handleSubmit\<close>, up to the call and from its answer on (\<^const>\<open>None\<close>: not an \<open>Error\<close>).\<close>

definition submit_rows :: "import_field list \<Rightarrow> csv_import \<Rightarrow> csv_import" where
  "submit_rows fs s =
     s\<lparr>ci_submitting := True, ci_in_flight := ci_in_flight s + 1,
       ci_sent := ci_sent s @ [map pr_row (validRows (parsedRows fs s))]\<rparr>"

definition submit_answer :: "string option + import_result \<Rightarrow> csv_import \<Rightarrow> csv_import" where
  "submit_answer a s0 =
     (let s = s0\<lparr>ci_in_flight := ci_in_flight s0 - 1, ci_settled := ci_settled s0 + 1\<rparr>
      in (case a of
            Inr res \<Rightarrow> s\<lparr>ci_result := Some res, ci_stage := ResultStage,
                          ci_invalidations := ci_invalidations s + 1\<rparr>
          | Inl e \<Rightarrow> say (ToastError (coalesce e ''Import failed'')) s)\<lparr>ci_submitting := False\<rparr>)"

text \<open>
  The steps of the screen. A file is chosen on the first stage only, but it is parsed in the
  background: its answer may find the screen on any stage, as may the answer of a submission.
\<close>

inductive import_step :: "import_field list \<Rightarrow> csv_import \<Rightarrow> csv_import \<Rightarrow> bool" for fs where
  choose: "ci_stage s = Upload \<Longrightarrow> import_step fs s (s\<lparr>ci_parsing := ci_parsing s + 1\<rparr>)"
| parsed: "0 < ci_parsing s \<Longrightarrow> import_step fs s (handleFile fs p (s\<lparr>ci_parsing := ci_parsing s - 1\<rparr>))"
| map_column: "ci_stage s = MapColumns \<Longrightarrow> f \<in> set fs \<Longrightarrow> v \<in> insert IGNORE (set (ci_headers s)) \<Longrightarrow>
    import_step fs s (setMapping f v s)"
| back_to_upload: "ci_stage s = MapColumns \<Longrightarrow> import_step fs s (s\<lparr>ci_stage := Upload\<rparr>)"
| to_preview: "ci_stage s = MapColumns \<Longrightarrow> can_preview fs s \<Longrightarrow> import_step fs s (s\<lparr>ci_stage := Preview\<rparr>)"
| back_to_map: "ci_stage s = Preview \<Longrightarrow> import_step fs s (s\<lparr>ci_stage := MapColumns\<rparr>)"
| submit: "ci_stage s = Preview \<Longrightarrow> can_submit fs s \<Longrightarrow> import_step fs s (submit_rows fs s)"
| answered: "0 < ci_in_flight s \<Longrightarrow> import_step fs s (submit_answer a s)"

inductive import_reach :: "import_field list \<Rightarrow> csv_import \<Rightarrow> bool" for fs where
  start: "import_reach fs import_start"
| step: "import_reach fs s \<Longrightarrow> import_step fs s s' \<Longrightarrow> import_reach fs s'"

section \<open>What is shown and downloaded\<close>

definition formatCell :: "json option \<Rightarrow> string" where
  "formatCell v =
     (case v of
        Some (JArr xs) \<Rightarrow> join_with '', '' (map (\<lambda>x. case x of JStr s \<Rightarrow> s | _ \<Rightarrow> '''') xs)
      | None \<Rightarrow> '''' | Some JNull \<Rightarrow> ''''
      | Some (JStr s) \<Rightarrow> s
      | Some (JNum n) \<Rightarrow> int_str \<lfloor>n\<rfloor>
      | Some (JBool b) \<Rightarrow> if b then ''true'' else ''false''
      | Some (JObj kvs) \<Rightarrow> ''[object Object]'')"

text \<open>The choices of a column list and the one it shows; the labels of the required fields not mapped.\<close>

definition column_choice :: "csv_import \<Rightarrow> import_field \<Rightarrow> string list \<times> string" where
  "column_choice s f = (IGNORE # ci_headers s, coalesce (map_of (ci_mapping s) (fl_key f)) IGNORE)"

definition unmapped_notice :: "import_field list \<Rightarrow> csv_import \<Rightarrow> string option" where
  "unmapped_notice fs s =
     (let missing = requiredUnmapped fs (ci_mapping s)
      in if length missing > 0
         then Some (''Map the required field'' @ (if length missing = 1 then '''' else ''s'') @ '': ''
                @ join_with '', '' (map fl_label missing) @ ''.'')
         else None)"

text \<open>The preview: the number of each row, its cells, and its errors (none: "OK").\<close>

definition preview_table :: "import_field list \<Rightarrow> csv_import \<Rightarrow> (nat \<times> string list \<times> string list) list" where
  "preview_table fs s =
     map (\<lambda>(i, pr). (i + 1, map (\<lambda>f. formatCell (map_of (pr_row pr) (fl_key f))) fs,
            if length (pr_errors pr) = 0 then [''OK''] else pr_errors pr))
       (enumerate 0 (parsedRows fs s))"

definition downloadTemplate :: "import_field list \<Rightarrow> string \<Rightarrow> string list list \<times> string" where
  "downloadTemplate fs noun =
     (let header = map fl_key fs;
          sample = map (\<lambda>f. coalesce (fl_example f) '''') fs
      in ([header, sample], noun @ ''-import-template.csv''))"

definition downloadReport :: "import_result \<Rightarrow> string \<Rightarrow> (nat \<times> string \<times> string \<times> string) list \<times> string" where
  "downloadReport result noun =
     (map (\<lambda>r. (io_index r + 1, io_key r, io_status r, coalesce (io_error r) '''')) (ir_results result),
      noun @ ''-import-report.csv'')"

definition failed_rows :: "import_result \<Rightarrow> (nat \<times> string \<times> string option) list" where
  "failed_rows result =
     (if ir_failed result > 0
      then map (\<lambda>r. (io_index r + 1, io_key r, io_error r)) (filter (\<lambda>r. io_status r = ''error'') (ir_results result))
      else [])"

section \<open>Reading a row against a reference\<close>

text \<open>The text of a field's cell: empty where no column is mapped to it.\<close>

definition cell_text :: "csv_row \<Rightarrow> column_map \<Rightarrow> import_field \<Rightarrow> string" where
  "cell_text cells m f =
     (case map_of m (fl_key f) of
        Some h \<Rightarrow> if h = '''' \<or> h = IGNORE then '''' else trim (coalesce (map_of cells h) '''')
      | None \<Rightarrow> '''')"

text \<open>What is wrong with a text, and what a good one means.\<close>

definition matches :: "import_field \<Rightarrow> string \<Rightarrow> bool" where
  "matches f t = (case fl_pattern f of None \<Rightarrow> True | Some p \<Rightarrow> p t)"

definition complaint :: "import_field \<Rightarrow> string \<Rightarrow> string option" where
  "complaint f t =
     (if t = '''' then (if fl_required f then Some (fl_label f @ '' is required'') else None)
      else case fl_type f of
          FNumber \<Rightarrow> if num_integer (str_to_number t) = None then Some (fl_label f @ '' must be a whole number'') else None
        | FString \<Rightarrow> if \<not> matches f t
            then Some (fl_label f @ '' '' @ coalesce (fl_hint f) ''has invalid characters'') else None
        | FStringArray \<Rightarrow> (let bad = filter (\<lambda>v. \<not> matches f v) (multi_values t)
            in if bad = [] then None
               else Some (fl_label f @ '' '' @ coalesce (fl_hint f) ''has invalid values'' @ '': '' @ join_with '', '' bad)))"

definition meaning :: "import_field \<Rightarrow> string \<Rightarrow> json" where
  "meaning f t =
     (case fl_type f of
        FNumber \<Rightarrow> JNum (of_int (the (num_integer (str_to_number t))))
      | FString \<Rightarrow> JStr t
      | FStringArray \<Rightarrow> JArr (map JStr (multi_values t)))"

definition row_step :: "csv_row \<Rightarrow> column_map \<Rightarrow> import_field \<Rightarrow> parsed_row \<Rightarrow> parsed_row" where
  "row_step cells m f r =
     (let t = cell_text cells m f in
      case complaint f t of
        Some e \<Rightarrow> add_error e r
      | None \<Rightarrow> if t = '''' then r else put_cell f (meaning f t) r)"

lemma no_pattern:
  "(case fl_pattern f of None \<Rightarrow> [] | Some p \<Rightarrow> filter (\<lambda>v. \<not> p v) vs) = filter (\<lambda>v. \<not> matches f v) vs"
  "(case fl_pattern f of None \<Rightarrow> False | Some p \<Rightarrow> \<not> p t) \<longleftrightarrow> \<not> matches f t"
  by (cases "fl_pattern f"; simp add: matches_def)+

lemma read_field_step: "read_field cells m r f = row_step cells m f r"
proof -
  have reads: "read_text f t r = (case complaint f t of Some e \<Rightarrow> add_error e r | None \<Rightarrow> put_cell f (meaning f t) r)"
    if "t \<noteq> ''''" for t
    using that
    by (cases "fl_type f")
      (auto simp: read_text_def complaint_def meaning_def Let_def no_pattern split: option.splits)
  show ?thesis
    by (auto simp: read_field_def row_step_def Let_def reads cell_text_def require_def complaint_def[of f "[]"]
        split: option.splits)
qed

lemma alist_set_new: "k \<notin> fst ` set kvs \<Longrightarrow> alist_set k v kvs = kvs @ [(k, v)]"
  by (induction k v kvs rule: alist_set.induct) auto

definition reference_row :: "csv_row \<Rightarrow> import_field list \<Rightarrow> column_map \<Rightarrow> parsed_row" where
  "reference_row cells fs m =
     \<lparr>pr_row = [(fl_key f, meaning f (cell_text cells m f)).
        f \<leftarrow> fs, cell_text cells m f \<noteq> '''' \<and> complaint f (cell_text cells m f) = None],
      pr_errors = concat (map (\<lambda>f. case complaint f (cell_text cells m f) of None \<Rightarrow> [] | Some e \<Rightarrow> [e]) fs)\<rparr>"

lemma reference_keys: "fst ` set (pr_row (reference_row cells fs m)) \<subseteq> fl_key ` set fs"
  by (auto simp: reference_row_def)

lemma buildRow_snoc: "buildRow cells (fs @ [f]) m = read_field cells m (buildRow cells fs m) f"
  by (simp add: buildRow_def)

lemma buildRow_reference:
  "distinct (map fl_key fs) \<Longrightarrow> buildRow cells fs m = reference_row cells fs m"
proof (induction fs rule: rev_induct)
  case Nil
  show ?case by (simp add: buildRow_def reference_row_def)
next
  case (snoc f fs)
  have new: "fl_key f \<notin> fst ` set (pr_row (reference_row cells fs m))"
    using snoc.prems reference_keys[of cells fs m] by auto
  have "buildRow cells (fs @ [f]) m = row_step cells m f (reference_row cells fs m)"
    using snoc by (simp add: buildRow_snoc read_field_step)
  also have "\<dots> = reference_row cells (fs @ [f]) m"
    using alist_set_new[OF new]
    by (auto simp: row_step_def Let_def add_error_def put_cell_def reference_row_def split: option.splits)
  finally show ?case .
qed

lemma no_errors: "pr_errors (reference_row cells fs m) = [] \<longleftrightarrow> (\<forall>f \<in> set fs. complaint f (cell_text cells m f) = None)"
  by (auto simp: reference_row_def split: option.splits)

lemma complaint_None:
  "complaint f t = None \<longleftrightarrow>
     (if t = '''' then \<not> fl_required f
      else case fl_type f of
          FNumber \<Rightarrow> num_integer (str_to_number t) \<noteq> None
        | FString \<Rightarrow> matches f t
        | FStringArray \<Rightarrow> \<forall>v \<in> set (multi_values t). matches f v)"
  by (cases "fl_type f") (auto simp: complaint_def Let_def filter_empty_conv)

lemma reference_lookup:
  assumes "distinct (map fl_key fs)" and "f \<in> set fs"
  shows "map_of (pr_row (reference_row cells fs m)) (fl_key f) =
    (let t = cell_text cells m f in
     if t \<noteq> '''' \<and> complaint f t = None then Some (meaning f t) else None)"
  using assms
proof (induction fs)
  case (Cons g fs)
  let ?r = "\<lambda>fs. pr_row (reference_row cells fs m)"
  have head: "?r (g # fs) =
      (if cell_text cells m g \<noteq> '''' \<and> complaint g (cell_text cells m g) = None
       then (fl_key g, meaning g (cell_text cells m g)) # ?r fs else ?r fs)"
    by (simp add: reference_row_def)
  show ?case
  proof (cases "f = g")
    case True
    have "map_of (?r fs) (fl_key g) = None"
      using reference_keys[of cells fs m] Cons.prems by (auto simp: map_of_eq_None_iff)
    then show ?thesis by (simp add: head True Let_def)
  next
    case False
    then have "f \<in> set fs" "fl_key f \<noteq> fl_key g"
      using Cons.prems by (auto simp: image_iff)
    with Cons show ?thesis by (simp add: head)
  qed
qed simp

text \<open>
  C24: Reading a row field by field, adding to an object and to a list of errors, is the same as the
  reference that decides each field on its own: a row has no error exactly when every required
  field has a text and every text suits its field, and the value stored for a field is the meaning
  of its text.
\<close>

theorem build_row_equivalence:
  assumes "distinct (map fl_key fs)"
  shows "buildRow cells fs m = reference_row cells fs m \<and>
    (pr_errors (buildRow cells fs m) = [] \<longleftrightarrow>
       (\<forall>f \<in> set fs. let t = cell_text cells m f in
          if t = '''' then \<not> fl_required f
          else case fl_type f of
              FNumber \<Rightarrow> num_integer (str_to_number t) \<noteq> None
            | FString \<Rightarrow> matches f t
            | FStringArray \<Rightarrow> \<forall>v \<in> set (multi_values t). matches f v)) \<and>
    (pr_errors (buildRow cells fs m) = [] \<longrightarrow>
       (\<forall>f \<in> set fs. map_of (pr_row (buildRow cells fs m)) (fl_key f) =
          (if cell_text cells m f = '''' then None else Some (meaning f (cell_text cells m f)))))"
  using assms
  by (simp add: buildRow_reference no_errors reference_lookup complaint_None Let_def cong: if_cong)

lemma group_keys: "distinct (map fl_key GROUP_FIELDS)"
  by (simp add: GROUP_FIELDS_def a_field_def)

lemma build_row_equivalence_witness:
  "buildRow [(''N'', ''ops'')] GROUP_FIELDS [(''cn'', ''N'')] =
   \<lparr>pr_row = [(''cn'', JStr ''ops'')], pr_errors = [''GID number is required'']\<rparr>"
proof -
  have "reference_row [(''N'', ''ops'')] GROUP_FIELDS [(''cn'', ''N'')] =
      \<lparr>pr_row = [(''cn'', JStr ''ops'')], pr_errors = [''GID number is required'']\<rparr>"
    by code_simp
  then show ?thesis
    using build_row_equivalence[OF group_keys, of "[(''N'', ''ops'')]" "[(''cn'', ''N'')]"] by simp
qed

section \<open>What is submitted\<close>

definition good_row :: "import_field list \<Rightarrow> import_row \<Rightarrow> bool" where
  "good_row fs row \<longleftrightarrow>
     (\<exists>cells m. row = pr_row (buildRow cells fs m) \<and> pr_errors (buildRow cells fs m) = [])"

definition import_inv :: "import_field list \<Rightarrow> csv_import \<Rightarrow> bool" where
  "import_inv fs s \<longleftrightarrow>
     ci_in_flight s = (if ci_submitting s then 1 else 0) \<and>
     length (ci_sent s) = ci_settled s + ci_in_flight s \<and>
     (ci_stage s = ResultStage \<longrightarrow> ci_result s \<noteq> None) \<and>
     (\<forall>batch \<in> set (ci_sent s). batch \<noteq> [] \<and> list_all (good_row fs) batch)"

lemma submitted_good:
  assumes "can_submit fs s"
  defines "batch \<equiv> map pr_row (validRows (parsedRows fs s))"
  shows "batch \<noteq> [] \<and> list_all (good_row fs) batch"
  using assms
  by (auto simp: can_submit_def validRows_def parsedRows_def parsed_rows_def good_row_def list_all_iff)

lemma import_step_inv: "import_step fs s s' \<Longrightarrow> import_inv fs s \<Longrightarrow> import_inv fs s'"
proof (induction rule: import_step.induct)
  case (parsed s p)
  then show ?case
    by (auto simp: import_inv_def handleFile_def say_def Let_def split: papa_answer.splits)
next
  case (submit s)
  then show ?case
    using submitted_good[of fs s] by (auto simp: import_inv_def submit_rows_def can_submit_def)
next
  case (answered s a)
  then show ?case
    by (auto simp: import_inv_def submit_answer_def say_def Let_def split: sum.splits if_splits)
qed (auto simp: import_inv_def setMapping_def)

lemma import_reach_inv: "import_reach fs s \<Longrightarrow> import_inv fs s"
proof (induction rule: import_reach.induct)
  case start
  show ?case by (simp add: import_inv_def import_start_def)
next
  case (step s s')
  then show ?case by (rule_tac import_step_inv)
qed

lemma meaning_suits:
  "complaint f t = None \<Longrightarrow> t \<noteq> '''' \<Longrightarrow> v = meaning f t \<Longrightarrow>
   (case fl_type f of
      FNumber \<Rightarrow> \<exists>n. v = JNum (of_int n)
    | FString \<Rightarrow> \<exists>t. v = JStr t \<and> t \<noteq> '''' \<and> matches f t
    | FStringArray \<Rightarrow> \<exists>ts. v = JArr (map JStr ts) \<and> (\<forall>t \<in> set ts. matches f t))"
  by (cases "fl_type f") (auto simp: complaint_None meaning_def)

lemma good_row_meaning:
  assumes "distinct (map fl_key fs)" and "good_row fs row"
  shows "(\<forall>f \<in> set fs. fl_required f \<longrightarrow> map_of row (fl_key f) \<noteq> None) \<and>
    (\<forall>f \<in> set fs. \<forall>v. map_of row (fl_key f) = Some v \<longrightarrow>
       (case fl_type f of
          FNumber \<Rightarrow> \<exists>n. v = JNum (of_int n)
        | FString \<Rightarrow> \<exists>t. v = JStr t \<and> t \<noteq> '''' \<and> (matches f t)
        | FStringArray \<Rightarrow> \<exists>ts. v = JArr (map JStr ts) \<and> (\<forall>t \<in> set ts. matches f t)))"
proof -
  from assms(2) obtain cells m where row: "row = pr_row (reference_row cells fs m)"
    and ok: "\<forall>f \<in> set fs. complaint f (cell_text cells m f) = None"
    using buildRow_reference[OF assms(1)] no_errors unfolding good_row_def by metis
  have look: "map_of row (fl_key f) =
      (let t = cell_text cells m f in if t = '''' then None else Some (meaning f t))" if "f \<in> set fs" for f
    using reference_lookup[OF assms(1) that, of cells m] ok that by (simp add: row Let_def)
  have "map_of row (fl_key f) \<noteq> None" if "f \<in> set fs" "fl_required f" for f
    using look[OF that(1)] ok that by (auto simp: Let_def complaint_None)
  moreover have "case fl_type f of
          FNumber \<Rightarrow> \<exists>n. v = JNum (of_int n)
        | FString \<Rightarrow> \<exists>t. v = JStr t \<and> t \<noteq> '''' \<and> (matches f t)
        | FStringArray \<Rightarrow> \<exists>ts. v = JArr (map JStr ts) \<and> (\<forall>t \<in> set ts. matches f t)"
    if "f \<in> set fs" "map_of row (fl_key f) = Some v" for f v
    by (rule meaning_suits[of f "cell_text cells m f"])
      (use look[OF that(1)] ok that in \<open>auto simp: Let_def split: if_splits\<close>)
  ultimately show ?thesis by blast
qed

text \<open>
  C25: Whatever the operator does and in whatever order files and answers come back, the import has
  at most one call in flight, exactly while its button says so; it never sends an empty batch, and
  in every row it sends each required field is present and each value has the type of its field and
  matches its pattern; and the last stage is never shown without a result.
\<close>

theorem import_sends_valid:
  assumes "import_reach fs s" and "distinct (map fl_key fs)"
  shows "ci_in_flight s = (if ci_submitting s then 1 else 0) \<and>
    length (ci_sent s) = ci_settled s + ci_in_flight s \<and>
    (ci_stage s = ResultStage \<longrightarrow> ci_result s \<noteq> None) \<and>
    (\<forall>batch \<in> set (ci_sent s). batch \<noteq> [] \<and>
       (\<forall>row \<in> set batch. \<forall>f \<in> set fs.
          (fl_required f \<longrightarrow> map_of row (fl_key f) \<noteq> None) \<and>
          (\<forall>v. map_of row (fl_key f) = Some v \<longrightarrow>
             (case fl_type f of
                FNumber \<Rightarrow> \<exists>n. v = JNum (of_int n)
              | FString \<Rightarrow> \<exists>t. v = JStr t \<and> t \<noteq> '''' \<and> (matches f t)
              | FStringArray \<Rightarrow> \<exists>ts. v = JArr (map JStr ts) \<and>
                  (\<forall>t \<in> set ts. matches f t)))))"
proof -
  have inv: "import_inv fs s" using import_reach_inv[OF assms(1)] .
  have "\<forall>batch \<in> set (ci_sent s). batch \<noteq> [] \<and> (\<forall>row \<in> set batch. good_row fs row)"
    using inv by (simp add: import_inv_def list_all_iff)
  moreover have "ci_in_flight s = (if ci_submitting s then 1 else 0) \<and>
      length (ci_sent s) = ci_settled s + ci_in_flight s \<and> (ci_stage s = ResultStage \<longrightarrow> ci_result s \<noteq> None)"
    using inv unfolding import_inv_def by blast
  ultimately show ?thesis
    using good_row_meaning[OF assms(2)] by blast
qed

definition sample_mapped :: csv_import where
  "sample_mapped =
     handleFile GROUP_FIELDS (PapaComplete (Some [''Name'', ''GID'']) [[(''Name'', ''ops''), (''GID'', ''7'')]])
       (import_start\<lparr>ci_parsing := 0\<rparr>)"

definition sample_sent :: csv_import where
  "sample_sent = submit_rows GROUP_FIELDS (sample_mapped\<lparr>ci_stage := Preview\<rparr>)"

lemma sample_sent_reach: "import_reach GROUP_FIELDS sample_sent"
proof -
  let ?c = "import_start\<lparr>ci_parsing := 1\<rparr>" and ?p = "sample_mapped\<lparr>ci_stage := Preview\<rparr>"
  have "import_step GROUP_FIELDS import_start ?c"
    using import_step.choose[of import_start GROUP_FIELDS] by (simp add: import_start_def)
  then have "import_reach GROUP_FIELDS ?c"
    by (rule import_reach.step[OF import_reach.start])
  moreover have "import_step GROUP_FIELDS ?c sample_mapped"
    using import_step.parsed[of ?c GROUP_FIELDS] by (simp add: sample_mapped_def)
  ultimately have "import_reach GROUP_FIELDS sample_mapped"
    by (rule import_reach.step)
  moreover have "import_step GROUP_FIELDS sample_mapped ?p"
  proof (rule import_step.to_preview)
    show "ci_stage sample_mapped = MapColumns" by code_simp
    show "can_preview GROUP_FIELDS sample_mapped" by code_simp
  qed
  ultimately have "import_reach GROUP_FIELDS ?p"
    by (rule import_reach.step)
  moreover have "import_step GROUP_FIELDS ?p sample_sent"
    unfolding sample_sent_def
  proof (rule import_step.submit)
    show "ci_stage ?p = Preview" by simp
    show "can_submit GROUP_FIELDS ?p" by code_simp
  qed
  ultimately show ?thesis by (rule import_reach.step)
qed

lemma sample_sent_rows:
  "ci_sent sample_sent = [[[(''cn'', JStr ''ops''), (''gidNumber'', JNum 7)]]]"
  by code_simp

lemma import_sends_valid_witness:
  "ci_in_flight sample_sent = 1 \<and> ci_sent sample_sent \<noteq> []"
proof -
  have "ci_submitting sample_sent" by (simp add: sample_sent_def submit_rows_def)
  then show ?thesis
    using import_sends_valid[OF sample_sent_reach group_keys, THEN conjunct1] by (simp add: sample_sent_rows)
qed

section \<open>The template\<close>

text \<open>
  The columns and the sample row of a template, given back to the screen: every column finds its
  field, nothing required is left out, and the sample is a valid row that fills every field.
\<close>

definition reads_template :: "import_field list \<Rightarrow> bool" where
  "reads_template fs \<longleftrightarrow>
     (case downloadTemplate fs ''rows'' of
        ([header, sample], _) \<Rightarrow>
          (let m = autoMap fs header; r = buildRow (zip header sample) fs m
           in m = map (\<lambda>f. (fl_key f, fl_key f)) fs \<and> length (requiredUnmapped fs m) = 0
              \<and> pr_errors r = [] \<and> map fst (pr_row r) = map fl_key fs)
      | _ \<Rightarrow> False)"

lemma byLower_own:
  assumes "distinct (map to_lower hs)" and "h \<in> set hs"
  shows "byLower hs (to_lower h) = Some h"
proof -
  have "map fst (map (\<lambda>h. (to_lower h, h)) hs) = map to_lower hs" by (simp add: comp_def)
  then have "distinct (map fst (rev (map (\<lambda>h. (to_lower h, h)) hs)))"
    using assms(1) by (simp add: rev_map[symmetric] comp_def)
  then show ?thesis
    using assms(2) by (simp add: byLower_def)
qed

lemma autoMap_own_keys:
  assumes lower: "distinct (map to_lower (map fl_key fs))" and ne: "\<forall>f \<in> set fs. fl_key f \<noteq> ''''"
  shows "autoMap fs (map fl_key fs) = map (\<lambda>f. (fl_key f, fl_key f)) fs"
proof -
  have own: "first_match (byLower (map fl_key fs)) (field_candidates f) = Some (fl_key f)" if "f \<in> set fs" for f
    using byLower_own[OF lower, of "fl_key f"] ne that by (simp add: field_candidates_def)
  have "foldl (\<lambda>m f. case first_match (byLower (map fl_key fs)) (field_candidates f) of
          Some h \<Rightarrow> alist_set (fl_key f) h m | None \<Rightarrow> m) [] gs = map (\<lambda>f. (fl_key f, fl_key f)) gs"
    if "set gs \<subseteq> set fs" "distinct (map fl_key gs)" for gs
    using that
  proof (induction gs rule: rev_induct)
    case (snoc f gs)
    then have "fl_key f \<notin> fst ` set (map (\<lambda>f. (fl_key f, fl_key f)) gs)" by auto
    with snoc show ?case by (simp add: own alist_set_new)
  qed simp
  moreover have "distinct (map fl_key fs)"
    using lower by (auto simp: distinct_map dest: inj_on_imageI2)
  ultimately show ?thesis by (simp add: autoMap_def)
qed

lemma map_of_zip_map: "f \<in> set fs \<Longrightarrow> distinct (map k fs) \<Longrightarrow> map_of (zip (map k fs) (map v fs)) (k f) = Some (v f)"
proof (induction fs)
  case (Cons g fs)
  then show ?case by (cases "k f = k g") (auto simp: image_iff)
qed simp

lemma reads_template_check:
  assumes lower: "distinct (map to_lower (map fl_key fs))"
    and keys: "list_all (\<lambda>f. fl_key f \<noteq> '''' \<and> fl_key f \<noteq> IGNORE) fs"
    and sample: "list_all (\<lambda>f. let t = trim (coalesce (fl_example f) '''') in t \<noteq> '''' \<and> complaint f t = None) fs"
  shows "reads_template fs"
proof -
  let ?h = "map fl_key fs" and ?s = "map (\<lambda>f. coalesce (fl_example f) '''') fs"
  let ?m = "map (\<lambda>f. (fl_key f, fl_key f)) fs"
  have dist: "distinct ?h"
    using lower by (auto simp: distinct_map dest: inj_on_imageI2)
  have auto: "autoMap fs ?h = ?m"
    using autoMap_own_keys[OF lower] keys by (simp add: list_all_iff)
  have col: "map_of ?m (fl_key f) = Some (fl_key f)" if "f \<in> set fs" for f
    using map_of_zip_map[OF that dist, of fl_key] by (simp add: zip_map_map zip_same_conv_map comp_def)
  have cell: "cell_text (zip ?h ?s) ?m f = trim (coalesce (fl_example f) '''')" if "f \<in> set fs" for f
    using col[OF that] keys that map_of_zip_map[OF that dist, of "\<lambda>f. coalesce (fl_example f) ''''"]
    by (simp add: cell_text_def list_all_iff del: coalesce_split)
  have good: "cell_text (zip ?h ?s) ?m f \<noteq> '''' \<and> complaint f (cell_text (zip ?h ?s) ?m f) = None"
    if "f \<in> set fs" for f
    using sample that by (simp add: cell Let_def list_all_iff)
  have "requiredUnmapped fs ?m = []"
    using keys col by (simp add: requiredUnmapped_def list_all_iff filter_empty_conv)
  moreover have "pr_errors (reference_row (zip ?h ?s) fs ?m) = []"
    using good by (simp only: no_errors) blast
  moreover have "map fst (pr_row (reference_row (zip ?h ?s) fs ?m)) = ?h"
  proof -
    have "map fst (concat (map (\<lambda>f. if cell_text c m f \<noteq> '''' \<and> complaint f (cell_text c m f) = None
            then [(fl_key f, meaning f (cell_text c m f))] else []) gs)) = map fl_key gs"
      if "\<forall>f \<in> set gs. cell_text c m f \<noteq> '''' \<and> complaint f (cell_text c m f) = None" for gs c m
      using that by (induction gs) auto
    then show ?thesis using good by (simp add: reference_row_def)
  qed
  ultimately show ?thesis
    using auto by (simp add: reads_template_def downloadTemplate_def Let_def buildRow_reference[OF dist])
qed

lemma user_keys_distinct: "distinct (map to_lower (map fl_key USER_FIELDS))"
  by (simp add: USER_FIELDS_def a_field_def to_lower_def lower_def is_upper_def code_def)

lemma user_keys_named: "list_all (\<lambda>f. fl_key f \<noteq> '''' \<and> fl_key f \<noteq> IGNORE) USER_FIELDS"
  by (simp add: USER_FIELDS_def a_field_def IGNORE_def)

lemma sample_numbers: "nat_str 10001 = ''10001''" "nat_str 20001 = ''20001''"
  by (simp add: nat_str.simps digit_char_def, code_simp)+

lemma sample_names: "RDN ''jdoe''" "RDN ''developers''"
  by code_simp+

lemma number_text: "num_integer (str_to_number (nat_str n)) \<noteq> None"
  by simp

lemmas sample_texts = sample_names number_text[of 10001, unfolded sample_numbers]
  number_text[of 20001, unfolded sample_numbers]

lemmas template_eval = a_field_def trim_def strip_left_def strip_right_def is_space_def code_def
  complaint_None matches_def sample_texts Let_def

lemma user_samples:
  "list_all (\<lambda>f. let t = trim (coalesce (fl_example f) '''') in t \<noteq> '''' \<and> complaint f t = None) USER_FIELDS"
  by (simp add: USER_FIELDS_def template_eval)

lemma group_samples:
  "list_all (\<lambda>f. let t = trim (coalesce (fl_example f) '''') in t \<noteq> '''' \<and> complaint f t = None) GROUP_FIELDS"
  by (simp add: GROUP_FIELDS_def template_eval)

text \<open>
  C26: A template downloaded for users, groups or netgroups can be imported as it is: with its cells read back as
  they were written, its columns map themselves and its sample row passes every check of the page.
\<close>

theorem template_imports:
  "reads_template USER_FIELDS \<and> reads_template GROUP_FIELDS \<and> reads_template (NETGROUP_FIELDS hint)"
proof (intro conjI)
  show "reads_template USER_FIELDS"
    by (rule reads_template_check[OF user_keys_distinct user_keys_named user_samples])
  show "reads_template GROUP_FIELDS"
    by (rule reads_template_check[OF _ _ group_samples]) code_simp+
  show "reads_template (NETGROUP_FIELDS hint)" by (rule reads_template_check) code_simp+
qed

text \<open>
  A required field set to "ignore" counts as mapped on the second stage, which then lets the operator
  on, although no row can be valid.
\<close>

lemma ignored_required:
  assumes "f \<in> set fs" and "distinct (map fl_key fs)" and "fl_required f" and "map_of m (fl_key f) = Some IGNORE"
  shows "f \<notin> set (requiredUnmapped fs m) \<and> pr_errors (buildRow cells fs m) \<noteq> []"
proof -
  have "cell_text cells m f = ''''" using assms(4) by (simp add: cell_text_def)
  then have "complaint f (cell_text cells m f) \<noteq> None" using assms(3) by (simp add: complaint_def)
  then show ?thesis
    using assms no_errors[of cells fs m]
    by (auto simp: buildRow_reference requiredUnmapped_def IGNORE_def)
qed

end
