(* ===== verification/Form_Sync.thy ===== *)
theory Form_Sync
  imports Js_Text
begin

text \<open>
  Unsaved edits (\<open>lib/form-sync.ts\<close>, \<open>components/unsaved-changes-guard.tsx\<close>): a detail form that
  follows the data of the server while it is untouched, a creation form that compares itself to its
  first values, and the guard that holds a navigation back. Forms are compared through
  \<open>JSON.stringify\<close>, which is the argument \<open>text_of\<close>: the lemmas use no property of it.
\<close>

section \<open>A detail form\<close>

text \<open>
  The data of the query, the form, the two references of the hook: the text last synced, and the
  text the effect last ran for (its dependency list).
\<close>

record 'a synced_form =
  sf_server :: "'a option"
  sf_form :: 'a
  sf_last :: "string option"
  sf_deps :: "string option"

definition serverJSON :: "('a \<Rightarrow> string) \<Rightarrow> 'a synced_form \<Rightarrow> string option" where
  "serverJSON text_of s = map_option text_of (sf_server s)"

text \<open>The body of the effect, run after the render in which \<open>serverJSON\<close> changed.\<close>

definition sync_effect :: "('a \<Rightarrow> string) \<Rightarrow> 'a synced_form \<Rightarrow> 'a synced_form" where
  "sync_effect text_of s =
     (case sf_server s of
        None \<Rightarrow> s
      | Some v \<Rightarrow>
          if Some (text_of v) = sf_last s then s
          else (let formJSON = text_of (sf_form s) in
                if Some formJSON \<noteq> sf_last s \<and> formJSON \<noteq> text_of v then s
                else s\<lparr>sf_form := (if formJSON \<noteq> text_of v then v else sf_form s),
                       sf_last := Some (text_of v)\<rparr>))"

text \<open>A render with new data: the effect runs when its dependency changed.\<close>

definition arrive :: "('a \<Rightarrow> string) \<Rightarrow> 'a option \<Rightarrow> 'a synced_form \<Rightarrow> 'a synced_form" where
  "arrive text_of v s0 =
     (let s = s0\<lparr>sf_server := v\<rparr>; j = serverJSON text_of s
      in if j = sf_deps s then s else sync_effect text_of (s\<lparr>sf_deps := j\<rparr>))"

definition edit_form :: "'a \<Rightarrow> 'a synced_form \<Rightarrow> 'a synced_form" where
  "edit_form f s = s\<lparr>sf_form := f\<rparr>"

definition form_mount :: "('a \<Rightarrow> string) \<Rightarrow> 'a option \<Rightarrow> 'a \<Rightarrow> 'a synced_form" where
  "form_mount text_of server initial =
     (let s = \<lparr>sf_server = server, sf_form = initial, sf_last = None, sf_deps = None\<rparr>
      in sync_effect text_of (s\<lparr>sf_deps := serverJSON text_of s\<rparr>))"

text \<open>What the hook returns.\<close>

definition form_dirty :: "('a \<Rightarrow> string) \<Rightarrow> 'a synced_form \<Rightarrow> bool" where
  "form_dirty text_of s \<longleftrightarrow>
     serverJSON text_of s \<noteq> None \<and> Some (text_of (sf_form s)) \<noteq> serverJSON text_of s"

datatype 'a form_event = ServerData "'a option" | Edited 'a

definition form_event :: "('a \<Rightarrow> string) \<Rightarrow> 'a form_event \<Rightarrow> 'a synced_form \<Rightarrow> 'a synced_form" where
  "form_event text_of e s =
     (case e of ServerData v \<Rightarrow> arrive text_of v s | Edited f \<Rightarrow> edit_form f s)"

definition form_run :: "('a \<Rightarrow> string) \<Rightarrow> 'a form_event list \<Rightarrow> 'a synced_form \<Rightarrow> 'a synced_form" where
  "form_run text_of es s = fold (form_event text_of) es s"

section \<open>A creation form, and the guard\<close>

definition useCreationFormDirty :: "('a \<Rightarrow> string) \<Rightarrow> 'a \<Rightarrow> 'a \<Rightarrow> bool \<Rightarrow> bool" where
  "useCreationFormDirty text_of first current settled \<longleftrightarrow>
     \<not> settled \<and> text_of current \<noteq> text_of first"

text \<open>
  A place of the router: route, parameters (as their text) and search. The blocker of the router
  holds the place a refused navigation wanted.
\<close>

record place =
  pl_route :: string
  pl_params :: string
  pl_search :: string

record nav_guard =
  gd_place :: place
  gd_held :: "place option"
  gd_samePage :: bool

definition shouldBlock :: "bool \<Rightarrow> place \<Rightarrow> nav_guard \<Rightarrow> bool \<times> nav_guard" where
  "shouldBlock when next_place s =
     (if \<not> when then (False, s)
      else (True, s\<lparr>gd_samePage :=
              (pl_route (gd_place s) = pl_route next_place \<and> pl_params (gd_place s) = pl_params next_place)\<rparr>))"

definition try_navigate :: "bool \<Rightarrow> place \<Rightarrow> nav_guard \<Rightarrow> nav_guard" where
  "try_navigate when p s =
     (case shouldBlock when p s of
        (True, s') \<Rightarrow> s'\<lparr>gd_held := Some p\<rparr>
      | (False, s') \<Rightarrow> s'\<lparr>gd_place := p, gd_held := None\<rparr>)"

definition proceed :: "nav_guard \<Rightarrow> nav_guard" where
  "proceed s = (case gd_held s of None \<Rightarrow> s | Some p \<Rightarrow> s\<lparr>gd_place := p, gd_held := None\<rparr>)"

definition reset_guard :: "nav_guard \<Rightarrow> nav_guard" where
  "reset_guard s = s\<lparr>gd_held := None\<rparr>"

record guard_dialog =
  dg_title :: string
  dg_description :: string
  dg_confirm :: string
  dg_cancel :: string

definition UnsavedChangesGuard :: "nav_guard \<Rightarrow> guard_dialog option" where
  "UnsavedChangesGuard s =
     (let leavingPage = (\<not> gd_samePage s) in
      case gd_held s of
        None \<Rightarrow> None
      | Some _ \<Rightarrow> Some
          \<lparr>dg_title = (if leavingPage then ''Leave without saving?'' else ''Discard your changes?''),
           dg_description =
             (if leavingPage
              then ''This form has changes that have not been saved. Leaving now discards them.''
              else ''This tab has changes that have not been saved. Switching tabs discards them.''),
           dg_confirm = (if leavingPage then ''Leave'' else ''Discard changes''),
           dg_cancel = (if leavingPage then ''Stay on this page'' else ''Keep editing'')\<rparr>)"

section \<open>The promise of the hook\<close>

text \<open>Pristine: unchanged since the last sync.\<close>

definition pristine :: "('a \<Rightarrow> string) \<Rightarrow> 'a synced_form \<Rightarrow> bool" where
  "pristine text_of s \<longleftrightarrow> sf_last s = Some (text_of (sf_form s))"

lemmas sync_defs = arrive_def serverJSON_def sync_effect_def pristine_def Let_def

lemma arrive_simps [simp]:
  "sf_server (arrive text_of v s) = v" "sf_deps (arrive text_of v s) = map_option text_of v"
  by (auto simp: sync_defs split: option.splits)

lemma edit_form_simps [simp]:
  "sf_form (edit_form f s) = f" "sf_last (edit_form f s) = sf_last s"
  "sf_server (edit_form f s) = sf_server s" "sf_deps (edit_form f s) = sf_deps s"
  by (simp_all add: edit_form_def)

lemma arrive_idle:
  "v = None \<or> map_option text_of v = sf_deps s \<Longrightarrow>
   sf_form (arrive text_of v s) = sf_form s \<and> sf_last (arrive text_of v s) = sf_last s"
  by (auto simp: sync_defs split: option.splits)

lemma arrive_keeps_draft:
  assumes "\<not> pristine text_of s" and "\<forall>w. v = Some w \<longrightarrow> text_of w \<noteq> text_of (sf_form s)"
  shows "sf_form (arrive text_of v s) = sf_form s \<and> sf_last (arrive text_of v s) = sf_last s"
  using assms by (cases v) (auto simp: sync_defs)

lemma arrive_takes:
  assumes "pristine text_of s \<or> text_of w = text_of (sf_form s)" and "Some (text_of w) \<noteq> sf_deps s"
  shows "sf_form (arrive text_of (Some w) s) = (if text_of w = text_of (sf_form s) then sf_form s else w) \<and>
    sf_last (arrive text_of (Some w) s) = Some (text_of w)"
proof (cases "text_of w = text_of (sf_form s)")
  case True
  with assms(2) show ?thesis by (simp add: arrive_def serverJSON_def sync_effect_def Let_def)
next
  case False
  with assms show ?thesis by (simp add: arrive_def serverJSON_def sync_effect_def Let_def pristine_def)
qed

lemma dirty_iff: "form_dirty text_of s \<longleftrightarrow> (\<exists>d. sf_server s = Some d \<and> text_of d \<noteq> text_of (sf_form s))"
  by (cases "sf_server s") (auto simp: form_dirty_def serverJSON_def)

abbreviation arrivals :: "'a list \<Rightarrow> 'a form_event list" where
  "arrivals vs \<equiv> map (\<lambda>v. ServerData (Some v)) vs"

lemma run_Nil [simp]: "form_run text_of [] s = s"
  by (simp add: form_run_def)

lemma run_snoc [simp]: "form_run text_of (es @ [e]) s = form_event text_of e (form_run text_of es s)"
  by (simp add: form_run_def)

lemma run_append: "form_run text_of (es @ es') s = form_run text_of es' (form_run text_of es s)"
  by (simp add: form_run_def)

lemma run_Cons [simp]: "form_run text_of (e # es) s = form_run text_of es (form_event text_of e s)"
  by (simp add: form_run_def)

text \<open>A form that holds the data it last saw.\<close>

definition in_step :: "('a \<Rightarrow> string) \<Rightarrow> 'a \<Rightarrow> 'a synced_form \<Rightarrow> bool" where
  "in_step text_of v s \<longleftrightarrow>
     sf_server s = Some v \<and> sf_deps s = Some (text_of v) \<and> sf_last s = Some (text_of v)
     \<and> text_of (sf_form s) = text_of v"

lemma in_step_clean: "in_step text_of v s \<Longrightarrow> \<not> form_dirty text_of s"
  by (simp add: in_step_def dirty_iff)

lemma mount_same_text: "text_of initial = text_of v \<Longrightarrow> in_step text_of v (form_mount text_of (Some v) initial)"
  by (simp add: in_step_def form_mount_def sync_defs)

lemma mount_of_in_step: "in_step text_of v s \<Longrightarrow> s = form_mount text_of (Some v) (sf_form s)"
  by (cases s) (simp add: in_step_def form_mount_def sync_defs)

lemma arrive_in_step: "in_step text_of v s \<Longrightarrow> in_step text_of w (arrive text_of (Some w) s)"
  by (auto simp: in_step_def sync_defs)

lemma arrive_meets:
  "text_of w = text_of (sf_form s) \<Longrightarrow> Some (text_of w) \<noteq> sf_deps s \<Longrightarrow> in_step text_of w (arrive text_of (Some w) s)"
  by (auto simp: in_step_def sync_defs)

lemma run_in_step:
  "in_step text_of v s \<Longrightarrow> in_step text_of (last (v # vs)) (form_run text_of (arrivals vs) s)"
proof (induction vs rule: rev_induct)
  case (snoc w vs)
  then show ?case using arrive_in_step[of text_of] by (simp add: form_event_def)
qed simp

text \<open>A draft under data none of which is the draft.\<close>

lemma run_keeps_draft:
  assumes "\<not> pristine text_of s" and "\<forall>w. Some w \<in> set ds \<longrightarrow> text_of w \<noteq> text_of (sf_form s)"
  shows "sf_form (form_run text_of (map ServerData ds) s) = sf_form s \<and>
    sf_last (form_run text_of (map ServerData ds) s) = sf_last s"
  using assms(2)
proof (induction ds rule: rev_induct)
  case (snoc d ds)
  let ?s = "form_run text_of (map ServerData ds) s"
  from snoc have IH: "sf_form ?s = sf_form s" "sf_last ?s = sf_last s" by auto
  then have "\<not> pristine text_of ?s" using assms(1) by (simp add: pristine_def)
  from arrive_keeps_draft[OF this, of d] snoc.prems IH show ?case by (simp add: form_event_def)
qed simp

lemma run_data_last:
  "sf_server (form_run text_of (map ServerData ds) s) = last (sf_server s # ds) \<and>
   (sf_deps s = map_option text_of (sf_server s) \<longrightarrow>
     sf_deps (form_run text_of (map ServerData ds) s) = map_option text_of (last (sf_server s # ds)))"
  by (induction ds rule: rev_induct) (simp_all add: form_event_def)

lemma run_edits:
  "form_run text_of (map Edited fs) s = s\<lparr>sf_form := last (sf_form s # fs)\<rparr>"
  by (induction fs rule: rev_induct) (simp_all add: form_event_def edit_form_def)

section \<open>A form opened on its data\<close>

lemma arrivals_met:
  assumes "text_of (sf_form s) \<in> text_of ` set vs" and "\<not> pristine text_of s"
    and "sf_deps s \<noteq> Some (text_of (sf_form s))"
  shows "in_step text_of (last vs) (form_run text_of (arrivals vs) s)"
  using assms
proof (induction vs arbitrary: s)
  case (Cons w ws)
  let ?s = "arrive text_of (Some w) s"
  show ?case
  proof (cases "text_of w = text_of (sf_form s)")
    case True
    with Cons.prems(3) have "in_step text_of w ?s" by (intro arrive_meets) auto
    then show ?thesis using run_in_step[of text_of w ?s ws] by (simp add: form_event_def)
  next
    case False
    then have k: "sf_form ?s = sf_form s" "sf_last ?s = sf_last s"
      using arrive_keeps_draft[OF Cons.prems(2), of "Some w"] by auto
    have ws: "text_of (sf_form s) \<in> text_of ` set ws" using Cons.prems(1) False by auto
    have "in_step text_of (last ws) (form_run text_of (arrivals ws) ?s)"
      by (rule Cons.IH) (use ws k Cons.prems(2) False in \<open>auto simp: pristine_def\<close>)
    moreover have "ws \<noteq> []" using ws by auto
    ultimately show ?thesis by (simp add: form_event_def)
  qed
qed simp



section \<open>Typed values\<close>

text \<open>The data a history brought.\<close>

fun arrived :: "'a form_event list \<Rightarrow> 'a list" where
  "arrived [] = []"
| "arrived (ServerData (Some v) # es) = v # arrived es"
| "arrived (e # es) = arrived es"

lemma arrived_snoc [simp]:
  "arrived (es @ [e]) = arrived es @ (case e of ServerData (Some v) \<Rightarrow> [v] | _ \<Rightarrow> [])"
  by (induction es rule: arrived.induct) (auto split: form_event.splits option.splits)

lemma synced_text_arrived:
  "sf_last (form_run text_of es (form_mount text_of server initial)) = Some t \<Longrightarrow>
   t \<in> text_of ` (set_option server \<union> set (arrived es))"
proof (induction es rule: rev_induct)
  case Nil
  then show ?case by (cases server) (auto simp: form_mount_def sync_defs split: if_splits)
next
  case (snoc e es)
  let ?s = "form_run text_of es (form_mount text_of server initial)"
  show ?case
  proof (cases e)
    case (ServerData d)
    have "sf_last (arrive text_of d ?s) = sf_last ?s \<or> (\<exists>v. d = Some v \<and> sf_last (arrive text_of d ?s) = Some (text_of v))"
      by (auto simp: sync_defs split: option.splits)
    with snoc ServerData show ?thesis by (auto simp: form_event_def)
  next
    case (Edited f)
    with snoc show ?thesis by (simp add: form_event_def)
  qed
qed

lemma deps_follow_server:
  "let s = form_run text_of es (form_mount text_of server initial)
   in sf_deps s = map_option text_of (sf_server s)"
proof (induction es rule: rev_induct)
  case Nil
  then show ?case by (auto simp: form_mount_def sync_defs split: option.splits)
next
  case (snoc e es)
  then show ?case by (cases e) (simp_all add: form_event_def Let_def)
qed



text \<open>
  A page opened cold: the form is mounted empty, and the data that follows first is not taken, although the
  comment on the hook says that it adopts the data on first arrival. The form stays as it was mounted, is
  reported dirty, and a save would write it.
\<close>

lemma first_arrival_not_taken:
  assumes "text_of v \<noteq> text_of initial"
  shows "let s = form_run text_of (arrivals [v]) (form_mount text_of None initial)
         in sf_form s = initial \<and> form_dirty text_of s"
  using assms by (simp add: form_event_def form_mount_def dirty_iff form_dirty_def sync_defs)

section \<open>The guard\<close>

definition same_page :: "place \<Rightarrow> place \<Rightarrow> bool" where
  "same_page p q \<longleftrightarrow> pl_route p = pl_route q \<and> pl_params p = pl_params q"

definition guard_ok :: "nav_guard \<Rightarrow> bool" where
  "guard_ok s \<longleftrightarrow> (\<forall>p. gd_held s = Some p \<longrightarrow> gd_samePage s = same_page (gd_place s) p)"

lemma guard_moves:
  "guard_ok s \<Longrightarrow> guard_ok (try_navigate when p s)" "guard_ok s \<Longrightarrow> guard_ok (proceed s)"
  "guard_ok (reset_guard s)"
  by (auto simp: guard_ok_def try_navigate_def shouldBlock_def proceed_def reset_guard_def same_page_def
      split: option.splits)

lemma guard_wording:
  "guard_ok s \<Longrightarrow> gd_held s = Some p \<Longrightarrow>
   map_option dg_title (UnsavedChangesGuard s) =
     Some (if same_page (gd_place s) p then ''Discard your changes?'' else ''Leave without saving?'')"
  by (simp add: guard_ok_def UnsavedChangesGuard_def Let_def)

lemma guard_holds:
  "gd_place (try_navigate True p s) = gd_place s \<and> gd_place (proceed (try_navigate True p s)) = p
   \<and> gd_place (try_navigate False p s) = p \<and> gd_place (reset_guard (try_navigate True p s)) = gd_place s"
  by (simp add: try_navigate_def shouldBlock_def proceed_def reset_guard_def)

end
