(* ===== verification/Edit_Forms.thy ===== *)
theory Edit_Forms
  imports Form_Sync Api_Requests Api_Types Csv_Import
begin

text \<open>
  The forms of the detail pages of users and groups (\<open>routes/users/$dn.tsx\<close>, \<open>routes/groups/$dn.tsx\<close>):
  the projection of an entry to its editable fields, the partial update that a save sends, and the
  two dialogs that change a name or the POSIX numbers (\<open>components/posix-ids-change.tsx\<close>,
  \<open>components/group-rename.tsx\<close>). A form whose fields are all strings is an association list in the
  order of its literal.
\<close>

section \<open>Reading numbers from fields\<close>

text \<open>\<open>parseInt(s, 10)\<close>, and \<open>parseInt(s)\<close> with its hexadecimal prefix; \<^const>\<open>None\<close> is \<open>NaN\<close>.\<close>

definition signed_text :: "string \<Rightarrow> bool \<times> string" where
  "signed_text s =
     (case strip_left s of
        [] \<Rightarrow> (False, [])
      | c # r \<Rightarrow> if c = CHR ''-'' then (True, r) else if c = CHR ''+'' then (False, r) else (False, c # r))"

definition parse_int10 :: "string \<Rightarrow> int option" where
  "parse_int10 s =
     (case signed_text s of (neg, r) \<Rightarrow>
        (let ds = takeWhile is_digit r
         in if ds = [] then None else Some (if neg then - int (digits_val ds) else int (digits_val ds))))"

definition parse_int :: "string \<Rightarrow> int option" where
  "parse_int s =
     (case signed_text s of (neg, r) \<Rightarrow>
        if 2 \<le> length r \<and> hd r = CHR ''0'' \<and> r ! 1 \<in> set ''xX'' then
          (let hs = takeWhile (\<lambda>c. hex_val c \<noteq> None) (drop 2 r);
               n = foldl (\<lambda>acc c. acc * 16 + (case hex_val c of Some d \<Rightarrow> int d | None \<Rightarrow> 0)) 0 hs
           in if hs = [] then None else Some (if neg then - n else n))
        else parse_int10 s)"

text \<open>\<open>parseInt(value) || 0\<close>.\<close>

definition int_or_zero :: "string \<Rightarrow> int" where
  "int_or_zero s = coalesce (parse_int s) 0"

section \<open>Projections of an entry\<close>

text \<open>An entry as the client parsed it: its attributes by name.\<close>

type_synonym entry = "(string \<times> json) list"
type_synonym text_form = "(string \<times> string) list"

definition text_field :: "entry \<Rightarrow> string \<Rightarrow> string \<times> string" where
  "text_field e k = (k, coalesce (str_opt e k) '''')"

text \<open>\<open>entry.attribute?.toString() || ''''\<close> of an integer attribute.\<close>

definition int_opt :: "entry \<Rightarrow> string \<Rightarrow> int option" where
  "int_opt e k = opt_chain (num_opt e k) (\<lambda>r. num_integer (JFin r))"

definition int_field :: "entry \<Rightarrow> string \<Rightarrow> string \<times> string" where
  "int_field e k = (k, case int_opt e k of None \<Rightarrow> '''' | Some i \<Rightarrow> int_str i)"

definition identityForm :: "entry \<Rightarrow> text_form" where
  "identityForm user = map (text_field user)
     [''givenName'', ''sn'', ''cn'', ''displayName'', ''mail'', ''telephoneNumber'', ''title'',
      ''departmentNumber'', ''o'', ''employeeNumber'', ''employeeType'', ''initials'', ''manager'',
      ''description'']"

definition posixForm :: "entry \<Rightarrow> text_form" where
  "posixForm user = map (text_field user) [''homeDirectory'', ''loginShell'', ''gecos'']"

definition sambaForm :: "entry \<Rightarrow> text_form" where
  "sambaForm user = map (text_field user)
     [''sambaSID'', ''sambaPrimaryGroupSID'', ''sambaAcctFlags'', ''sambaHomePath'', ''sambaHomeDrive'',
      ''sambaLogonScript'', ''sambaProfilePath'', ''sambaDomainName'']"

definition shadowForm :: "entry \<Rightarrow> text_form" where
  "shadowForm user = map (int_field user)
     [''shadowLastChange'', ''shadowMin'', ''shadowMax'', ''shadowWarning'', ''shadowInactive'',
      ''shadowExpire'', ''shadowFlag'']"

definition groupSambaForm :: "entry \<Rightarrow> text_form" where
  "groupSambaForm grp = map (text_field grp) [''sambaSID'', ''sambaGroupType'', ''displayName'']"

section \<open>Partial updates\<close>

definition changedFields :: "text_form \<Rightarrow> text_form \<Rightarrow> text_form" where
  "changedFields form server = filter (\<lambda>(k, v). map_of server k \<noteq> Some v) form"

text \<open>One field of a form: \<open>setFormData({ ...formData, [k]: v })\<close>.\<close>

definition edit_field :: "string \<Rightarrow> string \<Rightarrow> text_form \<Rightarrow> text_form" where
  "edit_field k v form = alist_set k v form"

definition text_body :: "text_form \<Rightarrow> json" where
  "text_body form = JObj (map (\<lambda>(k, v). (k, JStr v)) form)"

text \<open>The Identity tab: the text fields, and the photo when it was replaced or removed.\<close>

definition identity_update :: "string \<Rightarrow> entry \<Rightarrow> text_form \<Rightarrow> string option \<Rightarrow> request" where
  "identity_update dn user form photo =
     (let data = changedFields form (identityForm user)
      in users_update dn (text_body
           (case photo of None \<Rightarrow> data | Some p \<Rightarrow> alist_set ''jpegPhoto'' p data)))"

definition posix_update :: "string \<Rightarrow> entry \<Rightarrow> text_form \<Rightarrow> request" where
  "posix_update dn user form = users_update dn (text_body (changedFields form (posixForm user)))"

definition samba_update :: "string \<Rightarrow> entry \<Rightarrow> text_form \<Rightarrow> request" where
  "samba_update dn user form = users_updateSamba dn (text_body (changedFields form (sambaForm user)))"

text \<open>The group's tab compares each field by hand.\<close>

definition group_samba_update :: "string \<Rightarrow> entry \<Rightarrow> text_form \<Rightarrow> request" where
  "group_samba_update dn grp form =
     groups_updateSamba dn (jobj (map (\<lambda>k.
       (k, if coalesce (map_of form k) '''' \<noteq> coalesce (str_opt grp k) ''''
           then Some (JStr (coalesce (map_of form k) '''')) else None))
       [''sambaSID'', ''sambaGroupType'', ''displayName'']))"

text \<open>\<open>NaN\<close> is written as \<open>null\<close>, and \<open>undefined\<close> is left out.\<close>

definition shadow_value :: "string \<Rightarrow> json option" where
  "shadow_value v =
     (if v = '''' then None
      else Some (case parse_int10 v of None \<Rightarrow> JNull | Some n \<Rightarrow> JNum (of_int n)))"

definition shadow_body :: "entry \<Rightarrow> text_form \<Rightarrow> json" where
  "shadow_body user form = jobj (map (\<lambda>(k, v). (k, shadow_value v)) (changedFields form (shadowForm user)))"

definition shadow_update :: "string \<Rightarrow> entry \<Rightarrow> text_form \<Rightarrow> request" where
  "shadow_update dn user form = users_updateShadow dn (shadow_body user form)"

section \<open>Adding an object class\<close>

text \<open>
  The Samba and Shadow tabs. While the operator adds the object class, the form holds defaults that
  are not stored yet, and it is not synced.
\<close>

record class_tab =
  ct_form :: text_form
  ct_adding :: bool

definition samba_defaults :: "entry \<Rightarrow> text_form" where
  "samba_defaults user =
     [(''sambaSID'', ''S-1-5-21-0-0-0-'' @ (case int_opt user ''uidNumber'' of
          None \<Rightarrow> ''undefined'' | Some n \<Rightarrow> int_str n)),
      (''sambaPrimaryGroupSID'', ''''), (''sambaAcctFlags'', ''[U          ]''), (''sambaHomePath'', ''''),
      (''sambaHomeDrive'', ''''), (''sambaLogonScript'', ''''), (''sambaProfilePath'', ''''),
      (''sambaDomainName'', '''')]"

definition group_samba_defaults :: "entry \<Rightarrow> text_form" where
  "group_samba_defaults grp =
     [(''sambaSID'', ''S-1-5-21-0-0-0-'' @ (case int_opt grp ''gidNumber'' of
          None \<Rightarrow> ''undefined'' | Some n \<Rightarrow> int_str n)),
      (''sambaGroupType'', ''2''), (''displayName'', coalesce (str_opt grp ''cn'') '''')]"

text \<open>\<open>now\<close> is \<open>Date.now()\<close>, in milliseconds.\<close>

definition shadow_defaults :: "int \<Rightarrow> text_form" where
  "shadow_defaults now =
     (let daysSinceEpoch = now div (1000 * 60 * 60 * 24)
      in [(''shadowLastChange'', int_str daysSinceEpoch), (''shadowMin'', ''0''), (''shadowMax'', ''99999''),
          (''shadowWarning'', ''7''), (''shadowInactive'', ''''), (''shadowExpire'', ''''), (''shadowFlag'', ''0'')])"

definition start_adding :: "text_form \<Rightarrow> class_tab \<Rightarrow> class_tab" where
  "start_adding defaults s = s\<lparr>ct_form := defaults, ct_adding := True\<rparr>"

definition stop_adding :: "class_tab \<Rightarrow> class_tab" where
  "stop_adding s = s\<lparr>ct_adding := False\<rparr>"

text \<open>What \<open>useSyncedForm\<close> is given, and whether the Save button and the guard are armed.\<close>

definition class_server :: "bool \<Rightarrow> text_form \<Rightarrow> class_tab \<Rightarrow> text_form option" where
  "class_server hasObjectClass server s =
     (if hasObjectClass \<and> \<not> ct_adding s then Some server else None)"

definition class_dirty :: "bool \<Rightarrow> text_form \<Rightarrow> class_tab \<Rightarrow> bool" where
  "class_dirty hasObjectClass server s =
     (case class_server hasObjectClass server s of None \<Rightarrow> False | Some f \<Rightarrow> ct_form s \<noteq> f)"

definition class_saveable :: "bool \<Rightarrow> text_form \<Rightarrow> class_tab \<Rightarrow> bool" where
  "class_saveable hasObjectClass server s \<longleftrightarrow> class_dirty hasObjectClass server s \<or> ct_adding s"

definition class_offer :: "bool \<Rightarrow> class_tab \<Rightarrow> bool" where
  "class_offer hasObjectClass s \<longleftrightarrow> \<not> hasObjectClass \<and> \<not> ct_adding s"

definition class_saved_toast :: "string \<Rightarrow> string \<Rightarrow> class_tab \<Rightarrow> toast" where
  "class_saved_toast added updated s = ToastSuccess (if ct_adding s then added else updated)"

section \<open>The POSIX numbers of a user\<close>

record posix_dialog =
  px_open :: bool
  px_newUid :: string
  px_newGid :: string
  px_confirm :: string
  px_pending :: bool

definition posix_closed :: posix_dialog where
  "posix_closed = \<lparr>px_open = False, px_newUid = '''', px_newGid = '''', px_confirm = '''', px_pending = False\<rparr>"

text \<open>\<open>parsed\<close>: an empty text is no number, anything else goes through \<open>Number\<close>.\<close>

definition parsed_number :: "string \<Rightarrow> jsnum option" where
  "parsed_number value = (if trim value = '''' then None else Some (str_to_number value))"

definition number_bad :: "string \<Rightarrow> bool" where
  "number_bad value \<longleftrightarrow> trim value \<noteq> '''' \<and>
     (case opt_chain (parsed_number value) num_integer of None \<Rightarrow> True | Some i \<Rightarrow> i < 0)"

text \<open>\<open>value !== undefined && value !== current\<close>; \<open>NaN\<close> differs from every number.\<close>

definition number_changes :: "string \<Rightarrow> int option \<Rightarrow> bool" where
  "number_changes value current =
     (case parsed_number value of
        None \<Rightarrow> False
      | Some n \<Rightarrow> (case current of None \<Rightarrow> True | Some c \<Rightarrow> n \<noteq> JFin (of_int c)))"

definition changesSomething :: "posix_dialog \<Rightarrow> int option \<Rightarrow> int option \<Rightarrow> bool" where
  "changesSomething s uidNumber gidNumber \<longleftrightarrow>
     number_changes (px_newUid s) uidNumber \<or> number_changes (px_newGid s) gidNumber"

definition number_json :: "jsnum \<Rightarrow> json" where
  "number_json n = (case n of JFin r \<Rightarrow> JNum r | _ \<Rightarrow> JNull)"

definition changed_number :: "string \<Rightarrow> int option \<Rightarrow> json option" where
  "changed_number value current =
     (if number_changes value current then map_option number_json (parsed_number value) else None)"

definition posix_change :: "string \<Rightarrow> posix_dialog \<Rightarrow> int option \<Rightarrow> int option \<Rightarrow> request" where
  "posix_change dn s uidNumber gidNumber =
     users_changePosixIds dn (jobj
       [(''uidNumber'', changed_number (px_newUid s) uidNumber),
        (''gidNumber'', changed_number (px_newGid s) gidNumber)])"

definition posix_can_submit :: "posix_dialog \<Rightarrow> string \<Rightarrow> int option \<Rightarrow> int option \<Rightarrow> bool" where
  "posix_can_submit s uid uidNumber gidNumber \<longleftrightarrow>
     \<not> (number_bad (px_newUid s) \<or> number_bad (px_newGid s) \<or> \<not> changesSomething s uidNumber gidNumber
        \<or> px_confirm s \<noteq> uid \<or> px_pending s)"

section \<open>Renaming\<close>

record rename_dialog =
  rn_new :: string
  rn_confirm :: string
  rn_pending :: bool

text \<open>The expression \<open>/^[a-zA-Z0-9._-]+$/\<close> is the one of the imports.\<close>

definition rename_valid :: "string \<Rightarrow> string \<Rightarrow> bool" where
  "rename_valid new_name current \<longleftrightarrow> RDN new_name \<and> new_name \<noteq> current"

definition rename_can_submit :: "rename_dialog \<Rightarrow> string \<Rightarrow> bool" where
  "rename_can_submit s current \<longleftrightarrow>
     \<not> (\<not> rename_valid (rn_new s) current \<or> rn_confirm s \<noteq> current \<or> rn_pending s)"

definition rename_complaint :: "rename_dialog \<Rightarrow> string \<Rightarrow> string option" where
  "rename_complaint s current =
     (if rn_new s \<noteq> '''' \<and> \<not> RDN (rn_new s)
      then Some (''Only letters, digits, '' @ [CHR 0x27, CHR ''.'', CHR 0x27] @ '', ''
             @ [CHR 0x27, CHR ''_'', CHR 0x27] @ '' or '' @ [CHR 0x27, CHR ''-'', CHR 0x27] @ '' are allowed.'')
      else if rn_new s \<noteq> '''' \<and> rn_new s = current then Some ''This is already the current name.''
      else None)"

section \<open>What a save sends\<close>

lemma map_of_filter_ne:
  "distinct (map fst form) \<Longrightarrow>
   map_of (filter (\<lambda>(k, v). P k v) form) k = (case map_of form k of Some v \<Rightarrow> if P k v then Some v else None | None \<Rightarrow> None)"
proof (induction form)
  case (Cons kv form)
  obtain k0 b where kv: "kv = (k0, b)" by (cases kv)
  then have none: "map_of form k0 = None" using Cons.prems by (simp add: map_of_eq_None_iff)
  show ?case
    using Cons none by (cases "k = k0") (auto simp: kv)
qed simp

lemma map_of_changedFields:
  "distinct (map fst form) \<Longrightarrow>
   map_of (changedFields form server) k =
     (case map_of form k of Some v \<Rightarrow> if map_of server k \<noteq> Some v then Some v else None | None \<Rightarrow> None)"
  unfolding changedFields_def by (rule map_of_filter_ne)

lemma forms_distinct:
  "distinct (map fst (identityForm e))" "distinct (map fst (posixForm e))"
  "distinct (map fst (sambaForm e))" "distinct (map fst (shadowForm e))"
  "distinct (map fst (groupSambaForm e))"
  by (simp_all add: identityForm_def posixForm_def sambaForm_def shadowForm_def groupSambaForm_def
      text_field_def int_field_def)

lemma edit_field_keys: "k \<in> set (map fst form) \<Longrightarrow> map fst (edit_field k v form) = map fst form"
  unfolding edit_field_def by (induction k v form rule: alist_set.induct) auto

text \<open>Typing into fields of a form, one after the other; what was typed last into a field.\<close>

definition type_into :: "(string \<times> string) list \<Rightarrow> text_form \<Rightarrow> text_form" where
  "type_into edits form = fold (\<lambda>(k, v). edit_field k v) edits form"

definition typed_last :: "(string \<times> string) list \<Rightarrow> string \<Rightarrow> string option" where
  "typed_last edits k = map_of (rev edits) k"

lemma map_of_edit_field: "map_of (edit_field k v form) k' = (if k' = k then Some v else map_of form k')"
  unfolding edit_field_def by (induction k v form rule: alist_set.induct) auto

lemma type_into_keys:
  "fst ` set edits \<subseteq> set (map fst form) \<Longrightarrow> map fst (type_into edits form) = map fst form"
proof (induction edits arbitrary: form)
  case (Cons e es)
  obtain k v where e: "e = (k, v)" by fastforce
  have keys: "map fst (edit_field k v form) = map fst form"
    using Cons.prems e by (intro edit_field_keys) auto
  have "fst ` set es \<subseteq> set (map fst (edit_field k v form))" unfolding keys using Cons.prems by simp
  from Cons.IH[OF this] keys show ?case by (simp add: type_into_def e)
qed (simp add: type_into_def)

lemma map_of_type_into:
  "map_of (type_into edits form) k = (case typed_last edits k of Some v \<Rightarrow> Some v | None \<Rightarrow> map_of form k)"
  unfolding type_into_def typed_last_def
  by (induction edits arbitrary: form) (auto simp: map_of_edit_field map_add_def split: option.splits)

lemma map_of_text_fields: "map_of (map (text_field e) ks) k = (if k \<in> set ks then Some (coalesce (str_opt e k) '''') else None)"
  by (induction ks) (auto simp: text_field_def)

text \<open>What was last typed into a field, when the entry holds something else.\<close>

definition changed_value :: "entry \<Rightarrow> (string \<times> string) list \<Rightarrow> string \<Rightarrow> string option" where
  "changed_value user edits k =
     (case typed_last edits k of
        Some v \<Rightarrow> if v = coalesce (str_opt user k) '''' then None else Some v
      | None \<Rightarrow> None)"

text \<open>The fields sent for a form that was typed into.\<close>

lemma changed_after_typing:
  assumes "fst ` set edits \<subseteq> set ks" and "distinct ks"
  shows "map_of (changedFields (type_into edits (map (text_field user) ks)) (map (text_field user) ks)) k =
    changed_value user edits k"
proof -
  have keys: "map fst (map (text_field user) ks) = ks" by (simp add: text_field_def comp_def)
  have "map fst (type_into edits (map (text_field user) ks)) = ks"
    using type_into_keys[of edits "map (text_field user) ks"] assms(1) by (simp only: keys)
  then have d: "distinct (map fst (type_into edits (map (text_field user) ks)))" using assms(2) by simp
  have "k \<in> set ks" if "typed_last edits k = Some v" for v
    using that assms(1) map_of_SomeD[of "rev edits" k v] by (force simp: typed_last_def)
  then show ?thesis
    unfolding map_of_changedFields[OF d] map_of_type_into map_of_text_fields
    by (auto simp: changed_value_def split: option.splits)
qed

text \<open>One field of the body of a request.\<close>

definition sent_field :: "request \<Rightarrow> string \<Rightarrow> json option" where
  "sent_field r k = (case rq_body r of Some b \<Rightarrow> get_prop b k | None \<Rightarrow> None)"

lemma get_prop_text_body [simp]: "get_prop (text_body form) k = map_option JStr (map_of form k)"
  by (simp add: get_prop_def text_body_def map_of_map)

text \<open>
  C19: What Save sends from the Identity, POSIX and Samba tabs of a user. After any typing into the fields of the
  tab, the request goes to that user and carries a field exactly if what was last typed into it differs from what the
  entry holds (an absent value counting as empty), with that text; an emptied field is sent as the empty text. The
  Identity tab adds the photo exactly if one was picked or removed.
\<close>

theorem saves_send_changes:
  assumes "fst ` set edits \<subseteq> set (map fst (identityForm user))"
    and "fst ` set edits' \<subseteq> set (map fst (posixForm user))"
    and "fst ` set edits'' \<subseteq> set (map fst (sambaForm user))"
  shows "let identity = identity_update dn user (type_into edits (identityForm user)) photo;
           posix = posix_update dn user (type_into edits' (posixForm user));
           samba = samba_update dn user (type_into edits'' (sambaForm user))
         in sent_field identity k = (if k = ''jpegPhoto'' \<and> photo \<noteq> None then map_option JStr photo
              else map_option JStr (changed_value user edits k)) \<and>
            sent_field posix k = map_option JStr (changed_value user edits' k) \<and>
            sent_field samba k = map_option JStr (changed_value user edits'' k) \<and>
            (rq_method identity, rq_path identity) = (''PUT'', ''/users/'' @ encodeURIComponent dn) \<and>
            (rq_method posix, rq_path posix) = (''PUT'', ''/users/'' @ encodeURIComponent dn) \<and>
            (rq_method samba, rq_path samba) = (''PUT'', ''/users/'' @ encodeURIComponent dn @ ''/samba'')"
proof -
  have keys: "map fst (map (text_field user) ks) = ks" for ks by (simp add: text_field_def comp_def)
  have i: "map_of (changedFields (type_into edits (identityForm user)) (identityForm user)) k =
      changed_value user edits k"
    unfolding identityForm_def
    by (rule changed_after_typing[OF assms(1)[unfolded identityForm_def keys]]) simp
  have p: "map_of (changedFields (type_into edits' (posixForm user)) (posixForm user)) k =
      changed_value user edits' k"
    unfolding posixForm_def
    by (rule changed_after_typing[OF assms(2)[unfolded posixForm_def keys]]) simp
  have s: "map_of (changedFields (type_into edits'' (sambaForm user)) (sambaForm user)) k =
      changed_value user edits'' k"
    unfolding sambaForm_def
    by (rule changed_after_typing[OF assms(3)[unfolded sambaForm_def keys]]) simp
  have body: "sent_field (users_update dn (text_body form)) k = map_option JStr (map_of form k)"
    "sent_field (users_updateSamba dn (text_body form)) k = map_option JStr (map_of form k)" for form
    by (simp_all add: sent_field_def users_update_def users_updateSamba_def api_call_def)
  have target: "rq_method (users_update dn b) = ''PUT'' \<and> rq_path (users_update dn b) = ''/users/'' @ encodeURIComponent dn"
    "rq_method (users_updateSamba dn b) = ''PUT'' \<and>
       rq_path (users_updateSamba dn b) = ''/users/'' @ encodeURIComponent dn @ ''/samba''" for b
    by (simp_all add: users_update_def users_updateSamba_def api_call_def)
  show ?thesis
  proof (cases photo)
    case None
    then show ?thesis
      unfolding Let_def identity_update_def posix_update_def samba_update_def
      by (simp add: body target i p s)
  next
    case (Some ph)
    then show ?thesis
      unfolding Let_def identity_update_def posix_update_def samba_update_def
      by (simp add: body target i p s map_of_alist_set)
  qed
qed

text \<open>A shell changed twice, a name changed and changed back, a phone number emptied.\<close>

lemma saves_send_changes_witness:
  "let u = [(''cn'', JStr ''Jo''), (''telephoneNumber'', JStr ''12''), (''loginShell'', JStr ''/bin/sh'')];
       identity = identity_update ''uid=jo'' u
         (type_into [(''cn'', ''Joe''), (''cn'', ''Jo''), (''telephoneNumber'', '''')] (identityForm u)) None;
       posix = posix_update ''uid=jo'' u (type_into [(''loginShell'', ''/bin/zsh''), (''loginShell'', ''/bin/bash'')] (posixForm u))
   in sent_field identity ''cn'' = None \<and> sent_field identity ''telephoneNumber'' = Some (JStr '''') \<and>
      sent_field posix ''loginShell'' = Some (JStr ''/bin/bash'')"
proof -
  define u where "u = [(''cn'', JStr ''Jo''), (''telephoneNumber'', JStr ''12''), (''loginShell'', JStr ''/bin/sh'')]"
  let ?es = "[(''cn'', ''Joe''), (''cn'', ''Jo''), (''telephoneNumber'', '''')]"
    and ?es' = "[(''loginShell'', ''/bin/zsh''), (''loginShell'', ''/bin/bash'')]"
  have h: "fst ` set ?es \<subseteq> set (map fst (identityForm u))" "fst ` set ?es' \<subseteq> set (map fst (posixForm u))"
    "fst ` set [] \<subseteq> set (map fst (sambaForm u))"
    by (simp_all add: identityForm_def posixForm_def text_field_def)
  have v: "str_opt u ''cn'' = Some ''Jo''" "str_opt u ''telephoneNumber'' = Some ''12''" "str_opt u ''loginShell'' = Some ''/bin/sh''"
    by (simp_all add: u_def str_opt_def)
  show ?thesis
    unfolding u_def[symmetric]
    using saves_send_changes[OF h, of "''uid=jo''" None "''cn''"] saves_send_changes[OF h, of "''uid=jo''" None "''telephoneNumber''"]
      saves_send_changes[OF h, of "''uid=jo''" None "''loginShell''"] v
    by (simp add: Let_def typed_last_def changed_value_def)
qed

text \<open>
  C20: A shadow field is sent exactly when it was changed and is not empty. An emptied field is left out
  of the request, which the API reads as "unchanged": a value cannot be cleared from the tab.
\<close>

theorem shadow_update_exact:
  assumes "map fst form = map fst (shadowForm user)"
  shows "get_prop (shadow_body user form) k =
    (case map_of form k of
       None \<Rightarrow> None
     | Some v \<Rightarrow> if v = '''' \<or> map_of (shadowForm user) k = Some v then None
         else Some (case parse_int10 v of None \<Rightarrow> JNull | Some n \<Rightarrow> JNum (of_int n)))"
proof -
  have dist: "distinct (map fst form)" using assms forms_distinct(4)[of user] by simp
  then have dist': "distinct (map fst (changedFields form (shadowForm user)))"
    unfolding changedFields_def by (simp add: distinct_map_filter)
  have keys: "map fst (map (\<lambda>(k, v). (k, shadow_value v)) xs) = map fst xs" for xs :: text_form
    by (simp add: comp_def case_prod_beta)
  have "get_prop (shadow_body user form) k =
      opt_chain (map_of (map (\<lambda>(k, v). (k, shadow_value v)) (changedFields form (shadowForm user))) k) id"
    unfolding shadow_body_def by (rule get_prop_jobj) (simp only: keys dist')
  also have "map_of (map (\<lambda>(k, v). (k, shadow_value v)) (changedFields form (shadowForm user))) k =
      map_option shadow_value (map_of (changedFields form (shadowForm user)) k)"
    by (simp add: map_of_map)
  finally show ?thesis
    by (auto simp: map_of_changedFields[OF dist] shadow_value_def split: option.splits)
qed

lemma shadow_update_exact_witness:
  "get_prop (shadow_body [(''shadowMax'', JNum 90)] (edit_field ''shadowMax'' '''' (shadowForm [(''shadowMax'', JNum 90)])))
     ''shadowMax'' = None"
proof -
  let ?u = "[(''shadowMax'', JNum 90)]"
  have "map fst (edit_field ''shadowMax'' '''' (shadowForm ?u)) = map fst (shadowForm ?u)"
    by (rule edit_field_keys) (simp add: shadowForm_def int_field_def)
  from shadow_update_exact[OF this, of "''shadowMax''"] show ?thesis
    by (simp add: edit_field_def)
qed

end
