(* ===== verification/Pickers.thy ===== *)
theory Pickers
  imports Netgroups Api_Requests
begin

text \<open>
  Searching while typing: the debounced copy of a value (\<open>lib/use-debounced.ts\<close>), the search box that
  follows the URL (\<open>lib/use-url-search-input.ts\<close>), the pickers that search the directory
  (\<open>lib/use-picker-search.ts\<close>, \<open>components/ui/picker-overflow.tsx\<close>), and the netgroup picker of the sudo
  pages (\<open>components/netgroup-picker.tsx\<close>). A timer is a pending value; its firing is an event.
\<close>

section \<open>A debounced value\<close>

record 'a debounced =
  db_value :: 'a
  db_debounced :: 'a
  db_timer :: "'a option"

text \<open>The mount starts a timer too; a render with the same value leaves the running one alone.\<close>

definition debounce_mount :: "'a \<Rightarrow> 'a debounced" where
  "debounce_mount v = \<lparr>db_value = v, db_debounced = v, db_timer = Some v\<rparr>"

definition debounce_render :: "'a \<Rightarrow> 'a debounced \<Rightarrow> 'a debounced" where
  "debounce_render v s = (if v = db_value s then s else s\<lparr>db_value := v, db_timer := Some v\<rparr>)"

definition debounce_fire :: "'a debounced \<Rightarrow> 'a debounced" where
  "debounce_fire s = (case db_timer s of None \<Rightarrow> s | Some v \<Rightarrow> s\<lparr>db_debounced := v, db_timer := None\<rparr>)"

definition debounce_ok :: "'a debounced \<Rightarrow> bool" where
  "debounce_ok s \<longleftrightarrow> (case db_timer s of None \<Rightarrow> db_debounced s = db_value s | Some v \<Rightarrow> v = db_value s)"

lemma debounce_steps_ok:
  "debounce_ok (debounce_mount v)"
  "debounce_ok s \<Longrightarrow> debounce_ok (debounce_render v s)"
  "debounce_ok s \<Longrightarrow> debounce_ok (debounce_fire s)"
  by (auto simp: debounce_ok_def debounce_mount_def debounce_render_def debounce_fire_def split: option.splits)

lemma debounce_fire_value: "debounce_ok s \<Longrightarrow> db_debounced (debounce_fire s) = db_value s"
  by (auto simp: debounce_ok_def debounce_fire_def split: option.splits)

section \<open>The search box and the URL\<close>

text \<open>
  The URL's term, the term last seen, the debounced input, the values for which the committing
  effect last ran, and the calls of \<open>commit\<close>.
\<close>

record search_sync =
  ss_url :: string
  ss_last :: string
  ss_input :: "string debounced"
  ss_deps :: "string \<times> string"
  ss_commits :: "string list"

definition commit_effect :: "search_sync \<Rightarrow> search_sync" where
  "commit_effect s =
     (let deps = (db_debounced (ss_input s), ss_url s) in
      if deps = ss_deps s then s
      else s\<lparr>ss_deps := deps,
             ss_commits := (if fst deps \<noteq> snd deps then ss_commits s @ [fst deps] else ss_commits s)\<rparr>)"

text \<open>A render with the term of the URL: adopted when it moved, then the two effects.\<close>

definition search_render :: "string \<Rightarrow> search_sync \<Rightarrow> search_sync" where
  "search_render url s0 =
     (let s = s0\<lparr>ss_url := url\<rparr>;
          s1 = (if url \<noteq> ss_last s
                then s\<lparr>ss_last := url, ss_input := debounce_render url (ss_input s)\<rparr> else s)
      in commit_effect s1)"

definition setInput :: "string \<Rightarrow> search_sync \<Rightarrow> search_sync" where
  "setInput v s = search_render (ss_url s) (s\<lparr>ss_input := debounce_render v (ss_input s)\<rparr>)"

definition timer_fires :: "search_sync \<Rightarrow> search_sync" where
  "timer_fires s = search_render (ss_url s) (s\<lparr>ss_input := debounce_fire (ss_input s)\<rparr>)"

definition search_mount :: "string \<Rightarrow> search_sync" where
  "search_mount url =
     \<lparr>ss_url = url, ss_last = url, ss_input = debounce_mount url, ss_deps = (url, url), ss_commits = []\<rparr>"

text \<open>Nothing pending: box, debounced value and URL agree.\<close>

definition settled :: "string \<Rightarrow> search_sync \<Rightarrow> bool" where
  "settled u s \<longleftrightarrow>
     ss_url s = u \<and> ss_last s = u \<and> db_value (ss_input s) = u \<and> db_debounced (ss_input s) = u
     \<and> ss_deps s = (u, u) \<and> debounce_ok (ss_input s)"

lemmas search_defs = search_render_def commit_effect_def Let_def debounce_render_def debounce_fire_def debounce_ok_def

lemma settled_mount: "settled u (search_mount u)"
  by (simp add: settled_def search_mount_def debounce_ok_def debounce_mount_def)

definition typing :: "string \<Rightarrow> string \<Rightarrow> search_sync \<Rightarrow> bool" where
  "typing u v s \<longleftrightarrow>
     ss_url s = u \<and> ss_last s = u \<and> db_value (ss_input s) = v \<and> db_debounced (ss_input s) = u
     \<and> ss_deps s = (u, u) \<and> debounce_ok (ss_input s)"

lemma settled_typing: "settled u s \<Longrightarrow> typing u u s"
  by (simp add: settled_def typing_def)

lemma typing_setInput:
  "typing u v s \<Longrightarrow> typing u w (setInput w s) \<and> ss_commits (setInput w s) = ss_commits s"
  by (auto simp: typing_def setInput_def search_defs split: option.splits)

lemma typing_run:
  "typing u v s \<Longrightarrow>
   typing u (last (v # ws)) (fold setInput ws s) \<and> ss_commits (fold setInput ws s) = ss_commits s"
proof (induction ws rule: rev_induct)
  case (snoc w ws)
  then show ?case using typing_setInput[of u "last (v # ws)" "fold setInput ws s" w] by simp
qed simp

lemma typing_fires:
  assumes "typing u v s"
  shows "ss_commits (timer_fires s) = (if v = u then ss_commits s else ss_commits s @ [v]) \<and>
    settled v (search_render v (timer_fires s)) \<and>
    ss_commits (search_render v (timer_fires s)) = ss_commits (timer_fires s)"
proof -
  obtain t c where s: "s = \<lparr>ss_url = u, ss_last = u, ss_input = \<lparr>db_value = v, db_debounced = u, db_timer = t\<rparr>,
      ss_deps = (u, u), ss_commits = c\<rparr>"
    using assms by (cases s; cases "ss_input s") (simp add: typing_def)
  show ?thesis
  proof (cases t)
    case None
    then have "v = u" using assms by (auto simp: s typing_def debounce_ok_def)
    with None show ?thesis by (simp add: s settled_def timer_fires_def search_defs)
  next
    case (Some w)
    then have "w = v" using assms by (simp add: s typing_def debounce_ok_def)
    with Some show ?thesis
      by (cases "v = u") (simp_all add: s settled_def timer_fires_def search_defs)
  qed
qed

text \<open>
  C35: However many keys are typed, nothing is committed while the timer has not run out; when it does,
  the last text is committed, once, unless it is the term the URL already has; and once the URL
  carries it, box and URL agree again and nothing more is committed.
\<close>

theorem typing_commits_once:
  assumes "settled u s" and "ws \<noteq> []"
  defines "typed \<equiv> fold setInput ws s"
  shows "ss_commits typed = ss_commits s \<and>
    ss_commits (timer_fires typed) = ss_commits s @ (if last ws = u then [] else [last ws]) \<and>
    settled (last ws) (search_render (last ws) (timer_fires typed)) \<and>
    ss_commits (search_render (last ws) (timer_fires typed)) = ss_commits (timer_fires typed)"
proof -
  have t: "typing u (last ws) typed" "ss_commits typed = ss_commits s"
    using typing_run[OF settled_typing[OF assms(1)], of ws] assms(2) by (auto simp: typed_def)
  then show ?thesis using typing_fires[OF t(1)] by auto
qed

lemma typing_commits_once_witness:
  "ss_commits (timer_fires (fold setInput [''j'', ''jd''] (search_mount ''''))) = [''jd'']"
  using typing_commits_once[OF settled_mount, of "[''j'', ''jd'']" "''''"] by (simp add: search_mount_def)

text \<open>
  A new term that comes from the URL is undone. When a settled search box is shown a URL with
  another term, as by the Back button or by clearing all filters, the effect finds the debounced
  value still on the old term and commits it: the URL goes back, and so does the box.
\<close>

theorem url_change_reverted:
  assumes "settled u s" and "w \<noteq> u"
  shows "ss_commits (search_render w s) = ss_commits s @ [u] \<and>
    settled u (search_render u (search_render w s)) \<and>
    ss_commits (search_render u (search_render w s)) = ss_commits s @ [u]"
  using assms by (auto simp: settled_def search_defs split: option.splits)

lemma url_change_reverted_witness:
  "ss_commits (search_render '''' (search_mount ''jdoe'')) = [''jdoe'']"
  using url_change_reverted[OF settled_mount[of "''jdoe''"], of "''''"] by (simp add: search_mount_def)

section \<open>Searching the directory\<close>

definition PICKER_LIMIT :: nat where
  "PICKER_LIMIT = 20"

record 'a picker_page =
  pp_data :: "'a list"
  pp_total :: nat

definition picker_params :: "string \<Rightarrow> string option \<Rightarrow> nat \<Rightarrow> list_params" where
  "picker_params term sort_field headroom =
     \<lparr>qp_search = Some term, qp_sort = sort_field, qp_order = Some ''asc'',
      qp_limit = Some (int (PICKER_LIMIT + headroom)), qp_offset = None, qp_status = None\<rparr>"

definition picker_items :: "'a picker_page option \<Rightarrow> 'a list" where
  "picker_items q = (case q of None \<Rightarrow> [] | Some p \<Rightarrow> pp_data p)"

definition picker_total :: "'a picker_page option \<Rightarrow> nat" where
  "picker_total q = (case q of None \<Rightarrow> 0 | Some p \<Rightarrow> pp_total p)"

definition overflow :: "'a picker_page option \<Rightarrow> int" where
  "overflow q = max 0 (int (picker_total q) - int (length (picker_items q)))"

text \<open>The candidates a picker offers: those not already taken.\<close>

definition available :: "('a \<Rightarrow> 'k) \<Rightarrow> 'k list \<Rightarrow> 'a list \<Rightarrow> 'a list" where
  "available key taken items = filter (\<lambda>x. key x \<notin> set taken) items"

text \<open>\<open>PickerOverflow\<close>; the dash of its sentence is an argument.\<close>

definition PickerOverflow :: "string \<Rightarrow> int \<Rightarrow> string option" where
  "PickerOverflow dash count =
     (if count \<le> 0 then None
      else Some (if count = 1 then ''1 more match is not shown '' @ dash @ '' refine the search to reach it.''
                 else int_str count @ '' more matches are not shown '' @ dash @ '' refine the search to reach them.''))"

lemma taken_few:
  assumes "distinct (map key xs)"
  shows "length (filter (\<lambda>x. key x \<in> set taken) xs) \<le> length taken"
proof -
  let ?ys = "filter (\<lambda>x. key x \<in> set taken) xs"
  have "distinct (map key ?ys)" using assms by (rule distinct_map_filter)
  then have "length ?ys = card (set (map key ?ys))" by (metis distinct_card length_map)
  also have "\<dots> \<le> card (set taken)" by (rule card_mono) auto
  also have "\<dots> \<le> length taken" by (rule card_length)
  finally show ?thesis .
qed

text \<open>
  A picker given as much headroom as there are entries to drop never looks emptier than it is. If
  the directory answers with the first matches up to the limit and with their number, the
  candidates left are the first of those not taken, at least twenty of them or all there are; and
  the number said not to be shown is exactly the number of matches not fetched.
\<close>

theorem picker_bounds:
  assumes "pp_data p = take (PICKER_LIMIT + length taken) hits" and "pp_total p = length hits"
    and "distinct (map key hits)"
  shows "(\<exists>rest. filter (\<lambda>x. key x \<notin> set taken) hits = available key taken (picker_items (Some p)) @ rest) \<and>
    min PICKER_LIMIT (length (filter (\<lambda>x. key x \<notin> set taken) hits))
      \<le> length (available key taken (picker_items (Some p))) \<and>
    length (available key taken (picker_items (Some p))) \<le> PICKER_LIMIT + length taken \<and>
    overflow (Some p) = int (length hits) - int (min (length hits) (PICKER_LIMIT + length taken))"
proof -
  let ?n = "PICKER_LIMIT + length taken" and ?P = "\<lambda>x. key x \<notin> set taken"
  have items: "available key taken (picker_items (Some p)) = filter ?P (take ?n hits)"
    by (simp add: available_def picker_items_def assms(1))
  have split: "filter ?P hits = filter ?P (take ?n hits) @ filter ?P (drop ?n hits)"
    by (metis append_take_drop_id filter_append)
  have least: "min PICKER_LIMIT (length (filter ?P hits)) \<le> length (filter ?P (take ?n hits))"
  proof (cases "length hits \<le> ?n")
    case False
    have "distinct (map key (take ?n hits))" using assms(3) by (metis distinct_take take_map)
    then have "length (filter (\<lambda>x. key x \<in> set taken) (take ?n hits)) \<le> length taken"
      by (rule taken_few)
    moreover have "length (filter (\<lambda>x. key x \<in> set taken) (take ?n hits)) + length (filter ?P (take ?n hits)) = ?n"
      using filter_partition_length[of "\<lambda>x. key x \<in> set taken" "take ?n hits"] False by simp
    ultimately show ?thesis by linarith
  qed simp
  have most: "length (filter ?P (take ?n hits)) \<le> ?n"
    by (rule order_trans[OF length_filter_le]) simp
  show ?thesis
    unfolding items using split least most
    by (auto simp: overflow_def picker_total_def picker_items_def assms(1,2))
qed

lemma picker_bounds_witness:
  "length (available id [1] (picker_items (Some \<lparr>pp_data = take 21 [0 ..< 30], pp_total = 30\<rparr>))) \<ge> 20"
proof -
  let ?p = "\<lparr>pp_data = take 21 [0 ..< 30], pp_total = 30\<rparr>"
  have "min PICKER_LIMIT (length (filter (\<lambda>x. id x \<notin> set [1]) [0 ..< 30]))
      \<le> length (available id [1] (picker_items (Some ?p)))"
    using picker_bounds[of ?p "[1]" "[0 ..< 30]" id] by (simp add: PICKER_LIMIT_def)
  moreover have "length (filter (\<lambda>x. id x \<notin> set [1::nat]) [0 ..< 30]) = 29" by code_simp
  ultimately show ?thesis by (simp add: PICKER_LIMIT_def)
qed

end
