(* ===== verification/Detail_Pages.thy ===== *)
theory Detail_Pages
  imports Edit_Forms Outcome_Queue Access Dn_Codec Pickers
begin

text \<open>
  The detail pages of users and groups (\<open>routes/users/$dn.tsx\<close>, \<open>routes/groups/$dn.tsx\<close>): their tabs,
  and their mutations as the request each makes and what it does on success. Queries refreshed are
  written with their keys.
\<close>

section \<open>Tabs\<close>

definition user_tabs :: "string list" where
  "user_tabs = [''identity'', ''posix'', ''shadow'', ''samba'', ''ssh-keys'', ''sudo'', ''security'']"

definition group_tabs :: "string list" where
  "group_tabs = [''information'', ''members'', ''samba'', ''sudo'', ''security'']"

text \<open>\<open>validateSearch\<close>: a tab name the page knows, or nothing.\<close>

definition validate_tab :: "string list \<Rightarrow> json option \<Rightarrow> string option" where
  "validate_tab tabs raw =
     (case raw of Some (JStr t) \<Rightarrow> if t \<in> set tabs then Some t else None | _ \<Rightarrow> None)"

definition has_class :: "string list option \<Rightarrow> string \<Rightarrow> bool" where
  "has_class objectClasses c \<longleftrightarrow> c \<in> to_lower ` set (coalesce objectClasses [])"

definition user_tabs_shown :: "string set \<Rightarrow> string set \<Rightarrow> string list" where
  "user_tabs_shown objects modules =
     (if ''inetorgperson'' \<in> objects then [''identity''] else [])
     @ (if ''posixaccount'' \<in> objects then [''posix''] else [])
     @ (if ''shadowaccount'' \<in> objects then [''shadow''] else [])
     @ (if ''sambasamaccount'' \<in> objects then [''samba''] else [])
     @ (if ''ldappublickey'' \<in> objects then [''ssh-keys''] else [])
     @ (if ''sudo'' \<in> modules then [''sudo''] else [])
     @ [''security'']"

definition user_default_tab :: "string set \<Rightarrow> string set \<Rightarrow> string" where
  "user_default_tab objects modules =
     (if ''inetorgperson'' \<in> objects then ''identity''
      else if ''posixaccount'' \<in> objects then ''posix''
      else if ''shadowaccount'' \<in> objects then ''shadow''
      else if ''sambasamaccount'' \<in> objects then ''samba''
      else if ''ldappublickey'' \<in> objects then ''ssh-keys''
      else if ''sudo'' \<in> modules then ''sudo''
      else ''security'')"

definition group_tabs_shown :: "string set \<Rightarrow> string set \<Rightarrow> string list" where
  "group_tabs_shown objects modules =
     (if ''posixgroup'' \<in> objects then [''information'', ''members''] else [])
     @ (if ''sambagroupmapping'' \<in> objects then [''samba''] else [])
     @ (if ''sudo'' \<in> modules then [''sudo''] else [])
     @ [''security'']"

definition group_default_tab :: "string set \<Rightarrow> string set \<Rightarrow> string" where
  "group_default_tab objects modules =
     (if ''posixgroup'' \<in> objects then ''information''
      else if ''sambagroupmapping'' \<in> objects then ''samba''
      else if ''sudo'' \<in> modules then ''sudo''
      else ''security'')"

definition active_tab :: "string option \<Rightarrow> string \<Rightarrow> string" where
  "active_tab tab default_tab = coalesce tab default_tab"

lemma default_tabs_shown:
  "user_default_tab os ms = hd (user_tabs_shown os ms)" "group_default_tab os ms = hd (group_tabs_shown os ms)"
  by (simp_all add: user_default_tab_def user_tabs_shown_def group_default_tab_def group_tabs_shown_def)

lemma tabs_known:
  "set (user_tabs_shown os ms) \<subseteq> set user_tabs" "set (group_tabs_shown os ms) \<subseteq> set group_tabs"
  by (auto simp: user_tabs_shown_def user_tabs_def group_tabs_shown_def group_tabs_def)

text \<open>A tab the deployment has switched off stays the active one when the URL names it.\<close>

lemma disabled_tab_stays:
  "''sambagroupmapping'' \<notin> os \<Longrightarrow>
   active_tab (validate_tab group_tabs (Some (JStr ''samba''))) (group_default_tab os ms) \<notin> set (group_tabs_shown os ms)"
  by (simp add: active_tab_def validate_tab_def group_tabs_def group_tabs_shown_def)

section \<open>Mutations\<close>

datatype page_effect =
    Refresh "string list"
  | RefreshAll
  | Toasted toast
  | Reported outcome
  | Went string "(codec_error + string) option"

text \<open>A mutation: its request, and what its success does.\<close>

record mutation =
  mu_request :: request
  mu_success :: "page_effect list"

definition done_with :: "request \<Rightarrow> string list list \<Rightarrow> string \<Rightarrow> mutation" where
  "done_with req keys message =
     \<lparr>mu_request = req, mu_success = map Refresh keys @ [Toasted (ToastSuccess message)]\<rparr>"

text \<open>Every mutation but the confirmed ones answers an error with its message.\<close>

definition mutation_error :: "string \<Rightarrow> page_effect list" where
  "mutation_error message = [Toasted (ToastError message)]"

definition left_behind :: "string \<Rightarrow> string list \<Rightarrow> page_effect" where
  "left_behind title warnings =
     Reported \<lparr>oc_title = title, oc_description = None, oc_items = warnings, oc_tone = None\<rparr>"

subsection \<open>Users\<close>

definition user_update_done :: "string \<Rightarrow> request \<Rightarrow> string \<Rightarrow> mutation" where
  "user_update_done dn req message = done_with req [[''users''], [''user'', dn]] message"

definition identity_mutation :: "string \<Rightarrow> entry \<Rightarrow> text_form \<Rightarrow> string option \<Rightarrow> mutation" where
  "identity_mutation dn user form photo =
     user_update_done dn (identity_update dn user form photo) ''User updated successfully''"

definition posix_mutation :: "string \<Rightarrow> entry \<Rightarrow> text_form \<Rightarrow> mutation" where
  "posix_mutation dn user form =
     user_update_done dn (posix_update dn user form) ''POSIX settings updated''"

definition samba_mutation :: "string \<Rightarrow> entry \<Rightarrow> class_tab \<Rightarrow> mutation" where
  "samba_mutation dn user s =
     user_update_done dn (samba_update dn user (ct_form s))
       (if ct_adding s then ''Samba account added'' else ''Samba settings updated'')"

definition shadow_mutation :: "string \<Rightarrow> entry \<Rightarrow> class_tab \<Rightarrow> mutation" where
  "shadow_mutation dn user s =
     user_update_done dn (shadow_update dn user (ct_form s))
       (if ct_adding s then ''Shadow account added'' else ''Shadow settings updated'')"

text \<open>
  Joining groups, one call after the other: the calls made, and the first failure. A failure leaves
  the groups joined before it; only a complete run refreshes the page.
\<close>

fun join_groups :: "string \<Rightarrow> (string \<Rightarrow> string option) \<Rightarrow> string list \<Rightarrow> request list \<times> string option" where
  "join_groups uid fails [] = ([], None)"
| "join_groups uid fails (g # gs) =
     (case fails g of
        Some e \<Rightarrow> ([groups_addMember g uid], Some e)
      | None \<Rightarrow> (case join_groups uid fails gs of (calls, e) \<Rightarrow> (groups_addMember g uid # calls, e)))"

definition join_done :: "string \<Rightarrow> nat \<Rightarrow> page_effect list" where
  "join_done dn selected =
     [Refresh [''user'', dn, ''groups''], Refresh [''groups''],
      Toasted (ToastSuccess (''User added to '' @ nat_str selected @ '' group'' @ (if selected > 1 then ''s'' else '''')))]"

definition join_effects :: "string \<Rightarrow> string \<Rightarrow> (string \<Rightarrow> string option) \<Rightarrow> string list \<Rightarrow> page_effect list" where
  "join_effects dn uid fails groups =
     (case snd (join_groups uid fails groups) of
        None \<Rightarrow> join_done dn (length groups)
      | Some e \<Rightarrow> mutation_error e)"

definition leave_group :: "string \<Rightarrow> string \<Rightarrow> string \<Rightarrow> mutation" where
  "leave_group dn uid groupDn =
     done_with (groups_removeMember groupDn uid) [[''user'', dn, ''groups''], [''groups'']] ''User removed from group''"

definition add_key :: "string \<Rightarrow> string \<Rightarrow> mutation" where
  "add_key dn key = done_with (users_addSSHKey dn key) [[''user'', dn]] ''SSH key added''"

definition remove_key :: "string \<Rightarrow> string \<Rightarrow> mutation" where
  "remove_key dn key = done_with (users_removeSSHKey dn key) [[''user'', dn]] ''SSH key removed''"

text \<open>\<open>handleAddKey\<close>: a blank input does nothing.\<close>

definition handleAddKey :: "string \<Rightarrow> string \<Rightarrow> mutation option" where
  "handleAddKey dn newKey = (if trim newKey \<noteq> '''' then Some (add_key dn (trim newKey)) else None)"

definition parseKeyInfo :: "string \<Rightarrow> string \<times> string \<times> string" where
  "parseKeyInfo key =
     (let parts = split_on CHR '' '' key;
          type = (if hd parts \<noteq> '''' then hd parts else ''unknown'');
          comment = (if length parts > 2 then join_with '' '' (drop 2 parts) else '''');
          fingerprint = (if length parts > 1 \<and> parts ! 1 \<noteq> '''' then take 20 (parts ! 1) @ ''...'' else '''')
      in (type, comment, fingerprint))"

definition user_join_role :: "string \<Rightarrow> string \<Rightarrow> string \<Rightarrow> mutation" where
  "user_join_role dn uid roleDn =
     done_with (sudoRoles_addUser roleDn uid) [[''user'', dn, ''sudo-roles''], [''sudo-roles'']] ''User added to sudo role''"

definition user_leave_role :: "string \<Rightarrow> string \<Rightarrow> string \<Rightarrow> mutation" where
  "user_leave_role dn uid roleDn =
     done_with (sudoRoles_removeUser roleDn uid) [[''user'', dn, ''sudo-roles''], [''sudo-roles'']] ''User removed from sudo role''"

text \<open>The renamed user, as the response gives it: new uid, new DN, and the warnings.\<close>

definition change_uid :: "string \<Rightarrow> string \<Rightarrow> string \<Rightarrow> string \<Rightarrow> string list \<Rightarrow> mutation" where
  "change_uid dn uid new_uid new_dn warnings =
     \<lparr>mu_request = users_changeUid dn uid,
      mu_success = [Refresh [''users''], Toasted (ToastSuccess (''Username changed to '' @ new_uid)),
        left_behind (''Username changed to '' @ new_uid @ '': references not migrated'') warnings,
        Went ''/users/$dn'' (Some (encodeDN (units_of new_dn)))]\<rparr>"

definition delete_user :: "string \<Rightarrow> string \<Rightarrow> string list \<Rightarrow> mutation" where
  "delete_user dn uid warnings =
     \<lparr>mu_request = users_delete dn,
      mu_success = [Refresh [''users''], Refresh [''groups''], Refresh [''sudo-roles''],
        Toasted (ToastSuccess ''User deleted''),
        left_behind (''User '' @ uid @ '' deleted: references left behind'') warnings,
        Went ''/users'' None]\<rparr>"

definition posix_change_mutation :: "string \<Rightarrow> posix_dialog \<Rightarrow> int option \<Rightarrow> int option \<Rightarrow> string list \<Rightarrow> mutation" where
  "posix_change_mutation dn s uidNumber gidNumber warnings =
     \<lparr>mu_request = posix_change dn s uidNumber gidNumber,
      mu_success = [Refresh [''user'', dn], Refresh [''users''],
        Toasted (ToastSuccess ''POSIX numbers changed''),
        Reported \<lparr>oc_title = ''POSIX numbers changed: finish on the hosts'',
          oc_description = Some
            ''The directory is updated. Files on disk still carry the old numbers, and nothing here can reach them.'',
          oc_items = warnings, oc_tone = None\<rparr>]\<rparr>"

subsection \<open>Groups\<close>

definition group_update_mutation :: "string \<Rightarrow> string \<Rightarrow> mutation" where
  "group_update_mutation dn description =
     done_with (groups_update dn (jobj [(''description'', Some (JStr description))]))
       [[''groups''], [''group'', dn]] ''Group updated successfully''"

definition add_member :: "string \<Rightarrow> string \<Rightarrow> mutation" where
  "add_member dn memberUid = done_with (groups_addMember dn memberUid) [[''group'', dn]] ''Member added to group''"

definition remove_member :: "string \<Rightarrow> string \<Rightarrow> mutation" where
  "remove_member dn memberUid = done_with (groups_removeMember dn memberUid) [[''group'', dn]] ''Member removed from group''"

definition delete_group :: "string \<Rightarrow> string option \<Rightarrow> string list \<Rightarrow> mutation" where
  "delete_group dn cn warnings =
     \<lparr>mu_request = groups_delete dn,
      mu_success = [Refresh [''groups''], Refresh [''sudo-roles''], Toasted (ToastSuccess ''Group deleted''),
        left_behind (''Group '' @ coalesce cn '''' @ '' deleted: references left behind'') warnings,
        Went ''/groups'' None]\<rparr>"

definition rename_group :: "string \<Rightarrow> string \<Rightarrow> string \<Rightarrow> string \<Rightarrow> string list \<Rightarrow> mutation" where
  "rename_group dn name new_cn new_dn warnings =
     \<lparr>mu_request = groups_changeCn dn name,
      mu_success = [Refresh [''groups''], Toasted (ToastSuccess (''Group renamed to '' @ new_cn)),
        left_behind (''Group renamed to '' @ new_cn @ '': references to check'') warnings,
        Went ''/groups/$dn'' (Some (encodeDN (units_of new_dn)))]\<rparr>"

definition group_samba_mutation :: "string \<Rightarrow> entry \<Rightarrow> class_tab \<Rightarrow> mutation" where
  "group_samba_mutation dn grp s =
     done_with (group_samba_update dn grp (ct_form s)) [[''groups''], [''group'', dn]]
       (if ct_adding s then ''Samba group mapping added'' else ''Samba settings updated'')"

definition group_join_role :: "string \<Rightarrow> string \<Rightarrow> string \<Rightarrow> mutation" where
  "group_join_role dn cn roleDn =
     done_with (sudoRoles_addGroup roleDn cn) [[''group'', dn, ''sudo-roles''], [''sudo-roles'']] ''Group added to sudo role''"

definition group_leave_role :: "string \<Rightarrow> string \<Rightarrow> string \<Rightarrow> mutation" where
  "group_leave_role dn cn roleDn =
     done_with (sudoRoles_removeGroup roleDn cn) [[''group'', dn, ''sudo-roles''], [''sudo-roles'']] ''Group removed from sudo role''"

text \<open>A uid as a member: in the directory's name order when the names arrived, sorted otherwise.\<close>

definition member_rows :: "(string list \<Rightarrow> string list) \<Rightarrow> string list \<Rightarrow> string list option \<Rightarrow> string list" where
  "member_rows locale_sort memberUid resolved = coalesce resolved (locale_sort memberUid)"

definition picker_nothing :: "bool \<Rightarrow> string \<Rightarrow> string \<Rightarrow> string \<Rightarrow> string" where
  "picker_nothing fetching input none_found all_taken =
     (if fetching then ''Searching...'' else if input \<noteq> '''' then none_found else all_taken)"

section \<open>Joining several groups\<close>

text \<open>
  The calls made are those for a prefix of the groups, all of them when none fails; after a failure
  the groups of that prefix have been joined, and nothing is refreshed.
\<close>

lemma join_groups_prefix:
  "fst (join_groups uid fails gs) =
     map (\<lambda>g. groups_addMember g uid) (takeWhile (\<lambda>g. fails g = None) gs
       @ take 1 (dropWhile (\<lambda>g. fails g = None) gs))"
  "snd (join_groups uid fails gs) = opt_chain (List.find (\<lambda>g. fails g \<noteq> None) gs) fails"
proof -
  show "fst (join_groups uid fails gs) =
     map (\<lambda>g. groups_addMember g uid) (takeWhile (\<lambda>g. fails g = None) gs
       @ take 1 (dropWhile (\<lambda>g. fails g = None) gs))"
  proof (induction gs)
    case (Cons g gs)
    then show ?case by (cases "fails g") (simp_all add: case_prod_beta)
  qed simp
  show "snd (join_groups uid fails gs) = opt_chain (List.find (\<lambda>g. fails g \<noteq> None) gs) fails"
  proof (induction gs)
    case (Cons g gs)
    then show ?case by (cases "fails g") (simp_all add: case_prod_beta)
  qed simp
qed

lemma join_failure_stale:
  assumes "\<not> list_all (\<lambda>g. fails g = None) gs"
  shows "Refresh k \<notin> set (join_effects dn uid fails gs)"
proof -
  have "List.find (\<lambda>g. fails g \<noteq> None) gs \<noteq> None"
    using assms by (simp add: find_eq_None list_all_iff)
  then obtain g where g: "List.find (\<lambda>g. fails g \<noteq> None) gs = Some g" by blast
  from find_eq_SomeD[OF g] obtain e where "fails g = Some e" by blast
  with g have "snd (join_groups uid fails gs) = Some e" by (simp only: join_groups_prefix(2) opt_chain_simps)
  then show ?thesis by (simp add: join_effects_def mutation_error_def)
qed

end
