(* ===== verification/Security_Tab.thy ===== *)
theory Security_Tab
  imports Detail_Pages Account Dn_Names
begin

text \<open>
  The security tab of a user (\<open>SecurityTab\<close> in \<open>routes/users/$dn.tsx\<close>): what it offers, which never
  includes locking oneself out, the status it shows, and the choice of a password policy.
\<close>

section \<open>The account under the tab\<close>

text \<open>\<open>user.pwdEndTime && isLdapTimestampInFuture(user.pwdEndTime)\<close>, and its opposite.\<close>

definition hasFutureExpiration :: "date \<Rightarrow> account_status \<Rightarrow> bool" where
  "hasFutureExpiration now user =
     (case text_of (ac_pwdEndTime user) of None \<Rightarrow> False | Some t \<Rightarrow> isLdapTimestampInFuture now t)"

definition hasPastExpiration :: "date \<Rightarrow> account_status \<Rightarrow> bool" where
  "hasPastExpiration now user =
     (case text_of (ac_pwdEndTime user) of None \<Rightarrow> False | Some t \<Rightarrow> \<not> isLdapTimestampInFuture now t)"

definition hasLockFlag :: "account_status \<Rightarrow> bool" where
  "hasLockFlag user \<longleftrightarrow> text_of (ac_pwdAccountLockedTime user) \<noteq> None"

definition account_title :: "date \<Rightarrow> account_status \<Rightarrow> string" where
  "account_title now user =
     (if isLocked user then ''Account Locked''
      else if hasPastExpiration now user then ''Account Expired''
      else if hasLapsedLock user then ''Account Active (Lockout Expired)''
      else if hasFutureExpiration now user then ''Account Active (Expires Soon)''
      else ''Account Active'')"

definition account_sentence :: "date \<Rightarrow> account_status \<Rightarrow> string" where
  "account_sentence now user =
     (if isLocked user then ''User cannot log in until the account is unlocked''
      else if hasPastExpiration now user then ''The directory refuses this account: its expiry has passed''
      else if hasLapsedLock user then ''The lockout has run its course, so the user can log in again''
      else if hasFutureExpiration now user then ''The directory will refuse this account from the expiry date''
      else ''User can log in normally'')"

text \<open>The sentence under the status; the date formatting is the browser's, and the dash is an argument.\<close>

definition lockDetail :: "string \<Rightarrow> string option \<Rightarrow> account_status \<Rightarrow> string option" where
  "lockDetail dash liftsAt user =
     (case map_option lk_state (ac_lockout user) of
        Some LManual \<Rightarrow> Some
          ''Locked by an administrator, so it does not expire on its own: it holds until someone unlocks it here.''
      | Some LActive \<Rightarrow> Some (case liftsAt of
            Some t \<Rightarrow> ''Locked by the password policy. The directory stops refusing this account at '' @ t @ ''.''
          | None \<Rightarrow> ''Locked by the password policy, whose lockout duration is 0 '' @ dash @ '' it never lifts on its own.'')
      | Some LLifted \<Rightarrow> Some (''The policy lifted this lockout''
          @ (case liftsAt of Some t \<Rightarrow> '' at '' @ t | None \<Rightarrow> '''')
          @ ''. The attribute is still on the entry: the directory drops it at the next login attempt, and Unlock clears it now.'')
      | Some LUnknown \<Rightarrow> Some
          (''Whether this lockout has already expired cannot be told from here, because the policy that applies to the entry is not known. ''
           @ ''Set LDAP_DEFAULT_POLICY_DN to the DN in olcPPolicyDefault, or give this entry a policy of its own below.'')
      | _ \<Rightarrow> None)"

definition lock_banner :: "account_status \<Rightarrow> string option" where
  "lock_banner user =
     (if hasLockFlag user \<and> isLocked user
      then Some (case map_option lk_state (ac_lockout user) of
                   Some LManual \<Rightarrow> ''Locked by an Administrator''
                 | Some LUnknown \<Rightarrow> ''Locked, Duration Unknown''
                 | _ \<Rightarrow> ''Policy Locked'')
      else None)"

section \<open>What the tab offers\<close>

record viewer =
  vw_canWrite :: bool
  vw_canDelete :: bool
  vw_isSelf :: bool
  vw_canExpire :: bool

datatype security_action =
    ChangePassword
  | RemovePassword
  | SendResetMail
  | LockAccount
  | UnlockAccount
  | SetExpiration
  | ClearExpiration
  | ApplyPolicy
  | ChangeUsername
  | DeleteUser

text \<open>The controls that are drawn; each is a branch of the tab.\<close>

definition password_controls :: "viewer \<Rightarrow> bool \<Rightarrow> security_action list" where
  "password_controls v hasPassword =
     (if vw_canWrite v then ChangePassword # (if \<not> vw_isSelf v \<and> hasPassword then [RemovePassword] else []) else [])"

definition reset_controls :: "viewer \<Rightarrow> bool \<Rightarrow> security_action list" where
  "reset_controls v hasMail = (if vw_canWrite v \<and> hasMail then [SendResetMail] else [])"

definition lock_controls :: "viewer \<Rightarrow> account_status \<Rightarrow> security_action list" where
  "lock_controls v user =
     (if vw_canWrite v \<and> \<not> (vw_isSelf v \<and> \<not> hasLockFlag user)
      then [if hasLockFlag user then UnlockAccount else LockAccount] else [])"

definition expiration_controls :: "viewer \<Rightarrow> date \<Rightarrow> account_status \<Rightarrow> security_action list" where
  "expiration_controls v now user =
     (if vw_canExpire v \<and> vw_canWrite v \<and> vw_isSelf v \<and> hasFutureExpiration now user then [ClearExpiration] else [])
     @ (if vw_canExpire v \<and> vw_canWrite v \<and> \<not> vw_isSelf v then [SetExpiration, ClearExpiration] else [])"

definition policy_controls :: "viewer \<Rightarrow> bool \<Rightarrow> security_action list" where
  "policy_controls v policies = (if policies \<and> vw_canWrite v then [ApplyPolicy] else [])"

definition rename_controls :: "viewer \<Rightarrow> security_action list" where
  "rename_controls v = (if vw_canWrite v \<and> \<not> vw_isSelf v then [ChangeUsername] else [])"

definition delete_controls :: "viewer \<Rightarrow> security_action list" where
  "delete_controls v = (if vw_canDelete v \<and> \<not> vw_isSelf v then [DeleteUser] else [])"

definition security_actions :: "viewer \<Rightarrow> date \<Rightarrow> account_status \<Rightarrow> bool \<Rightarrow> bool \<Rightarrow> bool \<Rightarrow> security_action list" where
  "security_actions v now user hasPassword hasMail policies =
     password_controls v hasPassword @ reset_controls v hasMail @ lock_controls v user
     @ expiration_controls v now user @ policy_controls v policies @ rename_controls v @ delete_controls v"

lemmas controls = security_actions_def password_controls_def reset_controls_def lock_controls_def
  expiration_controls_def policy_controls_def rename_controls_def delete_controls_def

definition enforcement_alert :: "string \<Rightarrow> string option \<Rightarrow> bool" where
  "enforcement_alert policyEnforcement pwdPolicySubentry \<longleftrightarrow>
     policyEnforcement = ''not-enforced'' \<and> text_of pwdPolicySubentry = None"

text \<open>\<open>isSelf\<close> of the page.\<close>

definition viewing_self :: "session option \<Rightarrow> string \<Rightarrow> bool" where
  "viewing_self s dn = sameDn (map_option ses_userDn s) (Some dn)"

section \<open>Password and expiry\<close>

definition passwordsMatch :: "string \<Rightarrow> string \<Rightarrow> bool" where
  "passwordsMatch password confirm \<longleftrightarrow> password \<noteq> '''' \<and> confirm \<noteq> '''' \<and> password = confirm"

definition passwordsDontMatch :: "string \<Rightarrow> string \<Rightarrow> bool" where
  "passwordsDontMatch password confirm \<longleftrightarrow> password \<noteq> '''' \<and> confirm \<noteq> '''' \<and> password \<noteq> confirm"

definition handlePasswordChange :: "string \<Rightarrow> string \<Rightarrow> string \<Rightarrow> mutation option" where
  "handlePasswordChange dn password confirm =
     (if password \<noteq> '''' \<and> password = confirm
      then Some \<lparr>mu_request = users_changePassword dn password,
                 mu_success = [Toasted (ToastSuccess ''Password changed successfully'')]\<rparr>
      else None)"

definition remove_password :: "string \<Rightarrow> mutation" where
  "remove_password dn = done_with (users_removePassword dn) [[''user'', dn]] ''Password removed successfully''"

definition send_reset :: "string \<Rightarrow> mutation" where
  "send_reset dn = done_with (users_sendPasswordReset dn) [] ''Password reset email sent''"

datatype lock_dialog = DialogLock | DialogUnlock

definition lock_mutation :: "string \<Rightarrow> lock_dialog \<Rightarrow> mutation" where
  "lock_mutation dn d =
     (case d of
        DialogLock \<Rightarrow> done_with (users_lock dn) [[''user'', dn], [''users'']] ''Account locked''
      | DialogUnlock \<Rightarrow> done_with (users_unlock dn) [[''user'', dn], [''users'']] ''Account unlocked'')"

text \<open>
  The date sent, and the date in the field: the message is chosen by the field. An empty field sends
  \<open>null\<close>, which the client writes as \<open>''''\<close>.
\<close>

definition set_expiration :: "string \<Rightarrow> string \<Rightarrow> string option \<Rightarrow> mutation" where
  "set_expiration dn field date =
     done_with (users_setExpiration dn date) [[''user'', dn], [''users'']]
       (if field \<noteq> '''' then ''Expiration date set'' else ''Expiration date cleared'')"

definition expiration_field :: "date \<Rightarrow> account_status \<Rightarrow> string" where
  "expiration_field now user =
     (if hasFutureExpiration now user then ldapTimestampToDateString (coalesce (ac_pwdEndTime user) '''') else '''')"

definition save_expiration :: "string \<Rightarrow> string \<Rightarrow> mutation" where
  "save_expiration dn field = set_expiration dn field (if field \<noteq> '''' then Some field else None)"

definition clear_own_expiration :: "string \<Rightarrow> date \<Rightarrow> account_status \<Rightarrow> mutation" where
  "clear_own_expiration dn now user = set_expiration dn (expiration_field now user) None"

section \<open>The password policy\<close>

text \<open>\<open>/^cn=([^,]+)/i\<close>.\<close>

definition extractCN :: "string \<Rightarrow> string" where
  "extractCN dn =
     (if to_lower (take 3 dn) = ''cn='' \<and> takeWhile (\<lambda>c. c \<noteq> CHR '','') (drop 3 dn) \<noteq> ''''
      then takeWhile (\<lambda>c. c \<noteq> CHR '','') (drop 3 dn) else dn)"

record policy =
  po_dn :: string
  po_cn :: string
  po_description :: "string option"

definition policy_label :: "policy \<Rightarrow> string" where
  "policy_label p =
     po_cn p @ (case text_of (po_description p) of None \<Rightarrow> '''' | Some d \<Rightarrow> '' - '' @ d)"

definition policyOptions :: "policy list \<Rightarrow> string option \<Rightarrow> string option \<Rightarrow> (string \<times> string) list" where
  "policyOptions listed applied lockoutPolicyDn =
     (let defaultPolicyDn = (if text_of applied \<noteq> None then None else text_of lockoutPolicyDn);
          options = ('''', case defaultPolicyDn of
                             Some d \<Rightarrow> ''Default ('' @ extractCN d @ '')'' | None \<Rightarrow> ''Default (none)'')
             # map (\<lambda>p. (po_dn p, policy_label p)) listed
      in case text_of applied of
           Some a \<Rightarrow> if list_ex (\<lambda>p. po_dn p = a) listed then options else options @ [(a, extractCN a)]
         | None \<Rightarrow> options)"

definition appliedPolicy :: "policy list \<Rightarrow> string option \<Rightarrow> string option \<Rightarrow> policy option" where
  "appliedPolicy listed applied lockoutPolicyDn =
     (let dn = (case text_of applied of Some a \<Rightarrow> Some a | None \<Rightarrow> lockoutPolicyDn)
      in List.find (\<lambda>p. sameDn (Some (po_dn p)) dn) listed)"

definition policiesNotShown :: "nat \<Rightarrow> nat \<Rightarrow> int" where
  "policiesNotShown total_count shown = max 0 (int total_count - int shown)"

record policy_choice =
  pc_choice :: string
  pc_lastServer :: string

text \<open>A render with the server's policy: adopted when it moved.\<close>

definition policy_render :: "string option \<Rightarrow> policy_choice \<Rightarrow> policy_choice" where
  "policy_render subentry s =
     (let serverPolicy = coalesce subentry ''''
      in if serverPolicy \<noteq> pc_lastServer s then \<lparr>pc_choice = serverPolicy, pc_lastServer = serverPolicy\<rparr> else s)"

definition policyDirty :: "string option \<Rightarrow> policy_choice \<Rightarrow> bool" where
  "policyDirty subentry s \<longleftrightarrow> pc_choice s \<noteq> coalesce subentry ''''"

definition apply_policy :: "string \<Rightarrow> policy_choice \<Rightarrow> mutation" where
  "apply_policy dn s =
     done_with (users_update dn (jobj [(''pwdPolicySubentry'', Some (JStr (pc_choice s)))]))
       [[''user'', dn]] ''Password policy updated''"

section \<open>Sudo\<close>

text \<open>\<open>GrantOrigin\<close>: the badge of a grant that is not by name, with its explanation.\<close>

definition GrantOrigin :: "string \<Rightarrow> string \<Rightarrow> (string \<times> string) option" where
  "GrantOrigin token uid =
     (if token = uid then None
      else Some (if token = ''ALL'' then (''everyone'', ''This rule applies to every user (sudoUser: ALL).'')
        else if str_starts token ''%'' then (''via group '' @ drop 1 token,
          ''Granted through a group. Remove the user from that group to take it away.'')
        else if str_starts token ''+'' then (''via netgroup '' @ drop 1 token,
          ''Granted through a netgroup, possibly a nested one. Edit that netgroup to take it away.'')
        else (''via '' @ token, ''Granted through this sudoUser value.'')))"

section \<open>Safety\<close>

definition needs_write :: "security_action \<Rightarrow> bool" where
  "needs_write a \<longleftrightarrow> a \<noteq> DeleteUser"

definition self_harm :: "security_action \<Rightarrow> bool" where
  "self_harm a \<longleftrightarrow> a \<in> {RemovePassword, LockAccount, SetExpiration, ChangeUsername, DeleteUser}"

text \<open>On one's own account the tab has none of these; undoing a lock or an expiry stays on offer.\<close>

lemma self_actions:
  assumes "vw_isSelf v"
  shows "\<forall>a \<in> set (security_actions v now user pw mail pol). \<not> self_harm a"
    and "vw_canWrite v \<and> hasLockFlag user \<longrightarrow> UnlockAccount \<in> set (security_actions v now user pw mail pol)"
    and "vw_canWrite v \<and> vw_canExpire v \<and> hasFutureExpiration now user \<longrightarrow>
      ClearExpiration \<in> set (security_actions v now user pw mail pol)"
  using assms by (auto simp: controls self_harm_def)

lemma actions_permitted:
  "a \<in> set (security_actions v now user pw mail pol) \<Longrightarrow> if needs_write a then vw_canWrite v else vw_canDelete v"
  by (auto simp: controls needs_write_def split: if_splits)

text \<open>Clearing one's own future expiry is announced as setting it.\<close>

lemma clear_announced_as_set:
  "hasFutureExpiration now user \<Longrightarrow> expiration_field now user \<noteq> '''' \<Longrightarrow>
   mu_request (clear_own_expiration dn now user) = users_setExpiration dn None \<and>
   Toasted (ToastSuccess ''Expiration date set'') \<in> set (mu_success (clear_own_expiration dn now user))"
  by (simp add: clear_own_expiration_def set_expiration_def done_with_def)

lemma policy_listed:
  "text_of applied = Some a \<Longrightarrow> a \<in> fst ` set (policyOptions listed applied d)"
  by (auto simp: policyOptions_def Let_def list_ex_iff image_iff)

lemma policy_follows_server:
  "coalesce subentry '''' \<noteq> pc_lastServer s \<Longrightarrow> \<not> policyDirty subentry (policy_render subentry s)"
  by (simp add: policy_render_def policyDirty_def Let_def)

lemma handlePasswordChange_matches:
  "passwordsMatch p c \<Longrightarrow> handlePasswordChange dn p c \<noteq> None"
  by (simp add: passwordsMatch_def handlePasswordChange_def)

end
