(* ===== verification/Sudo_Forms.thy ===== *)
theory Sudo_Forms
  imports Pickers Edit_Forms
begin

text \<open>
  Editing sudo rules and netgroups: the multi-value fields of a sudo rule
  (\<open>routes/sudo-roles/$dn.tsx\<close>, \<open>routes/sudo-roles/new.tsx\<close>), the triples and nested members of a
  netgroup (\<open>components/netgroup-triples.tsx\<close>, \<open>routes/netgroups/$dn.tsx\<close>), the picker that names a
  netgroup on a rule, and the warnings about the netgroups a rule names
  (\<open>components/netgroup-usage.tsx\<close>).
\<close>

section \<open>The form of a sudo rule\<close>

datatype sudo_list = SudoUser | SudoHost | SudoCommand | SudoRunAs | SudoRunAsUser | SudoRunAsGroup | SudoOption

definition sudo_lists :: "(sudo_list \<times> string) list" where
  "sudo_lists = [(SudoUser, ''sudoUser''), (SudoHost, ''sudoHost''), (SudoCommand, ''sudoCommand''),
     (SudoRunAs, ''sudoRunAs''), (SudoRunAsUser, ''sudoRunAsUser''), (SudoRunAsGroup, ''sudoRunAsGroup''),
     (SudoOption, ''sudoOption'')]"

record sudo_form =
  su_description :: string
  su_values :: "sudo_list \<Rightarrow> string list"
  su_order :: int
  su_notBefore :: string
  su_notAfter :: string

definition sudo_key :: "sudo_list \<Rightarrow> string" where
  "sudo_key f = (case f of SudoUser \<Rightarrow> ''sudoUser'' | SudoHost \<Rightarrow> ''sudoHost'' | SudoCommand \<Rightarrow> ''sudoCommand''
     | SudoRunAs \<Rightarrow> ''sudoRunAs'' | SudoRunAsUser \<Rightarrow> ''sudoRunAsUser'' | SudoRunAsGroup \<Rightarrow> ''sudoRunAsGroup''
     | SudoOption \<Rightarrow> ''sudoOption'')"

definition sudo_server_form :: "entry \<Rightarrow> sudo_form" where
  "sudo_server_form role =
     \<lparr>su_description = coalesce (str_opt role ''description'') '''',
      su_values = (\<lambda>f. coalesce (list_opt json_str role (sudo_key f)) []),
      su_order = coalesce (int_opt role ''sudoOrder'') 0,
      su_notBefore = coalesce (str_opt role ''sudoNotBefore'') '''',
      su_notAfter = coalesce (str_opt role ''sudoNotAfter'') ''''\<rparr>"

definition new_sudo_form :: sudo_form where
  "new_sudo_form = \<lparr>su_description = '''', su_values = (\<lambda>f. []), su_order = 0, su_notBefore = '''', su_notAfter = ''''\<rparr>"

definition set_values :: "sudo_list \<Rightarrow> string list \<Rightarrow> sudo_form \<Rightarrow> sudo_form" where
  "set_values f vs s = s\<lparr>su_values := (su_values s)(f := vs)\<rparr>"

text \<open>The form, and the text input it drains: kept when the text is blank, emptied otherwise.\<close>

definition addToArray :: "sudo_list \<Rightarrow> string \<Rightarrow> sudo_form \<Rightarrow> sudo_form \<times> string" where
  "addToArray f v s =
     (if trim v \<noteq> '''' then
        ((if trim v \<notin> set (su_values s f) then set_values f (su_values s f @ [trim v]) s else s), '''')
      else (s, v))"

definition addValue :: "sudo_list \<Rightarrow> string \<Rightarrow> sudo_form \<Rightarrow> sudo_form" where
  "addValue f v s = (if v \<notin> set (su_values s f) then set_values f (su_values s f @ [v]) s else s)"

definition removeFromArray :: "sudo_list \<Rightarrow> string \<Rightarrow> sudo_form \<Rightarrow> sudo_form" where
  "removeFromArray f v s = set_values f (filter (\<lambda>w. w \<noteq> v) (su_values s f)) s"

definition setOrder :: "string \<Rightarrow> sudo_form \<Rightarrow> sudo_form" where
  "setOrder v s = s\<lparr>su_order := int_or_zero v\<rparr>"

definition namesNetgroup :: "sudo_form \<Rightarrow> bool" where
  "namesNetgroup s \<longleftrightarrow> list_ex (\<lambda>v. str_starts v ''+'') (su_values s SudoUser)
     \<or> list_ex (\<lambda>v. str_starts v ''+'') (su_values s SudoHost)"

definition sudo_fields :: "sudo_form \<Rightarrow> (string \<times> json option) list" where
  "sudo_fields s = (''description'', Some (JStr (su_description s)))
     # map (\<lambda>(f, k). (k, Some (of_list JStr (su_values s f)))) sudo_lists
     @ [(''sudoOrder'', Some (JNum (of_int (su_order s)))),
        (''sudoNotBefore'', Some (JStr (su_notBefore s))), (''sudoNotAfter'', Some (JStr (su_notAfter s)))]"

definition sudo_save :: "string \<Rightarrow> sudo_form \<Rightarrow> request" where
  "sudo_save dn s = sudoRoles_update dn (jobj (sudo_fields s))"

definition sudo_create :: "string \<Rightarrow> sudo_form \<Rightarrow> request" where
  "sudo_create cn s = sudoRoles_create (jobj ((''cn'', Some (JStr cn)) # sudo_fields s))"

datatype sudo_edit =
    TypedValue sudo_list string
  | PickedValue sudo_list string
  | RemovedValue sudo_list string
  | TypedOrder string

definition sudo_edit_step :: "sudo_edit \<Rightarrow> sudo_form \<Rightarrow> sudo_form" where
  "sudo_edit_step e s =
     (case e of
        TypedValue f v \<Rightarrow> fst (addToArray f v s)
      | PickedValue f v \<Rightarrow> addValue f v s
      | RemovedValue f v \<Rightarrow> removeFromArray f v s
      | TypedOrder v \<Rightarrow> setOrder v s)"

lemma sudo_step_distinct:
  "(\<forall>f. distinct (su_values s f)) \<Longrightarrow> distinct (su_values (sudo_edit_step e s) f)"
  by (cases e) (auto simp: sudo_edit_step_def addToArray_def addValue_def removeFromArray_def setOrder_def set_values_def)

text \<open>Edits leave no duplicate, and type in no blank value.\<close>

lemma sudo_edits_distinct:
  "(\<forall>f. distinct (su_values s f)) \<Longrightarrow> distinct (su_values (fold sudo_edit_step es s) f)"
  by (induction es arbitrary: s) (simp_all add: sudo_step_distinct)

lemma removed_value_gone: "v \<notin> set (su_values (removeFromArray f v s) f)"
  by (simp add: removeFromArray_def set_values_def)

lemma typed_value_there: "trim v \<noteq> '''' \<Longrightarrow> trim v \<in> set (su_values (fst (addToArray f v s)) f)"
  by (simp add: addToArray_def set_values_def)

section \<open>The triples of a netgroup\<close>

record triple_editor =
  te_triples :: "netgroup_triple list"
  te_host :: string
  te_user :: string

definition typed_triple :: "triple_editor \<Rightarrow> netgroup_triple" where
  "typed_triple s = \<lparr>t_host = trim (te_host s), t_user = trim (te_user s), t_domain = ''''\<rparr>"

definition add_triple :: "triple_editor \<Rightarrow> triple_editor" where
  "add_triple s =
     (let next_triple = typed_triple s in
      if t_user next_triple = '''' \<and> t_host next_triple = '''' then s
      else if next_triple \<in> set (te_triples s) then s
      else s\<lparr>te_triples := te_triples s @ [next_triple], te_user := '''', te_host := ''''\<rparr>)"

definition remove_triple :: "nat \<Rightarrow> triple_editor \<Rightarrow> triple_editor" where
  "remove_triple i s =
     s\<lparr>te_triples := map snd (filter (\<lambda>(j, t). j \<noteq> i) (enumerate 0 (te_triples s)))\<rparr>"

definition can_add_triple :: "triple_editor \<Rightarrow> bool" where
  "can_add_triple s \<longleftrightarrow> \<not> (trim (te_user s) = '''' \<and> trim (te_host s) = '''')"

text \<open>The suggestions under the user slot: none once the text is the name of a match.\<close>

definition UserSuggestions :: "string list \<Rightarrow> string \<Rightarrow> string list option" where
  "UserSuggestions uids typed =
     (if list_ex (\<lambda>u. u = typed) uids then None
      else Some (take 5 (filter (\<lambda>u. u \<noteq> typed) uids)))"

text \<open>A nested netgroup, typed into its input.\<close>

definition add_nested :: "string \<Rightarrow> string list \<Rightarrow> string list" where
  "add_nested v members = (let w = trim v in if w \<noteq> '''' \<and> w \<notin> set members then members @ [w] else members)"

record netgroup_form =
  nf_description :: string
  nf_triples :: "netgroup_triple list"
  nf_members :: "string list"

definition netgroup_server_form :: "netgroup \<Rightarrow> netgroup_form" where
  "netgroup_server_form n =
     \<lparr>nf_description = coalesce (ng_description n) '''', nf_triples = ng_triples n,
      nf_members = coalesce (ng_members n) []\<rparr>"

definition netgroup_empty_form :: netgroup_form where
  "netgroup_empty_form = \<lparr>nf_description = '''', nf_triples = [], nf_members = []\<rparr>"

definition netgroup_save :: "string \<Rightarrow> netgroup_form \<Rightarrow> request" where
  "netgroup_save dn s =
     netgroups_update dn (jobj
       [(''description'', Some (JStr (nf_description s))),
        (''triples'', Some (of_list of_triple (nf_triples s))),
        (''members'', Some (of_list JStr (nf_members s)))])"

definition netgroup_create :: "string \<Rightarrow> string \<Rightarrow> netgroup_triple list \<Rightarrow> request" where
  "netgroup_create cn description triples =
     netgroups_create (jobj
       [(''cn'', Some (JStr cn)),
        (''description'', if description = '''' then None else Some (JStr description)),
        (''triples'', Some (of_list of_triple triples))])"

text \<open>
  The page mounts its form empty and passes the entry to \<open>useSyncedForm\<close>: the form never takes the
  entry (\<open>first_arrival_not_taken\<close>), so what a save would send is not the netgroup that was opened.
\<close>

lemma netgroup_form_not_filled:
  assumes "stringify (netgroup_server_form n) \<noteq> stringify netgroup_empty_form"
  shows "sf_form (arrive stringify (Some (netgroup_server_form n)) (form_mount stringify None netgroup_empty_form))
      = netgroup_empty_form"
    and "sf_form (form_mount stringify (Some (netgroup_server_form n)) netgroup_empty_form) = netgroup_empty_form"
  using assms by (simp_all add: form_mount_def sync_defs)

section \<open>Naming a netgroup on a rule\<close>

definition picker_side :: "sudo_list \<Rightarrow> netgroup_side" where
  "picker_side side = (if side = SudoUser then SideUsers else SideHosts)"

definition netgroup_candidates :: "string list \<Rightarrow> netgroup list \<Rightarrow> netgroup list" where
  "netgroup_candidates existing items = filter (\<lambda>n. ''+'' @ ng_cn n \<notin> set existing) items"

definition picker_fit :: "sudo_list \<Rightarrow> netgroup list \<Rightarrow> string option \<Rightarrow> netgroup_side_fit" where
  "picker_fit side candidates selected =
     (case opt_chain selected (\<lambda>cn. List.find (\<lambda>n. ng_cn n = cn) candidates) of
        None \<Rightarrow> FitOk
      | Some n \<Rightarrow> netgroupSideFit (netgroupKind n) (picker_side side))"

definition picker_pick :: "string option \<Rightarrow> string option" where
  "picker_pick selected = (case selected of Some cn \<Rightarrow> if cn = '''' then None else Some (''+'' @ cn) | None \<Rightarrow> None)"

definition picker_empty_text :: "bool \<Rightarrow> string \<Rightarrow> string" where
  "picker_empty_text fetching input =
     (if fetching then ''Searching...''
      else if input \<noteq> '''' then ''No netgroup matches this search.''
      else ''Every netgroup is already on this rule.'')"

definition kindSummary :: "netgroup_kind \<Rightarrow> string" where
  "kindSummary k =
     (case k of KUsers \<Rightarrow> ''names users'' | KHosts \<Rightarrow> ''names hosts''
      | KMixed \<Rightarrow> ''names both users and hosts'' | KEmpty \<Rightarrow> ''nested only'')"

section \<open>Warnings about the netgroups of a rule\<close>

definition resolution_names :: "string list \<Rightarrow> string list \<Rightarrow> string list" where
  "resolution_names sudoUser sudoHost =
     rev (remdups (rev (namedNetgroups sudoUser @ namedNetgroups sudoHost)))"

record netgroup_problem =
  np_name :: string
  np_kind :: "netgroup_kind option"
  np_side :: netgroup_side
  np_fit :: netgroup_side_fit

fun check_side :: "(string \<Rightarrow> netgroup_resolution) \<Rightarrow> netgroup_side \<Rightarrow> string list \<Rightarrow> netgroup_problem list" where
  "check_side resolve side [] = []"
| "check_side resolve side (name # names) =
     (case resolve name of
        Unknown \<Rightarrow> []
      | Absent \<Rightarrow> [\<lparr>np_name = name, np_kind = None, np_side = side, np_fit = FitIgnored\<rparr>]
      | Found n \<Rightarrow>
          (let kind = netgroupKind n; fit = netgroupSideFit kind side
           in if fit \<noteq> FitOk then [\<lparr>np_name = name, np_kind = Some kind, np_side = side, np_fit = fit\<rparr>] else []))
     @ check_side resolve side names"

definition usage_problems :: "(string \<Rightarrow> netgroup_resolution) \<Rightarrow> string list \<Rightarrow> string list \<Rightarrow> netgroup_problem list" where
  "usage_problems resolve sudoUser sudoHost =
     check_side resolve SideUsers (namedNetgroups sudoUser) @ check_side resolve SideHosts (namedNetgroups sudoHost)"

definition onlyPartial :: "netgroup_problem list \<Rightarrow> bool" where
  "onlyPartial problems \<longleftrightarrow> list_all (\<lambda>p. np_fit p = FitPartial) problems"

definition usage_title :: "netgroup_problem list \<Rightarrow> string" where
  "usage_title problems =
     (if onlyPartial problems then ''Only part of a netgroup on this rule applies''
      else (if length problems = 1 then ''A netgroup on this rule'' else ''Netgroups on this rule'') @ '' will be ignored'')"

text \<open>The dash of the sentences is an argument.\<close>

definition problemText :: "string \<Rightarrow> netgroup_problem \<Rightarrow> string" where
  "problemText dash p =
     (case np_kind p of
        None \<Rightarrow> ''no netgroup of that name exists, so it matches nobody.''
      | Some kind \<Rightarrow>
          (let slots = (if np_side p = SideUsers then ''user'' else ''host'') in
           if np_fit p = FitPartial
           then ''it names both users and hosts, and this side reads only the '' @ slots @ '' slots '' @ dash
             @ '' the rest is ignored.''
           else ''it names '' @ (if kind = KUsers then ''users'' else ''hosts'') @ '', and this side reads the ''
             @ slots @ '' slots '' @ dash @ '' which are empty, so it matches nobody.''))"

text \<open>What is said of one named netgroup, by how far its resolution got.\<close>

datatype netgroup_summary =
    SummaryNothing
  | SummaryFailed string
  | SummaryUnknown
  | SummaryResolving
  | SummaryEverybody "string list"
  | SummaryNames "string list"
  | SummaryNobody

definition NetgroupSummary :: "netgroup_side \<Rightarrow> netgroup_resolution \<Rightarrow> string option \<Rightarrow> netgroup_expansion option \<Rightarrow> netgroup_summary" where
  "NetgroupSummary side resolution failure expansion =
     (if resolution = Absent then SummaryNothing
      else case failure of
        Some e \<Rightarrow> SummaryFailed e
      | None \<Rightarrow>
          if resolution = Unknown then SummaryUnknown
          else case expansion of
            None \<Rightarrow> SummaryResolving
          | Some x \<Rightarrow>
              (let members = (if side = SideUsers then nx_users x else nx_hosts x);
                   opened = coalesce (if side = SideUsers then nx_openUser x else nx_openHost x) []
               in if 0 < length opened then SummaryEverybody opened
                  else if 0 < length members then SummaryNames (map nm_name members)
                  else SummaryNobody))"

lemma check_side_mem:
  "p \<in> set (check_side resolve side names) \<longleftrightarrow>
   np_name p \<in> set names \<and> np_side p = side \<and>
   (resolve (np_name p) = Absent \<and> p = \<lparr>np_name = np_name p, np_kind = None, np_side = side, np_fit = FitIgnored\<rparr> \<or>
    (\<exists>n. resolve (np_name p) = Found n \<and> netgroupSideFit (netgroupKind n) side \<noteq> FitOk \<and>
       p = \<lparr>np_name = np_name p, np_kind = Some (netgroupKind n), np_side = side,
            np_fit = netgroupSideFit (netgroupKind n) side\<rparr>))"
  by (induction names) (auto simp: Let_def split: netgroup_resolution.splits)

end
