(* ===== verification/Passwords.thy ===== *)
theory Passwords
  imports Js_Text "HOL-Library.Word"
begin

text \<open>
  Passwords: the generator (\<open>lib/password.ts\<close>), the strength meter
  (\<open>components/ui/password-strength.tsx\<close>), the rules of the policy in force
  (\<open>components/ui/password-requirements.tsx\<close>) and the input with its reveal toggle
  (\<open>components/ui/password-input.tsx\<close>). The random bytes are an input: one buffer per call of
  \<open>crypto.getRandomValues\<close>, as octets. In the code every buffer has twice the length asked for;
  nothing below depends on that.
\<close>

section \<open>The generator\<close>

definition GENERATE_ALPHABET :: string where
  "GENERATE_ALPHABET = ''abcdefghijkmnopqrstuvwxyzABCDEFGHJKLMNPQRSTUVWXYZ23456789!@#$%^&*-_=+''"

definition GENERATE_LENGTH :: nat where
  "GENERATE_LENGTH = 20"

definition max_byte :: nat where
  "max_byte = (256 div length GENERATE_ALPHABET) * length GENERATE_ALPHABET"

definition byte_char :: "8 word \<Rightarrow> char" where
  "byte_char b = GENERATE_ALPHABET ! (unat b mod length GENERATE_ALPHABET)"

text \<open>The inner loop, with its \<open>break\<close>.\<close>

fun drain :: "nat \<Rightarrow> 8 word list \<Rightarrow> string \<Rightarrow> string" where
  "drain len [] out = out"
| "drain len (b # bs) out =
     (if length out = len then out
      else drain len bs (if unat b < max_byte then out @ [byte_char b] else out))"

text \<open>The outer loop: \<^const>\<open>None\<close> when it has not ended after the given buffers.\<close>

fun fill :: "nat \<Rightarrow> 8 word list list \<Rightarrow> string \<Rightarrow> string option" where
  "fill len buffers out =
     (if length out < len then (case buffers of [] \<Rightarrow> None | b # bs \<Rightarrow> fill len bs (drain len b out))
      else Some out)"

declare fill.simps [simp del]

definition generatePassword :: "nat \<Rightarrow> 8 word list list \<Rightarrow> string option" where
  "generatePassword len buffers = fill len buffers []"

section \<open>The meter and the rules\<close>

definition score :: "string \<Rightarrow> nat" where
  "score password =
     (if length password \<ge> 8 then 1 else 0) + (if length password \<ge> 12 then 1 else 0)
     + (if list_ex (\<lambda>c. 97 \<le> code c \<and> code c \<le> 122) password then 1 else 0)
     + (if list_ex (\<lambda>c. 65 \<le> code c \<and> code c \<le> 90) password then 1 else 0)
     + (if list_ex is_digit password then 1 else 0)
     + (if list_ex (\<lambda>c. \<not> (97 \<le> code c \<and> code c \<le> 122 \<or> 65 \<le> code c \<and> code c \<le> 90 \<or> is_digit c)) password
        then 1 else 0)"

definition strength :: "string \<Rightarrow> nat \<times> string" where
  "strength password =
     (score password,
      if score password \<le> 2 then ''Weak'' else if score password \<le> 4 then ''Medium'' else ''Strong'')"

definition PasswordStrength :: "string \<Rightarrow> (nat \<times> string) option" where
  "PasswordStrength password = (if password = '''' then None else Some (strength password))"

record policy_rules =
  pr_minLength :: "nat option"
  pr_inHistory :: "nat option"
  pr_checkQuality :: "nat option"

text \<open>A field that is absent or 0 states no rule.\<close>

definition rule_set :: "nat option \<Rightarrow> nat option" where
  "rule_set v = (case v of Some n \<Rightarrow> if n = 0 then None else Some n | None \<Rightarrow> None)"

record requirement =
  rq_text :: string
  rq_met :: "bool option"

definition PasswordRequirements :: "policy_rules option \<Rightarrow> string \<Rightarrow> requirement list" where
  "PasswordRequirements policy password =
     (case policy of
        None \<Rightarrow> []
      | Some p \<Rightarrow>
          (case rule_set (pr_minLength p) of
             None \<Rightarrow> []
           | Some n \<Rightarrow> [\<lparr>rq_text = ''At least '' @ nat_str n @ '' characters'', rq_met = Some (length password \<ge> n)\<rparr>])
          @ (case rule_set (pr_inHistory p) of
               None \<Rightarrow> []
             | Some n \<Rightarrow> [\<lparr>rq_text = ''Not one of the last '' @ nat_str n @ '' passwords used on this account'', rq_met = None\<rparr>])
          @ (case rule_set (pr_checkQuality p) of
               None \<Rightarrow> []
             | Some n \<Rightarrow> [\<lparr>rq_text = ''Complex enough for the directory'' @ [CHR 0x27] @ ''s quality check'', rq_met = None\<rparr>]))"

section \<open>The input\<close>

record password_input =
  pi_value :: string
  pi_confirmation :: "string option"
  pi_revealed :: bool
  pi_capsLock :: bool

definition handleGenerate :: "string \<Rightarrow> password_input \<Rightarrow> password_input" where
  "handleGenerate password s =
     s\<lparr>pi_value := password, pi_confirmation := map_option (\<lambda>_. password) (pi_confirmation s), pi_revealed := True\<rparr>"

definition caps_warning :: "password_input \<Rightarrow> bool" where
  "caps_warning s \<longleftrightarrow> pi_capsLock s \<and> \<not> pi_revealed s"

section \<open>Correctness\<close>

lemma alphabet_length: "length GENERATE_ALPHABET = 69"
  by (simp add: GENERATE_ALPHABET_def)

lemma max_byte_value: "max_byte = 207"
  by (simp add: max_byte_def alphabet_length)

lemma alphabet_distinct: "distinct GENERATE_ALPHABET"
  by (simp add: GENERATE_ALPHABET_def)

definition accepted :: "8 word list \<Rightarrow> string" where
  "accepted bs = map byte_char (filter (\<lambda>b. unat b < max_byte) bs)"

lemma drain_accepted:
  "length out \<le> len \<Longrightarrow> drain len bs out = take len (out @ accepted bs)"
  by (induction bs arbitrary: out) (auto simp: accepted_def take_Cons')

lemma fill_accepted:
  assumes "length out \<le> len"
  shows "fill len bss out =
    (if len \<le> length (out @ accepted (concat bss)) then Some (take len (out @ accepted (concat bss))) else None)"
  using assms
proof (induction bss arbitrary: out)
  case Nil
  then show ?case by (auto simp: fill.simps[of len "[]"] accepted_def)
next
  case (Cons b bss)
  show ?case
  proof (cases "length out < len")
    case False
    with Cons.prems show ?thesis by (simp add: fill.simps[of len "b # bss"])
  next
    case True
    have d: "drain len b out = take len (out @ accepted b)" using drain_accepted Cons.prems by blast
    have acc: "accepted (b @ concat bss) = accepted b @ accepted (concat bss)"
      by (simp add: accepted_def)
    have "fill len (b # bss) out = fill len bss (take len (out @ accepted b))"
      using True by (simp add: fill.simps[of len "b # bss"] d)
    also have "\<dots> = (if len \<le> length (take len (out @ accepted b) @ accepted (concat bss))
        then Some (take len (take len (out @ accepted b) @ accepted (concat bss))) else None)"
      by (rule Cons.IH) simp
    finally show ?thesis
      using Cons.prems by (cases "length (out @ accepted b) \<le> len") (auto simp: acc min_absorb1)
  qed
qed

lemma unat_octet: "n < 256 \<Longrightarrow> unat (of_nat n :: 8 word) = n"
  by (simp add: unat_of_nat)

lemma three_residues:
  fixes n :: nat
  assumes "i < 69"
  shows "n < 207 \<and> n mod 69 = i \<longleftrightarrow> n = i \<or> n = i + 69 \<or> n = i + 138"
proof
  assume n: "n < 207 \<and> n mod 69 = i"
  then have "n div 69 < 3" by (simp add: less_mult_imp_div_less)
  then have "n div 69 = 0 \<or> n div 69 = 1 \<or> n div 69 = 2" by linarith
  moreover have "n = 69 * (n div 69) + i" using n mult_div_mod_eq[of 69 n] by simp
  ultimately show "n = i \<or> n = i + 69 \<or> n = i + 138" by auto
next
  assume "n = i \<or> n = i + 69 \<or> n = i + 138"
  moreover have "(i + 138) mod 69 = i" using assms mod_mult_self1[of i 2 69] by simp
  ultimately show "n < 207 \<and> n mod 69 = i" using assms by auto
qed

lemma octets_of_char:
  assumes "i < 69"
  shows "{b :: 8 word. unat b < max_byte \<and> byte_char b = GENERATE_ALPHABET ! i} = of_nat ` {i, i + 69, i + 138}"
proof (rule set_eqI)
  fix b :: "8 word"
  have is_octet: "b = of_nat n \<longleftrightarrow> unat b = n" if "n < 256" for n
    using unat_octet[OF that] by (auto simp: word_unat_eq_iff)
  have eqs: "b = of_nat i \<longleftrightarrow> unat b = i" "b = of_nat (i + 69) \<longleftrightarrow> unat b = i + 69"
      "b = of_nat (i + 138) \<longleftrightarrow> unat b = i + 138"
    by (rule is_octet, use assms in linarith)+
  have "unat b < max_byte \<and> byte_char b = GENERATE_ALPHABET ! i \<longleftrightarrow> unat b < 207 \<and> unat b mod 69 = i"
    using assms nth_eq_iff_index_eq[OF alphabet_distinct, of "unat b mod 69" i]
    by (auto simp: max_byte_value byte_char_def alphabet_length)
  also have "\<dots> \<longleftrightarrow> unat b = i \<or> unat b = i + 69 \<or> unat b = i + 138"
    by (rule three_residues[OF assms])
  also have "\<dots> \<longleftrightarrow> b \<in> of_nat ` {i, i + 69, i + 138}"
    unfolding image_insert image_empty insert_iff empty_iff eqs by blast
  finally show "b \<in> {b. unat b < max_byte \<and> byte_char b = GENERATE_ALPHABET ! i} \<longleftrightarrow>
      b \<in> of_nat ` {i, i + 69, i + 138}" by simp
qed

lemma octets_per_char:
  assumes "c \<in> set GENERATE_ALPHABET"
  shows "card {b :: 8 word. unat b < max_byte \<and> byte_char b = c} = 3"
proof -
  obtain i where i: "i < 69" "c = GENERATE_ALPHABET ! i"
    using assms by (auto simp: in_set_conv_nth alphabet_length)
  have "inj_on (of_nat :: nat \<Rightarrow> 8 word) {i, i + 69, i + 138}"
  proof (rule inj_on_inverseI[of _ unat])
    fix n assume "n \<in> {i, i + 69, i + 138}"
    then have "n < 256" using i by auto
    then show "unat (of_nat n :: 8 word) = n" by (rule unat_octet)
  qed
  then have "card ((of_nat :: nat \<Rightarrow> 8 word) ` {i, i + 69, i + 138}) = card {i, i + 69, i + 138}"
    by (rule card_image)
  then show ?thesis using octets_of_char[OF i(1)] i by simp
qed

text \<open>
  C37: The generator is exact and unbiased. It returns as soon as the buffers hold enough accepted
  octets, and not before; what it returns has the length asked for and is made of the accepted
  octets in order, characters of the alphabet only; and every character of the alphabet stands for
  exactly three octets, so no character is likelier than another.
\<close>

theorem generate_password_exact:
  "generatePassword len bss =
     (if len \<le> length (filter (\<lambda>b. unat b < max_byte) (concat bss))
      then Some (map byte_char (take len (filter (\<lambda>b. unat b < max_byte) (concat bss)))) else None) \<and>
   (\<forall>p. generatePassword len bss = Some p \<longrightarrow> length p = len \<and> set p \<subseteq> set GENERATE_ALPHABET) \<and>
   (\<forall>c \<in> set GENERATE_ALPHABET. card {b :: 8 word. unat b < max_byte \<and> byte_char b = c} = 3)"
proof -
  have g: "generatePassword len bss =
     (if len \<le> length (filter (\<lambda>b. unat b < max_byte) (concat bss))
      then Some (map byte_char (take len (filter (\<lambda>b. unat b < max_byte) (concat bss)))) else None)"
    by (simp add: generatePassword_def fill_accepted accepted_def take_map)
  have c: "byte_char b \<in> set GENERATE_ALPHABET" for b
    by (simp add: byte_char_def alphabet_length)
  have "\<forall>p. generatePassword len bss = Some p \<longrightarrow> length p = len \<and> set p \<subseteq> set GENERATE_ALPHABET"
    using g c by (auto split: if_splits)
  then show ?thesis using g octets_per_char by blast
qed

lemma generate_password_exact_witness:
  "generatePassword 2 [[0, 255], [1]] = Some ''ab''"
proof -
  have "filter (\<lambda>b. unat b < max_byte) (concat [[0, 255], [1]]) = [0, 1 :: 8 word]"
    by (simp add: max_byte_value)
  moreover have "map byte_char [0, 1] = ''ab''"
    by (simp add: byte_char_def GENERATE_ALPHABET_def)
  ultimately show ?thesis
    using generate_password_exact[of 2 "[[0, 255], [1]]"] by simp
qed

lemma score_bounds: "score p \<le> 6" "p \<noteq> [] \<Longrightarrow> 1 \<le> score p"
proof -
  show "score p \<le> 6" by (simp add: score_def)
  show "1 \<le> score p" if "p \<noteq> []"
    using that by (cases p) (auto simp: score_def)
qed

end
