(* ===== verification/Sign_In.thy ===== *)
theory Sign_In
  imports Auth_State Access Api_Requests Dn_Names
begin

text \<open>
  Signing in and out: the login page (\<open>routes/login.tsx\<close>), the redirect of the root to it and the
  password dialog of the account menu (\<open>routes/__root.tsx\<close>), the notice before a session ends
  (\<open>components/session-expiry-notice.tsx\<close>), and the page behind a reset link
  (\<open>routes/reset-password.$token.tsx\<close>).
\<close>

section \<open>The login page\<close>

record login_search =
  lg_redirect :: "string option"
  lg_reason :: "string option"

definition validate_login :: "json option \<Rightarrow> json option \<Rightarrow> login_search" where
  "validate_login redirect reason =
     \<lparr>lg_redirect = (case redirect of Some (JStr s) \<Rightarrow> Some s | _ \<Rightarrow> None),
      lg_reason = (if reason = Some (JStr ''expired'') then Some ''expired'' else None)\<rparr>"

definition safeRedirect :: "string option \<Rightarrow> string" where
  "safeRedirect target =
     (case target of
        Some t \<Rightarrow> if t \<noteq> '''' \<and> str_starts t ''/'' \<and> \<not> str_starts t ''//'' then t else ''/''
      | None \<Rightarrow> ''/'')"

record login_form =
  lf_username :: string
  lf_password :: string
  lf_error :: string
  lf_loading :: bool

definition login_submit :: "login_form \<Rightarrow> login_form" where
  "login_submit s = s\<lparr>lf_error := '''', lf_loading := True\<rparr>"

text \<open>The answer of \<open>login\<close>; \<^term>\<open>Inl None\<close> is something thrown that is no \<open>Error\<close>.\<close>

definition login_settled :: "string option + unit \<Rightarrow> login_form \<Rightarrow> login_form" where
  "login_settled a s =
     (case a of Inl e \<Rightarrow> s\<lparr>lf_error := coalesce e ''Login failed''\<rparr> | Inr _ \<Rightarrow> s)\<lparr>lf_loading := False\<rparr>"

definition login_notice :: "login_search \<Rightarrow> login_form \<Rightarrow> string option" where
  "login_notice q s =
     (if lf_error s \<noteq> '''' then Some (lf_error s)
      else if lg_reason q = Some ''expired''
      then Some (''Your session expired. Sign in to continue''
             @ (if coalesce (lg_redirect q) '''' \<noteq> '''' then '' where you left off'' else '''') @ ''.'')
      else None)"

text \<open>The effect that leaves the page once there is a session.\<close>

definition login_leaves :: "bool \<Rightarrow> login_search \<Rightarrow> string option" where
  "login_leaves authenticated q = (if authenticated then Some (safeRedirect (lg_redirect q)) else None)"

section \<open>The root\<close>

definition isPublicRoute :: "string \<Rightarrow> bool" where
  "isPublicRoute pathname \<longleftrightarrow> pathname = ''/login'' \<or> str_starts pathname ''/reset-password''"

definition root_redirect :: "bool \<Rightarrow> bool \<Rightarrow> bool \<Rightarrow> string \<Rightarrow> login_search option" where
  "root_redirect loading authenticated expired pathname =
     (if \<not> loading \<and> \<not> authenticated \<and> \<not> isPublicRoute pathname
      then Some \<lparr>lg_redirect = Some pathname, lg_reason = (if expired then Some ''expired'' else None)\<rparr>
      else None)"

datatype root_view = FullPage | BarePage | Waiting

definition root_shows :: "bool \<Rightarrow> string \<Rightarrow> root_view" where
  "root_shows authenticated pathname =
     (if authenticated then FullPage else if isPublicRoute pathname then BarePage else Waiting)"

record password_dialog =
  pd_open :: bool
  pd_current :: string
  pd_new :: string
  pd_confirm :: string

definition closePasswordDialog :: "password_dialog \<Rightarrow> password_dialog" where
  "closePasswordDialog s = \<lparr>pd_open = False, pd_current = '''', pd_new = '''', pd_confirm = ''''\<rparr>"

definition submit_password :: "password_dialog \<Rightarrow> (string \<times> string) option" where
  "submit_password s =
     (if pd_current s \<noteq> '''' \<and> pd_new s \<noteq> '''' \<and> pd_new s = pd_confirm s
      then Some (pd_current s, pd_new s) else None)"

text \<open>The entries of the main menu below the dashboard, and the account menu's own.\<close>

definition main_menu :: "session option \<Rightarrow> server_info option \<Rightarrow> (string \<times> string) list" where
  "main_menu s info =
     (''/'', ''Dashboard'') # map (\<lambda>sec. (sec_to sec, sec_label sec)) (useSections s info)"

section \<open>The notice before the end\<close>

definition WARN_WITHIN_MS :: int where
  "WARN_WITHIN_MS = 5 * 60 * 1000"

definition TICK_MS :: int where
  "TICK_MS = 30 * 1000"

datatype expiry_notice = NoNotice | SessionEnded | EndsIn int

text \<open>
  \<open>now\<close> is the clock read at the last tick, both in milliseconds; \<open>Math.round\<close> adds a half and
  rounds down.
\<close>

definition SessionExpiryNotice :: "int option \<Rightarrow> int \<Rightarrow> expiry_notice" where
  "SessionExpiryNotice expiresAt now =
     (case expiresAt of
        None \<Rightarrow> NoNotice
      | Some t \<Rightarrow>
          (let remaining = t - now in
           if \<not> remaining \<le> WARN_WITHIN_MS then NoNotice
           else if remaining \<le> 0 then SessionEnded
           else EndsIn (max 0 ((remaining + 30000) div 60000))))"

definition minutes_text :: "int \<Rightarrow> string" where
  "minutes_text minutes =
     (if minutes = 0 then ''less than a minute''
      else ''about '' @ int_str minutes @ '' minute'' @ (if minutes = 1 then '''' else ''s''))"

section \<open>A reset link\<close>

datatype reset_page = ResetLoading | ResetUnchecked string | ResetDead | ResetDone | ResetForm

text \<open>An error of the query: its message, and its status when it is an \<open>ApiError\<close>.\<close>

definition linkDead :: "(string \<times> int option) option \<Rightarrow> bool" where
  "linkDead error = (case error of Some (_, Some st) \<Rightarrow> st = 404 \<or> st = 410 \<or> st = 400 | _ \<Rightarrow> False)"

definition ResetPasswordPage :: "bool \<Rightarrow> (string \<times> int option) option \<Rightarrow> bool \<Rightarrow> reset_page" where
  "ResetPasswordPage loading error success =
     (if loading then ResetLoading
      else case error of
        Some (m, _) \<Rightarrow> if \<not> linkDead error then ResetUnchecked m else ResetDead
      | None \<Rightarrow> if success then ResetDone else ResetForm)"

definition reset_submit :: "string \<Rightarrow> string \<Rightarrow> string \<Rightarrow> request option" where
  "reset_submit token password confirm =
     (if password \<noteq> '''' \<and> password = confirm then Some (passwordReset_confirm token password) else None)"

section \<open>Coming back\<close>

lemma safeRedirect_local:
  "str_starts (safeRedirect t) ''/'' \<and> \<not> str_starts (safeRedirect t) ''//''"
  by (cases t) (simp_all add: safeRedirect_def)

text \<open>
  C29: Ending a session on a page and signing in again returns to it. On a protected page the root
  sends to the login page with the path of the page, which its search accepts; signing in leaves for
  exactly that path. A signed-in user, and a public page, are never redirected; and whatever the
  address of the login page says, it leaves for a path of this site only.
\<close>

theorem login_returns:
  assumes "str_starts p ''/''" and "\<not> str_starts p ''//''" and "\<not> isPublicRoute p"
  shows "(\<exists>q. root_redirect False False e p = Some q \<and>
      validate_login (map_option JStr (lg_redirect q)) (map_option JStr (lg_reason q)) = q \<and>
      login_leaves True q = Some p \<and>
      (login_notice q \<lparr>lf_username = '''', lf_password = '''', lf_error = '''', lf_loading = False\<rparr> \<noteq> None \<longleftrightarrow> e)) \<and>
    root_redirect l True e p = None \<and>
    (\<forall>r. isPublicRoute r \<longrightarrow> root_redirect l a e r = None) \<and>
    (\<forall>q t. login_leaves True q = Some t \<longrightarrow> str_starts t ''/'' \<and> \<not> str_starts t ''//'')"
proof -
  have "p \<noteq> ''''" using assms(1) by auto
  then have "\<exists>q. root_redirect False False e p = Some q \<and>
      validate_login (map_option JStr (lg_redirect q)) (map_option JStr (lg_reason q)) = q \<and>
      login_leaves True q = Some p \<and>
      (login_notice q \<lparr>lf_username = '''', lf_password = '''', lf_error = '''', lf_loading = False\<rparr> \<noteq> None \<longleftrightarrow> e)"
    using assms by (simp add: root_redirect_def validate_login_def login_leaves_def safeRedirect_def login_notice_def)
  moreover have "\<forall>q t. login_leaves True q = Some t \<longrightarrow> str_starts t ''/'' \<and> \<not> str_starts t ''//''"
    using safeRedirect_local by (auto simp: login_leaves_def)
  moreover have "root_redirect l True e p = None" "\<forall>r. isPublicRoute r \<longrightarrow> root_redirect l a e r = None"
    by (simp_all add: root_redirect_def)
  ultimately show ?thesis by blast
qed

lemma login_returns_witness:
  "\<exists>q. root_redirect False False True ''/users'' = Some q \<and> login_leaves True q = Some ''/users''"
  using login_returns[of "''/users''" True True True]
  by (simp add: isPublicRoute_def) blast

text \<open>A clock that ticks every half minute shows the notice four and a half minutes ahead.\<close>

lemma notice_in_time:
  assumes "0 < t - now" and "t - now \<le> WARN_WITHIN_MS - TICK_MS" and "now - TICK_MS \<le> tick" and "tick \<le> now"
  shows "SessionExpiryNotice (Some t) tick \<noteq> NoNotice"
  using assms by (simp add: SessionExpiryNotice_def WARN_WITHIN_MS_def TICK_MS_def Let_def)

lemma closed_dialog_empty: "submit_password (closePasswordDialog s) = None"
  by (simp add: closePasswordDialog_def submit_password_def)

end
