(* ===== verification/Audit_Search.thy ===== *)
theory Audit_Search
  imports List_Page
begin

text \<open>
  The view state of the audit page (\<open>routes/audit-logs.tsx\<close>, with the directory's own log in
  \<open>components/directory-changes.tsx\<close> and \<open>lib/directory-changes.ts\<close>): how the address is read, what
  each control of the two logs does to it, and what the listing and the export ask the server for.
\<close>

section \<open>The options of the filters\<close>

definition RESOURCE_TYPE_OPTIONS :: "(string \<times> string) list" where
  "RESOURCE_TYPE_OPTIONS = [
     ('''', ''All resource types''), (''user'', ''User''), (''group'', ''Group''),
     (''sudorole'', ''Sudo role''), (''pwdpolicy'', ''Password policy''),
     (''netgroup'', ''Netgroup''), (''schema'', ''Schema''), (''directory'', ''Directory'')]"

definition ACTION_OPTIONS :: "(string \<times> string) list" where
  "ACTION_OPTIONS = ('''', ''All actions'') # map (\<lambda>a. (a, a)) [
     ''login'', ''login.failed'', ''logout'', ''user.create'', ''user.update'', ''user.delete'',
     ''user.rename'', ''user.lock'', ''user.unlock'', ''user.lockout'', ''group.create'',
     ''group.update'', ''group.delete'', ''group.rename'', ''group.member.add'',
     ''group.member.remove'', ''sudorole.create'', ''sudorole.update'', ''sudorole.delete'',
     ''sudorole.user.add'', ''sudorole.user.remove'', ''sudorole.group.add'',
     ''sudorole.group.remove'', ''netgroup.create'', ''netgroup.update'', ''netgroup.delete'',
     ''pwdpolicy.create'', ''pwdpolicy.update'', ''pwdpolicy.delete'', ''schema.refresh'',
     ''policy.selftest'', ''directory.export'']"

definition ORIGIN_OPTIONS :: "(string \<times> string) list" where
  "ORIGIN_OPTIONS = [
     (''external'', ''Outside ldapwarden''), (''ldapwarden'', ''Through ldapwarden''),
     (''policy'', ''Password policy''), (''all'', ''All writes'')]"

definition CHANGE_TYPE_OPTIONS :: "(string \<times> string) list" where
  "CHANGE_TYPE_OPTIONS = [
     ('''', ''All operations''), (''add'', ''add''), (''modify'', ''modify''),
     (''delete'', ''delete''), (''modrdn'', ''modrdn'')]"

section \<open>The address\<close>

record audit_search =
  as_view :: "string option"
  as_origin :: "string option"
  as_type :: "string option"
  as_actor :: "string option"
  as_resourceType :: "string option"
  as_action :: "string option"
  as_q :: "string option"
  as_from :: "string option"
  as_to :: "string option"
  as_page :: "int option"
  as_size :: "int option"

definition no_search :: audit_search where
  "no_search = \<lparr>as_view = None, as_origin = None, as_type = None, as_actor = None,
     as_resourceType = None, as_action = None, as_q = None, as_from = None, as_to = None,
     as_page = None, as_size = None\<rparr>"

definition ISO_DAY :: "string \<Rightarrow> bool" where
  "ISO_DAY s \<longleftrightarrow>
     length s = 10 \<and> list_all is_digit (take 4 s) \<and> s ! 4 = CHR ''-'' \<and>
     list_all is_digit (take 2 (drop 5 s)) \<and> s ! 7 = CHR ''-'' \<and> list_all is_digit (drop 8 s)"

text \<open>\<open>OPTIONS.some((o) => o.value !== but && o.value === raw.x) ? raw.x : undefined\<close>\<close>

definition pick_option :: "(string \<times> string) list \<Rightarrow> string \<Rightarrow> json option \<Rightarrow> string option" where
  "pick_option opts but v =
     (case v of
        Some (JStr s) \<Rightarrow> if list_ex (\<lambda>(ov, _). ov \<noteq> but \<and> ov = s) opts then Some s else None
      | _ \<Rightarrow> None)"

definition pick_day :: "json option \<Rightarrow> string option" where
  "pick_day v = (case v of Some (JStr s) \<Rightarrow> if ISO_DAY s then Some s else None | _ \<Rightarrow> None)"

definition auditSearch :: "json \<Rightarrow> audit_search" where
  "auditSearch raw = \<lparr>
     as_view = (if get_prop raw ''view'' = Some (JStr ''directory'') then Some ''directory'' else None),
     as_origin = pick_option ORIGIN_OPTIONS ''external'' (get_prop raw ''origin''),
     as_type = pick_option CHANGE_TYPE_OPTIONS '''' (get_prop raw ''type''),
     as_actor = asString (get_prop raw ''actor''),
     as_resourceType = pick_option RESOURCE_TYPE_OPTIONS '''' (get_prop raw ''resourceType''),
     as_action = pick_option ACTION_OPTIONS '''' (get_prop raw ''action''),
     as_q = asString (get_prop raw ''q''),
     as_from = pick_day (get_prop raw ''from''),
     as_to = pick_day (get_prop raw ''to''),
     as_page = asPage (get_prop raw ''page''),
     as_size = asSize (get_prop raw ''size'')\<rparr>"

text \<open>The search as the router writes it to the address.\<close>

definition audit_json :: "audit_search \<Rightarrow> json" where
  "audit_json s = jobj [
     (''view'', map_option JStr (as_view s)), (''origin'', map_option JStr (as_origin s)),
     (''type'', map_option JStr (as_type s)), (''actor'', map_option JStr (as_actor s)),
     (''resourceType'', map_option JStr (as_resourceType s)), (''action'', map_option JStr (as_action s)),
     (''q'', map_option JStr (as_q s)), (''from'', map_option JStr (as_from s)),
     (''to'', map_option JStr (as_to s)),
     (''page'', map_option (JNum \<circ> of_int) (as_page s)),
     (''size'', map_option (JNum \<circ> of_int) (as_size s))]"

section \<open>The controls\<close>

text \<open>What the page reads out of the address, the defaults put in.\<close>

record audit_view =
  av_view :: string
  av_origin :: string
  av_type :: string
  av_actor :: string
  av_resourceType :: string
  av_action :: string
  av_q :: string
  av_from :: string
  av_to :: string
  av_page :: int
  av_size :: int

definition audit_values :: "audit_search \<Rightarrow> audit_view" where
  "audit_values s = \<lparr>
     av_view = coalesce (as_view s) ''app'', av_origin = coalesce (as_origin s) ''external'',
     av_type = coalesce (as_type s) '''', av_actor = coalesce (as_actor s) '''',
     av_resourceType = coalesce (as_resourceType s) '''', av_action = coalesce (as_action s) '''',
     av_q = coalesce (as_q s) '''', av_from = coalesce (as_from s) '''', av_to = coalesce (as_to s) '''',
     av_page = coalesce (as_page s) 1, av_size = coalesce (as_size s) DEFAULT_PAGE_SIZE\<rparr>"

text \<open>The controls of the page; the last three are those of the directory's log.\<close>

datatype audit_event =
    SetView string
  | SetActor string
  | SetResourceType string
  | SetAction string
  | SetFrom string
  | SetTo string
  | CommitQuery string
  | SetPage int
  | SetSize int
  | ClearFilters
  | SetOrigin string
  | SetType string
  | ClearChangeFilters

text \<open>\<open>v || undefined\<close>\<close>

definition or_undefined :: "string \<Rightarrow> string option" where
  "or_undefined v = (if v \<noteq> '''' then Some v else None)"

text \<open>The search handed to \<open>navigate\<close>.\<close>

fun audit_nav :: "audit_event \<Rightarrow> audit_search \<Rightarrow> audit_search" where
  "audit_nav (SetView v) s = (if v = ''directory'' then no_search\<lparr>as_view := Some ''directory''\<rparr> else no_search)"
| "audit_nav (SetActor v) s = s\<lparr>as_actor := or_undefined v, as_page := None\<rparr>"
| "audit_nav (SetResourceType v) s = s\<lparr>as_resourceType := or_undefined v, as_page := None\<rparr>"
| "audit_nav (SetAction v) s = s\<lparr>as_action := or_undefined v, as_page := None\<rparr>"
| "audit_nav (SetFrom v) s = s\<lparr>as_from := or_undefined v, as_page := None\<rparr>"
| "audit_nav (SetTo v) s = s\<lparr>as_to := or_undefined v, as_page := None\<rparr>"
| "audit_nav (CommitQuery v) s = s\<lparr>as_q := or_undefined v, as_page := None\<rparr>"
| "audit_nav (SetPage n) s = s\<lparr>as_page := (if n > 1 then Some n else None)\<rparr>"
| "audit_nav (SetSize n) s = s\<lparr>as_size := Some n, as_page := None\<rparr>"
| "audit_nav ClearFilters s = s\<lparr>as_actor := None, as_resourceType := None, as_action := None,
     as_q := None, as_from := None, as_to := None, as_page := None\<rparr>"
| "audit_nav (SetOrigin v) s = s\<lparr>as_origin := (if v = ''external'' then None else Some v), as_page := None\<rparr>"
| "audit_nav (SetType v) s = s\<lparr>as_type := or_undefined v, as_page := None\<rparr>"
| "audit_nav ClearChangeFilters s = s\<lparr>as_origin := None, as_type := None, as_q := None,
     as_from := None, as_to := None, as_page := None\<rparr>"

text \<open>One use of a control: the router writes the search and the validator reads it back.\<close>

definition audit_step :: "audit_event \<Rightarrow> audit_search \<Rightarrow> audit_search" where
  "audit_step e s = auditSearch (audit_json (audit_nav e s))"

text \<open>What the controls offer; a date input yields no text or a day.\<close>

fun audit_offered :: "audit_event \<Rightarrow> bool" where
  "audit_offered (SetResourceType v) \<longleftrightarrow> v \<in> fst ` set RESOURCE_TYPE_OPTIONS"
| "audit_offered (SetAction v) \<longleftrightarrow> v \<in> fst ` set ACTION_OPTIONS"
| "audit_offered (SetFrom v) \<longleftrightarrow> v = '''' \<or> ISO_DAY v"
| "audit_offered (SetTo v) \<longleftrightarrow> v = '''' \<or> ISO_DAY v"
| "audit_offered (SetSize n) \<longleftrightarrow> n \<in> set PAGE_SIZES"
| "audit_offered (SetOrigin v) \<longleftrightarrow> v \<in> fst ` set ORIGIN_OPTIONS"
| "audit_offered (SetType v) \<longleftrightarrow> v \<in> fst ` set CHANGE_TYPE_OPTIONS"
| "audit_offered _ \<longleftrightarrow> True"

section \<open>The requests\<close>

definition app_hasFilters :: "audit_view \<Rightarrow> bool" where
  "app_hasFilters v \<longleftrightarrow> av_actor v \<noteq> '''' \<or> av_resourceType v \<noteq> '''' \<or> av_action v \<noteq> '''' \<or>
     av_from v \<noteq> '''' \<or> av_to v \<noteq> '''' \<or> av_q v \<noteq> ''''"

definition audit_filters :: "audit_view \<Rightarrow> (string \<times> query_value option) list" where
  "audit_filters v = map (\<lambda>(k, x). (k, map_option QText (or_undefined x))) [
     (''actorUid'', av_actor v), (''resourceType'', av_resourceType v), (''action'', av_action v),
     (''search'', av_q v), (''from'', av_from v), (''to'', av_to v)]"

definition audit_paging :: "audit_view \<Rightarrow> (string \<times> query_value option) list" where
  "audit_paging v = [(''limit'', Some (QNumber (av_size v))),
     (''offset'', Some (QNumber ((av_page v - 1) * av_size v)))]"

definition audit_list_request :: "audit_view \<Rightarrow> request" where
  "audit_list_request v = auditLogs_list (Some (audit_filters v @ audit_paging v))"

definition audit_export :: "audit_view \<Rightarrow> string" where
  "audit_export v = auditLogs_exportUrl (Some (audit_filters v))"

definition change_params :: "audit_view \<Rightarrow> (string \<times> query_value option) list" where
  "change_params v = (''origin'', Some (QText (av_origin v))) #
     map (\<lambda>(k, x). (k, map_option QText (or_undefined x))) [
       (''type'', av_type v), (''search'', av_q v), (''from'', av_from v), (''to'', av_to v)]"

definition change_list_request :: "audit_view \<Rightarrow> request" where
  "change_list_request v = directoryChanges_list (change_params v @ audit_paging v)"

text \<open>The directory's log counts the origin in the address, not the default, as a filter.\<close>

definition change_hasFilters :: "audit_search \<Rightarrow> bool" where
  "change_hasFilters s \<longleftrightarrow> as_origin s \<noteq> None \<or> (let v = audit_values s in
     av_type v \<noteq> '''' \<or> av_from v \<noteq> '''' \<or> av_to v \<noteq> '''' \<or> av_q v \<noteq> '''')"

definition actorOptions :: "string \<Rightarrow> string list \<Rightarrow> (string \<times> string) list" where
  "actorOptions actor knownActors =
     ('''', ''All actors'')
     # (if actor \<noteq> '''' \<and> actor \<notin> set knownActors then [(actor, actor)] else [])
     @ map (\<lambda>uid. (uid, uid)) knownActors"

definition toggleExpanded :: "string \<Rightarrow> string set \<Rightarrow> string set" where
  "toggleExpanded rid prev = (if rid \<in> prev then prev - {rid} else insert rid prev)"

section \<open>What the address keeps\<close>

text \<open>The operator's view of the controls: each sets its own value, and every filter starts over at page 1.\<close>

definition default_view :: audit_view where
  "default_view = audit_values no_search"

fun view_step :: "audit_event \<Rightarrow> audit_view \<Rightarrow> audit_view" where
  "view_step (SetView v) x = default_view\<lparr>av_view := (if v = ''directory'' then v else ''app'')\<rparr>"
| "view_step (SetActor v) x = x\<lparr>av_actor := v, av_page := 1\<rparr>"
| "view_step (SetResourceType v) x = x\<lparr>av_resourceType := v, av_page := 1\<rparr>"
| "view_step (SetAction v) x = x\<lparr>av_action := v, av_page := 1\<rparr>"
| "view_step (SetFrom v) x = x\<lparr>av_from := v, av_page := 1\<rparr>"
| "view_step (SetTo v) x = x\<lparr>av_to := v, av_page := 1\<rparr>"
| "view_step (CommitQuery v) x = x\<lparr>av_q := v, av_page := 1\<rparr>"
| "view_step (SetPage n) x = x\<lparr>av_page := max 1 n\<rparr>"
| "view_step (SetSize n) x = x\<lparr>av_size := n, av_page := 1\<rparr>"
| "view_step ClearFilters x = x\<lparr>av_actor := '''', av_resourceType := '''', av_action := '''',
     av_q := '''', av_from := '''', av_to := '''', av_page := 1\<rparr>"
| "view_step (SetOrigin v) x = x\<lparr>av_origin := v, av_page := 1\<rparr>"
| "view_step (SetType v) x = x\<lparr>av_type := v, av_page := 1\<rparr>"
| "view_step ClearChangeFilters x = x\<lparr>av_origin := ''external'', av_type := '''', av_q := '''',
     av_from := '''', av_to := '''', av_page := 1\<rparr>"

definition opt_ok :: "('a \<Rightarrow> bool) \<Rightarrow> 'a option \<Rightarrow> bool" where
  "opt_ok P v \<longleftrightarrow> (\<forall>x. v = Some x \<longrightarrow> P x)"

lemma opt_ok_simps [simp]: "opt_ok P None" "opt_ok P (Some x) \<longleftrightarrow> P x"
  by (simp_all add: opt_ok_def)

lemma opt_ok_or_undefined [simp]: "opt_ok P (or_undefined v) \<longleftrightarrow> v = '''' \<or> P v"
  by (simp add: or_undefined_def)

text \<open>A search that survives the address, but for a page size that is the default.\<close>

definition chosen :: "audit_search \<Rightarrow> bool" where
  "chosen s \<longleftrightarrow>
     opt_ok (\<lambda>v. v = ''directory'') (as_view s) \<and>
     opt_ok (\<lambda>v. v \<noteq> ''external'' \<and> v \<in> fst ` set ORIGIN_OPTIONS) (as_origin s) \<and>
     opt_ok (\<lambda>v. v \<noteq> '''' \<and> v \<in> fst ` set CHANGE_TYPE_OPTIONS) (as_type s) \<and>
     opt_ok (\<lambda>v. v \<noteq> '''') (as_actor s) \<and>
     opt_ok (\<lambda>v. v \<noteq> '''' \<and> v \<in> fst ` set RESOURCE_TYPE_OPTIONS) (as_resourceType s) \<and>
     opt_ok (\<lambda>v. v \<noteq> '''' \<and> v \<in> fst ` set ACTION_OPTIONS) (as_action s) \<and>
     opt_ok (\<lambda>v. v \<noteq> '''') (as_q s) \<and>
     opt_ok ISO_DAY (as_from s) \<and> opt_ok ISO_DAY (as_to s) \<and>
     opt_ok (\<lambda>n. 1 < n) (as_page s) \<and> opt_ok (\<lambda>n. n \<in> set PAGE_SIZES) (as_size s)"

lemma pick_option_iff: "pick_option opts but v = Some s \<longleftrightarrow> v = Some (JStr s) \<and> s \<noteq> but \<and> s \<in> fst ` set opts"
  by (force simp: pick_option_def list_ex_iff split: option.splits json.splits if_splits)

lemma pick_day_iff: "pick_day v = Some s \<longleftrightarrow> v = Some (JStr s) \<and> ISO_DAY s"
  by (auto simp: pick_day_def split: option.splits json.splits if_splits)

lemma reread_text [simp]:
  "opt_ok (\<lambda>v. v \<noteq> but \<and> v \<in> fst ` set opts) x \<Longrightarrow> pick_option opts but (map_option JStr x) = x"
  "opt_ok ISO_DAY x \<Longrightarrow> pick_day (map_option JStr x) = x"
  "opt_ok (\<lambda>v. v \<noteq> '''') x \<Longrightarrow> asString (map_option JStr x) = x"
  by (cases x; simp add: pick_option_iff pick_day_iff; simp add: pick_option_def pick_day_def)+

lemma reread_number [simp]:
  "opt_ok (\<lambda>n. 1 < n) p \<Longrightarrow> asPage (map_option (JNum \<circ> of_int) p) = p"
  "opt_ok (\<lambda>n. n \<in> set PAGE_SIZES) z \<Longrightarrow>
     coalesce (asSize (map_option (JNum \<circ> of_int) z)) DEFAULT_PAGE_SIZE = coalesce z DEFAULT_PAGE_SIZE"
proof -
  show "opt_ok (\<lambda>n. 1 < n) p \<Longrightarrow> asPage (map_option (JNum \<circ> of_int) p) = p" by (cases p) simp_all
  show "opt_ok (\<lambda>n. n \<in> set PAGE_SIZES) z \<Longrightarrow>
      coalesce (asSize (map_option (JNum \<circ> of_int) z)) DEFAULT_PAGE_SIZE = coalesce z DEFAULT_PAGE_SIZE"
    by (cases z) (simp, simp add: asSize_def DEFAULT_PAGE_SIZE_def)
qed

lemma auditSearch_chosen: "chosen (auditSearch raw)"
proof -
  have "opt_ok (\<lambda>n. n \<in> set PAGE_SIZES) (asSize v)" for v
    by (auto simp: opt_ok_def PAGE_SIZES_def dest: asSize_mem)
  then show ?thesis
    by (auto simp: chosen_def auditSearch_def opt_ok_def pick_option_iff pick_day_iff asString_iff
        dest: asPage_gt)
qed

lemma audit_json_fields:
  "get_prop (audit_json s) ''view'' = map_option JStr (as_view s)"
  "get_prop (audit_json s) ''origin'' = map_option JStr (as_origin s)"
  "get_prop (audit_json s) ''type'' = map_option JStr (as_type s)"
  "get_prop (audit_json s) ''actor'' = map_option JStr (as_actor s)"
  "get_prop (audit_json s) ''resourceType'' = map_option JStr (as_resourceType s)"
  "get_prop (audit_json s) ''action'' = map_option JStr (as_action s)"
  "get_prop (audit_json s) ''q'' = map_option JStr (as_q s)"
  "get_prop (audit_json s) ''from'' = map_option JStr (as_from s)"
  "get_prop (audit_json s) ''to'' = map_option JStr (as_to s)"
  "get_prop (audit_json s) ''page'' = map_option (JNum \<circ> of_int) (as_page s)"
  "get_prop (audit_json s) ''size'' = map_option (JNum \<circ> of_int) (as_size s)"
  by (simp_all add: audit_json_def get_prop_jobj)

lemma reread_values:
  assumes "chosen s"
  shows "audit_values (auditSearch (audit_json s)) = audit_values s"
proof -
  have "(if map_option JStr (as_view s) = Some (JStr ''directory'') then Some ''directory'' else None) = as_view s"
    using assms by (cases "as_view s") (simp_all add: chosen_def)
  then show ?thesis
    using assms by (simp add: auditSearch_def audit_json_fields audit_values_def chosen_def)
qed

lemma nav_chosen: "chosen s \<Longrightarrow> audit_offered e \<Longrightarrow> chosen (audit_nav e s)"
  by (cases e) (auto simp: chosen_def no_search_def)

lemma nav_values: "chosen s \<Longrightarrow> audit_values (audit_nav e s) = view_step e (audit_values s)"
  by (cases e) (auto simp: audit_values_def default_view_def no_search_def or_undefined_def chosen_def)

lemma step_chosen: "chosen (audit_step e s)"
  by (simp add: audit_step_def auditSearch_chosen)

lemma step_values:
  assumes "chosen s" and "audit_offered e"
  shows "audit_values (audit_step e s) = view_step e (audit_values s)"
  using reread_values[OF nav_chosen[OF assms]] nav_values[OF assms(1)] by (simp add: audit_step_def)

text \<open>
  The audit page keeps in its address exactly what its controls were set to. Whatever address
  it is opened with and whatever sequence of its controls is used, reading the address after each of
  them, with the defaults put in, gives what applying the choices directly gives: each control
  changes its own value and no other, every filter starts over at page 1, and no choice is lost on
  the way through the router. The listing of any view asks for the filters of its export and its
  own page, nothing else.
\<close>

theorem audit_address_refines:
  assumes "list_all audit_offered es"
  shows "audit_values (fold audit_step es (auditSearch raw)) = fold view_step es (audit_values (auditSearch raw)) \<and>
    read_query (query_of (rq_path (audit_list_request v))) =
      read_query (query_of (audit_export v)) @ as_read (audit_query_params (audit_paging v))"
proof
  have "audit_values (fold audit_step es s) = fold view_step es (audit_values s)" if "chosen s" for s
    using assms that by (induction es arbitrary: s) (simp_all add: step_chosen step_values)
  then show "audit_values (fold audit_step es (auditSearch raw)) = fold view_step es (audit_values (auditSearch raw))"
    using auditSearch_chosen by blast
  show "read_query (query_of (rq_path (audit_list_request v))) =
      read_query (query_of (audit_export v)) @ as_read (audit_query_params (audit_paging v))"
    unfolding audit_list_request_def audit_export_def by (rule audit_listing_reads)
qed

lemma audit_address_refines_witness:
  "audit_values (fold audit_step [SetAction ''login'', SetPage 3, SetSize 50] (auditSearch (JObj []))) =
     (audit_values (auditSearch (JObj [])))\<lparr>av_action := ''login'', av_size := 50, av_page := 1\<rparr>"
  using audit_address_refines[of "[SetAction ''login'', SetPage 3, SetSize 50]" "JObj []" default_view]
  by (simp add: ACTION_OPTIONS_def PAGE_SIZES_def)

text \<open>A date input accepts years of more than four digits, which the address drops.\<close>

lemma day_input_examples: "ISO_DAY ''2025-01-31''" "\<not> ISO_DAY ''12025-01-31''"
  by (simp_all add: ISO_DAY_def code_def is_digit_def)

lemma filters_exported:
  "app_hasFilters v \<longleftrightarrow> audit_query_params (audit_filters v) \<noteq> []"
  by (auto simp: app_hasFilters_def audit_filters_def audit_query_params_def or_undefined_def)

lemma actor_stays_selectable: "actor \<in> fst ` set (actorOptions actor known)"
  by (cases "actor = '''' \<or> actor \<notin> set known") (force simp: actorOptions_def)+

end
