(* ===== verification/Audit_Log.thy ===== *)
theory Audit_Log
  imports Audit_Search Api_Types Dn_Codec "HOL-Library.Char_ord" "HOL-Library.List_Lexorder"
begin

text \<open>
  What is shown of an audit entry (\<open>routes/audit-logs.tsx\<close>, \<open>lib/audit-links.ts\<close>), of a write in the
  directory's own log (\<open>components/directory-changes.tsx\<close>), and of a run of a scheduled task
  (\<open>lib/scheduled-tasks.ts\<close>), with the colours (\<open>lib/tones.ts\<close>). The dash outside Latin-1 is an
  argument, and so is the library's \<open>safeParse\<close>. A DN that is put into an address is a list of code
  units, since the encoder refuses some.
\<close>

section \<open>Colours\<close>

datatype hue = Blue | Emerald | Violet | Amber | Pink | Cyan | Lime | Rose | Indigo | Teal | Slate

definition TONES :: "hue list" where
  "TONES = [Blue, Emerald, Violet, Amber, Pink, Cyan, Lime, Rose, Indigo, Teal]"

text \<open>\<open>[...new Set(values)].sort()\<close>, then one hue after the other.\<close>

definition assignTones :: "string list \<Rightarrow> (string \<times> hue) list" where
  "assignTones values =
     (let unique = sort (remdups values)
      in zip unique (map (\<lambda>i. TONES ! (i mod length TONES)) [0..<length unique]))"

definition actionTone :: "string \<Rightarrow> hue" where
  "actionTone action =
     (if str_includes action ''create'' then Emerald
      else if str_includes action ''delete'' \<or> str_includes action ''remove'' \<or> str_includes action ''failed''
      then Rose
      else if str_includes action ''update'' \<or> str_includes action ''rename'' \<or> str_includes action ''add''
      then Blue
      else if str_includes action ''login'' \<or> str_includes action ''logout'' then Violet
      else Slate)"

section \<open>Entries of the audit log\<close>

record audit_log =
  al_actorDn :: string
  al_actorUid :: string
  al_action :: string
  al_resourceType :: string
  al_resourceDn :: "units option"
  al_details :: "(string \<times> json) list option"
  al_ipAddress :: "string option"
  al_userAgent :: "string option"

definition al_detail :: "audit_log \<Rightarrow> string \<Rightarrow> json option" where
  "al_detail en k = opt_chain (al_details en) (\<lambda>kvs. map_of kvs k)"

text \<open>The routes an entry can lead to; the names every JavaScript object inherits are left out.\<close>

definition resource_routes :: "(string \<times> string) list" where
  "resource_routes = [(''user'', ''users''), (''group'', ''groups''), (''sudorole'', ''sudo-roles''),
     (''pwdpolicy'', ''password-policies''), (''netgroup'', ''netgroups'')]"

definition resourceLink :: "audit_log \<Rightarrow> (string \<times> (codec_error, string) result) option" where
  "resourceLink en =
     (case al_resourceDn en of
        None \<Rightarrow> None
      | Some dn \<Rightarrow>
          if dn = [] \<or> str_includes (al_action en) ''delete'' then None
          else map_option (\<lambda>sec. (''/'' @ sec @ ''/$dn'', encodeDN dn))
            (map_of resource_routes (al_resourceType en)))"

definition resourceName :: "audit_log \<Rightarrow> string option" where
  "resourceName en = (case al_detail en ''resourceName'' of Some (JStr s) \<Rightarrow> or_undefined s | _ \<Rightarrow> None)"

definition resourceLabel :: "audit_log \<Rightarrow> units" where
  "resourceLabel en =
     (case resourceName en of
        Some name \<Rightarrow> units_of name
      | None \<Rightarrow> (case al_resourceDn en of Some dn \<Rightarrow> if dn \<noteq> [] then dn else units_of ''-'' | None \<Rightarrow> units_of ''-''))"

record field_change =
  fc_field :: string
  fc_old :: "string option"
  fc_new :: "string option"
  fc_masked :: "bool option"

definition to_field_change :: "json \<Rightarrow> field_change option" where
  "to_field_change j =
     (case j of
        JObj kvs \<Rightarrow> map_option (\<lambda>f. \<lparr>fc_field = f, fc_old = str_opt kvs ''old'', fc_new = str_opt kvs ''new'',
          fc_masked = bool_opt kvs ''masked''\<rparr>) (str_req kvs ''field'')
      | _ \<Rightarrow> None)"

definition parsed_change :: "parser \<Rightarrow> json \<Rightarrow> field_change option" where
  "parsed_change safe_parse item =
     (case safe_parse FieldChangeSchema (Some item) of Some (Some j) \<Rightarrow> to_field_change j | _ \<Rightarrow> None)"

definition changesOf :: "parser \<Rightarrow> audit_log \<Rightarrow> field_change list" where
  "changesOf safe_parse en =
     (case al_detail en ''changes'' of
        Some (JArr items) \<Rightarrow> List.map_filter (parsed_change safe_parse) items
      | _ \<Rightarrow> [])"

definition otherDetails :: "audit_log \<Rightarrow> (string \<times> json) list" where
  "otherDetails en = filter (\<lambda>(k, _). k \<noteq> ''changes'' \<and> k \<noteq> ''resourceName'') (coalesce (al_details en) [])"

definition summarise :: "string \<Rightarrow> field_change list \<Rightarrow> (string \<times> json) list \<Rightarrow> string" where
  "summarise dash changes extras =
     (if changes \<noteq> [] then
        (let fs = join_with '', '' (map fc_field changes)
         in if length changes \<le> 3 then fs else nat_str (length changes) @ '' fields: '' @ fs)
      else if extras \<noteq> [] then join_with '', '' (map fst extras) else dash)"

datatype change_cells = NotRecorded | BeforeAfter "string option" "string option"

text \<open>The two cells of a change; \<^const>\<open>None\<close> reads (empty).\<close>

definition change_row :: "field_change \<Rightarrow> string \<times> change_cells" where
  "change_row c =
     (fc_field c,
      if fc_masked c = Some True then NotRecorded
      else BeforeAfter (opt_chain (fc_old c) or_undefined) (opt_chain (fc_new c) or_undefined))"

text \<open>\<open>text_of\<close> stands for \<open>JSON.stringify\<close>.\<close>

definition detail_text :: "(json \<Rightarrow> string) \<Rightarrow> json \<Rightarrow> string" where
  "detail_text text_of v = (case v of JStr s \<Rightarrow> s | _ \<Rightarrow> text_of v)"

definition EntryDetails :: "(json \<Rightarrow> string) \<Rightarrow> string \<Rightarrow> audit_log \<Rightarrow> field_change list \<Rightarrow> (string \<times> json) list \<Rightarrow>
    (string \<times> change_cells) list \<times> (string \<times> units) list" where
  "EntryDetails text_of dash en changes extras =
     (map change_row changes,
      map (\<lambda>(k, v). (k, units_of (detail_text text_of v))) extras @
      [(''Actor DN'', units_of (if al_actorDn en \<noteq> '''' then al_actorDn en else dash)),
       (''Resource DN'', (case al_resourceDn en of Some dn \<Rightarrow> if dn \<noteq> [] then dn else units_of dash | None \<Rightarrow> units_of dash)),
       (''IP address'', units_of (coalesce (opt_chain (al_ipAddress en) or_undefined) dash)),
       (''User agent'', units_of (coalesce (opt_chain (al_userAgent en) or_undefined) dash))])"

section \<open>Writes in the directory's log\<close>

datatype change_origin = External | Ldapwarden | Policy

definition ORIGIN_LABELS :: "change_origin \<Rightarrow> string" where
  "ORIGIN_LABELS g = (case g of External \<Rightarrow> ''Outside ldapwarden'' | Ldapwarden \<Rightarrow> ''ldapwarden'' | Policy \<Rightarrow> ''Password policy'')"

record attribute_change =
  ac_attribute :: string
  ac_op :: string
  ac_values :: "string list"
  ac_redacted :: bool

record old_value =
  ov_attribute :: string
  ov_values :: "string list"
  ov_redacted :: bool

record directory_change =
  dc_type :: string
  dc_dn :: string
  dc_actor :: string
  dc_changes :: "attribute_change list"
  dc_old :: "old_value list"
  dc_newRdn :: "string option"
  dc_newSuperior :: "string option"
  dc_deleteOldRdn :: bool
  dc_origin :: change_origin

definition type_tone :: "string \<Rightarrow> hue" where
  "type_tone t = coalesce (map_of [(''add'', Emerald), (''modify'', Blue), (''delete'', Rose), (''modrdn'', Violet)] t) Slate"

definition OP_LABELS :: "(string \<times> string) list" where
  "OP_LABELS = [(''add'', ''added''), (''delete'', ''removed''), (''replace'', ''set to''), (''increment'', ''incremented by'')]"

definition shortName :: "string \<Rightarrow> string \<Rightarrow> string" where
  "shortName dash dn =
     (let rdn = hd (split_on CHR '','' dn)
      in case cut_at CHR ''='' rdn of Some (_, v) \<Rightarrow> v | None \<Rightarrow> if rdn \<noteq> '''' then rdn else dash)"

definition summariseChange :: "string \<Rightarrow> directory_change \<Rightarrow> string" where
  "summariseChange dash c =
     (if dc_type c = ''modrdn'' then ''renamed to '' @ coalesce (dc_newRdn c) ''?''
      else if dc_type c = ''delete'' then ''entry deleted''
      else (let attrs = rev (remdups (rev (map ac_attribute (dc_changes c))))
            in if attrs = [] then dash
               else if length attrs \<le> 3 then join_with '', '' attrs
               else nat_str (length attrs) @ '' attributes: '' @ join_with '', '' attrs))"

definition op_text :: "attribute_change \<Rightarrow> string" where
  "op_text c =
     (if ac_values c = [] \<and> \<not> ac_redacted c \<and> (ac_op c = ''delete'' \<or> ac_op c = ''replace'') then ''cleared''
      else coalesce (map_of OP_LABELS (ac_op c)) (ac_op c))"

definition values_text :: "string \<Rightarrow> attribute_change \<Rightarrow> string" where
  "values_text dash c =
     (if ac_redacted c then ''secret, not shown''
      else coalesce (or_undefined (join_with '', '' (ac_values c))) dash)"

definition old_text :: "old_value \<Rightarrow> string" where
  "old_text v = (if ov_redacted v then ''secret, not shown'' else join_with '', '' (ov_values v))"

definition renamed_text :: "directory_change \<Rightarrow> string option" where
  "renamed_text c =
     (if dc_type c = ''modrdn'' then
        Some (coalesce (dc_newRdn c) ''''
              @ (case opt_chain (dc_newSuperior c) or_undefined of Some n \<Rightarrow> '' under '' @ n | None \<Rightarrow> '''')
              @ (if dc_deleteOldRdn c then '' (old name removed)'' else ''''))
      else None)"

definition ChangeDetails :: "string \<Rightarrow> directory_change \<Rightarrow>
    (string \<times> string \<times> string) list \<times> (string \<times> string) list \<times> string option" where
  "ChangeDetails dash c =
     (map (\<lambda>a. (ac_attribute a, op_text a, values_text dash a)) (dc_changes c),
      map (\<lambda>v. (ov_attribute v, old_text v)) (dc_old c),
      renamed_text c)"

text \<open>What the tab shows, by the answer's status; a missing \<open>base\<close> is the empty text.\<close>

datatype changes_page = ChangesSetup string | ChangesUnreadable string string | ChangesTable

definition changes_shown :: "string \<Rightarrow> string option \<Rightarrow> string \<Rightarrow> changes_page" where
  "changes_shown status base bindDn =
     (if status = ''not-configured'' then ChangesSetup bindDn
      else if status = ''unreadable'' then ChangesUnreadable (coalesce base '''') bindDn
      else ChangesTable)"

definition changes_empty_title :: "audit_view \<Rightarrow> string" where
  "changes_empty_title v =
     (if av_origin v = ''external'' \<and> av_type v = '''' \<and> av_q v = '''' then ''Nothing written outside ldapwarden''
      else ''No writes match these filters'')"

section \<open>Runs of scheduled tasks\<close>

definition plural :: "int \<Rightarrow> string \<Rightarrow> string" where
  "plural n noun = int_str n @ '' '' @ noun @ (if n = 1 then '''' else ''s'')"

definition TASKS :: "(string \<times> string \<times> (int \<Rightarrow> string)) list" where
  "TASKS = [
     (''users_expiration'', ''Account expiration'', \<lambda>n. plural n ''account'' @ '' checked''),
     (''passwords_expiration'', ''Password expiration'', \<lambda>n. plural n ''password'' @ '' checked''),
     (''lockouts_scan'', ''Lockout scan'', \<lambda>n. plural n ''locked account'' @ '' seen'')]"

definition taskLabel :: "string \<Rightarrow> string" where
  "taskLabel taskName = coalesce (map_option fst (map_of TASKS taskName)) taskName"

definition taskCheckedLabel :: "string \<Rightarrow> int \<Rightarrow> string" where
  "taskCheckedLabel taskName count =
     coalesce (map_option (\<lambda>t. snd t count) (map_of TASKS taskName)) (int_str count @ '' checked'')"

definition taskNotifiedLabel :: "int \<Rightarrow> string" where
  "taskNotifiedLabel count = plural count ''notification'' @ '' sent''"

section \<open>Laws\<close>

text \<open>A malformed item of the recorded diff is dropped; no item that parses is.\<close>

context zod
begin

lemma first_string_read:
  assumes "safe_parse (ZObject ((k, ZString) # fs)) v = Some (Some j)"
  shows "\<exists>s kvs. j = JObj ((k, JStr s) # kvs)"
  using assms by (auto simp: object string split: option.splits json.splits)

lemma field_change_read:
  assumes "safe_parse FieldChangeSchema v = Some (Some j)"
  shows "to_field_change j \<noteq> None"
  using first_string_read[OF assms[unfolded FieldChangeSchema_def]] by (auto simp: to_field_change_def str_req_def)

lemma changes_kept:
  "length (changesOf safe_parse en) =
     (case al_detail en ''changes'' of
        Some (JArr items) \<Rightarrow> length (filter (\<lambda>x. \<exists>j. safe_parse FieldChangeSchema (Some x) = Some (Some j)) items)
      | _ \<Rightarrow> 0)"
proof -
  have p: "(\<exists>y. parsed_change safe_parse x = Some y) \<longleftrightarrow> (\<exists>j. safe_parse FieldChangeSchema (Some x) = Some (Some j))" for x
    using field_change_read by (auto simp: parsed_change_def split: option.splits)
  have "length (List.map_filter (parsed_change safe_parse) items) =
      length (filter (\<lambda>x. \<exists>j. safe_parse FieldChangeSchema (Some x) = Some (Some j)) items)" for items
    by (simp add: List.map_filter_def comp_def p)
  then show ?thesis by (auto simp: changesOf_def split: option.splits json.splits)
qed

end

text \<open>
  An entry is linked exactly when it has a DN, does not record a deletion, and its resource has
  pages; the link opens the page of that very DN, unless the encoder refuses the DN.
\<close>

lemma resource_link_exact:
  "resourceLink en \<noteq> None \<longleftrightarrow>
     (\<exists>dn. al_resourceDn en = Some dn \<and> dn \<noteq> []) \<and> \<not> str_includes (al_action en) ''delete'' \<and>
     al_resourceType en \<in> fst ` set resource_routes"
  by (auto simp: resourceLink_def resource_routes_def split: option.splits if_splits)

lemma resource_link_opens:
  assumes "resourceLink en = Some (to, Inr s)"
  shows "\<exists>dn sec. al_resourceDn en = Some dn \<and> (al_resourceType en, sec) \<in> set resource_routes \<and>
    to = ''/'' @ sec @ ''/$dn'' \<and> split_on CHR ''/'' (''/'' @ sec @ ''/'' @ s) = [[], sec, s] \<and>
    decodeDN s = Inr dn"
proof -
  obtain dn sec where dn: "al_resourceDn en = Some dn"
    and sec: "map_of resource_routes (al_resourceType en) = Some sec"
    and to: "to = ''/'' @ sec @ ''/$dn''" and s: "encodeDN dn = Inr s"
    using assms by (auto simp: resourceLink_def split: option.splits if_splits)
  have m: "(al_resourceType en, sec) \<in> set resource_routes" using sec by (rule map_of_SomeD)
  then have "CHR ''/'' \<notin> set sec" by (auto simp: resource_routes_def)
  then show ?thesis using dn m to dn.open_link[OF s] by blast
qed

text \<open>
  The colour of a value depends on the set of values alone, not on their order; but it does depend
  on the set: the users list passes the types of one page, so a type has different colours on
  different pages.
\<close>

lemma tones_by_set: "set xs = set ys \<Longrightarrow> assignTones xs = assignTones ys"
  by (simp add: assignTones_def sorted_list_of_set_sort_remdups[symmetric])

lemma tones_of_all: "map fst (assignTones values) = sort (remdups values)"
  by (simp add: assignTones_def Let_def)

lemma tones_distinct:
  assumes "length (remdups values) \<le> length TONES"
  shows "distinct (map snd (assignTones values))"
proof -
  have l: "length (sort (remdups values)) = length (remdups values)" by simp
  have i: "inj_on (\<lambda>i. TONES ! (i mod length TONES)) {0..<length (remdups values)}"
  proof (rule inj_onI)
    fix i j assume "i \<in> {0..<length (remdups values)}" "j \<in> {0..<length (remdups values)}"
      and e: "TONES ! (i mod length TONES) = TONES ! (j mod length TONES)"
    then have "i < length TONES" "j < length TONES" using assms by auto
    moreover have "distinct TONES" by (simp add: TONES_def)
    ultimately show "i = j" using e by (simp add: nth_eq_iff_index_eq)
  qed
  show ?thesis using i by (simp add: assignTones_def Let_def l distinct_map)
qed

lemma tone_differs_between_pages:
  "map_of (assignTones [''staff'']) ''staff'' = Some Blue"
  "map_of (assignTones [''staff'', ''contractor'']) ''staff'' = Some Emerald"
  by (simp_all add: assignTones_def TONES_def Let_def)

lemma task_labels:
  "taskLabel ''lockouts_scan'' = ''Lockout scan''"
  "map_of TASKS t = None \<Longrightarrow> taskLabel t = t"
  "taskCheckedLabel ''lockouts_scan'' 1 = ''1 locked account seen''"
proof -
  show "taskLabel ''lockouts_scan'' = ''Lockout scan''" and "map_of TASKS t = None \<Longrightarrow> taskLabel t = t"
    by (simp_all add: taskLabel_def TASKS_def)
  show "taskCheckedLabel ''lockouts_scan'' 1 = ''1 locked account seen''" by code_simp
qed

end
