(* ===== verification/App_Shell.thy ===== *)
theory App_Shell
  imports Access Pickers Edit_Forms
begin

text \<open>
  Around the pages: the command palette (\<open>components/command-palette.tsx\<close>), the keyboard shortcuts
  (\<open>lib/use-hotkey.ts\<close>) and the theme (\<open>lib/theme.tsx\<close>). The palette's searches are events that
  deliver rows; its query is a debounced value.
\<close>

section \<open>The commands\<close>

fun key_name :: "section_key \<Rightarrow> string" where
  "key_name SecUsers = ''users''"
| "key_name SecGroups = ''groups''"
| "key_name SecSudo = ''sudo''"
| "key_name SecNetgroups = ''netgroups''"
| "key_name SecPolicies = ''policies''"
| "key_name SecAudit = ''audit''"

text \<open>A command: what it shows, and the route with the DN that running it navigates to.\<close>

record command =
  cmd_id :: string
  cmd_label :: string
  cmd_hint :: "string option"
  cmd_group :: string
  cmd_to :: string
  cmd_dn :: "(codec_error, string) result option"

definition text_of_entry :: "entry \<Rightarrow> string \<Rightarrow> string" where
  "text_of_entry e k = coalesce (str_opt e k) ''''"

definition entry_command :: "string \<Rightarrow> string \<Rightarrow> string \<Rightarrow> string option \<Rightarrow> string \<Rightarrow> entry \<Rightarrow> command" where
  "entry_command kind heading label hint target e =
     \<lparr>cmd_id = kind @ '':'' @ text_of_entry e ''dn'', cmd_label = label, cmd_hint = hint, cmd_group = heading,
      cmd_to = target, cmd_dn = Some (encodeDN (units_of (text_of_entry e ''dn'')))\<rparr>"

definition user_command :: "entry \<Rightarrow> command" where
  "user_command e =
     entry_command ''user'' ''Users''
       (if text_of_entry e ''displayName'' \<noteq> '''' then text_of_entry e ''displayName'' else text_of_entry e ''cn'')
       (str_opt e ''uid'') ''/users/$dn'' e"

definition group_command :: "entry \<Rightarrow> command" where
  "group_command e =
     entry_command ''group'' ''Groups'' (text_of_entry e ''cn'')
       (Some (if text_of_entry e ''description'' \<noteq> '''' then text_of_entry e ''description''
              else ''gid '' @ snd (int_field e ''gidNumber''))) ''/groups/$dn'' e"

definition netgroup_command :: "entry \<Rightarrow> command" where
  "netgroup_command e =
     entry_command ''netgroup'' ''Netgroups'' (text_of_entry e ''cn'') (str_opt e ''description'') ''/netgroups/$dn'' e"

definition sudo_command :: "entry \<Rightarrow> command" where
  "sudo_command e =
     entry_command ''sudo'' ''Sudo roles'' (text_of_entry e ''cn'') (str_opt e ''description'') ''/sudo-roles/$dn'' e"

definition policy_command :: "entry \<Rightarrow> command" where
  "policy_command e =
     entry_command ''policy'' ''Password policies'' (text_of_entry e ''cn'') (str_opt e ''description'')
       ''/password-policies/$dn'' e"

definition page_command :: "string \<Rightarrow> string \<Rightarrow> string \<Rightarrow> string \<Rightarrow> command" where
  "page_command cid label heading target =
     \<lparr>cmd_id = cid, cmd_label = label, cmd_hint = None, cmd_group = heading, cmd_to = target, cmd_dn = None\<rparr>"

definition go_commands :: "nav_section list \<Rightarrow> bool \<Rightarrow> command list" where
  "go_commands secs isAdmin =
     page_command ''go:dashboard'' ''Dashboard'' ''Go to'' ''/''
     # map (\<lambda>sec. page_command (''go:'' @ key_name (sec_key sec)) (sec_label sec) ''Go to'' (sec_to sec)) secs
     @ (if isAdmin then [page_command ''go:admin'' ''Administration'' ''Go to'' ''/admin''] else [])"

definition create_commands :: "nav_section list \<Rightarrow> command list" where
  "create_commands secs =
     List.map_filter (\<lambda>sec. map_option (\<lambda>a.
         page_command (''new:'' @ key_name (sec_key sec)) (act_label a) ''Create'' (act_to a)) (sec_create sec)) secs
     @ List.map_filter (\<lambda>sec. map_option (\<lambda>a.
         page_command (''import:'' @ key_name (sec_key sec)) (act_label a) ''Create'' (act_to a)) (sec_import sec)) secs"

text \<open>The rows of the directory searches that have answered, by section.\<close>

type_synonym palette_data = "section_key \<Rightarrow> entry list"

definition hit_commands :: "palette_data \<Rightarrow> command list" where
  "hit_commands data =
     map user_command (data SecUsers) @ map group_command (data SecGroups)
     @ map netgroup_command (data SecNetgroups) @ map sudo_command (data SecSudo)
     @ map policy_command (data SecPolicies)"

definition palette_commands :: "nav_section list \<Rightarrow> bool \<Rightarrow> palette_data \<Rightarrow> string \<Rightarrow> command list" where
  "palette_commands secs isAdmin data term =
     (let searching = (term \<noteq> ''''); needle = to_lower term
      in (if searching then hit_commands data else [])
         @ filter (\<lambda>a. \<not> searching \<or> str_includes (to_lower (cmd_label a)) needle)
             (go_commands secs isAdmin @ create_commands secs))"

text \<open>The headings, in the order the commands were built, and the rows under them.\<close>

fun groupsInOrder :: "command list \<Rightarrow> string list \<Rightarrow> string list" where
  "groupsInOrder [] acc = acc"
| "groupsInOrder (c # cs) acc = groupsInOrder cs (if cmd_group c \<in> set acc then acc else acc @ [cmd_group c])"

definition palette_rows :: "command list \<Rightarrow> command list" where
  "palette_rows cs = concat (map (\<lambda>g. filter (\<lambda>c. cmd_group c = g) cs) (groupsInOrder cs []))"

section \<open>The palette\<close>

record palette =
  pl_open :: bool
  pl_query :: "string debounced"
  pl_active :: int
  pl_lastOpen :: bool
  pl_lastTerm :: string
  pl_data :: palette_data

definition palette_mount :: palette where
  "palette_mount = \<lparr>pl_open = False, pl_query = debounce_mount '''', pl_active = 0, pl_lastOpen = False,
     pl_lastTerm = '''', pl_data = (\<lambda>_. [])\<rparr>"

definition pl_term :: "palette \<Rightarrow> string" where
  "pl_term s = trim (db_debounced (pl_query s))"

definition perGroupLimit :: int where
  "perGroupLimit = 5"

text \<open>The search of a section, when it is enabled.\<close>

definition palette_search :: "nav_section list \<Rightarrow> palette \<Rightarrow> section_key \<Rightarrow> list_params option" where
  "palette_search secs s k =
     (if pl_open s \<and> pl_term s \<noteq> '''' \<and> k \<noteq> SecAudit \<and> list_ex (\<lambda>sec. sec_key sec = k) secs
      then Some \<lparr>qp_search = Some (pl_term s), qp_sort = None, qp_order = None, qp_limit = Some perGroupLimit,
        qp_offset = None, qp_status = None\<rparr>
      else None)"

text \<open>
  What a render adjusts: a palette that opened starts with no query and the first row, and so does a
  new term, whose searches start without rows.
\<close>

definition adjust_open :: "palette \<Rightarrow> palette" where
  "adjust_open s =
     (if pl_open s \<noteq> pl_lastOpen s
      then (let s' = s\<lparr>pl_lastOpen := pl_open s\<rparr>
            in if pl_open s then s'\<lparr>pl_query := debounce_render '''' (pl_query s'), pl_active := 0\<rparr> else s')
      else s)"

definition adjust_term :: "palette \<Rightarrow> palette" where
  "adjust_term s =
     (if pl_term s \<noteq> pl_lastTerm s
      then s\<lparr>pl_lastTerm := pl_term s, pl_active := 0, pl_data := (\<lambda>_. [])\<rparr> else s)"

definition palette_render :: "palette \<Rightarrow> palette" where
  "palette_render s = adjust_term (adjust_open s)"

definition palette_list :: "nav_section list \<Rightarrow> bool \<Rightarrow> palette \<Rightarrow> command list" where
  "palette_list secs isAdmin s = palette_commands secs isAdmin (pl_data s) (pl_term s)"

definition boundedIndex :: "nav_section list \<Rightarrow> bool \<Rightarrow> palette \<Rightarrow> int" where
  "boundedIndex secs isAdmin s = min (pl_active s) (max 0 (int (length (palette_list secs isAdmin s)) - 1))"

datatype palette_event =
    Toggle
  | Dismiss
  | TypeQuery string
  | TimerFires
  | RowsArrive section_key "entry list"
  | ArrowDown
  | ArrowUp
  | EnterKey
  | PointAt nat
  | ClickRow nat

text \<open>The command an event runs: running one closes the palette and navigates.\<close>

definition palette_runs :: "nav_section list \<Rightarrow> bool \<Rightarrow> palette_event \<Rightarrow> palette \<Rightarrow> command option" where
  "palette_runs secs isAdmin e s =
     (let cs = palette_list secs isAdmin s; n = int (length cs) in
      if \<not> pl_open s then None
      else case e of
        EnterKey \<Rightarrow>
          (let i = boundedIndex secs isAdmin s in if 0 \<le> i \<and> i < n then Some (cs ! nat i) else None)
      | ClickRow i \<Rightarrow> if i < length cs then Some (cs ! i) else None
      | _ \<Rightarrow> None)"

definition palette_handle :: "nav_section list \<Rightarrow> bool \<Rightarrow> palette_event \<Rightarrow> palette \<Rightarrow> palette" where
  "palette_handle secs isAdmin e s =
     (let n = int (length (palette_list secs isAdmin s)) in
      case e of
        Toggle \<Rightarrow> s\<lparr>pl_open := \<not> pl_open s\<rparr>
      | Dismiss \<Rightarrow> s\<lparr>pl_open := False\<rparr>
      | TypeQuery v \<Rightarrow> if pl_open s then s\<lparr>pl_query := debounce_render v (pl_query s)\<rparr> else s
      | TimerFires \<Rightarrow> s\<lparr>pl_query := debounce_fire (pl_query s)\<rparr>
      | RowsArrive k rows \<Rightarrow>
          if palette_search secs s k \<noteq> None then s\<lparr>pl_data := (pl_data s)(k := rows)\<rparr> else s
      | ArrowDown \<Rightarrow> if pl_open s then s\<lparr>pl_active := (if n = 0 then 0 else (pl_active s + 1) mod n)\<rparr> else s
      | ArrowUp \<Rightarrow> if pl_open s then s\<lparr>pl_active := (if n = 0 then 0 else (pl_active s - 1 + n) mod n)\<rparr> else s
      | PointAt i \<Rightarrow> if pl_open s \<and> int i < n then s\<lparr>pl_active := int i\<rparr> else s
      | EnterKey \<Rightarrow> if palette_runs secs isAdmin e s \<noteq> None then s\<lparr>pl_open := False\<rparr> else s
      | ClickRow i \<Rightarrow> if palette_runs secs isAdmin e s \<noteq> None then s\<lparr>pl_open := False\<rparr> else s)"

definition palette_step :: "nav_section list \<Rightarrow> bool \<Rightarrow> palette_event \<Rightarrow> palette \<Rightarrow> palette" where
  "palette_step secs isAdmin e s = palette_render (palette_handle secs isAdmin e s)"

section \<open>Shortcuts and theme\<close>

definition command_hotkey :: "string \<Rightarrow> bool \<Rightarrow> bool \<Rightarrow> bool" where
  "command_hotkey key meta ctrl \<longleftrightarrow> to_lower key = ''k'' \<and> (meta \<or> ctrl)"

text \<open>The element that has the focus, when it is one: its tag, and whether it is editable.\<close>

definition isTyping :: "(string \<times> bool) option \<Rightarrow> bool" where
  "isTyping target =
     (case target of
        None \<Rightarrow> False
      | Some (tag, editable) \<Rightarrow> tag = ''INPUT'' \<or> tag = ''TEXTAREA'' \<or> tag = ''SELECT'' \<or> editable)"

definition search_hotkey :: "string \<Rightarrow> bool \<Rightarrow> bool \<Rightarrow> bool \<Rightarrow> (string \<times> bool) option \<Rightarrow> bool" where
  "search_hotkey key meta ctrl alt target \<longleftrightarrow>
     \<not> (key \<noteq> ''/'' \<or> meta \<or> ctrl \<or> alt) \<and> \<not> isTyping target"

datatype theme = Light | Dark | System

fun theme_text :: "theme \<Rightarrow> string" where
  "theme_text Light = ''light''"
| "theme_text Dark = ''dark''"
| "theme_text System = ''system''"

text \<open>What the storage answers: it throws, it has nothing, or it has a text.\<close>

datatype storage_answer = StorageThrows | Stored "string option"

definition getStoredTheme :: "storage_answer \<Rightarrow> theme" where
  "getStoredTheme a =
     (case a of
        Stored (Some t) \<Rightarrow>
          if t = ''light'' then Light else if t = ''dark'' then Dark else if t = ''system'' then System else System
      | _ \<Rightarrow> System)"

text \<open>\<open>systemDark\<close> follows the preference of the operating system.\<close>

record theme_state =
  th_theme :: theme
  th_systemDark :: bool
  th_stored :: storage_answer

definition theme_mount :: "storage_answer \<Rightarrow> bool \<Rightarrow> theme_state" where
  "theme_mount stored dark = \<lparr>th_theme = getStoredTheme stored, th_systemDark = dark, th_stored = stored\<rparr>"

definition system_changed :: "bool \<Rightarrow> theme_state \<Rightarrow> theme_state" where
  "system_changed dark s = s\<lparr>th_systemDark := dark\<rparr>"

definition resolvedDark :: "theme_state \<Rightarrow> bool" where
  "resolvedDark s = (case th_theme s of System \<Rightarrow> th_systemDark s | Light \<Rightarrow> False | Dark \<Rightarrow> True)"

definition setTheme :: "theme \<Rightarrow> theme_state \<Rightarrow> theme_state" where
  "setTheme next s =
     s\<lparr>th_theme := next,
       th_stored := (case th_stored s of StorageThrows \<Rightarrow> StorageThrows | Stored _ \<Rightarrow> Stored (Some (theme_text next)))\<rparr>"

lemma theme_remembered:
  "th_stored s \<noteq> StorageThrows \<Longrightarrow> th_theme (theme_mount (th_stored (setTheme t s)) d) = t"
  "th_theme (setTheme t s) = t"
  by (cases t; simp add: theme_mount_def setTheme_def getStoredTheme_def split: storage_answer.splits)
     (simp add: setTheme_def)

section \<open>What the palette shows\<close>

lemma groups_block:
  "list_all (\<lambda>c. cmd_group c = g) cs \<Longrightarrow>
   groupsInOrder (cs @ ds) acc = groupsInOrder ds (if cs = [] \<or> g \<in> set acc then acc else acc @ [g])"
  by (induction cs arbitrary: acc) auto

text \<open>Commands in blocks, one for each heading.\<close>

definition in_blocks :: "(string \<times> command list) list \<Rightarrow> bool" where
  "in_blocks bs \<longleftrightarrow> distinct (map fst bs) \<and> list_all (\<lambda>(g, cs). list_all (\<lambda>c. cmd_group c = g) cs) bs"

lemma groups_of_blocks:
  assumes "in_blocks bs" and "set acc \<inter> fst ` set bs = {}"
  shows "groupsInOrder (concat (map snd bs)) acc = acc @ map fst (filter (\<lambda>(g, cs). cs \<noteq> []) bs)"
  using assms
proof (induction bs arbitrary: acc)
  case (Cons b bs)
  obtain g cs where b: "b = (g, cs)" by (cases b)
  let ?acc = "if cs = [] then acc else acc @ [g]"
  have "groupsInOrder (concat (map snd (b # bs))) acc = groupsInOrder (concat (map snd bs)) ?acc"
    using Cons.prems groups_block[of g cs] by (simp add: b in_blocks_def)
  also have "\<dots> = ?acc @ map fst (filter (\<lambda>(g, cs). cs \<noteq> []) bs)"
    using Cons.prems by (intro Cons.IH) (auto simp: b in_blocks_def)
  finally show ?case by (simp add: b)
qed simp

lemma block_of_heading:
  assumes "in_blocks bs" and "(g, cs) \<in> set bs"
  shows "filter (\<lambda>c. cmd_group c = g) (concat (map snd bs)) = cs"
  using assms
proof (induction bs)
  case (Cons b bs)
  obtain h ds where b: "b = (h, ds)" by (cases b)
  have other: "filter (\<lambda>c. cmd_group c = g) ds = []" if "h \<noteq> g"
    using Cons.prems that by (auto simp: b in_blocks_def list_all_iff filter_empty_conv)
  have none: "filter (\<lambda>c. cmd_group c = h) (concat (map snd bs)) = []"
    using Cons.prems(1) by (force simp: b in_blocks_def list_all_iff filter_empty_conv)
  show ?case
  proof (cases "h = g")
    case True
    then have "(g, cs) = (h, ds)" using Cons.prems by (force simp: b in_blocks_def)
    then show ?thesis using none Cons.prems(1) True
      by (simp add: b in_blocks_def list_all_iff filter_id_conv)
  next
    case False
    then show ?thesis using Cons other by (simp add: b in_blocks_def)
  qed
qed simp

lemma rows_of_blocks:
  assumes "in_blocks bs"
  shows "palette_rows (concat (map snd bs)) = concat (map snd bs)"
proof -
  let ?cs = "concat (map snd bs)" and ?full = "filter (\<lambda>(g, cs). cs \<noteq> []) bs"
  have "groupsInOrder ?cs [] = map fst ?full" using groups_of_blocks[OF assms, of "[]"] by simp
  then have "palette_rows ?cs = concat (map (\<lambda>g. filter (\<lambda>c. cmd_group c = g) ?cs) (map fst ?full))"
    by (simp only: palette_rows_def)
  also have "map (\<lambda>g. filter (\<lambda>c. cmd_group c = g) ?cs) (map fst ?full) = map snd ?full"
    using block_of_heading[OF assms] by auto
  also have "concat (map snd ?full) = ?cs"
    by (induction bs) auto
  finally show ?thesis .
qed

lemmas command_defs = user_command_def group_command_def netgroup_command_def sudo_command_def
  policy_command_def entry_command_def page_command_def

lemma go_heading: "c \<in> set (go_commands secs adm) \<Longrightarrow> cmd_group c = ''Go to''"
  by (auto simp: go_commands_def page_command_def split: if_splits)

lemma create_heading: "c \<in> set (create_commands secs) \<Longrightarrow> cmd_group c = ''Create''"
  by (auto simp: create_commands_def page_command_def List.map_filter_def)

lemma rows_in_order: "palette_rows (palette_commands secs adm data term) = palette_commands secs adm data term"
proof -
  let ?hit = "\<lambda>f k. if term \<noteq> '''' then map f (data k) else []"
  let ?act = "filter (\<lambda>a. \<not> term \<noteq> '''' \<or> str_includes (to_lower (cmd_label a)) (to_lower term))"
  let ?bs = "[(''Users'', ?hit user_command SecUsers), (''Groups'', ?hit group_command SecGroups),
    (''Netgroups'', ?hit netgroup_command SecNetgroups), (''Sudo roles'', ?hit sudo_command SecSudo),
    (''Password policies'', ?hit policy_command SecPolicies), (''Go to'', ?act (go_commands secs adm)),
    (''Create'', ?act (create_commands secs))]"
  have "in_blocks ?bs"
    by (auto simp: in_blocks_def list_all_iff command_defs go_heading create_heading)
  moreover have "concat (map snd ?bs) = palette_commands secs adm data term"
    by (simp add: palette_commands_def Let_def hit_commands_def)
  ultimately show ?thesis using rows_of_blocks by metis
qed

text \<open>Between two events: rendered, and rows only for sections the session has.\<close>

definition rendered :: "nav_section list \<Rightarrow> palette \<Rightarrow> bool" where
  "rendered secs s \<longleftrightarrow>
     0 \<le> pl_active s \<and> pl_lastOpen s = pl_open s \<and> pl_lastTerm s = pl_term s \<and>
     (\<forall>k. pl_data s k \<noteq> [] \<longrightarrow> k \<in> sec_key ` set secs)"

definition renderable :: "nav_section list \<Rightarrow> palette \<Rightarrow> bool" where
  "renderable secs s \<longleftrightarrow> 0 \<le> pl_active s \<and> (\<forall>k. pl_data s k \<noteq> [] \<longrightarrow> k \<in> sec_key ` set secs)"

lemma rendered_mount: "rendered secs palette_mount"
  by (simp add: rendered_def palette_mount_def pl_term_def debounce_mount_def trim_def)

lemma adjust_open_eq: "pl_open (adjust_open s) = pl_lastOpen (adjust_open s)" "pl_term (adjust_open s) = pl_term s"
  by (auto simp: adjust_open_def Let_def pl_term_def debounce_render_def)

lemma render_rendered: "renderable secs s \<Longrightarrow> rendered secs (palette_render s)"
  by (auto simp: renderable_def rendered_def palette_render_def adjust_term_def adjust_open_def Let_def
      pl_term_def debounce_render_def)

lemma handle_renderable:
  "rendered secs s \<Longrightarrow> renderable secs (palette_handle secs adm e s)"
  by (cases e) (auto simp: renderable_def rendered_def palette_handle_def Let_def palette_search_def
      list_ex_iff split: if_splits)

lemma steps_rendered: "rendered secs (fold (palette_step secs adm) es palette_mount)"
proof -
  have "rendered secs (fold (palette_step secs adm) es s)" if "rendered secs s" for s
    using that by (induction es arbitrary: s) (simp_all add: palette_step_def render_rendered handle_renderable)
  then show ?thesis using rendered_mount by blast
qed

lemma render_moved:
  "rendered secs s \<Longrightarrow> palette_render (s\<lparr>pl_active := i\<rparr>) = s\<lparr>pl_active := i\<rparr>"
  by (simp add: rendered_def palette_render_def adjust_open_def adjust_term_def pl_term_def)

lemma bounded_in_range:
  "0 \<le> pl_active s \<Longrightarrow> palette_list secs adm s \<noteq> [] \<Longrightarrow>
   0 \<le> boundedIndex secs adm s \<and> boundedIndex secs adm s < int (length (palette_list secs adm s))"
  by (cases "palette_list secs adm s") (auto simp: boundedIndex_def)

lemma moved_list: "palette_list secs adm (s\<lparr>pl_active := i\<rparr>) = palette_list secs adm s"
  by (simp add: palette_list_def pl_term_def)

lemma arrows:
  assumes "rendered secs s" and "pl_open s" and "pl_active s < int (length (palette_list secs adm s))"
  defines "n \<equiv> int (length (palette_list secs adm s))" and "b \<equiv> boundedIndex secs adm s"
  shows "boundedIndex secs adm (palette_step secs adm ArrowDown s) = (b + 1) mod n"
    and "boundedIndex secs adm (palette_step secs adm ArrowUp s) = (b - 1) mod n"
proof -
  have n: "0 < n" using assms by (auto simp: rendered_def)
  have b: "b = pl_active s" using assms by (auto simp: boundedIndex_def rendered_def)
  have m: "boundedIndex secs adm (s\<lparr>pl_active := i mod n\<rparr>) = i mod n" for i
    using n pos_mod_bound[of n i] pos_mod_sign[of n i] unfolding boundedIndex_def moved_list n_def[symmetric] by auto
  have "palette_step secs adm ArrowDown s = s\<lparr>pl_active := (b + 1) mod n\<rparr>"
    "palette_step secs adm ArrowUp s = s\<lparr>pl_active := (b - 1) mod n\<rparr>"
    using n assms(1,2) by (auto simp: palette_step_def palette_handle_def Let_def n_def[symmetric] b render_moved)
  then show "boundedIndex secs adm (palette_step secs adm ArrowDown s) = (b + 1) mod n"
    "boundedIndex secs adm (palette_step secs adm ArrowUp s) = (b - 1) mod n"
    using m by simp_all
qed

section \<open>Where the commands lead\<close>

lemma listed_module:
  assumes "k \<in> sec_key ` set (useSections ses info)" and "k \<noteq> SecAudit"
  shows "\<exists>m. moduleAvailable m info \<and> (k, m) \<in> {(SecUsers, MUsers), (SecGroups, MGroups), (SecSudo, MSudo),
    (SecNetgroups, MNetgroups), (SecPolicies, MPolicies)} \<and> (k = SecPolicies \<longrightarrow> hasPermission ses ''settings:read'')"
  using assms by (auto simp: useSections_def Let_def split: if_splits)

lemma detail_guards:
  "map_of route_guards ''/users/$dn'' = Some user_detail_guard"
  "map_of route_guards ''/groups/$dn'' = Some group_detail_guard"
  "map_of route_guards ''/netgroups/$dn'' = Some netgroup_detail_guard"
  "map_of route_guards ''/sudo-roles/$dn'' = Some sudo_detail_guard"
  "map_of route_guards ''/password-policies/$dn'' = Some policy_detail_guard"
  "map_of route_guards ''/'' = Some dashboard_guard"
  by (simp_all add: route_guards_def)

definition passes :: "session option \<Rightarrow> server_info option \<Rightarrow> string \<Rightarrow> bool" where
  "passes ses answer target \<longleftrightarrow> (\<exists>guard. map_of route_guards target = Some guard \<and> guard ses answer = Pass)"

lemma hits_pass:
  assumes data: "\<And>k. data k \<noteq> [] \<Longrightarrow> k \<in> sec_key ` set (useSections ses info)"
    and "ses \<noteq> None" and "answer = info \<or> answer = None" and c: "c \<in> set (hit_commands data)"
  shows "passes ses answer (cmd_to c)"
proof -
  have l: "require_login ses = Pass" using assms(2) by (simp add: require_login_def)
  have m: "\<And>m. moduleAvailable m info \<Longrightarrow> requireModule answer m = Pass"
    using assms(3) module_passes by blast
  have data: "\<And>k x. x \<in> set (data k) \<Longrightarrow> k \<in> sec_key ` set (useSections ses info)"
    using data by force
  from c consider x where "x \<in> set (data SecUsers)" "cmd_to c = ''/users/$dn''"
    | x where "x \<in> set (data SecGroups)" "cmd_to c = ''/groups/$dn''"
    | x where "x \<in> set (data SecNetgroups)" "cmd_to c = ''/netgroups/$dn''"
    | x where "x \<in> set (data SecSudo)" "cmd_to c = ''/sudo-roles/$dn''"
    | x where "x \<in> set (data SecPolicies)" "cmd_to c = ''/password-policies/$dn''"
    by (auto simp: hit_commands_def command_defs)
  then show ?thesis
    by cases (drule data, drule listed_module, simp,
      auto simp: passes_def detail_guards guard_defs and_then_Pass l m require_permission_def)+
qed

lemma section_links_members:
  "sec_to s \<in> set (section_links s)"
  "sec_create s = Some a \<Longrightarrow> act_to a \<in> set (section_links s)"
  "sec_import s = Some a \<Longrightarrow> act_to a \<in> set (section_links s)"
  by (auto simp: section_links_def)

lemma actions_pass:
  assumes "ses \<noteq> None" and "answer = info \<or> answer = None"
    and "c \<in> set (go_commands (useSections ses info) (useIsAdmin ses) @ create_commands (useSections ses info))"
  shows "passes ses answer (cmd_to c)"
proof -
  have link: "passes ses answer t" if "s \<in> set (useSections ses info)" "t \<in> set (section_links s)" for s t
    using section_guard_passes[OF that assms(2)] by (simp add: passes_def)
  from assms(3) consider "cmd_to c = ''/''" | "cmd_to c = ''/admin''" "useIsAdmin ses"
    | x where "x \<in> set (useSections ses info)" "cmd_to c = sec_to x"
    | x a where "x \<in> set (useSections ses info)" "sec_create x = Some a" "cmd_to c = act_to a"
    | x a where "x \<in> set (useSections ses info)" "sec_import x = Some a" "cmd_to c = act_to a"
    by (auto simp: go_commands_def create_commands_def page_command_def List.map_filter_def split: if_splits)
  then show ?thesis
  proof cases
    case 1
    then show ?thesis using assms(1)
      by (simp add: passes_def detail_guards guard_defs require_login_def)
  next
    case 2
    then show ?thesis using assms(1)
      by (simp add: passes_def guard_defs and_then_Pass require_login_def useIsAdmin_def)
  qed (use link section_links_members in metis)+
qed

text \<open>
  C36: The command palette. After any events: the rows are shown in the order the arrow keys walk
  them; the highlighted row exists whenever there is a row; from a highlight in range, an arrow moves
  to the next or the previous row, around the ends; an event runs a command only while the palette is
  open, the command is one of the rows, and its route's guard lets the session through; and running
  one closes the palette.
\<close>

theorem palette_in_step:
  assumes "ses \<noteq> None" and "answer = info \<or> answer = None"
  shows "let secs = useSections ses info; adm = useIsAdmin ses;
             s = fold (palette_step secs adm) es palette_mount; cs = palette_list secs adm s;
             n = int (length cs); b = boundedIndex secs adm s in
    palette_rows cs = cs \<and>
    (cs \<noteq> [] \<longrightarrow> 0 \<le> b \<and> b < n) \<and>
    (pl_open s \<and> pl_active s < n \<longrightarrow>
       boundedIndex secs adm (palette_step secs adm ArrowDown s) = (b + 1) mod n \<and>
       boundedIndex secs adm (palette_step secs adm ArrowUp s) = (b - 1) mod n) \<and>
    (\<forall>e c. palette_runs secs adm e s = Some c \<longrightarrow>
       pl_open s \<and> c \<in> set cs \<and> passes ses answer (cmd_to c) \<and> \<not> pl_open (palette_step secs adm e s))"
proof -
  define secs where "secs = useSections ses info"
  define adm where "adm = useIsAdmin ses"
  define s where "s = fold (palette_step secs adm) es palette_mount"
  have r: "rendered secs s" unfolding s_def by (rule steps_rendered)
  have mem: "pl_open s \<and> c \<in> set (palette_list secs adm s) \<and> \<not> pl_open (palette_step secs adm e s)"
    if "palette_runs secs adm e s = Some c" for e c
  proof -
    have "pl_open s \<and> c \<in> set (palette_list secs adm s)"
      using that by (auto simp: palette_runs_def Let_def split: if_splits palette_event.splits)
    moreover have "palette_handle secs adm e s = s\<lparr>pl_open := False\<rparr>"
      using that by (cases e) (simp_all add: palette_handle_def palette_runs_def Let_def split: if_splits)
    ultimately show ?thesis
      by (simp add: palette_step_def palette_render_def adjust_term_def adjust_open_def Let_def)
  qed
  have go: "passes ses answer (cmd_to c)" if "c \<in> set (palette_list secs adm s)" for c
  proof -
    have "c \<in> set (hit_commands (pl_data s)) \<or> c \<in> set (go_commands secs adm @ create_commands secs)"
      using that by (auto simp: palette_list_def palette_commands_def Let_def split: if_splits)
    then show ?thesis
      using hits_pass[OF _ assms, of "pl_data s"] actions_pass[OF assms] r
      unfolding rendered_def secs_def adm_def by blast
  qed
  show ?thesis
    unfolding Let_def secs_def[symmetric] adm_def[symmetric] s_def[symmetric]
    using mem go arrows[OF r] bounded_in_range[of s secs adm] r rows_in_order
    by (auto simp: rendered_def palette_list_def)
qed

lemma palette_in_step_witness:
  "palette_runs (useSections (Some sample_session) None) (useIsAdmin (Some sample_session)) EnterKey
       (fold (palette_step (useSections (Some sample_session) None) (useIsAdmin (Some sample_session))) [Toggle] palette_mount) =
     Some (page_command ''go:dashboard'' ''Dashboard'' ''Go to'' ''/'') \<and>
   passes (Some sample_session) None ''/''"
proof -
  have r: "palette_runs (useSections (Some sample_session) None) (useIsAdmin (Some sample_session)) EnterKey
       (fold (palette_step (useSections (Some sample_session) None) (useIsAdmin (Some sample_session))) [Toggle] palette_mount) =
     Some (page_command ''go:dashboard'' ''Dashboard'' ''Go to'' ''/'')"
    by code_simp
  have "passes (Some sample_session) None (cmd_to (page_command ''go:dashboard'' ''Dashboard'' ''Go to'' ''/''))"
    using palette_in_step[of "Some sample_session" None None "[Toggle]"] r by (simp only: Let_def) blast
  with r show ?thesis by (simp add: page_command_def)
qed

text \<open>
  The arrows move from the index, not from the bounded one: when the rows become fewer than the
  index, the highlight is on the last row, but the next arrow jumps elsewhere.
\<close>

lemma arrow_jumps:
  assumes "rendered secs s" and "pl_open s" and "length (palette_list secs adm s) = 3" and "pl_active s = 4"
  shows "boundedIndex secs adm s = 2"
    and "boundedIndex secs adm (palette_step secs adm ArrowUp s) = 0"
    and "boundedIndex secs adm (palette_step secs adm ArrowDown s) = 2"
  using assms
  by (simp_all add: boundedIndex_def palette_step_def palette_handle_def Let_def render_moved moved_list)

text \<open>
  A palette that opens again has an empty query, but still the term of last time until the timer
  fires: it lists the old matches, and the first of them is what Enter runs.
\<close>

lemma reopened_stale:
  assumes "rendered secs s" and "\<not> pl_open s"
  shows "db_value (pl_query (palette_step secs adm Toggle s)) = ''''"
    and "pl_term (palette_step secs adm Toggle s) = pl_term s"
    and "palette_list secs adm (palette_step secs adm Toggle s) = palette_list secs adm s"
  using assms
  by (auto simp: rendered_def palette_step_def palette_handle_def palette_render_def adjust_open_def
      adjust_term_def palette_list_def pl_term_def debounce_render_def Let_def)

end
