(* ===== verification/Create_Forms.thy ===== *)
theory Create_Forms
  imports Detail_Pages
begin

text \<open>
  Creating users and groups (\<open>routes/users/new.tsx\<close>, \<open>routes/groups/new.tsx\<close>), and the forms of
  password policies (\<open>routes/password-policies/new.tsx\<close>, \<open>routes/password-policies/$dn.tsx\<close>): the
  first values, the edits, and the request a save makes. The browser submits a form only when its
  required fields are filled; the order of names is the browser's \<open>localeCompare\<close>.
\<close>

section \<open>A new user\<close>

definition PRIMARY_GROUP_OPTIONS_LIMIT :: int where
  "PRIMARY_GROUP_OPTIONS_LIMIT = 200"

text \<open>What the form uses of a listed group.\<close>

record group_option =
  go_cn :: string
  go_gid :: int

record new_user =
  nu_fields :: text_form
  nu_primary :: string
  nu_groups :: "string list"

definition new_user_fields :: text_form where
  "new_user_fields = map (\<lambda>k. (k, if k = ''loginShell'' then ''/bin/bash'' else ''''))
     [''uid'', ''givenName'', ''sn'', ''cn'', ''displayName'', ''mail'', ''telephoneNumber'', ''title'',
      ''departmentNumber'', ''o'', ''employeeType'', ''uidNumber'', ''homeDirectory'', ''loginShell'',
      ''description'', ''expirationDate'', ''password'']"

definition new_user_start :: new_user where
  "new_user_start = \<lparr>nu_fields = new_user_fields, nu_primary = '''', nu_groups = []\<rparr>"

definition primaryGroupOptions :: "(group_option list \<Rightarrow> group_option list) \<Rightarrow> string \<Rightarrow> group_option list \<Rightarrow> (string \<times> string) list" where
  "primaryGroupOptions locale_sort dash groups =
     ('''', ''None '' @ dash @ '' create new group'')
     # map (\<lambda>g. (go_cn g, go_cn g @ '' ('' @ int_str (go_gid g) @ '')'')) (locale_sort groups)"

definition groupsNotListed :: "int \<Rightarrow> group_option list \<Rightarrow> int" where
  "groupsNotListed n groups = max 0 (n - int (length groups))"

definition resolvedGidNumber :: "group_option list \<Rightarrow> string \<Rightarrow> int" where
  "resolvedGidNumber groups primary =
     (if primary \<noteq> '''' then
        (case List.find (\<lambda>g. go_cn g = primary) groups of Some g \<Rightarrow> go_gid g | None \<Rightarrow> 0)
      else 0)"

text \<open>\<open>formData.k\<close>, and \<open>formData.k || undefined\<close>.\<close>

definition fld :: "text_form \<Rightarrow> string \<Rightarrow> string" where
  "fld f k = coalesce (map_of f k) ''''"

definition fld_opt :: "text_form \<Rightarrow> string \<Rightarrow> json option" where
  "fld_opt f k = (if fld f k \<noteq> '''' then Some (JStr (fld f k)) else None)"

text \<open>\<open>x === '''' ? 0 : parseInt(x)\<close>; \<open>NaN\<close> is written as \<open>null\<close>.\<close>

definition number_or_auto :: "string \<Rightarrow> json" where
  "number_or_auto v =
     (if v = '''' then JNum 0 else case parse_int v of None \<Rightarrow> JNull | Some n \<Rightarrow> JNum (of_int n))"

definition full_name :: "text_form \<Rightarrow> string" where
  "full_name f = fld f ''givenName'' @ '' '' @ fld f ''sn''"

definition new_user_body :: "group_option list \<Rightarrow> new_user \<Rightarrow> (string \<times> json option) list" where
  "new_user_body groups s =
     (let f = nu_fields s in
      [(''uid'', Some (JStr (fld f ''uid''))),
       (''givenName'', Some (JStr (fld f ''givenName''))),
       (''sn'', Some (JStr (fld f ''sn''))),
       (''cn'', Some (JStr (if fld f ''cn'' \<noteq> '''' then fld f ''cn'' else full_name f))),
       (''displayName'', Some (JStr (if fld f ''displayName'' \<noteq> '''' then fld f ''displayName'' else full_name f))),
       (''mail'', fld_opt f ''mail''),
       (''telephoneNumber'', fld_opt f ''telephoneNumber''),
       (''title'', fld_opt f ''title''),
       (''departmentNumber'', fld_opt f ''departmentNumber''),
       (''o'', fld_opt f ''o''),
       (''employeeType'', fld_opt f ''employeeType''),
       (''uidNumber'', Some (number_or_auto (fld f ''uidNumber''))),
       (''gidNumber'', Some (JNum (of_int (resolvedGidNumber groups (nu_primary s))))),
       (''homeDirectory'', Some (JStr (if fld f ''homeDirectory'' \<noteq> '''' then fld f ''homeDirectory''
                                     else ''/home/'' @ fld f ''uid''))),
       (''loginShell'', Some (JStr (fld f ''loginShell''))),
       (''description'', fld_opt f ''description''),
       (''password'', fld_opt f ''password''),
       (''groups'', if 0 < length (nu_groups s) then Some (of_list JStr (nu_groups s)) else None),
       (''createPrimaryGroup'', if nu_primary s = '''' then Some (JBool True) else None),
       (''expirationDate'', fld_opt f ''expirationDate'')])"

definition create_user :: "group_option list \<Rightarrow> new_user \<Rightarrow> string \<Rightarrow> mutation" where
  "create_user groups s new_dn =
     \<lparr>mu_request = users_create (jobj (new_user_body groups s)),
      mu_success = [Refresh [''users''], Refresh [''groups''], Toasted (ToastSuccess ''User created successfully''),
        Went ''/users/$dn'' (Some (encodeDN (units_of new_dn)))]\<rparr>"

text \<open>The number shown in the field: what was typed, or the next free one.\<close>

definition shown_number :: "string \<Rightarrow> int option \<Rightarrow> string" where
  "shown_number typed next_id = (if typed \<noteq> '''' then typed else (case next_id of Some n \<Rightarrow> int_str n | None \<Rightarrow> ''''))"

text \<open>The required fields of the form are filled.\<close>

definition user_form_complete :: "int option \<Rightarrow> new_user \<Rightarrow> bool" where
  "user_form_complete next_uid s \<longleftrightarrow>
     fld (nu_fields s) ''uid'' \<noteq> '''' \<and> fld (nu_fields s) ''givenName'' \<noteq> '''' \<and> fld (nu_fields s) ''sn'' \<noteq> '''' \<and>
     shown_number (fld (nu_fields s) ''uidNumber'') next_uid \<noteq> ''''"

datatype new_user_edit =
    EditField string string
  | AutoNumber
  | ChoosePrimary string
  | PickGroup string
  | DropGroup string

definition new_user_step :: "new_user_edit \<Rightarrow> new_user \<Rightarrow> new_user" where
  "new_user_step e s =
     (case e of
        EditField k v \<Rightarrow> s\<lparr>nu_fields := edit_field k v (nu_fields s)\<rparr>
      | AutoNumber \<Rightarrow> s\<lparr>nu_fields := edit_field ''uidNumber'' '''' (nu_fields s)\<rparr>
      | ChoosePrimary cn \<Rightarrow> s\<lparr>nu_primary := cn\<rparr>
      | PickGroup cn \<Rightarrow> s\<lparr>nu_groups := nu_groups s @ [cn]\<rparr>
      | DropGroup cn \<Rightarrow> s\<lparr>nu_groups := filter (\<lambda>g. g \<noteq> cn) (nu_groups s)\<rparr>)"

text \<open>The candidates offered: those not picked yet.\<close>

definition availableGroups :: "string list \<Rightarrow> new_user \<Rightarrow> string list" where
  "availableGroups items s = filter (\<lambda>g. g \<notin> set (nu_groups s)) items"

section \<open>A new group\<close>

definition new_group_fields :: text_form where
  "new_group_fields = [(''cn'', ''''), (''gidNumber'', ''''), (''description'', '''')]"

definition create_group :: "text_form \<Rightarrow> string \<Rightarrow> mutation" where
  "create_group f new_dn =
     \<lparr>mu_request = groups_create (jobj [
        (''cn'', Some (JStr (fld f ''cn''))),
        (''gidNumber'', Some (number_or_auto (fld f ''gidNumber''))),
        (''description'', fld_opt f ''description'')]),
      mu_success = [Refresh [''groups''], Toasted (ToastSuccess ''Group created successfully''),
        Went ''/groups/$dn'' (Some (encodeDN (units_of new_dn)))]\<rparr>"

section \<open>Password policies\<close>

datatype policy_number = MinAge | MaxAge | InHistory | CheckQuality | MinLength | ExpireWarning
  | GraceAuthNLimit | LockoutDuration | MaxFailure | FailureCountInterval

datatype policy_flag = Lockout | MustChange | AllowUserChange | SafeModify

definition number_key :: "policy_number \<Rightarrow> string" where
  "number_key n = (case n of
     MinAge \<Rightarrow> ''pwdMinAge'' | MaxAge \<Rightarrow> ''pwdMaxAge'' | InHistory \<Rightarrow> ''pwdInHistory''
   | CheckQuality \<Rightarrow> ''pwdCheckQuality'' | MinLength \<Rightarrow> ''pwdMinLength'' | ExpireWarning \<Rightarrow> ''pwdExpireWarning''
   | GraceAuthNLimit \<Rightarrow> ''pwdGraceAuthNLimit'' | LockoutDuration \<Rightarrow> ''pwdLockoutDuration''
   | MaxFailure \<Rightarrow> ''pwdMaxFailure'' | FailureCountInterval \<Rightarrow> ''pwdFailureCountInterval'')"

definition flag_key :: "policy_flag \<Rightarrow> string" where
  "flag_key b = (case b of Lockout \<Rightarrow> ''pwdLockout'' | MustChange \<Rightarrow> ''pwdMustChange''
     | AllowUserChange \<Rightarrow> ''pwdAllowUserChange'' | SafeModify \<Rightarrow> ''pwdSafeModify'')"

record policy_form =
  pf_description :: string
  pf_attribute :: string
  pf_number :: "policy_number \<Rightarrow> int"
  pf_flag :: "policy_flag \<Rightarrow> bool"
  pf_checkModule :: string

definition new_policy_form :: policy_form where
  "new_policy_form =
     \<lparr>pf_description = '''', pf_attribute = ''userPassword'',
      pf_number = (\<lambda>n. case n of MinLength \<Rightarrow> 8 | MaxFailure \<Rightarrow> 5 | _ \<Rightarrow> 0),
      pf_flag = (\<lambda>b. b = AllowUserChange), pf_checkModule = ''''\<rparr>"

text \<open>The entry a policy is read from.\<close>

definition policy_server_form :: "entry \<Rightarrow> policy_form" where
  "policy_server_form p =
     \<lparr>pf_description = coalesce (str_opt p ''description'') '''',
      pf_attribute = (let a = coalesce (str_opt p ''pwdAttribute'') '''' in if a \<noteq> '''' then a else ''userPassword''),
      pf_number = (\<lambda>n. coalesce (int_opt p (number_key n)) 0),
      pf_flag = (\<lambda>b. coalesce (bool_opt p (flag_key b)) (b = AllowUserChange)),
      pf_checkModule = coalesce (str_opt p ''pwdCheckModule'') ''''\<rparr>"

definition set_number_field :: "policy_number \<Rightarrow> string \<Rightarrow> policy_form \<Rightarrow> policy_form" where
  "set_number_field n v f = f\<lparr>pf_number := (pf_number f)(n := int_or_zero v)\<rparr>"

definition set_flag_field :: "policy_flag \<Rightarrow> bool \<Rightarrow> policy_form \<Rightarrow> policy_form" where
  "set_flag_field b v f = f\<lparr>pf_flag := (pf_flag f)(b := v)\<rparr>"

text \<open>The fields of the literal, in its order.\<close>

definition policy_fields :: "policy_form \<Rightarrow> entry" where
  "policy_fields f =
     (let num = (\<lambda>n. (number_key n, JNum (of_int (pf_number f n))));
          flag = (\<lambda>b. (flag_key b, JBool (pf_flag f b)))
      in [(''description'', JStr (pf_description f)), (''pwdAttribute'', JStr (pf_attribute f)),
          num MinAge, num MaxAge, num InHistory, num CheckQuality, num MinLength, num ExpireWarning,
          num GraceAuthNLimit, flag Lockout, num LockoutDuration, num MaxFailure, num FailureCountInterval,
          flag MustChange, flag AllowUserChange, flag SafeModify,
          (''pwdCheckModule'', JStr (pf_checkModule f))])"

definition update_policy :: "string \<Rightarrow> policy_form \<Rightarrow> mutation" where
  "update_policy dn f =
     done_with (passwordPolicies_update dn (JObj (policy_fields f)))
       [[''password-policy'', dn], [''password-policies'']] ''Password policy updated''"

definition delete_policy :: "string \<Rightarrow> string option \<Rightarrow> string list \<Rightarrow> mutation" where
  "delete_policy dn cn warnings =
     \<lparr>mu_request = passwordPolicies_delete dn,
      mu_success = [Refresh [''password-policies''], Refresh [''users''],
        Toasted (ToastSuccess ''Password policy deleted''),
        left_behind (''Policy '' @ coalesce cn '''' @ '' deleted: references left behind'') warnings,
        Went ''/password-policies'' None]\<rparr>"

text \<open>\<open>handleSubmit\<close> of the create page: an error toast, or the creation.\<close>

definition submit_policy :: "string \<Rightarrow> policy_form \<Rightarrow> string \<Rightarrow> (toast, mutation) result" where
  "submit_policy cn f new_dn =
     (if trim cn = '''' then Inl (ToastError ''Policy name is required'')
      else Inr \<lparr>mu_request = passwordPolicies_create (JObj ((''cn'', JStr cn) # policy_fields f)),
        mu_success = [Refresh [''password-policies''], Toasted (ToastSuccess ''Password policy created''),
          Went ''/password-policies/$dn'' (Some (encodeDN (units_of new_dn)))]\<rparr>)"

text \<open>The fields under the lockout switch are shown while it is on.\<close>

definition lockout_fields_shown :: "policy_form \<Rightarrow> policy_number list" where
  "lockout_fields_shown f =
     (if pf_flag f Lockout then [MaxFailure, LockoutDuration, FailureCountInterval] else [])"

section \<open>What is sent\<close>

lemma policy_fields_read [simp]:
  "str_opt (policy_fields f) ''description'' = Some (pf_description f)"
  "str_opt (policy_fields f) ''pwdAttribute'' = Some (pf_attribute f)"
  "str_opt (policy_fields f) ''pwdCheckModule'' = Some (pf_checkModule f)"
  by (simp_all add: policy_fields_def str_opt_def Let_def number_key_def flag_key_def)

lemma policy_numbers_read [simp]: "int_opt (policy_fields f) (number_key n) = Some (pf_number f n)"
  by (cases n) (simp_all add: policy_fields_def int_opt_def num_opt_def Let_def number_key_def flag_key_def)

lemma policy_flags_read [simp]: "bool_opt (policy_fields f) (flag_key b) = Some (pf_flag f b)"
  by (cases b) (simp_all add: policy_fields_def bool_opt_def Let_def number_key_def flag_key_def)

lemma reread_policy:
  "policy_server_form (policy_fields f) =
     f\<lparr>pf_attribute := if pf_attribute f = '''' then ''userPassword'' else pf_attribute f\<rparr>"
  by (cases f) (simp add: policy_server_form_def Let_def fun_eq_iff)

text \<open>
  C38: What a save of a policy form writes is what the form shows when the saved policy is read back, field for
  field and whatever was typed, but for an emptied attribute name, which reads back as \<open>userPassword\<close>; and a form
  filled from the server is written back as it was. (The server is taken to return the fields it was sent.)
\<close>

theorem policy_form_roundtrip:
  "policy_server_form (policy_fields f) =
     f\<lparr>pf_attribute := if pf_attribute f = '''' then ''userPassword'' else pf_attribute f\<rparr> \<and>
   policy_server_form (policy_fields (policy_server_form e)) = policy_server_form e"
proof (intro conjI)
  have "pf_attribute (policy_server_form e) \<noteq> ''''"
    by (simp add: policy_server_form_def Let_def)
  then show "policy_server_form (policy_fields (policy_server_form e)) = policy_server_form e"
    by (simp add: reread_policy)
qed (rule reread_policy)

text \<open>A fresh policy form hides the numbers of a lockout that is off.\<close>

lemma new_policy_hides_lockout: "lockout_fields_shown new_policy_form = []"
  by (simp add: lockout_fields_shown_def new_policy_form_def)

text \<open>A policy is never created with a blank name; otherwise the request carries the name and every field.\<close>

lemma submit_policy_guard:
  "(\<exists>t. submit_policy cn f d = Inl t) \<longleftrightarrow> trim cn = ''''"
  "submit_policy cn f d = Inr m \<Longrightarrow>
     mu_request m = passwordPolicies_create (JObj ((''cn'', JStr cn) # policy_fields f))"
  by (auto simp: submit_policy_def split: if_splits)

text \<open>Editing one number leaves every other field.\<close>

lemma set_number_field_reads:
  "pf_number (set_number_field n v f) m = (if m = n then int_or_zero v else pf_number f m)"
  "pf_flag (set_number_field n v f) = pf_flag f"
  "pf_attribute (set_number_field n v f) = pf_attribute f"
  by (simp_all add: set_number_field_def)

lemma new_user_body_reads:
  "map_of (present (new_user_body groups s)) ''gidNumber'' = Some (JNum (of_int (resolvedGidNumber groups (nu_primary s))))"
  "map_of (present (new_user_body groups s)) ''createPrimaryGroup'' = (if nu_primary s = '''' then Some (JBool True) else None)"
  "map_of (present (new_user_body groups s)) ''uidNumber'' = Some (number_or_auto (fld (nu_fields s) ''uidNumber''))"
  "map_of (present (new_user_body groups s)) ''groups'' = (if nu_groups s = [] then None else Some (of_list JStr (nu_groups s)))"
  "map_of (present (new_user_body groups s)) ''password'' = fld_opt (nu_fields s) ''password''"
  by (subst map_of_present; simp add: new_user_body_def Let_def)+

text \<open>
  The new account gets a group of its own or the chosen one: when no primary group is chosen the
  server is asked to create one and to allocate both numbers; when one is chosen and still listed its
  own number is sent. A chosen group that has left the options sends neither.
\<close>

lemma new_user_primary:
  "nu_primary s = '''' \<Longrightarrow> map_of (present (new_user_body groups s)) ''gidNumber'' = Some (JNum 0)
     \<and> map_of (present (new_user_body groups s)) ''createPrimaryGroup'' = Some (JBool True)"
  "nu_primary s = go_cn g \<Longrightarrow> go_cn g \<noteq> '''' \<Longrightarrow> g \<in> set groups \<Longrightarrow> distinct (map go_cn groups) \<Longrightarrow>
     map_of (present (new_user_body groups s)) ''gidNumber'' = Some (JNum (of_int (go_gid g)))"
  "nu_primary s \<noteq> '''' \<Longrightarrow> nu_primary s \<notin> go_cn ` set groups \<Longrightarrow>
     map_of (present (new_user_body groups s)) ''gidNumber'' = Some (JNum 0)
     \<and> map_of (present (new_user_body groups s)) ''createPrimaryGroup'' = None"
proof -
  assume a: "nu_primary s = go_cn g" "go_cn g \<noteq> ''''" "g \<in> set groups" "distinct (map go_cn groups)"
  have "List.find (\<lambda>h. go_cn h = go_cn g) groups = Some g"
    using a(3,4) by (induction groups) (auto simp: image_iff)
  then show "map_of (present (new_user_body groups s)) ''gidNumber'' = Some (JNum (of_int (go_gid g)))"
    using a by (simp add: new_user_body_reads resolvedGidNumber_def)
next
  assume a: "nu_primary s \<noteq> ''''" "nu_primary s \<notin> go_cn ` set groups"
  then have "List.find (\<lambda>h. go_cn h = nu_primary s) groups = None" by (force simp: find_eq_None)
  then show "map_of (present (new_user_body groups s)) ''gidNumber'' = Some (JNum 0)
     \<and> map_of (present (new_user_body groups s)) ''createPrimaryGroup'' = None"
    using a by (simp add: new_user_body_reads resolvedGidNumber_def)
qed (simp add: new_user_body_reads resolvedGidNumber_def)

text \<open>Groups are picked from the candidates offered, so none is sent twice.\<close>

lemma new_user_groups_distinct:
  assumes "distinct (nu_groups s)" and "\<And>cn. e = PickGroup cn \<Longrightarrow> cn \<in> set (availableGroups items s)"
  shows "distinct (nu_groups (new_user_step e s))"
  using assms by (cases e) (auto simp: new_user_step_def availableGroups_def)

text \<open>
  A number field accepts the notation \<open>1e3\<close>, of which \<open>parseInt\<close> reads the first digit: the account
  is created with number 1.
\<close>

lemma exponent_truncated: "number_or_auto ''1e3'' = JNum 1"
  by code_simp

end
