(* ===== verification/Ui_Parts.thy ===== *)
theory Ui_Parts
  imports List_Page Form_Sync
begin

text \<open>
  The parts the pages are built from (\<open>components/ui\<close>, \<open>components/form-actions.tsx\<close>): what a form
  offers as a list of controls, the Save and Discard buttons, the confirmation dialog, the keyboard of
  a tab list, the pages of a list, a sortable header, the drop target for a picture. Styles, icons and
  help texts are left out.
\<close>

section \<open>Controls\<close>

datatype input_kind = TextIn | NumberIn | EmailIn | AreaIn | DateIn | PasswordIn | SwitchIn | PickerIn
  | SelectIn "(string \<times> string) list"

text \<open>
  What a page offers: an input that edits a field of the form (field, label, kind, placeholder,
  enabled), an input that is always disabled (label, value), a button (its text or its
  \<open>aria-label\<close>, enabled), a button that changes nothing stored (copying, opening), a link (text and
  target), a text, or the note that the page is read-only.
\<close>

datatype control =
    Edits string string input_kind string bool
  | Shows string string
  | Presses string bool
  | Reads string
  | Links string string
  | Says string
  | ReadOnlyNotice

text \<open>The operator can change something with it.\<close>

fun writable :: "control \<Rightarrow> bool" where
  "writable (Edits k l i p e) = e"
| "writable (Presses l e) = e"
| "writable _ = False"

fun edits_field :: "control \<Rightarrow> string option" where
  "edits_field (Edits k l i p e) = Some k"
| "edits_field _ = None"

definition edited_fields :: "control list \<Rightarrow> string list" where
  "edited_fields cs = List.map_filter edits_field cs"

definition read_only :: "control list \<Rightarrow> bool" where
  "read_only cs \<longleftrightarrow> list_all (\<lambda>c. \<not> writable c) cs"

lemma edited_fields_simps [simp]:
  "edited_fields [] = []"
  "edited_fields (c # cs) = (case edits_field c of Some k \<Rightarrow> k # edited_fields cs | None \<Rightarrow> edited_fields cs)"
  "edited_fields (cs @ ds) = edited_fields cs @ edited_fields ds"
  by (simp_all add: edited_fields_def map_filter_def split: option.split)

lemma read_only_simps [simp]:
  "read_only []"
  "read_only (c # cs) \<longleftrightarrow> \<not> writable c \<and> read_only cs"
  "read_only (cs @ ds) \<longleftrightarrow> read_only cs \<and> read_only ds"
  by (simp_all add: read_only_def)

lemma read_only_map [simp]: "read_only (map f xs) \<longleftrightarrow> (\<forall>x \<in> set xs. \<not> writable (f x))"
  by (simp add: read_only_def list_all_iff)

lemma read_only_concat [simp]: "read_only (concat css) \<longleftrightarrow> (\<forall>cs \<in> set css. read_only cs)"
  by (simp add: read_only_def list_all_iff)

lemma edited_fields_concat: "edited_fields (concat css) = concat (map edited_fields css)"
  by (induction css) simp_all

section \<open>Save and discard\<close>

definition FormActions :: "bool \<Rightarrow> bool \<Rightarrow> bool \<Rightarrow> control list \<Rightarrow> control list" where
  "FormActions dirty pending canDiscard children =
     children
     @ (if canDiscard \<and> dirty then [Presses ''Discard'' (\<not> pending)] else [])
     @ [Presses (if pending then ''Saving...'' else ''Save Changes'') (dirty \<and> \<not> pending)]"

definition save_title :: "bool \<Rightarrow> bool \<Rightarrow> string option" where
  "save_title dirty pending = (if \<not> dirty \<and> \<not> pending then Some ''No changes to save'' else None)"

lemma edited_FormActions [simp]: "edited_fields (FormActions d p c cs) = edited_fields cs"
  by (simp add: FormActions_def)

text \<open>Nothing can be saved or discarded while the form is clean or its save is on the way.\<close>

lemma read_only_FormActions: "read_only cs \<Longrightarrow> read_only (FormActions d p c cs) \<longleftrightarrow> \<not> d \<or> p"
  by (auto simp: FormActions_def)

section \<open>Lists of values\<close>

definition MultiValueField :: "string list \<Rightarrow> bool \<Rightarrow> string \<Rightarrow> string option \<Rightarrow> control list" where
  "MultiValueField values canWrite none label =
     (if length values = 0 then [Says none]
      else concat (map (\<lambda>value. Says value #
        (if canWrite then [Presses (case label of
             Some l \<Rightarrow> if l \<noteq> '''' then ''Remove '' @ l @ '' '' @ value else ''Remove '' @ value
           | None \<Rightarrow> ''Remove '' @ value) True] else [])) values))"

lemma read_only_MultiValueField [simp]: "read_only (MultiValueField vs False e l)"
  by (simp add: MultiValueField_def)

lemma edited_MultiValueField [simp]: "edited_fields (MultiValueField vs w e l) = []"
  by (simp add: MultiValueField_def edited_fields_concat comp_def)

section \<open>The confirmation dialog\<close>

text \<open>The text typed, and whether the dialog is open, which the page controls.\<close>

record confirm_dialog =
  cd_open :: bool
  cd_typed :: string

definition confirm_mount :: confirm_dialog where
  "confirm_mount = \<lparr>cd_open = False, cd_typed = ''''\<rparr>"

definition confirmed :: "string option \<Rightarrow> confirm_dialog \<Rightarrow> bool" where
  "confirmed confirmText s \<longleftrightarrow> confirmText = None \<or> Some (cd_typed s) = confirmText"

text \<open>\<open>handleOpenChange\<close>; the page follows with its own state.\<close>

definition handleOpenChange :: "bool \<Rightarrow> confirm_dialog \<Rightarrow> confirm_dialog" where
  "handleOpenChange next s = s\<lparr>cd_typed := (if \<not> next then '''' else cd_typed s), cd_open := next\<rparr>"

text \<open>The page shows or hides the dialog without going through it.\<close>

definition page_sets_open :: "bool \<Rightarrow> confirm_dialog \<Rightarrow> confirm_dialog" where
  "page_sets_open b s = s\<lparr>cd_open := b\<rparr>"

datatype confirm_event =
    CfOpenChange bool
  | CfPage bool
  | CfType string
  | CfEnter bool \<comment> \<open>with the state of \<open>isPending\<close>\<close>
  | CfClick bool

definition confirm_step :: "string option \<Rightarrow> confirm_event \<Rightarrow> confirm_dialog \<Rightarrow> confirm_dialog" where
  "confirm_step confirmText e s =
     (case e of
        CfOpenChange b \<Rightarrow> handleOpenChange b s
      | CfPage b \<Rightarrow> page_sets_open b s
      | CfType t \<Rightarrow> if cd_open s \<and> confirmText \<noteq> None then s\<lparr>cd_typed := t\<rparr> else s
      | _ \<Rightarrow> s)"

text \<open>\<open>onConfirm\<close> is called.\<close>

definition confirm_fires :: "string option \<Rightarrow> confirm_event \<Rightarrow> confirm_dialog \<Rightarrow> bool" where
  "confirm_fires confirmText e s \<longleftrightarrow> cd_open s \<and>
     (case e of
        CfEnter pending \<Rightarrow> confirmText \<noteq> None \<and> confirmed confirmText s \<and> \<not> pending
      | CfClick pending \<Rightarrow> \<not> (pending \<or> \<not> confirmed confirmText s)
      | _ \<Rightarrow> False)"

definition confirm_buttons :: "string \<Rightarrow> string \<Rightarrow> string \<Rightarrow> string option \<Rightarrow> bool \<Rightarrow> confirm_dialog \<Rightarrow> control list" where
  "confirm_buttons confirmLabel pendingLabel cancelLabel confirmText isPending s =
     (if \<not> cd_open s then []
      else (case confirmText of
              Some t \<Rightarrow> [Edits ''confirm'' (''Type '' @ t @ '' to confirm'') TextIn '''' True]
            | None \<Rightarrow> [])
        @ [Presses cancelLabel True,
           Presses (if isPending then pendingLabel else confirmLabel) (\<not> (isPending \<or> \<not> confirmed confirmText s))])"

definition confirm_run :: "string option \<Rightarrow> confirm_event list \<Rightarrow> confirm_dialog \<Rightarrow> confirm_dialog" where
  "confirm_run confirmText es s = fold (confirm_step confirmText) es s"

lemma confirm_run_snoc: "confirm_run ct (es @ [e]) s = confirm_step ct e (confirm_run ct es s)"
  by (simp add: confirm_run_def)

lemma typed_in_this_opening:
  assumes "cd_typed (confirm_run ct es confirm_mount) = t" "t \<noteq> ''''"
  shows "\<exists>es1 es2. es = es1 @ CfType t # es2 \<and> CfOpenChange False \<notin> set es2"
  using assms
proof (induction es rule: rev_induct)
  case Nil
  then show ?case by (simp add: confirm_run_def confirm_mount_def)
next
  case (snoc e es)
  show ?case
  proof (cases "e = CfType t")
    case True
    then show ?thesis by (intro exI[of _ es] exI[of _ "[]"]) simp
  next
    case False
    then have "cd_typed (confirm_run ct es confirm_mount) = t" and "e \<noteq> CfOpenChange False"
      using snoc.prems
      by (cases e; auto simp: confirm_run_snoc confirm_step_def handleOpenChange_def page_sets_open_def split: if_splits)+
    then obtain es1 es2 where "es = es1 @ CfType t # es2" "CfOpenChange False \<notin> set es2"
      using snoc.IH snoc.prems by blast
    then show ?thesis using \<open>e \<noteq> CfOpenChange False\<close>
      by (intro exI[of _ es1] exI[of _ "es2 @ [e]"]) auto
  qed
qed

text \<open>
  C23: A deletion that asks for a name is only confirmed with that very name typed since the dialog was
  last closed with its own buttons, while it is open and no confirmation is on the way; a dialog that
  asks for no name is confirmed by its button alone.
\<close>

theorem confirm_needs_text:
  assumes "confirm_fires (Some t) e (confirm_run (Some t) es confirm_mount)" "t \<noteq> ''''"
  shows "(\<exists>es1 es2. es = es1 @ CfType t # es2 \<and> CfOpenChange False \<notin> set es2) \<and>
    cd_open (confirm_run (Some t) es confirm_mount) \<and> (e = CfEnter False \<or> e = CfClick False)"
proof -
  have "cd_typed (confirm_run (Some t) es confirm_mount) = t"
    using assms(1) by (cases e) (auto simp: confirm_fires_def confirmed_def)
  from typed_in_this_opening[OF this assms(2)] show ?thesis
    using assms(1) by (cases e) (auto simp: confirm_fires_def)
qed

lemma confirm_needs_text_witness:
  "confirm_fires (Some ''jane'') (CfClick False) (confirm_run (Some ''jane'') [CfOpenChange True, CfType ''jane''] confirm_mount)
   \<and> (\<exists>es1 es2. [CfOpenChange True, CfType ''jane''] = es1 @ CfType ''jane'' # es2 \<and> CfOpenChange False \<notin> set es2)"
proof -
  have f: "confirm_fires (Some ''jane'') (CfClick False)
      (confirm_run (Some ''jane'') [CfOpenChange True, CfType ''jane''] confirm_mount)"
    by (simp add: confirm_fires_def confirm_run_def confirm_step_def handleOpenChange_def confirm_mount_def confirmed_def)
  show ?thesis using confirm_needs_text[OF f] f by simp
qed

text \<open>A page that closes the dialog by its own state leaves the text in it: it opens confirmed.\<close>

lemma page_close_keeps_text:
  "confirm_fires (Some ''jane'') (CfClick False)
     (confirm_run (Some ''jane'') [CfPage True, CfType ''jane'', CfPage False, CfPage True] confirm_mount)"
  by (simp add: confirm_fires_def confirm_run_def confirm_step_def page_sets_open_def confirm_mount_def confirmed_def)

section \<open>The keyboard of a tab list\<close>

fun tab_index :: "'a \<Rightarrow> 'a list \<Rightarrow> int" where
  "tab_index x [] = - 1"
| "tab_index x (y # ys) = (if x = y then 0 else (let i = tab_index x ys in if i = - 1 then - 1 else i + 1))"

text \<open>\<open>handleKeyDown\<close>: the tab that gets the focus and the click.\<close>

definition tab_key :: "'a list \<Rightarrow> 'a \<Rightarrow> string \<Rightarrow> 'a option" where
  "tab_key tabs here key =
     (let index = tab_index here tabs; n = int (length tabs) in
      if key = ''ArrowRight'' \<or> key = ''ArrowDown'' then Some (tabs ! nat ((index + 1) mod n))
      else if key = ''ArrowLeft'' \<or> key = ''ArrowUp'' then Some (tabs ! nat ((index - 1 + n) mod n))
      else if key = ''Home'' then Some (tabs ! 0)
      else if key = ''End'' then Some (tabs ! (length tabs - 1))
      else None)"

text \<open>The tabs the Tab key stops at, and the panel shown.\<close>

definition tab_stops :: "'a list \<Rightarrow> 'a \<Rightarrow> 'a list" where
  "tab_stops tabs selected = filter (\<lambda>t. selected = t) tabs"

definition shown_panel :: "'a list \<Rightarrow> 'a \<Rightarrow> 'a option" where
  "shown_panel panels selected = (if selected \<in> set panels then Some selected else None)"

lemma tab_index_found: "x \<in> set xs \<Longrightarrow> 0 \<le> tab_index x xs \<and> tab_index x xs < int (length xs) \<and> xs ! nat (tab_index x xs) = x"
  by (induction xs) (auto simp: Let_def nat_add_distrib)

lemma tab_index_nth: "distinct xs \<Longrightarrow> i < length xs \<Longrightarrow> tab_index (xs ! i) xs = int i"
proof (induction xs arbitrary: i)
  case (Cons x xs)
  then show ?case by (cases i) (auto simp: Let_def)
qed simp

lemma tab_key_at:
  assumes "distinct tabs" "i < length tabs"
  shows "tab_key tabs (tabs ! i) ''ArrowRight'' = Some (tabs ! ((i + 1) mod length tabs))"
    and "tab_key tabs (tabs ! i) ''ArrowLeft'' = Some (tabs ! ((i + length tabs - 1) mod length tabs))"
proof -
  have "(int i + 1) mod int (length tabs) = int ((i + 1) mod length tabs)"
    by (simp add: zmod_int add.commute)
  then show "tab_key tabs (tabs ! i) ''ArrowRight'' = Some (tabs ! ((i + 1) mod length tabs))"
    by (simp add: tab_key_def tab_index_nth[OF assms])
  have "int i - 1 + int (length tabs) = int (i + length tabs - 1)" using assms(2) by simp
  then have "(int i - 1 + int (length tabs)) mod int (length tabs) = int ((i + length tabs - 1) mod length tabs)"
    by (simp add: zmod_int)
  then show "tab_key tabs (tabs ! i) ''ArrowLeft'' = Some (tabs ! ((i + length tabs - 1) mod length tabs))"
    by (simp add: tab_key_def tab_index_nth[OF assms])
qed

lemma mod_right_left: "i < n \<Longrightarrow> ((i + 1) mod n + n - 1) mod n = (i::nat)"
  by (cases "i + 1 = n") (auto simp: mod_if)

text \<open>The arrow keys undo each other and go round: from any tab, as many steps as there are tabs come back.\<close>

lemma tab_keys_cycle:
  assumes "distinct tabs" "t \<in> set tabs"
  shows "\<exists>u \<in> set tabs. tab_key tabs t ''ArrowRight'' = Some u \<and> tab_key tabs u ''ArrowLeft'' = Some t"
proof -
  from assms(2) obtain i where i: "i < length tabs" "t = tabs ! i" by (auto simp: in_set_conv_nth)
  let ?j = "(i + 1) mod length tabs"
  have j: "?j < length tabs" using i(1) by (cases tabs) auto
  have "tab_key tabs (tabs ! ?j) ''ArrowLeft'' = Some (tabs ! i)"
    using tab_key_at(2)[OF assms(1) j] mod_right_left[OF i(1)] by simp
  then show ?thesis using tab_key_at(1)[OF assms(1) i(1)] i j by (intro bexI[of _ "tabs ! ?j"]) auto
qed

text \<open>A selected tab that is not in the list leaves the whole list out of the Tab order.\<close>

lemma no_tab_stop: "selected \<notin> set tabs \<Longrightarrow> tab_stops tabs selected = []"
  by (auto simp: tab_stops_def filter_empty_conv)

section \<open>Pages and headers of a list\<close>

definition pager_text :: "int \<Rightarrow> int \<Rightarrow> int \<Rightarrow> string" where
  "pager_text currentPage pageSize totalItems =
     int_str (start_item currentPage pageSize totalItems) @ ''-'' @ int_str (end_item currentPage pageSize totalItems)
     @ '' of '' @ int_str totalItems"

definition page_of_text :: "int \<Rightarrow> int \<Rightarrow> string" where
  "page_of_text currentPage totalPages =
     ''Page '' @ int_str currentPage @ '' of '' @ int_str (if totalPages = 0 then 1 else totalPages)"

text \<open>The four buttons: name, page they ask for, enabled.\<close>

definition pager_buttons :: "int \<Rightarrow> int \<Rightarrow> (string \<times> int \<times> bool) list" where
  "pager_buttons currentPage totalPages =
     [(''First page'', 1, currentPage \<noteq> 1),
      (''Previous page'', currentPage - 1, currentPage \<noteq> 1),
      (''Next page'', currentPage + 1, \<not> currentPage \<ge> totalPages),
      (''Last page'', totalPages, \<not> currentPage \<ge> totalPages)]"

definition size_options :: "int list" where
  "size_options = PAGE_SIZES"

text \<open>An enabled button never leaves the pages of the list, and moves.\<close>

lemma pager_stays:
  assumes "1 \<le> cur" "cur \<le> tot" "(l, p, True) \<in> set (pager_buttons cur tot)"
  shows "1 \<le> p \<and> p \<le> tot \<and> p \<noteq> cur"
  using assms by (auto simp: pager_buttons_def)

text \<open>Beyond the last page, which a URL can name, the way back is one page at a time or to the first.\<close>

lemma pager_beyond: "tot < cur \<Longrightarrow> 1 \<le> tot \<Longrightarrow>
    map (snd \<circ> snd) (pager_buttons cur tot) = [True, True, False, False]"
  by (simp add: pager_buttons_def)

datatype sort_icon = ArrowUpDown | ArrowUp | ArrowDown

definition header_icon :: "string \<Rightarrow> string \<Rightarrow> sort_dir \<Rightarrow> sort_icon" where
  "header_icon field activeField direction =
     (if \<not> activeField = field then ArrowUpDown else if direction = Asc then ArrowUp else ArrowDown)"

definition aria_sort :: "string \<Rightarrow> string \<Rightarrow> sort_dir \<Rightarrow> string" where
  "aria_sort field activeField direction =
     (if activeField = field then (if direction = Asc then ''ascending'' else ''descending'') else ''none'')"

definition next_direction :: "string \<Rightarrow> string \<Rightarrow> sort_dir \<Rightarrow> string" where
  "next_direction field activeField direction =
     (if activeField = field \<and> direction = Asc then ''descending'' else ''ascending'')"

text \<open>What a header announces is what its click does: the direction it names is the one of the new view.\<close>

lemma header_announces:
  assumes "field \<in> set fs"
  shows "aria_sort field (lv_sort (page_values d (handleSort (list_norm fs) d field (s :: unit list_page))))
      (lv_dir (page_values d (handleSort (list_norm fs) d field s))) =
    next_direction field (lv_sort (page_values d s)) (lv_dir (page_values d s))"
  using assms
  by (simp add: handleSort_def clearSelection_def patchSearch_def page_values_def listSearchValues_def
      nextSort_def norm_fields aria_sort_def next_direction_def)

section \<open>A picture\<close>

record picked_file =
  fi_type :: string
  fi_size :: int

definition max_photo_bytes :: int where
  "max_photo_bytes = 5 * 1024 * 1024"

text \<open>\<open>handlePhotoFile\<close> up to the reading of the file.\<close>

definition photo_refused :: "picked_file \<Rightarrow> toast option" where
  "photo_refused f =
     (if \<not> str_starts (fi_type f) ''image/'' then Some (ToastError ''Please choose an image file.'')
      else if fi_size f > max_photo_bytes then Some (ToastError ''Image is too large (max 5 MB).'')
      else None)"

text \<open>The photo of the Identity tab, with the flag that stands in for its dirty check.\<close>

record photo_state =
  ph_photo :: string
  ph_changed :: bool

text \<open>The reader is done: its data URL (possibly none), or an error.\<close>

datatype reader_outcome = ReaderLoaded "string option" | ReaderFailed

definition data_part :: "string option \<Rightarrow> string option" where
  "data_part r = opt_chain r (\<lambda>url. let ws = split_on (CHR '','') url in if 1 < length ws then Some (ws ! 1) else None)"

definition unreadable :: toast where
  "unreadable = ToastError ''Could not read the selected image.''"

definition photo_read :: "reader_outcome \<Rightarrow> photo_state \<Rightarrow> photo_state \<times> toast option" where
  "photo_read r s =
     (case r of
        ReaderFailed \<Rightarrow> (s, Some unreadable)
      | ReaderLoaded result \<Rightarrow>
          (case data_part result of
             Some base64 \<Rightarrow> if base64 = '''' then (s, Some unreadable)
               else (\<lparr>ph_photo = base64, ph_changed = True\<rparr>, None)
           | None \<Rightarrow> (s, Some unreadable)))"

definition handlePhotoRemove :: "photo_state \<Rightarrow> photo_state" where
  "handlePhotoRemove s = s\<lparr>ph_photo := '''', ph_changed := True\<rparr>"

definition photo_mount :: "string option \<Rightarrow> photo_state" where
  "photo_mount jpegPhoto = \<lparr>ph_photo = coalesce jpegPhoto '''', ph_changed = False\<rparr>"

text \<open>After a save, and on Discard.\<close>

definition photo_saved :: "photo_state \<Rightarrow> photo_state" where
  "photo_saved s = s\<lparr>ph_changed := False\<rparr>"

definition photo_discard :: "string option \<Rightarrow> photo_state \<Rightarrow> photo_state" where
  "photo_discard jpegPhoto s = photo_mount jpegPhoto"

text \<open>What a save sends of it.\<close>

definition photo_sent :: "photo_state \<Rightarrow> string option" where
  "photo_sent s = (if ph_changed s then Some (ph_photo s) else None)"

text \<open>
  The drop target: a picked or dropped file is handed over, the first of several, and nothing while it
  is disabled; \<open>dragging\<close> is its highlight.
\<close>

datatype drop_event = FilesPicked "picked_file list" | DragOver | DragLeave | FilesDropped "picked_file list"

definition drop_step :: "bool \<Rightarrow> drop_event \<Rightarrow> bool \<Rightarrow> bool \<times> picked_file option" where
  "drop_step disabled e dragging =
     (case e of
        FilesPicked fs \<Rightarrow> (dragging, if length fs = 0 then None else Some (hd fs))
      | DragOver \<Rightarrow> if disabled then (dragging, None) else (True, None)
      | DragLeave \<Rightarrow> (False, None)
      | FilesDropped fs \<Rightarrow>
          if disabled then (dragging, None)
          else (False, if length fs = 0 then None else Some (hd fs)))"

text \<open>A file that could not be used leaves the photo and its flag as they were, and says so.\<close>

lemma photo_read_safe:
  "snd (photo_read r s) \<noteq> None \<Longrightarrow> fst (photo_read r s) = s"
  "snd (photo_read r s) = None \<Longrightarrow> photo_sent (fst (photo_read r s)) = data_part (case r of ReaderLoaded x \<Rightarrow> x | _ \<Rightarrow> None)"
  by (auto simp: photo_read_def photo_sent_def split: reader_outcome.splits option.splits if_splits)

lemma photo_not_sent: "photo_sent (photo_mount p) = None" "photo_sent (photo_saved s) = None"
  "photo_sent (photo_discard p s) = None" "photo_sent (handlePhotoRemove s) = Some ''''"
  by (simp_all add: photo_sent_def photo_mount_def photo_saved_def photo_discard_def handlePhotoRemove_def)

lemma data_url_read:
  "photo_read (ReaderLoaded (Some ''data:image/png;base64,QUJD'')) s = (\<lparr>ph_photo = ''QUJD'', ph_changed = True\<rparr>, None)"
  by (simp add: photo_read_def data_part_def)

end
