(* ===== verification/Api_Routes.thy ===== *)
theory Api_Routes
  imports Api_Requests
begin

text \<open>
  The routes of the server the client talks to (\<open>internal/api/routes.go\<close>, \<open>internal/rbac/rbac.go\<close>): the
  method and pattern of each, and the permission it asks of the session. Rate limits, body limits and
  the handlers behind the routes are left out. A route is mounted under the first segment of its path,
  and \<open>{dn}\<close> matches one segment that is not empty; a mount answers with and without a final slash.
\<close>

section \<open>The tables\<close>

datatype segment = Lit string | Param
datatype access = Public | SignedIn | Needs string

type_synonym route = "string \<times> segment list \<times> access"

definition auth_routes :: "route list" where
  "auth_routes = [
     (''POST'', [Lit ''login''], Public),
     (''POST'', [Lit ''logout''], SignedIn),
     (''GET'', [Lit ''me''], SignedIn),
     (''GET'', [Lit ''me'', Lit ''avatar''], SignedIn),
     (''POST'', [Lit ''change-password''], SignedIn)]"

definition server_info_routes :: "route list" where
  "server_info_routes = [(''GET'', [], SignedIn)]"

definition users_routes :: "route list" where
  "users_routes = [
     (''GET'', [], Needs ''users:read''),
     (''POST'', [Lit ''import''], Needs ''users:write''),
     (''GET'', [Param], Needs ''users:read''),
     (''POST'', [], Needs ''users:write''),
     (''PUT'', [Param], Needs ''users:write''),
     (''DELETE'', [Param], Needs ''users:delete''),
     (''GET'', [Param, Lit ''groups''], Needs ''users:read''),
     (''GET'', [Param, Lit ''photo''], Needs ''users:read''),
     (''POST'', [Param, Lit ''change-uid''], Needs ''users:write''),
     (''POST'', [Param, Lit ''change-posix-ids''], Needs ''users:write''),
     (''POST'', [Param, Lit ''lock''], Needs ''users:write''),
     (''POST'', [Param, Lit ''unlock''], Needs ''users:write''),
     (''PUT'', [Param, Lit ''expiration''], Needs ''users:write''),
     (''POST'', [Param, Lit ''password''], Needs ''users:write''),
     (''DELETE'', [Param, Lit ''password''], Needs ''users:write''),
     (''PUT'', [Param, Lit ''ssh-keys''], Needs ''users:write''),
     (''POST'', [Param, Lit ''ssh-keys''], Needs ''users:write''),
     (''DELETE'', [Param, Lit ''ssh-keys''], Needs ''users:write''),
     (''GET'', [Param, Lit ''sudo-roles''], Needs ''users:read''),
     (''GET'', [Param, Lit ''netgroups''], Needs ''users:read''),
     (''POST'', [Param, Lit ''send-password-reset''], Needs ''users:write''),
     (''PUT'', [Param, Lit ''samba''], Needs ''users:write''),
     (''PUT'', [Param, Lit ''shadow''], Needs ''users:write'')]"

definition sudo_routes :: "route list" where
  "sudo_routes = [
     (''GET'', [], Needs ''users:read''),
     (''GET'', [Param], Needs ''users:read''),
     (''POST'', [], Needs ''users:write''),
     (''PUT'', [Param], Needs ''users:write''),
     (''DELETE'', [Param], Needs ''users:delete''),
     (''POST'', [Param, Lit ''users''], Needs ''users:write''),
     (''DELETE'', [Param, Lit ''users''], Needs ''users:write''),
     (''POST'', [Param, Lit ''groups''], Needs ''groups:write''),
     (''DELETE'', [Param, Lit ''groups''], Needs ''groups:write'')]"

definition policy_routes :: "route list" where
  "policy_routes = [
     (''GET'', [], Needs ''settings:read''),
     (''GET'', [Param], Needs ''settings:read''),
     (''POST'', [], Needs ''settings:write''),
     (''PUT'', [Param], Needs ''settings:write''),
     (''DELETE'', [Param], Needs ''settings:write'')]"

definition group_routes :: "route list" where
  "group_routes = [
     (''GET'', [], Needs ''groups:read''),
     (''POST'', [Lit ''import''], Needs ''groups:write''),
     (''GET'', [Param], Needs ''groups:read''),
     (''POST'', [], Needs ''groups:write''),
     (''PUT'', [Param], Needs ''groups:write''),
     (''DELETE'', [Param], Needs ''groups:delete''),
     (''GET'', [Param, Lit ''members''], Needs ''groups:read''),
     (''POST'', [Param, Lit ''members''], Needs ''groups:write''),
     (''DELETE'', [Param, Lit ''members''], Needs ''groups:write''),
     (''GET'', [Param, Lit ''sudo-roles''], Needs ''groups:read''),
     (''POST'', [Param, Lit ''change-cn''], Needs ''groups:write''),
     (''PUT'', [Param, Lit ''samba''], Needs ''groups:write'')]"

definition schema_routes :: "route list" where
  "schema_routes = [
     (''GET'', [], Needs ''schema:read''),
     (''POST'', [Lit ''refresh''], Needs ''schema:write'')]"

definition audit_routes :: "route list" where
  "audit_routes = [
     (''GET'', [], Needs ''audit:read''),
     (''GET'', [Lit ''actors''], Needs ''audit:read''),
     (''GET'', [Lit ''export''], Needs ''audit:read'')]"

definition netgroup_routes :: "route list" where
  "netgroup_routes = [
     (''GET'', [], Needs ''groups:read''),
     (''GET'', [Param], Needs ''groups:read''),
     (''GET'', [Param, Lit ''expand''], Needs ''groups:read''),
     (''GET'', [Param, Lit ''sudo-roles''], Needs ''groups:read''),
     (''POST'', [], Needs ''groups:write''),
     (''POST'', [Lit ''import''], Needs ''groups:write''),
     (''PUT'', [Param], Needs ''groups:write''),
     (''DELETE'', [Param], Needs ''groups:delete'')]"

definition overview_routes :: "route list" where
  "overview_routes = [
     (''GET'', [], Needs ''users:read'')]"

definition next_ids_routes :: "route list" where
  "next_ids_routes = [
     (''GET'', [], Needs ''users:write'')]"

definition admin_routes :: "route list" where
  "admin_routes = [
     (''GET'', [Lit ''config''], Needs ''settings:read''),
     (''POST'', [Lit ''policy-selftest''], Needs ''settings:write''),
     (''GET'', [Lit ''export''], Needs ''settings:write''),
     (''GET'', [Lit ''scheduled-tasks'', Lit ''config''], Needs ''settings:read''),
     (''GET'', [Lit ''scheduled-tasks'', Lit ''runs''], Needs ''settings:read''),
     (''GET'', [Lit ''scheduled-tasks'', Lit ''health''], Needs ''settings:read''),
     (''POST'', [Lit ''scheduled-tasks'', Lit ''users-expiration'', Lit ''trigger''], Needs ''settings:write''),
     (''POST'', [Lit ''scheduled-tasks'', Lit ''passwords-expiration'', Lit ''trigger''], Needs ''settings:write''),
     (''POST'', [Lit ''scheduled-tasks'', Lit ''lockout-scan'', Lit ''trigger''], Needs ''settings:write'')]"

definition changes_routes :: "route list" where
  "changes_routes = [(''GET'', [], Needs ''audit:read'')]"

definition reset_routes :: "route list" where
  "reset_routes = [(''GET'', [Param], Public), (''POST'', [Param], Public)]"

definition api_routes :: "(string \<times> route list) list" where
  "api_routes = [(''auth'', auth_routes), (''server-info'', server_info_routes), (''users'', users_routes),
     (''sudo-roles'', sudo_routes), (''password-policies'', policy_routes), (''groups'', group_routes),
     (''schema'', schema_routes), (''audit-logs'', audit_routes), (''directory-changes'', changes_routes),
     (''netgroups'', netgroup_routes), (''overview'', overview_routes), (''next-ids'', next_ids_routes),
     (''admin'', admin_routes), (''password-reset'', reset_routes)]"

fun seg_match :: "segment list \<Rightarrow> string list \<Rightarrow> bool" where
  "seg_match [] [] = True"
| "seg_match (Lit l # ps) (s # ss) = (l = s \<and> seg_match ps ss)"
| "seg_match (Param # ps) (s # ss) = (s \<noteq> '''' \<and> seg_match ps ss)"
| "seg_match _ _ = False"

text \<open>The segments of a request, and the access its route asks for; nothing when no route has it.\<close>

definition path_segments :: "string \<Rightarrow> string list" where
  "path_segments path =
     tl (split_on (CHR ''/'') (case cut_at (CHR ''?'') path of None \<Rightarrow> path | Some (p, q) \<Rightarrow> p))"

definition route_access :: "string \<Rightarrow> string list \<Rightarrow> access option" where
  "route_access meth segs =
     (case segs of [] \<Rightarrow> None
      | c # rest \<Rightarrow> map_option (\<lambda>(m, p, a). a)
          (List.find (\<lambda>(m, p, a). m = meth \<and> seg_match p (if rest = [''''] then [] else rest)) (coalesce (map_of api_routes c) [])))"

definition required :: "request \<Rightarrow> access option" where
  "required r = route_access (rq_method r) (path_segments (rq_path r))"

text \<open>The middleware: a session without the permission is answered 403.\<close>

definition admitted :: "string list option \<Rightarrow> access \<Rightarrow> bool" where
  "admitted permissions a =
     (case a of
        Public \<Rightarrow> True
      | SignedIn \<Rightarrow> permissions \<noteq> None
      | Needs p \<Rightarrow> (case permissions of None \<Rightarrow> False | Some ps \<Rightarrow> p \<in> set ps))"

definition DefaultRoles :: "(string \<times> string list) list" where
  "DefaultRoles = [
     (''admin'', [''users:read'', ''users:write'', ''users:delete'', ''groups:read'', ''groups:write'', ''groups:delete'',
        ''audit:read'', ''schema:read'', ''schema:write'', ''settings:read'', ''settings:write'']),
     (''readonly'', [''users:read'', ''groups:read'', ''schema:read''])]"

section \<open>Where the calls of the client arrive\<close>

lemmas route_tables = api_routes_def auth_routes_def server_info_routes_def users_routes_def sudo_routes_def
  policy_routes_def group_routes_def schema_routes_def audit_routes_def changes_routes_def netgroup_routes_def
  overview_routes_def next_ids_routes_def admin_routes_def reset_routes_def

lemma encoded_nonempty: "encodeURIComponent s = '''' \<longleftrightarrow> s = ''''"
  by (cases s) (auto simp: encodeURIComponent_def escape_char_def utf8_def percent_def)

lemma path_split_actions:
  assumes "list_all (list_all uri_plain) a" "CHR ''/'' \<notin> set t"
  shows "split_on (CHR ''/'') (t @ concat (map ((#) (CHR ''/'')) a)) = t # a"
  using assms plain_free by (intro split_actions) (auto simp: list_all_iff)

lemma entry_segments:
  assumes "list_all uri_plain c" "list_all (list_all uri_plain) a"
  shows "path_segments (entry_path c a dn) = c # encodeURIComponent dn # a"
proof -
  have q: "\<forall>w \<in> set a. CHR ''?'' \<notin> set w"
    using assms(2) plain_free by (auto simp: list_all_iff)
  have "CHR ''?'' \<notin> set (entry_path c a dn)"
    using plain_free(2)[OF assms(1)] component_free(2)[of dn] q by (auto simp: entry_path_def)
  moreover have "split_on (CHR ''/'') (entry_path c a dn) = [[], c, encodeURIComponent dn] @ a"
    using plain_free(1)[OF assms(1)] component_free(1)[of dn] path_split_actions[OF assms(2) component_free(1)[of dn]]
    by (simp add: entry_path_def split_on_append split_on_no_sep)
  ultimately show ?thesis by (simp add: path_segments_def cut_at_None[THEN iffD2])
qed

lemma collection_segments:
  assumes "list_all (list_all uri_plain) cs"
  shows "path_segments (concat (map ((#) (CHR ''/'')) cs) @ query_suffix ps) = cs"
proof -
  let ?p = "concat (map ((#) (CHR ''/'')) cs)"
  have "\<forall>w \<in> set cs. CHR ''?'' \<notin> set w" using assms plain_free by (auto simp: list_all_iff)
  then have nq: "CHR ''?'' \<notin> set ?p" by auto
  have cut: "(case cut_at (CHR ''?'') (?p @ query_suffix ps) of None \<Rightarrow> ?p @ query_suffix ps | Some (p, q) \<Rightarrow> p) = ?p"
    using nq by (auto simp: query_suffix_def Let_def cut_at_append cut_at_None[THEN iffD2])
  have "split_on (CHR ''/'') ([] @ ?p) = [] # cs"
    by (rule path_split_actions[OF assms]) simp
  then show ?thesis unfolding path_segments_def cut by simp
qed

text \<open>Method and permission of every request about an entry, in the order of \<^const>\<open>entry_requests\<close>.\<close>

definition entry_methods :: "(string \<times> string) list" where
  "entry_methods =
     [(''GET'', ''users:read''), (''PUT'', ''users:write''), (''DELETE'', ''users:delete''), (''GET'', ''users:read''),
      (''POST'', ''users:write''), (''POST'', ''users:write''), (''POST'', ''users:write''), (''POST'', ''users:write''),
      (''PUT'', ''users:write''), (''POST'', ''users:write''), (''DELETE'', ''users:write''),
      (''PUT'', ''users:write''), (''POST'', ''users:write''), (''DELETE'', ''users:write''),
      (''GET'', ''users:read''), (''GET'', ''users:read''), (''POST'', ''users:write''),
      (''PUT'', ''users:write''), (''PUT'', ''users:write''),
      (''GET'', ''groups:read''), (''PUT'', ''groups:write''), (''DELETE'', ''groups:delete''), (''POST'', ''groups:write''),
      (''POST'', ''groups:write''), (''DELETE'', ''groups:write''), (''GET'', ''groups:read''), (''GET'', ''groups:read''),
      (''PUT'', ''groups:write''),
      (''GET'', ''groups:read''), (''GET'', ''groups:read''), (''GET'', ''groups:read''), (''PUT'', ''groups:write''),
      (''DELETE'', ''groups:delete''),
      (''GET'', ''users:read''), (''PUT'', ''users:write''), (''DELETE'', ''users:delete''), (''POST'', ''users:write''),
      (''DELETE'', ''users:write''), (''POST'', ''groups:write''), (''DELETE'', ''groups:write''),
      (''GET'', ''settings:read''), (''PUT'', ''settings:write''), (''DELETE'', ''settings:write'')]"

lemma entry_requests_methods: "map rq_method (entry_requests dn data s keys) = map fst entry_methods"
  by (simp add: entry_requests_def entry_methods_def user_requests other_requests)

lemma required_map:
  "map required rs = map2 (\<lambda>m p. route_access m (path_segments p)) (map rq_method rs) (map rq_path rs)"
  by (induction rs) (simp_all add: required_def)

lemma entry_routes:
  "e \<noteq> '''' \<Longrightarrow> map2 (\<lambda>m (c, a). route_access m (c # e # a)) (map fst entry_methods) entry_table =
     map (Some \<circ> Needs \<circ> snd) entry_methods"
  unfolding entry_methods_def entry_table_def
  by (simp add: route_access_def route_tables)

lemma entry_required:
  assumes "dn \<noteq> ''''"
  shows "map required (entry_requests dn data s keys) = map (Some \<circ> Needs \<circ> snd) entry_methods"
proof -
  have "map2 (\<lambda>m p. route_access m (path_segments p)) ms (map (\<lambda>(c, a). entry_path c a dn) ts) =
      map2 (\<lambda>m (c, a). route_access m (c # encodeURIComponent dn # a)) ms ts"
    if "\<forall>(c, a) \<in> set ts. list_all uri_plain c \<and> list_all (list_all uri_plain) a" for ms ts
    using that by (induction ms ts rule: list_induct2') (auto simp: entry_segments)
  moreover have "\<forall>(c, a) \<in> set entry_table. list_all uri_plain c \<and> list_all (list_all uri_plain) a"
    using entry_table_plain by (auto simp: list_all_iff)
  moreover have e: "encodeURIComponent dn \<noteq> ''''" using assms by (simp only: encoded_nonempty not_False_eq_True)
  ultimately show ?thesis
    unfolding required_map entry_requests_methods entry_requests_paths
    using entry_routes[OF e] by metis
qed

named_theorems access_simps \<open>the access each call of the client asks for\<close>

lemma entry_access [access_simps]:
  assumes "dn \<noteq> ''''"
  shows "required (users_get dn) = Some (Needs ''users:read'')"
    and "required (users_update dn data) = Some (Needs ''users:write'')"
    and "required (users_delete dn) = Some (Needs ''users:delete'')"
    and "required (users_getGroups dn) = Some (Needs ''users:read'')"
    and "required (users_changePosixIds dn data) = Some (Needs ''users:write'')"
    and "required (users_changeUid dn s) = Some (Needs ''users:write'')"
    and "required (users_lock dn) = Some (Needs ''users:write'')"
    and "required (users_unlock dn) = Some (Needs ''users:write'')"
    and "required (users_setExpiration dn x) = Some (Needs ''users:write'')"
    and "required (users_changePassword dn s) = Some (Needs ''users:write'')"
    and "required (users_removePassword dn) = Some (Needs ''users:write'')"
    and "required (users_setSSHKeys dn keys) = Some (Needs ''users:write'')"
    and "required (users_addSSHKey dn s) = Some (Needs ''users:write'')"
    and "required (users_removeSSHKey dn s) = Some (Needs ''users:write'')"
    and "required (users_getSudoRoles dn) = Some (Needs ''users:read'')"
    and "required (users_getNetgroups dn) = Some (Needs ''users:read'')"
    and "required (users_sendPasswordReset dn) = Some (Needs ''users:write'')"
    and "required (users_updateSamba dn data) = Some (Needs ''users:write'')"
    and "required (users_updateShadow dn data) = Some (Needs ''users:write'')"
    and "required (groups_get dn) = Some (Needs ''groups:read'')"
    and "required (groups_update dn data) = Some (Needs ''groups:write'')"
    and "required (groups_delete dn) = Some (Needs ''groups:delete'')"
    and "required (groups_changeCn dn s) = Some (Needs ''groups:write'')"
    and "required (groups_addMember dn s) = Some (Needs ''groups:write'')"
    and "required (groups_removeMember dn s) = Some (Needs ''groups:write'')"
    and "required (groups_members dn) = Some (Needs ''groups:read'')"
    and "required (groups_getSudoRoles dn) = Some (Needs ''groups:read'')"
    and "required (groups_updateSamba dn data) = Some (Needs ''groups:write'')"
    and "required (netgroups_get dn) = Some (Needs ''groups:read'')"
    and "required (netgroups_expand dn) = Some (Needs ''groups:read'')"
    and "required (netgroups_getSudoRoles dn) = Some (Needs ''groups:read'')"
    and "required (netgroups_update dn data) = Some (Needs ''groups:write'')"
    and "required (netgroups_delete dn) = Some (Needs ''groups:delete'')"
    and "required (sudoRoles_get dn) = Some (Needs ''users:read'')"
    and "required (sudoRoles_update dn data) = Some (Needs ''users:write'')"
    and "required (sudoRoles_delete dn) = Some (Needs ''users:delete'')"
    and "required (sudoRoles_addUser dn s) = Some (Needs ''users:write'')"
    and "required (sudoRoles_removeUser dn s) = Some (Needs ''users:write'')"
    and "required (sudoRoles_addGroup dn s) = Some (Needs ''groups:write'')"
    and "required (sudoRoles_removeGroup dn s) = Some (Needs ''groups:write'')"
    and "required (passwordPolicies_get dn) = Some (Needs ''settings:read'')"
    and "required (passwordPolicies_update dn data) = Some (Needs ''settings:write'')"
    and "required (passwordPolicies_delete dn) = Some (Needs ''settings:write'')"
proof -
  have "required (users_setExpiration dn x) = required (users_setExpiration dn (Some (coalesce x '''')))"
    by (simp add: required_def users_setExpiration_def)
  moreover have "required (users_setExpiration dn (Some s)) = Some (Needs ''users:write'')" for s
    using entry_required[OF assms, of JNull s "[]"] by (simp add: entry_requests_def entry_methods_def)
  ultimately show "required (users_setExpiration dn x) = Some (Needs ''users:write'')" by simp
qed (use entry_required[OF assms, of data s keys] in \<open>simp_all add: entry_requests_def entry_methods_def\<close>)

text \<open>The requests that name no entry.\<close>

definition collection_requests :: "list_params option \<Rightarrow> json \<Rightarrow> json list \<Rightarrow> (string \<times> query_value option) list
    \<Rightarrow> string \<Rightarrow> string \<Rightarrow> request list" where
  "collection_requests p data rows q a b = [
     auth_login a b, auth_logout, auth_me, auth_avatar, auth_changePassword a b,
     users_list p, users_create data, users_import rows, groups_list p, groups_create data, groups_import rows,
     netgroups_list p, netgroups_create data, netgroups_import rows, sudoRoles_list p, sudoRoles_create data,
     passwordPolicies_list p, passwordPolicies_create data, schema_get, schema_refresh,
     auditLogs_list (Some q), auditLogs_actors, directoryChanges_list q, nextIds_get, overview_get, serverInfo,
     admin_getConfig, admin_policySelfTest, admin_scheduledTasks_getConfig, admin_scheduledTasks_getHealth,
     admin_scheduledTasks_getRuns None, admin_scheduledTasks_triggerUsersExpiration,
     admin_scheduledTasks_triggerPasswordsExpiration, admin_scheduledTasks_triggerLockoutScan]"

definition collection_access :: "access list" where
  "collection_access = [
     Public, SignedIn, SignedIn, SignedIn, SignedIn,
     Needs ''users:read'', Needs ''users:write'', Needs ''users:write'', Needs ''groups:read'', Needs ''groups:write'',
     Needs ''groups:write'', Needs ''groups:read'', Needs ''groups:write'', Needs ''groups:write'', Needs ''users:read'',
     Needs ''users:write'', Needs ''settings:read'', Needs ''settings:write'', Needs ''schema:read'', Needs ''schema:write'',
     Needs ''audit:read'', Needs ''audit:read'', Needs ''audit:read'', Needs ''users:write'', Needs ''users:read'', SignedIn,
     Needs ''settings:read'', Needs ''settings:write'', Needs ''settings:read'', Needs ''settings:read'',
     Needs ''settings:read'', Needs ''settings:write'', Needs ''settings:write'', Needs ''settings:write'']"

lemma collection_path:
  assumes "list_all (list_all uri_plain) cs" "path = concat (map ((#) (CHR ''/'')) cs)"
  shows "path_segments (path @ listQuery p) = cs" "path_segments (path @ auditQuery q) = cs" "path_segments path = cs"
proof -
  have l: "listQuery p = query_suffix (case p of None \<Rightarrow> [] | Some x \<Rightarrow> list_query_params x)"
    "auditQuery q = query_suffix (case q of None \<Rightarrow> [] | Some x \<Rightarrow> audit_query_params x)"
    by (simp_all add: listQuery_def auditQuery_def query_suffix_def search_params_def split: option.split)
  show "path_segments (path @ listQuery p) = cs" "path_segments (path @ auditQuery q) = cs"
    using assms(1) unfolding l assms(2) by (rule collection_segments)+
  show "path_segments path = cs"
    using collection_segments[OF assms(1), of "[]"]
    by (simp add: assms(2) query_suffix_def search_params_def)
qed

lemma query_paths:
  "path_segments (''/users'' @ listQuery p) = [''users'']"
  "path_segments (''/groups'' @ listQuery p) = [''groups'']"
  "path_segments (''/netgroups'' @ listQuery p) = [''netgroups'']"
  "path_segments (''/sudo-roles'' @ listQuery p) = [''sudo-roles'']"
  "path_segments (''/password-policies'' @ listQuery p) = [''password-policies'']"
  "path_segments (''/audit-logs'' @ auditQuery q) = [''audit-logs'']"
  "path_segments (''/directory-changes'' @ auditQuery q) = [''directory-changes'']"
  by (rule collection_path; code_simp)+

lemma fixed_paths:
  "path_segments ''/auth/login'' = [''auth'', ''login'']"
  "path_segments ''/auth/logout'' = [''auth'', ''logout'']"
  "path_segments ''/auth/me'' = [''auth'', ''me'']"
  "path_segments ''/auth/me/avatar'' = [''auth'', ''me'', ''avatar'']"
  "path_segments ''/auth/change-password'' = [''auth'', ''change-password'']"
  "path_segments ''/users'' = [''users'']" "path_segments ''/users/import'' = [''users'', ''import'']"
  "path_segments ''/groups'' = [''groups'']" "path_segments ''/groups/import'' = [''groups'', ''import'']"
  "path_segments ''/netgroups'' = [''netgroups'']" "path_segments ''/netgroups/import'' = [''netgroups'', ''import'']"
  "path_segments ''/sudo-roles'' = [''sudo-roles'']" "path_segments ''/password-policies'' = [''password-policies'']"
  "path_segments ''/schema'' = [''schema'']" "path_segments ''/schema/refresh'' = [''schema'', ''refresh'']"
  "path_segments ''/audit-logs/actors'' = [''audit-logs'', ''actors'']"
  "path_segments ''/next-ids'' = [''next-ids'']" "path_segments ''/overview'' = [''overview'']"
  "path_segments ''/server-info'' = [''server-info'']"
  "path_segments ''/admin/config'' = [''admin'', ''config'']"
  "path_segments ''/admin/policy-selftest'' = [''admin'', ''policy-selftest'']"
  "path_segments ''/admin/scheduled-tasks/config'' = [''admin'', ''scheduled-tasks'', ''config'']"
  "path_segments ''/admin/scheduled-tasks/health'' = [''admin'', ''scheduled-tasks'', ''health'']"
  "path_segments ''/admin/scheduled-tasks/runs'' = [''admin'', ''scheduled-tasks'', ''runs'']"
  "path_segments ''/admin/scheduled-tasks/users-expiration/trigger'' = [''admin'', ''scheduled-tasks'', ''users-expiration'', ''trigger'']"
  "path_segments ''/admin/scheduled-tasks/passwords-expiration/trigger'' = [''admin'', ''scheduled-tasks'', ''passwords-expiration'', ''trigger'']"
  "path_segments ''/admin/scheduled-tasks/lockout-scan/trigger'' = [''admin'', ''scheduled-tasks'', ''lockout-scan'', ''trigger'']"
  by code_simp+

lemmas collection_defs = auth_login_def auth_logout_def auth_me_def auth_avatar_def auth_changePassword_def
  users_list_def users_create_def users_import_def groups_list_def groups_create_def groups_import_def
  netgroups_list_def netgroups_create_def netgroups_import_def sudoRoles_list_def sudoRoles_create_def
  passwordPolicies_list_def passwordPolicies_create_def schema_get_def schema_refresh_def
  auditLogs_list_def auditLogs_actors_def directoryChanges_list_def nextIds_get_def overview_get_def serverInfo_def
  admin_getConfig_def admin_policySelfTest_def admin_scheduledTasks_getConfig_def admin_scheduledTasks_getHealth_def
  admin_scheduledTasks_getRuns_def admin_scheduledTasks_triggerUsersExpiration_def
  admin_scheduledTasks_triggerPasswordsExpiration_def admin_scheduledTasks_triggerLockoutScan_def

lemma collection_required:
  "map required (collection_requests p data rows q a b) = map Some collection_access"
  unfolding collection_requests_def collection_access_def collection_defs
  by (simp add: required_def query_paths[simplified] fixed_paths route_access_def route_tables)

lemma collection_list_access [access_simps]:
  "required (users_list p) = Some (Needs ''users:read'')"
  "required (users_create data) = Some (Needs ''users:write'')"
  "required (users_import rows) = Some (Needs ''users:write'')"
  "required (groups_list p) = Some (Needs ''groups:read'')"
  "required (groups_create data) = Some (Needs ''groups:write'')"
  "required (groups_import rows) = Some (Needs ''groups:write'')"
  "required (netgroups_list p) = Some (Needs ''groups:read'')"
  "required (netgroups_create data) = Some (Needs ''groups:write'')"
  "required (netgroups_import rows) = Some (Needs ''groups:write'')"
  "required (sudoRoles_list p) = Some (Needs ''users:read'')"
  "required (sudoRoles_create data) = Some (Needs ''users:write'')"
  "required (passwordPolicies_list p) = Some (Needs ''settings:read'')"
  "required (passwordPolicies_create data) = Some (Needs ''settings:write'')"
  "required (auditLogs_list (Some q)) = Some (Needs ''audit:read'')"
  "required auditLogs_actors = Some (Needs ''audit:read'')"
  "required (directoryChanges_list q) = Some (Needs ''audit:read'')"
  "required nextIds_get = Some (Needs ''users:write'')"
  "required overview_get = Some (Needs ''users:read'')"
  "required serverInfo = Some SignedIn"
  "required admin_getConfig = Some (Needs ''settings:read'')"
  "required admin_policySelfTest = Some (Needs ''settings:write'')"
  "required admin_scheduledTasks_getConfig = Some (Needs ''settings:read'')"
  "required admin_scheduledTasks_getHealth = Some (Needs ''settings:read'')"
  "required (admin_scheduledTasks_getRuns None) = Some (Needs ''settings:read'')"
  "required admin_scheduledTasks_triggerUsersExpiration = Some (Needs ''settings:write'')"
  "required admin_scheduledTasks_triggerPasswordsExpiration = Some (Needs ''settings:write'')"
  "required admin_scheduledTasks_triggerLockoutScan = Some (Needs ''settings:write'')"
  using collection_required[of p data rows q "[]" "[]"]
  by (simp_all add: collection_requests_def collection_access_def)

text \<open>
  The links the browser follows itself, for a photo or a download, carry the base of the API; the server sees a
  plain GET.
\<close>

definition followed :: "string \<Rightarrow> request" where
  "followed url = api_call ''GET'' (drop (length API_BASE) url) None None"

lemma query_cut: "CHR ''?'' \<notin> set p \<Longrightarrow> path_segments (p @ CHR ''?'' # q) = tl (split_on (CHR ''/'') p)"
  by (simp add: path_segments_def cut_at_append cut_at_None[THEN iffD2])

lemma photo_access [access_simps]:
  assumes "dn \<noteq> ''''"
  shows "required (followed (userPhotoUrl dn)) = Some (Needs ''users:read'')"
proof -
  have "drop (length API_BASE) (userPhotoUrl dn) = entry_path ''users'' [''photo''] dn"
    by (simp add: userPhotoUrl_def entry_path_def)
  moreover have "list_all uri_plain ''users''" "list_all (list_all uri_plain) [''photo'']" by code_simp+
  ultimately have "path_segments (drop (length API_BASE) (userPhotoUrl dn)) = [''users'', encodeURIComponent dn, ''photo'']"
    using entry_segments[of "''users''" "[''photo'']" dn] by simp
  moreover have "encodeURIComponent dn \<noteq> ''''" using assms by (simp only: encoded_nonempty not_False_eq_True)
  ultimately show ?thesis by (simp add: followed_def required_def route_access_def route_tables)
qed

lemma download_access [access_simps]:
  "required (followed (auditLogs_exportUrl q)) = Some (Needs ''audit:read'')"
  "required (followed (admin_exportUrl base scope operational)) = Some (Needs ''settings:write'')"
proof -
  have "path_segments (''/audit-logs/export'' @ auditQuery q) = [''audit-logs'', ''export'']"
    by (rule collection_path; code_simp)
  then show "required (followed (auditLogs_exportUrl q)) = Some (Needs ''audit:read'')"
    by (simp add: followed_def auditLogs_exportUrl_def required_def route_access_def route_tables)
  have "path_segments (''/admin/export'' @ CHR ''?'' # x) = [''admin'', ''export'']" for x
    by (subst query_cut) code_simp+
  then show "required (followed (admin_exportUrl base scope operational)) = Some (Needs ''settings:write'')"
    by (simp add: followed_def admin_exportUrl_def required_def route_access_def route_tables)
qed

lemma runs_access [access_simps]: "required (admin_scheduledTasks_getRuns task) = Some (Needs ''settings:read'')"
proof -
  have "path_segments (''/admin/scheduled-tasks/runs'' @ CHR ''?'' # x) = [''admin'', ''scheduled-tasks'', ''runs'']" for x
    by (subst query_cut) code_simp+
  then show ?thesis
    using fixed_paths
    by (auto simp: admin_scheduledTasks_getRuns_def required_def route_access_def route_tables split: option.split)
qed

lemma reset_access [access_simps]:
  assumes "token \<noteq> ''''" "list_all uri_plain token"
  shows "required (passwordReset_getInfo token) = Some Public" "required (passwordReset_confirm token pw) = Some Public"
proof -
  have plain: "list_all uri_plain ''password-reset''" by code_simp
  have "''/password-reset/'' @ token = entry_path ''password-reset'' [] token"
    using encode_plain[OF assms(2)] by (simp add: entry_path_def)
  then have "path_segments (''/password-reset/'' @ token) = [''password-reset'', token]"
    using entry_segments[OF plain, of "[]" token] encode_plain[OF assms(2)] by simp
  then show "required (passwordReset_getInfo token) = Some Public" "required (passwordReset_confirm token pw) = Some Public"
    using assms(1)
    by (simp_all add: passwordReset_getInfo_def passwordReset_confirm_def public_call_def required_def route_access_def route_tables)
qed

lemma auth_access [access_simps]:
  "required (auth_login a b) = Some Public" "required auth_logout = Some SignedIn" "required auth_me = Some SignedIn"
  "required auth_avatar = Some SignedIn" "required (auth_changePassword a b) = Some SignedIn"
  "required schema_get = Some (Needs ''schema:read'')" "required schema_refresh = Some (Needs ''schema:write'')"
  using collection_required[of None JNull "[]" "[]" a b]
  by (simp_all add: collection_requests_def collection_access_def)

text \<open>
  Every call of the client, next to the access \<open>docs/API.md\<close> documents for its endpoint (for the import of users
  and groups and the policies that are read, created and updated, which it does not list, the access of the
  resource).
\<close>

definition documented :: "string \<Rightarrow> string \<Rightarrow> json \<Rightarrow> json list \<Rightarrow> string \<Rightarrow> list_params option \<Rightarrow>
    (string \<times> query_value option) list \<Rightarrow> string option \<Rightarrow> bool \<Rightarrow> string list \<Rightarrow> (request \<times> access) list" where
  "documented dn token data rows s p q task operational keys =
     [(auth_login s s, Public), (auth_logout, SignedIn), (auth_me, SignedIn), (auth_avatar, SignedIn),
      (auth_changePassword s s, SignedIn), (passwordReset_getInfo token, Public), (passwordReset_confirm token s, Public),
      (serverInfo, SignedIn)]
     @ map (\<lambda>r. (r, Needs ''users:read''))
         [users_list p, users_get dn, users_getGroups dn, users_getSudoRoles dn, users_getNetgroups dn,
          followed (userPhotoUrl dn), sudoRoles_list p, sudoRoles_get dn, overview_get]
     @ map (\<lambda>r. (r, Needs ''users:write''))
         [users_create data, users_import rows, users_update dn data, users_changeUid dn s, users_changePosixIds dn data,
          users_lock dn, users_unlock dn, users_setExpiration dn task, users_changePassword dn s, users_removePassword dn,
          users_setSSHKeys dn keys, users_addSSHKey dn s, users_removeSSHKey dn s, users_sendPasswordReset dn,
          users_updateSamba dn data, users_updateShadow dn data, sudoRoles_create data, sudoRoles_update dn data,
          sudoRoles_addUser dn s, sudoRoles_removeUser dn s, nextIds_get]
     @ map (\<lambda>r. (r, Needs ''users:delete'')) [users_delete dn, sudoRoles_delete dn]
     @ map (\<lambda>r. (r, Needs ''groups:read''))
         [groups_list p, groups_get dn, groups_members dn, groups_getSudoRoles dn, netgroups_list p, netgroups_get dn,
          netgroups_expand dn, netgroups_getSudoRoles dn]
     @ map (\<lambda>r. (r, Needs ''groups:write''))
         [groups_create data, groups_import rows, groups_update dn data, groups_changeCn dn s, groups_addMember dn s,
          groups_removeMember dn s, groups_updateSamba dn data, netgroups_create data, netgroups_import rows,
          netgroups_update dn data, sudoRoles_addGroup dn s, sudoRoles_removeGroup dn s]
     @ map (\<lambda>r. (r, Needs ''groups:delete'')) [groups_delete dn, netgroups_delete dn]
     @ map (\<lambda>r. (r, Needs ''settings:read''))
         [passwordPolicies_list p, passwordPolicies_get dn, admin_getConfig, admin_scheduledTasks_getConfig,
          admin_scheduledTasks_getHealth, admin_scheduledTasks_getRuns task]
     @ map (\<lambda>r. (r, Needs ''settings:write''))
         [passwordPolicies_create data, passwordPolicies_update dn data, passwordPolicies_delete dn,
          admin_policySelfTest, followed (admin_exportUrl dn s operational), admin_scheduledTasks_triggerUsersExpiration,
          admin_scheduledTasks_triggerPasswordsExpiration, admin_scheduledTasks_triggerLockoutScan]
     @ map (\<lambda>r. (r, Needs ''audit:read''))
         [auditLogs_list (Some q), auditLogs_actors, followed (auditLogs_exportUrl (Some q)), directoryChanges_list q]
     @ [(schema_get, Needs ''schema:read''), (schema_refresh, Needs ''schema:write'')]"



text \<open>An empty DN makes the address of the collection: a read lists it, a deletion finds no route.\<close>

lemma empty_dn: "required (users_get '''') = required (users_list None)"
  "required (users_delete '''') = None"
  by code_simp+

text \<open>The reset endpoint takes the token unescaped: one with a slash makes another path.\<close>

lemma reset_token_escapes: "required (passwordReset_confirm ''a/b'' ''pw'') = None"
  by code_simp

end
