(* ===== verification/User_Page.thy ===== *)
theory User_Page
  imports Ui_Parts Security_Tab Api_Routes "HOL-Library.Multiset"
begin

text \<open>
  The page of a user (\<open>routes/users/$dn.tsx\<close>), panel by panel: the controls each tab draws, in the
  order of the page, with the condition under which each can be used; and the requests the page can
  make. An input shows the value its field has in the form. Dates are formatted by the browser, names
  are sorted by its \<open>localeCompare\<close>, and the dash outside Latin-1 is an argument; help texts, icons and
  styles are left out.
\<close>

section \<open>Helpers\<close>

definition text_in :: "bool \<Rightarrow> string \<Rightarrow> string \<Rightarrow> string \<Rightarrow> control" where
  "text_in canWrite key label placeholder = Edits key label TextIn placeholder canWrite"

definition number_in :: "bool \<Rightarrow> string \<Rightarrow> string \<Rightarrow> string \<Rightarrow> control" where
  "number_in canWrite key label placeholder = Edits key label NumberIn placeholder canWrite"

lemma inputs [simp]:
  "writable (text_in w k l p) = w" "writable (number_in w k l p) = w"
  "edits_field (text_in w k l p) = Some k" "edits_field (number_in w k l p) = Some k"
  by (simp_all add: text_in_def number_in_def)

text \<open>\<open>a || b\<close> on names, and the plural of a counted noun.\<close>

definition name_or :: "string option \<Rightarrow> string \<Rightarrow> string" where
  "name_or a b = (case text_of a of Some x \<Rightarrow> x | None \<Rightarrow> b)"

section \<open>Identity\<close>

text \<open>A listed user, as the pickers draw it.\<close>

record listed_user =
  lu_dn :: string
  lu_uid :: string
  lu_cn :: string
  lu_displayName :: "string option"

definition photo_controls :: "bool \<Rightarrow> photo_state \<Rightarrow> control list" where
  "photo_controls canWrite s =
     (if canWrite then Presses ''Photo: drop an image or click to choose one'' True
        # (if ph_photo s \<noteq> '''' then [Presses ''Remove'' True] else [])
      else [])"

text \<open>The text on the button that opens the choice of a manager.\<close>

definition manager_text :: "listed_user list \<Rightarrow> string \<Rightarrow> string" where
  "manager_text items manager =
     (if manager = '''' then ''Select manager...''
      else (case List.find (\<lambda>u. lu_dn u = manager) items of
          Some m \<Rightarrow> name_or (lu_displayName m) (lu_cn m) @ '' ('' @ lu_uid m @ '')''
        | None \<Rightarrow> rdnValue manager))"

definition availableManagers :: "string \<Rightarrow> listed_user list \<Rightarrow> listed_user list" where
  "availableManagers dn items = filter (\<lambda>u. lu_dn u \<noteq> dn) items"

datatype manager_row = ClearManager | PickManager string string bool | NoManagers string

definition manager_rows :: "string \<Rightarrow> listed_user list \<Rightarrow> string \<Rightarrow> bool \<Rightarrow> string \<Rightarrow> manager_row list" where
  "manager_rows dn items manager fetching input =
     (if manager \<noteq> '''' then [ClearManager] else [])
     @ (if 0 < length (availableManagers dn items)
        then map (\<lambda>m. PickManager (lu_dn m) (name_or (lu_displayName m) (lu_cn m)) (manager = lu_dn m))
               (availableManagers dn items)
        else [NoManagers (picker_nothing fetching input ''No user matches this search.'' ''No other user to pick from.'')])"

text \<open>A press of a row: the manager in the form, and the dialog closed.\<close>

definition press_manager :: "manager_row \<Rightarrow> text_form \<times> bool \<Rightarrow> text_form \<times> bool" where
  "press_manager r s =
     (case r of
        ClearManager \<Rightarrow> (edit_field ''manager'' '''' (fst s), False)
      | PickManager dn n b \<Rightarrow> (edit_field ''manager'' dn (fst s), False)
      | NoManagers t \<Rightarrow> s)"

definition identity_fields :: "bool \<Rightarrow> string \<Rightarrow> string \<Rightarrow> control list" where
  "identity_fields canWrite uid manager_button =
     [Shows ''Username (UID)'' uid,
      text_in canWrite ''cn'' ''Common Name (CN)'' '''',
      text_in canWrite ''givenName'' ''First Name'' '''',
      text_in canWrite ''sn'' ''Last Name'' '''',
      text_in canWrite ''displayName'' ''Display Name'' '''',
      Edits ''mail'' ''Email'' EmailIn '''' canWrite,
      text_in canWrite ''telephoneNumber'' ''Phone'' '''',
      text_in canWrite ''title'' ''Title'' '''',
      text_in canWrite ''departmentNumber'' ''Department'' '''',
      text_in canWrite ''o'' ''Organization'' '''',
      text_in canWrite ''employeeNumber'' ''Employee Number'' '''',
      text_in canWrite ''employeeType'' ''Employee Type'' '''',
      text_in canWrite ''initials'' ''Initials'' '''',
      Edits ''manager'' ''Manager'' PickerIn manager_button canWrite,
      text_in canWrite ''description'' ''Description'' '''']"

definition identity_form :: "bool \<Rightarrow> photo_state \<Rightarrow> string \<Rightarrow> string \<Rightarrow> bool \<Rightarrow> bool \<Rightarrow> control list" where
  "identity_form canWrite photo uid manager_button textFieldsDirty pending =
     (if \<not> canWrite then [ReadOnlyNotice] else [])
     @ photo_controls canWrite photo
     @ identity_fields canWrite uid manager_button
     @ (if canWrite then FormActions (textFieldsDirty \<or> ph_changed photo) pending True [] else [])"

text \<open>The card of the groups, and the rows of the dialog that adds some.\<close>

record member_group =
  mg_dn :: string
  mg_cn :: string

definition membership_card :: "(member_group list \<Rightarrow> member_group list) \<Rightarrow> bool \<Rightarrow> bool \<Rightarrow> string option \<Rightarrow> member_group list \<Rightarrow> control list" where
  "membership_card locale_sort canWrite removing failure groups =
     Says (''Group Memberships ('' @ nat_str (length groups) @ '')'')
     # (if canWrite then [Presses ''Add to Group'' True] else [])
     @ (case failure of Some m \<Rightarrow> [Says m] | None \<Rightarrow> [])
     @ (if 0 < length groups
        then concat (map (\<lambda>g. Links (mg_cn g) ''/groups/$dn''
               # (if canWrite then [Presses ''Remove from group'' (\<not> removing)] else [])) (locale_sort groups))
        else [Says ''Not a member of any groups''])"

definition identity_tab :: "(member_group list \<Rightarrow> member_group list) \<Rightarrow> bool \<Rightarrow> photo_state \<Rightarrow> string \<Rightarrow> string \<Rightarrow>
    bool \<Rightarrow> bool \<Rightarrow> bool \<Rightarrow> string option \<Rightarrow> member_group list \<Rightarrow> control list" where
  "identity_tab locale_sort canWrite photo uid manager_button dirty pending removing failure groups =
     identity_form canWrite photo uid manager_button dirty pending
     @ membership_card locale_sort canWrite removing failure groups"

text \<open>The dialog that adds to groups: the candidates not joined yet, toggled, and its button.\<close>

definition groupsNotJoined :: "member_group list \<Rightarrow> member_group list \<Rightarrow> member_group list" where
  "groupsNotJoined items groups = filter (\<lambda>g. mg_dn g \<notin> set (map mg_dn groups)) items"

definition toggle_group :: "string \<Rightarrow> string list \<Rightarrow> string list" where
  "toggle_group dn selected =
     (if dn \<in> set selected then filter (\<lambda>g. g \<noteq> dn) selected else selected @ [dn])"

definition groups_selected_text :: "string list \<Rightarrow> string option" where
  "groups_selected_text selected =
     (if 0 < length selected
      then Some (nat_str (length selected) @ '' group'' @ (if 1 < length selected then ''s'' else '''') @ '' selected'')
      else None)"

definition add_groups_button :: "bool \<Rightarrow> string list \<Rightarrow> control" where
  "add_groups_button pending selected =
     Presses (if pending then ''Adding...''
              else ''Add to '' @ (if length selected \<noteq> 0 then nat_str (length selected) else '''') @ '' Group''
                   @ (if length selected \<noteq> 1 then ''s'' else ''''))
       (\<not> (length selected = 0 \<or> pending))"

text \<open>The dialog that asks before a group is left: closed at once when confirmed.\<close>

definition confirm_leave :: "string \<Rightarrow> string \<Rightarrow> member_group option \<Rightarrow> mutation option \<times> member_group option" where
  "confirm_leave dn uid asked = (map_option (\<lambda>g. leave_group dn uid (mg_dn g)) asked, None)"

section \<open>POSIX\<close>

definition shown_int :: "entry \<Rightarrow> string \<Rightarrow> string" where
  "shown_int e k = (case int_opt e k of Some n \<Rightarrow> int_str n | None \<Rightarrow> '''')"

definition posix_tab :: "bool \<Rightarrow> entry \<Rightarrow> bool \<Rightarrow> bool \<Rightarrow> control list" where
  "posix_tab canWrite user isDirty pending =
     [Shows ''UID Number'' (shown_int user ''uidNumber''), Shows ''GID Number'' (shown_int user ''gidNumber'')]
     @ (if canWrite then [Presses ''Change UID / GID number'' True] else [])
     @ [text_in canWrite ''homeDirectory'' ''Home Directory'' ''/home/username'',
        text_in canWrite ''loginShell'' ''Login Shell'' ''/bin/bash'',
        text_in canWrite ''gecos'' ''GECOS'' ''Full Name,Room,Phone,Other'']
     @ (if canWrite then FormActions isDirty pending True [] else [])"

text \<open>The dialog of the numbers, when it is open.\<close>

definition posix_dialog_controls :: "posix_dialog \<Rightarrow> string \<Rightarrow> int option \<Rightarrow> int option \<Rightarrow> control list" where
  "posix_dialog_controls d uid uidNumber gidNumber =
     [Edits ''newUid'' ''New UID number'' TextIn (case uidNumber of Some n \<Rightarrow> int_str n | None \<Rightarrow> '''') True]
     @ (if number_bad (px_newUid d) then [Says ''Must be a whole number.''] else [])
     @ [Edits ''newGid'' ''New GID number'' TextIn (case gidNumber of Some n \<Rightarrow> int_str n | None \<Rightarrow> '''') True]
     @ (if number_bad (px_newGid d) then [Says ''Must be a whole number.''] else [])
     @ [Edits ''confirm'' (''Type the username '' @ uid @ '' to confirm'') TextIn '''' True,
        Presses ''Cancel'' True,
        Presses (if px_pending d then ''Changing...'' else ''Change numbers'')
          (posix_can_submit d uid uidNumber gidNumber)]"

section \<open>SSH keys\<close>

definition key_row :: "bool \<Rightarrow> bool \<Rightarrow> string \<Rightarrow> control list" where
  "key_row canWrite removing key =
     (case parseKeyInfo key of
        (type, comment, fingerprint) \<Rightarrow>
          [Says type] @ (if comment \<noteq> '''' then [Says comment] else []) @ [Says fingerprint, Reads ''Copy SSH public key'']
          @ (if canWrite then [Presses ''Remove SSH key'' (\<not> removing)] else []))"

definition ssh_tab :: "bool \<Rightarrow> bool \<Rightarrow> bool \<Rightarrow> string \<Rightarrow> string list \<Rightarrow> control list" where
  "ssh_tab canWrite removing adding newKey sshKeys =
     Says (''SSH Public Keys ('' @ nat_str (length sshKeys) @ '')'')
     # (if 0 < length sshKeys then concat (map (key_row canWrite removing) sshKeys)
        else [Says ''No SSH keys configured''])
     @ (if canWrite
        then [Edits ''newKey'' ''Add SSH Public Key'' TextIn ''ssh-rsa AAAA... user@host'' True,
              Presses ''Add'' (\<not> (trim newKey = '''' \<or> adding))]
        else [])"

section \<open>Samba and shadow\<close>

text \<open>Both tabs offer to add the class first when the entry does not carry it.\<close>

definition class_offer_controls :: "bool \<Rightarrow> string \<Rightarrow> string \<Rightarrow> control list" where
  "class_offer_controls canWrite heading button =
     [Says heading,
      if canWrite then Presses button True else Says (''You don'' @ [CHR 0x27] @ ''t have permission to add objectClasses.'')]"

definition class_actions :: "bool \<Rightarrow> bool \<Rightarrow> class_tab \<Rightarrow> bool \<Rightarrow> control list" where
  "class_actions canWrite isDirty t pending =
     (if canWrite
      then FormActions (isDirty \<or> ct_adding t) pending (\<not> ct_adding t)
             (if ct_adding t then [Presses ''Cancel'' True] else [])
      else [])"

definition windows_path :: "string list \<Rightarrow> string" where
  "windows_path ws = [CHR 0x5C, CHR 0x5C] @ ''server'' @ concat (map (\<lambda>w. CHR 0x5C # w) ws)"

definition samba_fields :: "bool \<Rightarrow> control list" where
  "samba_fields canWrite =
     [text_in canWrite ''sambaSID'' ''SID'' ''S-1-5-21-...'',
      text_in canWrite ''sambaPrimaryGroupSID'' ''Primary Group SID'' ''S-1-5-21-...-513'',
      text_in canWrite ''sambaAcctFlags'' ''Account Flags'' ''[U          ]'',
      text_in canWrite ''sambaHomePath'' ''Home Path'' (windows_path [''homes'', ''username'']),
      text_in canWrite ''sambaHomeDrive'' ''Home Drive'' ''H:'',
      text_in canWrite ''sambaLogonScript'' ''Logon Script'' ''logon.bat'',
      text_in canWrite ''sambaProfilePath'' ''Profile Path'' (windows_path [''profiles'', ''username'']),
      text_in canWrite ''sambaDomainName'' ''Domain Name'' ''DOMAIN'']"

text \<open>The time the Samba password was set: seconds since the epoch, as text.\<close>

definition samba_last_set :: "(int \<Rightarrow> string) \<Rightarrow> string \<Rightarrow> entry \<Rightarrow> class_tab \<Rightarrow> control list" where
  "samba_last_set locale invalid user t =
     (case text_of (str_opt user ''sambaPwdLastSet'') of
        Some v \<Rightarrow> if \<not> ct_adding t
          then [Says (''Password Last Set: '' @ (case parse_int v of Some n \<Rightarrow> locale (n * 1000) | None \<Rightarrow> invalid))]
          else []
      | None \<Rightarrow> [])"

definition samba_tab :: "(int \<Rightarrow> string) \<Rightarrow> string \<Rightarrow> bool \<Rightarrow> bool \<Rightarrow> entry \<Rightarrow> class_tab \<Rightarrow> bool \<Rightarrow> bool \<Rightarrow> control list" where
  "samba_tab locale invalid canWrite hasObjectClass user t isDirty pending =
     (if class_offer hasObjectClass t then class_offer_controls canWrite ''Samba Not Enabled'' ''Add Samba Account''
      else samba_fields canWrite @ samba_last_set locale invalid user t @ class_actions canWrite isDirty t pending)"

text \<open>\<open>daysToDate(parseInt(days))\<close>: nothing for 0 and for text that is no number.\<close>

definition daysToDate :: "(int \<Rightarrow> string) \<Rightarrow> int option \<Rightarrow> string" where
  "daysToDate locale_date days =
     (case days of
        None \<Rightarrow> ''Not set''
      | Some d \<Rightarrow> if d = 0 then ''Not set'' else locale_date (d * 24 * 60 * 60 * 1000))"

definition days_note :: "(int \<Rightarrow> string) \<Rightarrow> string \<Rightarrow> string" where
  "days_note locale_date v = (if v \<noteq> '''' then '' ('' @ daysToDate locale_date (parse_int v) @ '')'' else '''')"

definition shadow_fields :: "(int \<Rightarrow> string) \<Rightarrow> bool \<Rightarrow> bool \<Rightarrow> text_form \<Rightarrow> control list" where
  "shadow_fields locale_date canWrite isSelf form =
     [number_in canWrite ''shadowLastChange'' ''Last Password Change'' ''Days since Jan 1, 1970'',
      Says (''Number of days since epoch when password was last changed''
        @ days_note locale_date (coalesce (map_of form ''shadowLastChange'') '''')),
      number_in canWrite ''shadowMin'' ''Minimum Age'' ''0'',
      number_in canWrite ''shadowMax'' ''Maximum Age'' ''99999'',
      number_in canWrite ''shadowWarning'' ''Warning Period'' ''7'',
      number_in canWrite ''shadowInactive'' ''Inactive Period'' ''Not set'',
      number_in (\<not> (\<not> canWrite \<or> isSelf)) ''shadowExpire'' ''Account Expiration'' ''Not set'',
      Says (if isSelf then ''Expiring your own account would lock you out, so this field is read-only here.''
            else ''Days since epoch when account expires''
              @ days_note locale_date (coalesce (map_of form ''shadowExpire'') '''')),
      number_in canWrite ''shadowFlag'' ''Flag'' ''0'']"

definition shadow_tab :: "(int \<Rightarrow> string) \<Rightarrow> bool \<Rightarrow> bool \<Rightarrow> bool \<Rightarrow> class_tab \<Rightarrow> bool \<Rightarrow> bool \<Rightarrow> control list" where
  "shadow_tab locale_date canWrite hasObjectClass isSelf t isDirty pending =
     (if class_offer hasObjectClass t then class_offer_controls canWrite ''Shadow Not Enabled'' ''Add Shadow Account''
      else shadow_fields locale_date canWrite isSelf (ct_form t) @ class_actions canWrite isDirty t pending)"

section \<open>Sudo\<close>

record granted_role =
  gr_dn :: string
  gr_cn :: string
  gr_via :: "string list"
  gr_host :: "string list"
  gr_command :: "string list"
  gr_runAsUser :: "string list"
  gr_option :: "string list"

definition role_lists :: "granted_role \<Rightarrow> control list" where
  "role_lists r =
     concat (map (\<lambda>(label, vs). if 0 < length vs then [Says (label @ join_with '', '' vs)] else [])
       [(''Hosts: '', gr_host r), (''Commands: '', gr_command r), (''Run as: '', gr_runAsUser r),
        (''Options: '', gr_option r)])"

definition role_row :: "bool \<Rightarrow> string \<Rightarrow> bool \<Rightarrow> granted_role \<Rightarrow> control list" where
  "role_row canWrite uid removing r =
     [Says (gr_cn r)]
     @ List.map_filter (\<lambda>token. map_option (\<lambda>(label, title). Says label) (GrantOrigin token uid)) (gr_via r)
     @ role_lists r
     @ (if canWrite \<and> uid \<in> set (gr_via r) then [Presses ''Remove from sudo role'' (\<not> removing)] else [])"

text \<open>A netgroup that reaches the user: its name, and whether it names the user itself.\<close>

definition netgroup_badge :: "string \<times> bool \<Rightarrow> control" where
  "netgroup_badge m = Says (fst m @ (if snd m then '''' else '' nested''))"

definition sudo_tab :: "bool \<Rightarrow> string \<Rightarrow> bool \<Rightarrow> bool \<Rightarrow> bool \<Rightarrow> string option \<Rightarrow> (string \<times> bool) list \<Rightarrow> granted_role list \<Rightarrow> control list" where
  "sudo_tab canWrite uid netgroupsSupported loading removing failure netgroups roles =
     Says (''Sudo Roles ('' @ nat_str (length roles) @ '')'')
     # (if canWrite then [Presses ''Add to Sudo Role'' True] else [])
     @ (if netgroupsSupported \<and> 0 < length netgroups then Says ''Netgroups'' # map netgroup_badge netgroups else [])
     @ (case failure of Some m \<Rightarrow> [Says m] | None \<Rightarrow> [])
     @ (if loading then []
        else if 0 < length roles then concat (map (role_row canWrite uid removing) roles)
        else [Says ''No sudo roles assigned''])"

text \<open>The dialog of the roles: candidates the user does not hold, one selected, and its button.\<close>

definition rolesNotHeld :: "granted_role list \<Rightarrow> granted_role list \<Rightarrow> granted_role list" where
  "rolesNotHeld items held = filter (\<lambda>r. gr_dn r \<notin> set (map gr_dn held)) items"

definition role_commands_text :: "granted_role \<Rightarrow> string option" where
  "role_commands_text r =
     (if 0 < length (gr_command r)
      then Some (''Commands: '' @ join_with '', '' (take 2 (gr_command r))
             @ (if 2 < length (gr_command r) then '' +'' @ nat_str (length (gr_command r) - 2) @ '' more'' else ''''))
      else None)"

definition add_role_button :: "bool \<Rightarrow> string \<Rightarrow> control" where
  "add_role_button pending selectedRole =
     Presses (if pending then ''Adding...'' else ''Add'') (\<not> (selectedRole = '''' \<or> pending))"

section \<open>Security\<close>

text \<open>A password input with its two buttons (\<open>components/ui/password-input.tsx\<close>), its value still hidden.\<close>

definition password_in :: "bool \<Rightarrow> bool \<Rightarrow> string \<Rightarrow> string \<Rightarrow> control list" where
  "password_in generate enabled key label =
     [Edits key label PasswordIn '''' enabled, Reads ''Show password'']
     @ (if generate then [Presses ''Generate'' enabled] else [])"

definition password_card :: "viewer \<Rightarrow> bool \<Rightarrow> string \<Rightarrow> string \<Rightarrow> bool \<Rightarrow> bool \<Rightarrow> control list" where
  "password_card v hasPassword password confirmPassword changing removing =
     password_in (\<not> vw_isSelf v) (vw_canWrite v) ''password'' ''New Password''
     @ password_in False (vw_canWrite v) ''confirmPassword'' ''Confirm Password''
     @ (if passwordsDontMatch password confirmPassword then [Says ''Passwords do not match''] else [])
     @ (if passwordsMatch password confirmPassword then [Says ''Passwords match''] else [])
     @ (if vw_canWrite v
        then [Presses (if changing then ''Changing...'' else ''Change Password'')
                (\<not> (\<not> passwordsMatch password confirmPassword \<or> changing)),
              if vw_isSelf v then Says ''Your own password cannot be removed here.''
              else if hasPassword then Presses (if removing then ''Removing...'' else ''Remove Password'') (\<not> removing)
              else Says ''No password set'']
        else [])"

definition reset_card :: "viewer \<Rightarrow> string option \<Rightarrow> bool \<Rightarrow> control list" where
  "reset_card v mail sending =
     (case text_of mail of
        None \<Rightarrow> [Says (''This user has no email address configured. ''
                 @ ''Add an email address in the Identity tab to enable password reset emails.'')]
      | Some m \<Rightarrow> Says (''An email with a password reset link will be sent to '' @ m)
          # (if vw_canWrite v then [Presses (if sending then ''Sending...'' else ''Send Password Reset Email'') (\<not> sending)]
             else []))"

text \<open>
  The status with its lock button and the alert of a directory that enforces nothing; \<open>lockedAt_text\<close> is
  the date of the lock in the browser's words.
\<close>

definition status_card :: "viewer \<Rightarrow> date \<Rightarrow> account_status \<Rightarrow> string option \<Rightarrow> string option \<Rightarrow> (string \<Rightarrow> string) \<Rightarrow> bool \<Rightarrow> control list" where
  "status_card v now user lockedAt_text lock_detail expiry_text not_enforced =
     [Says (account_title now user), Says (account_sentence now user)]
     @ (case lockedAt_text of
          Some t \<Rightarrow> if hasLockFlag user then [Says ((if hasLapsedLock user then ''Was locked on: '' else ''Locked on: '') @ t)] else []
        | None \<Rightarrow> [])
     @ (case lock_detail of Some t \<Rightarrow> [Says t] | None \<Rightarrow> [])
     @ (if hasFutureExpiration now user \<or> hasPastExpiration now user
        then [Says ((if hasPastExpiration now user then ''Expired on: '' else ''Expires on: '')
               @ expiry_text (coalesce (ac_pwdEndTime user) ''''))]
        else [])
     @ (if vw_canWrite v \<and> vw_isSelf v \<and> \<not> hasLockFlag user
        then [Says ''This is the account you are signed in with, so it cannot be locked here.''] else [])
     @ (if vw_canWrite v \<and> \<not> (vw_isSelf v \<and> \<not> hasLockFlag user)
        then [Presses (if hasLockFlag user then ''Unlock Account'' else ''Lock Account'') True] else [])
     @ (if not_enforced then [Says ''No password policy applies to this directory''] else [])"

definition lock_dialog_text :: "lock_dialog \<Rightarrow> string \<Rightarrow> string \<times> string \<times> string" where
  "lock_dialog_text d uid =
     (case d of
        DialogUnlock \<Rightarrow> (''Unlock account'', ''Unlock '' @ uid @ ''? Any lockout the password policy applied after failed sign-ins is cleared too, along with the record of those attempts.'', ''Unlock'')
      | DialogLock \<Rightarrow> (''Lock account'', ''Lock '' @ uid @ ''? The account will be refused by every service that authenticates against this directory until someone unlocks it.'', ''Lock''))"

definition expiration_card :: "viewer \<Rightarrow> date \<Rightarrow> account_status \<Rightarrow> bool \<Rightarrow> string \<Rightarrow> bool \<Rightarrow> (string \<Rightarrow> string) \<Rightarrow> control list" where
  "expiration_card v now user editing field saving expiry_text =
     (let future = hasFutureExpiration now user; day_text = expiry_text (coalesce (ac_pwdEndTime user) '''')
      in (if \<not> vw_canExpire v \<and> vw_canWrite v
          then [Says ''This directory cannot schedule account expiry: its ppolicy overlay has no pwdEndTime (OpenLDAP 2.5 or later). Locking is unaffected.'']
          else [])
       @ (if vw_canExpire v \<and> vw_canWrite v \<and> vw_isSelf v \<and> future
          then [Says (''This account expires on '' @ day_text @ ''. It is the account you are signed in with, so only clearing the date is available here.''),
                Presses (if saving then ''Clearing...'' else ''Clear expiration'') (\<not> saving)]
          else [])
       @ (if vw_canExpire v \<and> vw_canWrite v \<and> vw_isSelf v \<and> \<not> future
          then [Says ''Setting an expiration date on the account you are signed in with would lock you out, so it is not available here.'']
          else [])
       @ (if vw_canExpire v \<and> vw_canWrite v \<and> \<not> vw_isSelf v
          then (if future \<and> \<not> editing then [Reads ''Edit''] else [])
            @ (if editing \<or> \<not> future
               then [Edits ''expirationDate'' ''Account Expiration'' DateIn '''' True,
                     Presses (if saving then ''Saving...'' else if field \<noteq> '''' then ''Set Expiration'' else ''Clear'') (\<not> saving)]
                 @ (if editing then [Reads ''Cancel''] else [])
               else [Says (''This account is scheduled to expire on '' @ day_text @ ''.'')])
          else []))"

text \<open>The policy card, shown with the policies module: banners, choice, and the failures on record.\<close>

definition policy_select :: "viewer \<Rightarrow> string option \<Rightarrow> policy_choice \<Rightarrow> (string \<times> string) list \<Rightarrow> bool \<Rightarrow> control list" where
  "policy_select v subentry choice options applying =
     (if vw_canWrite v
      then Edits ''pwdPolicySubentry'' ''Applied Policy'' (SelectIn options) '''' (\<not> applying)
        # (if policyDirty subentry choice
           then [Presses (if applying then ''Applying...'' else ''Apply policy'') (\<not> applying), Presses ''Cancel'' (\<not> applying)]
           else [])
      else [Says (case text_of subentry of Some d \<Rightarrow> extractCN d | None \<Rightarrow> ''Default'')])"

definition policies_left_out :: "string \<Rightarrow> viewer \<Rightarrow> int \<Rightarrow> control list" where
  "policies_left_out dash v n =
     (if vw_canWrite v \<and> 0 < n
      then [Says (int_str n @ '' further '' @ (if n = 1 then ''policy is'' else ''policies are'')
             @ '' not listed here '' @ dash @ '' the directory returned as many as it will.'')]
      else [])"

definition recent_failures :: "(string \<Rightarrow> string) \<Rightarrow> string list \<Rightarrow> string list" where
  "recent_failures format_stamp ts =
     map format_stamp (drop (length ts - 5) ts)
     @ (if 5 < length ts then [''+'' @ nat_str (length ts - 5) @ '' more''] else [])"

definition no_policy_data :: "account_status \<Rightarrow> bool \<Rightarrow> string list \<Rightarrow> string option \<Rightarrow> bool" where
  "no_policy_data user pwdReset failures pwdChangedTime \<longleftrightarrow>
     \<not> hasLockFlag user \<and> \<not> pwdReset \<and> length failures = 0 \<and> text_of pwdChangedTime = None"

definition policy_card :: "string \<Rightarrow> viewer \<Rightarrow> date \<Rightarrow> account_status \<Rightarrow> string option \<Rightarrow> policy_choice \<Rightarrow> (string \<times> string) list \<Rightarrow> int \<Rightarrow> bool \<Rightarrow>
    (string \<Rightarrow> string) \<Rightarrow> (string \<Rightarrow> string) \<Rightarrow> bool \<Rightarrow> string list \<Rightarrow> string list \<Rightarrow> string option \<Rightarrow> control list" where
  "policy_card dash v now user subentry choice options left_out applying format_day format_stamp pwdReset failures graces pwdChangedTime =
     (if hasFutureExpiration now user
      then [Says ''Scheduled Expiration'', Says (''Account expires on: '' @ format_day (coalesce (ac_pwdEndTime user) ''''))]
      else [])
     @ (case lock_banner user of Some t \<Rightarrow> [Says t] | None \<Rightarrow> [])
     @ (if hasLapsedLock user then [Says ''Lockout Expired''] else [])
     @ (if pwdReset then [Says ''Password Reset Required''] else [])
     @ [Says (case text_of pwdChangedTime of Some t \<Rightarrow> format_stamp t | None \<Rightarrow> ''N/A'')]
     @ policy_select v subentry choice options applying @ policies_left_out dash v left_out
     @ (if 0 < length failures then Says ''Recent Failed Logins'' # map Says (recent_failures format_stamp failures) else [])
     @ (if 0 < length graces then Says ''Grace Logins Used'' # map (\<lambda>t. Says (format_stamp t)) graces else [])
     @ (if no_policy_data user pwdReset failures pwdChangedTime
        then [Says ''No password policy data available. This may indicate the ppolicy overlay is not enabled or this user has no policy-related activity.'']
        else [])"

definition rename_card :: "viewer \<Rightarrow> control list" where
  "rename_card v =
     (if vw_canWrite v \<and> vw_isSelf v
      then [Says ''Renaming an account changes its directory identity, which would invalidate the session you are using. Ask another administrator to rename it.'']
      else [])
     @ (if vw_canWrite v \<and> \<not> vw_isSelf v then [Presses ''Change username'' True] else [])"

definition danger_card :: "viewer \<Rightarrow> control list" where
  "danger_card v =
     (if vw_canDelete v \<and> vw_isSelf v
      then [Says ''You cannot delete the account you are signed in with. Ask another administrator, or sign in with a different account.'']
      else [])
     @ (if vw_canDelete v \<and> \<not> vw_isSelf v then [Presses ''Delete User'' True] else [])"

text \<open>
  The dialog that renames: closing it with Escape or the backdrop empties the two fields, its Cancel
  button closes it with what they hold.
\<close>

record uid_dialog =
  ud_open :: bool
  ud_new :: string
  ud_confirm :: string

definition uid_open_change :: "bool \<Rightarrow> uid_dialog \<Rightarrow> uid_dialog" where
  "uid_open_change opened s =
     (let s' = s\<lparr>ud_open := opened\<rparr> in if \<not> opened then s'\<lparr>ud_new := '''', ud_confirm := ''''\<rparr> else s')"

definition uid_cancel :: "uid_dialog \<Rightarrow> uid_dialog" where
  "uid_cancel s = s\<lparr>ud_open := False\<rparr>"

definition uid_dialog_controls :: "string \<Rightarrow> uid_dialog \<Rightarrow> bool \<Rightarrow> control list" where
  "uid_dialog_controls uid s pending =
     (let d = \<lparr>rn_new = ud_new s, rn_confirm = ud_confirm s, rn_pending = pending\<rparr>
      in [Edits ''newUid'' ''New username'' TextIn ''new-username'' True]
       @ (case rename_complaint d uid of Some t \<Rightarrow> [Says t] | None \<Rightarrow> [])
       @ [Edits ''confirmUid'' (''Type the current username '' @ uid @ '' to confirm'') TextIn '''' True,
          Presses ''Cancel'' True,
          Presses (if pending then ''Renaming...'' else ''Change username'') (rename_can_submit d uid)])"

text \<open>A rename armed with its confirmation is still armed when the dialog is cancelled and opened again.\<close>

lemma rename_stays_armed:
  "uid_dialog_controls ''jane'' (uid_open_change True (uid_cancel \<lparr>ud_open = True, ud_new = ''joan'', ud_confirm = ''jane''\<rparr>)) False
     = uid_dialog_controls ''jane'' \<lparr>ud_open = True, ud_new = ''joan'', ud_confirm = ''jane''\<rparr> False"
  "uid_dialog_controls ''jane'' (uid_open_change True (uid_open_change False s)) False
     = uid_dialog_controls ''jane'' \<lparr>ud_open = True, ud_new = '''', ud_confirm = ''''\<rparr> False"
  by (simp_all add: uid_open_change_def uid_cancel_def uid_dialog_controls_def Let_def)

section \<open>The page\<close>

text \<open>
  What the page draws from: the session, the entry, the answers of its queries, and the state of its
  tabs. Dirty flags, calls on the way and errors shown on a card are looked up by the name of the form
  or mutation.
\<close>

record user_view =
  uv_viewer :: viewer
  uv_now :: date
  uv_user :: entry
  uv_account :: account_status
  uv_dirty :: "string \<Rightarrow> bool"
  uv_pending :: "string \<Rightarrow> bool"
  uv_failure :: "string \<Rightarrow> string option"
  uv_photo :: photo_state
  uv_managers :: "listed_user list"
  uv_identity :: text_form
  uv_groups :: "member_group list"
  uv_newKey :: string
  uv_samba :: class_tab
  uv_shadow :: class_tab
  uv_netgroupsSupported :: bool
  uv_netgroups :: "(string \<times> bool) list"
  uv_roles :: "granted_role list option"
  uv_password :: string
  uv_confirmPassword :: string
  uv_lockedAt :: "string option"
  uv_lockDetail :: "string option"
  uv_editing :: bool
  uv_expiration :: string
  uv_policies :: bool
  uv_choice :: policy_choice
  uv_options :: "(string \<times> string) list"
  uv_leftOut :: int
  uv_sort :: "member_group list \<Rightarrow> member_group list"
  uv_date :: "int \<Rightarrow> string"
  uv_day :: "string \<Rightarrow> string"
  uv_stamp :: "string \<Rightarrow> string"
  uv_enforcement :: string
  uv_dash :: string

definition user_texts :: "entry \<Rightarrow> string \<Rightarrow> string list" where
  "user_texts e k = coalesce (list_opt json_str e k) []"

definition user_uid :: "user_view \<Rightarrow> string" where
  "user_uid v = coalesce (str_opt (uv_user v) ''uid'') ''''"

definition carries :: "user_view \<Rightarrow> string \<Rightarrow> bool" where
  "carries v c = has_class (Some (user_texts (uv_user v) ''objectClasses'')) c"

definition security_panel :: "user_view \<Rightarrow> control list" where
  "security_panel v =
     (let w = uv_viewer v; u = uv_user v; p = uv_pending v in
      password_card w (bool_opt u ''hasPassword'' = Some True) (uv_password v) (uv_confirmPassword v)
        (p ''changePassword'') (p ''removePassword'')
      @ reset_card w (str_opt u ''mail'') (p ''sendPasswordReset'')
      @ status_card w (uv_now v) (uv_account v) (uv_lockedAt v) (uv_lockDetail v) (uv_day v)
          (enforcement_alert (uv_enforcement v) (str_opt u ''pwdPolicySubentry''))
      @ expiration_card w (uv_now v) (uv_account v) (uv_editing v) (uv_expiration v) (p ''setExpiration'') (uv_day v)
      @ (if uv_policies v
         then policy_card (uv_dash v) w (uv_now v) (uv_account v) (str_opt u ''pwdPolicySubentry'') (uv_choice v) (uv_options v) (uv_leftOut v)
                (p ''updatePolicy'') (uv_day v) (uv_stamp v) (bool_opt u ''pwdReset'' = Some True)
                (user_texts u ''pwdFailureTime'') (user_texts u ''pwdGraceUseTime'') (str_opt u ''pwdChangedTime'')
         else [])
      @ rename_card w @ danger_card w)"

definition user_panel :: "user_view \<Rightarrow> string \<Rightarrow> control list" where
  "user_panel v tab =
     (let w = vw_canWrite (uv_viewer v); u = uv_user v; d = uv_dirty v; p = uv_pending v in
      if tab = ''identity'' then
        identity_tab (uv_sort v) w (uv_photo v) (user_uid v)
          (manager_text (uv_managers v) (coalesce (map_of (uv_identity v) ''manager'') '''')) (d ''identity'') (p ''identity'')
          (p ''leave'') (uv_failure v ''groups'') (uv_groups v)
      else if tab = ''posix'' then posix_tab w u (d ''posix'') (p ''posix'')
      else if tab = ''shadow'' then
        shadow_tab (uv_date v) w (carries v ''shadowaccount'') (vw_isSelf (uv_viewer v)) (uv_shadow v) (d ''shadow'') (p ''shadow'')
      else if tab = ''samba'' then
        samba_tab (uv_date v) ''Invalid Date'' w (carries v ''sambasamaccount'') u (uv_samba v) (d ''samba'') (p ''samba'')
      else if tab = ''ssh-keys'' then ssh_tab w (p ''removeKey'') (p ''addKey'') (uv_newKey v) (user_texts u ''sshPublicKey'')
      else if tab = ''sudo'' then
        sudo_tab w (user_uid v) (uv_netgroupsSupported v) (uv_roles v = None) (p ''leaveRole'') (uv_failure v ''roles'')
          (uv_netgroups v) (coalesce (uv_roles v) [])
      else if tab = ''security'' then security_panel v
      else [])"

text \<open>The panel shown: the one of the active tab, if that tab is among those of the page.\<close>

definition user_page :: "user_view \<Rightarrow> string set \<Rightarrow> string set \<Rightarrow> string option \<Rightarrow> control list" where
  "user_page v objects modules tab =
     (case shown_panel (user_tabs_shown objects modules) (active_tab tab (user_default_tab objects modules)) of
        Some t \<Rightarrow> user_panel v t | None \<Rightarrow> [])"

section \<open>What a read-only session can do, and what a save covers\<close>

named_theorems panel_simps \<open>the definitions of the panels of a page\<close>

lemmas panels [panel_simps] = identity_tab_def identity_form_def photo_controls_def identity_fields_def membership_card_def
  posix_tab_def key_row_def ssh_tab_def class_offer_controls_def class_actions_def samba_fields_def samba_last_set_def
  samba_tab_def shadow_fields_def shadow_tab_def role_lists_def role_row_def netgroup_badge_def sudo_tab_def
  password_in_def password_card_def reset_card_def status_card_def expiration_card_def policy_select_def
  policies_left_out_def policy_card_def rename_card_def danger_card_def

lemma read_only_map_filter [simp]:
  "read_only (List.map_filter f xs) \<longleftrightarrow> (\<forall>x \<in> set xs. \<forall>c. f x = Some c \<longrightarrow> \<not> writable c)"
  by (induction xs) (auto simp: map_filter_def split: option.splits)

lemma read_only_identity: "read_only (identity_tab srt False photo uid mb d p r f gs)"
  by (auto simp: panel_simps split: option.splits)

lemma read_only_posix: "read_only (posix_tab False user d p)"
  by (simp add: panel_simps)

lemma read_only_ssh: "read_only (ssh_tab False r a k ks)"
  by (auto simp: panel_simps split: prod.splits)

lemma read_only_samba: "read_only (samba_tab lc bad False h user t d p)"
  by (auto simp: panel_simps split: option.splits)

lemma read_only_shadow: "read_only (shadow_tab lc False h self t d p)"
  by (simp add: panel_simps)

lemma read_only_sudo: "read_only (sudo_tab False uid n l r f ngs rs)"
  by (auto simp: panel_simps split: option.splits)

lemma read_only_security:
  assumes "\<not> vw_canWrite (uv_viewer v)" "c \<in> set (security_panel v)" "writable c"
  shows "c = Presses ''Delete User'' True \<and> vw_canDelete (uv_viewer v) \<and> \<not> vw_isSelf (uv_viewer v)"
proof -
  have "read_only (password_card (uv_viewer v) a b e f g)" "read_only (reset_card (uv_viewer v) m p)"
    "read_only (status_card (uv_viewer v) n ac la ld x ne)" "read_only (expiration_card (uv_viewer v) n ac ed fi sa x)"
    "read_only (policy_card da (uv_viewer v) n ac su ch op lo ap dy st pr fa gr pc)" "read_only (rename_card (uv_viewer v))"
    for a b e f g m p n ac la ld x ne da ed fi sa su ch op lo ap dy st pr fa gr pc
    using assms(1) by (auto simp: panel_simps Let_def split: option.splits)
  then have "c \<in> set (danger_card (uv_viewer v))"
    using assms(2,3) by (auto simp: security_panel_def Let_def read_only_def list_all_iff split: if_splits)
  then show ?thesis using assms(3) by (auto simp: danger_card_def split: if_splits)
qed

text \<open>
  C22: A session without \<open>users:write\<close> cannot change anything from the page of a user, on any tab and in any
  state of it: no input is enabled and no button acts, save the deletion of another's account for a
  session that may delete.
\<close>

theorem user_page_read_only:
  assumes "\<not> vw_canWrite (uv_viewer v)" "c \<in> set (user_page v objects modules tab)" "writable c"
  shows "c = Presses ''Delete User'' True \<and> vw_canDelete (uv_viewer v) \<and> \<not> vw_isSelf (uv_viewer v)"
proof -
  obtain t where t: "c \<in> set (user_panel v t)"
    using assms(2) by (auto simp: user_page_def split: option.splits)
  have "c \<notin> set cs" if "read_only cs" for cs using that assms(3) by (auto simp: read_only_def list_all_iff)
  then have "c \<in> set (security_panel v)"
    using t assms(1) read_only_identity read_only_posix read_only_ssh read_only_samba read_only_shadow read_only_sudo
    by (simp add: user_panel_def Let_def split: if_splits)
  then show ?thesis using read_only_security assms by blast
qed

text \<open>Someone who may only delete, looking at the Security tab of another's account.\<close>

definition sample_view :: user_view where
  "sample_view =
     \<lparr>uv_viewer = \<lparr>vw_canWrite = False, vw_canDelete = True, vw_isSelf = False, vw_canExpire = True\<rparr>,
      uv_now = 0, uv_user = [(''uid'', JStr ''jane''), (''objectClasses'', JArr [JStr ''posixAccount''])],
      uv_account = \<lparr>ac_accountLocked = Some False, ac_pwdAccountLockedTime = None, ac_pwdEndTime = None, ac_lockout = None\<rparr>,
      uv_dirty = (\<lambda>k. False), uv_pending = (\<lambda>k. False), uv_failure = (\<lambda>k. None),
      uv_photo = photo_mount None, uv_managers = [], uv_identity = [], uv_groups = [], uv_newKey = '''',
      uv_samba = \<lparr>ct_form = [], ct_adding = False\<rparr>, uv_shadow = \<lparr>ct_form = [], ct_adding = False\<rparr>,
      uv_netgroupsSupported = False, uv_netgroups = [], uv_roles = Some [], uv_password = '''', uv_confirmPassword = '''',
      uv_lockedAt = None, uv_lockDetail = None, uv_editing = False, uv_expiration = '''', uv_policies = False,
      uv_choice = \<lparr>pc_choice = '''', pc_lastServer = ''''\<rparr>, uv_options = [], uv_leftOut = 0, uv_sort = id, uv_date = int_str, uv_day = id, uv_stamp = id,
      uv_enforcement = ''enforced'', uv_dash = ''-''\<rparr>"

lemma user_page_read_only_witness:
  "\<not> vw_canWrite (uv_viewer sample_view) \<and>
   Presses ''Delete User'' True \<in> set (user_page sample_view {} {} (Some ''security'')) \<and>
   \<not> vw_isSelf (uv_viewer sample_view)"
proof -
  let ?c = "Presses ''Delete User'' True"
  have w: "\<not> vw_canWrite (uv_viewer sample_view)" by (simp add: sample_view_def)
  have m: "?c \<in> set (user_page sample_view {} {} (Some ''security''))"
    by (simp add: user_page_def shown_panel_def active_tab_def user_tabs_shown_def user_panel_def security_panel_def
        danger_card_def sample_view_def Let_def)
  show ?thesis using user_page_read_only[OF w m] w m by simp
qed

section \<open>One's own page\<close>

text \<open>
  The controls that would end one's own access: locking, deleting, removing the password, renaming, and the two
  ways to an expiry, the date of the Security tab and \<open>shadowExpire\<close> of the Shadow tab.
\<close>

fun locks_out :: "control \<Rightarrow> bool" where
  "locks_out (Presses label e) \<longleftrightarrow>
     e \<and> label \<in> {''Lock Account'', ''Delete User'', ''Remove Password'', ''Removing...'', ''Change username'', ''Set Expiration''}"
| "locks_out (Edits key label i p e) \<longleftrightarrow> e \<and> key \<in> {''expirationDate'', ''shadowExpire''}"
| "locks_out _ \<longleftrightarrow> False"

lemma locks_out_inputs [simp]:
  "locks_out (text_in w k l p) \<longleftrightarrow> w \<and> k \<in> {''expirationDate'', ''shadowExpire''}"
  "locks_out (number_in w k l p) \<longleftrightarrow> w \<and> k \<in> {''expirationDate'', ''shadowExpire''}"
  by (simp_all add: text_in_def number_in_def)

definition harmless :: "control list \<Rightarrow> bool" where
  "harmless cs \<longleftrightarrow> (\<forall>c \<in> set cs. \<not> locks_out c)"

lemma harmless_simps [simp]:
  "harmless []" "harmless (c # cs) \<longleftrightarrow> \<not> locks_out c \<and> harmless cs"
  "harmless (xs @ ys) \<longleftrightarrow> harmless xs \<and> harmless ys"
  "harmless (concat xss) \<longleftrightarrow> (\<forall>xs \<in> set xss. harmless xs)"
  "harmless (map f as) \<longleftrightarrow> (\<forall>x \<in> set as. \<not> locks_out (f x))"
  "harmless (List.map_filter g bs) \<longleftrightarrow> (\<forall>x \<in> set bs. \<forall>c. g x = Some c \<longrightarrow> \<not> locks_out c)"
  by (auto simp: harmless_def map_filter_def)

lemma harmless_actions [simp]: "harmless (FormActions d p m xs) \<longleftrightarrow> harmless xs"
  by (auto simp: FormActions_def)

lemma self_identity: "harmless (identity_tab srt w photo uid mb d p r f gs)"
  by (auto simp: panel_simps split: option.splits)

lemma self_posix: "harmless (posix_tab w user d p)"
  by (simp add: panel_simps)

lemma self_ssh: "harmless (ssh_tab w r a k ks)"
  by (auto simp: panel_simps split: prod.splits)

lemma self_samba: "harmless (samba_tab lc bad w h user t d p)"
  by (auto simp: panel_simps split: option.splits)

lemma self_shadow: "harmless (shadow_tab lc w h True t d p)"
  by (simp add: panel_simps)

lemma self_sudo: "harmless (sudo_tab w uid n l r f ngs rs)"
  by (auto simp: panel_simps split: option.splits)

lemma self_security:
  assumes "vw_isSelf (uv_viewer v)"
  shows "harmless (security_panel v)"
proof -
  have "harmless (password_card (uv_viewer v) a b e f g)" "harmless (reset_card (uv_viewer v) m p)"
    "harmless (status_card (uv_viewer v) n ac la ld x ne)" "harmless (expiration_card (uv_viewer v) n ac ed fi sa x)"
    "harmless (policy_card da (uv_viewer v) n ac su ch op lo ap dy st pr fa gr pc)" "harmless (rename_card (uv_viewer v))"
    "harmless (danger_card (uv_viewer v))"
    for a b e f g m p n ac la ld x ne da ed fi sa su ch op lo ap dy st pr fa gr pc
    using assms by (auto simp: panel_simps Let_def split: option.splits)
  then show ?thesis by (simp add: security_panel_def Let_def)
qed


text \<open>Jane, signed in with her DN in capitals, on the Shadow tab of her own page.\<close>

definition own_view :: user_view where
  "own_view = sample_view\<lparr>uv_viewer := \<lparr>vw_canWrite = True, vw_canDelete = True, vw_isSelf = True, vw_canExpire = True\<rparr>,
     uv_user := [(''uid'', JStr ''jane''), (''objectClasses'', JArr [JStr ''shadowAccount''])],
     uv_account := \<lparr>ac_accountLocked = Some True, ac_pwdAccountLockedTime = Some ''000001010000Z'', ac_pwdEndTime = None, ac_lockout = None\<rparr>\<rparr>"


lemma identity_fields_once:
  "mset (edited_fields (identity_fields w uid mb)) = mset (map fst (identityForm user))"
proof -
  have "edited_fields (identity_fields w uid mb) = edited_fields (identity_fields True '''' '''')"
    by (simp add: identity_fields_def)
  moreover have "map fst (identityForm user) = map fst (identityForm [])"
    by (simp add: identityForm_def text_field_def)
  moreover have "mset (edited_fields (identity_fields True '''' '''')) = mset (map fst (identityForm []))"
    by code_simp
  ultimately show ?thesis by simp
qed

lemma class_fields_once:
  assumes "\<not> class_offer h t"
  shows "edited_fields (samba_tab lc bad w h user t d p) = map fst (sambaForm user)"
    and "edited_fields (shadow_tab lc w h self t d p) = map fst (shadowForm user)"
  using assms
  by (auto simp: panel_simps sambaForm_def shadowForm_def text_field_def int_field_def split: option.splits)

text \<open>
  Every field a tab can save is on screen exactly once: the inputs of the tab edit the fields of its
  form, no other and none twice.
\<close>

theorem fields_on_screen:
  "mset (edited_fields (identity_fields w uid mb)) = mset (map fst (identityForm user)) \<and>
   mset (edited_fields (posix_tab w user d p)) = mset (map fst (posixForm user)) \<and>
   (\<not> class_offer h t \<longrightarrow>
     mset (edited_fields (samba_tab lc bad w h user t d p)) = mset (map fst (sambaForm user)) \<and>
     mset (edited_fields (shadow_tab lc w h self t d p)) = mset (map fst (shadowForm user)))"
  by (intro conjI impI identity_fields_once arg_cong[where f = mset] class_fields_once)
    (simp_all add: posix_tab_def posixForm_def text_field_def)

lemma fields_on_screen_witness:
  "edited_fields (shadow_tab int_str True True False \<lparr>ct_form = [], ct_adding = False\<rparr> False False) \<noteq> [] \<and>
   mset (edited_fields (shadow_tab int_str True True False \<lparr>ct_form = [], ct_adding = False\<rparr> False False)) =
     mset (map fst (shadowForm []))"
proof -
  have o: "\<not> class_offer True \<lparr>ct_form = [], ct_adding = False\<rparr>" by (simp add: class_offer_def)
  have m: "mset (edited_fields (shadow_tab int_str True True False \<lparr>ct_form = [], ct_adding = False\<rparr> False False)) =
     mset (map fst (shadowForm []))"
    using fields_on_screen[where h = True and t = "\<lparr>ct_form = [], ct_adding = False\<rparr>"] o by blast
  moreover have "map fst (shadowForm []) \<noteq> []" by (simp add: shadowForm_def)
  ultimately show ?thesis by (metis mset_zero_iff_right)
qed

end
