(* ===== verification/Group_Page.thy ===== *)
theory Group_Page
  imports User_Page
begin

text \<open>
  The page of a group (\<open>routes/groups/$dn.tsx\<close>, \<open>components/group-rename.tsx\<close>): the controls of its tabs,
  the dialogs that add a member or a sudo role, and the rename dialog.
\<close>

section \<open>Information\<close>

definition information_tab :: "bool \<Rightarrow> entry \<Rightarrow> bool \<Rightarrow> bool \<Rightarrow> control list" where
  "information_tab canWrite grp isDirty pending =
     (if \<not> canWrite then [ReadOnlyNotice] else [])
     @ [Shows ''Name (CN)'' (coalesce (str_opt grp ''cn'') ''''),
        Shows ''GID Number'' (if int_opt grp ''gidNumber'' = Some 0 then '''' else shown_int grp ''gidNumber''),
        text_in canWrite ''description'' ''Description'' '''']
     @ (if canWrite then FormActions isDirty pending True [] else [])
     @ (if canWrite then [Presses ''Change name'' True] else [])"

definition informationForm :: "entry \<Rightarrow> text_form" where
  "informationForm grp = [text_field grp ''description'']"

text \<open>The rename dialog empties its fields however it is closed.\<close>

definition close_rename :: "bool \<times> rename_dialog \<Rightarrow> bool \<times> rename_dialog" where
  "close_rename s = (False, (snd s)\<lparr>rn_new := '''', rn_confirm := ''''\<rparr>)"

definition rename_open_change :: "bool \<Rightarrow> bool \<times> rename_dialog \<Rightarrow> bool \<times> rename_dialog" where
  "rename_open_change next s = (if next then (True, snd s) else close_rename s)"

definition rename_dialog_controls :: "string \<Rightarrow> rename_dialog \<Rightarrow> control list" where
  "rename_dialog_controls cn d =
     [Edits ''newCn'' ''New name'' TextIn ''new-group-name'' True]
     @ (case rename_complaint d cn of Some t \<Rightarrow> [Says t] | None \<Rightarrow> [])
     @ [Edits ''confirmCn'' (''Type the current name '' @ cn @ '' to confirm'') TextIn '''' True,
        Presses ''Cancel'' True,
        Presses (if rn_pending d then ''Renaming...'' else ''Change name'') (rename_can_submit d cn)]"

section \<open>Members\<close>

record listed_member =
  lm_uid :: string
  lm_name :: "string option"

text \<open>The members with their names once they arrived, the bare uids in the browser's order until then.\<close>

definition members_shown :: "(string list \<Rightarrow> string list) \<Rightarrow> listed_member list option \<Rightarrow> string list \<Rightarrow> listed_member list" where
  "members_shown locale_sort members memberUid =
     (case members of Some ms \<Rightarrow> ms | None \<Rightarrow> map (\<lambda>uid. \<lparr>lm_uid = uid, lm_name = None\<rparr>) (locale_sort memberUid))"

definition member_row :: "bool \<Rightarrow> bool \<Rightarrow> listed_member \<Rightarrow> control list" where
  "member_row canWrite removing m =
     [Says (lm_uid m)] @ (case text_of (lm_name m) of Some n \<Rightarrow> [Says n] | None \<Rightarrow> [])
     @ (if canWrite then [Presses ''Remove member'' (\<not> removing)] else [])"

definition members_tab :: "(string list \<Rightarrow> string list) \<Rightarrow> bool \<Rightarrow> bool \<Rightarrow> listed_member list option \<Rightarrow> string list \<Rightarrow> control list" where
  "members_tab locale_sort canWrite removing members memberUid =
     Says (''Members ('' @ nat_str (length memberUid) @ '')'')
     # (if canWrite then [Presses ''Add Member'' True] else [])
     @ (if 0 < length memberUid
        then concat (map (member_row canWrite removing) (members_shown locale_sort members memberUid))
        else [Says ''No members in this group''])"

text \<open>The dialog that adds: one candidate selected; it stays open after an addition.\<close>

definition availableUsers :: "listed_user list \<Rightarrow> string list \<Rightarrow> listed_user list" where
  "availableUsers items memberUid = filter (\<lambda>u. lu_uid u \<notin> set memberUid) items"

datatype member_row_shown = Candidate string string bool | NoCandidates string

definition candidate_rows :: "listed_user list \<Rightarrow> string list \<Rightarrow> string \<Rightarrow> bool \<Rightarrow> string \<Rightarrow> member_row_shown list" where
  "candidate_rows items memberUid newMember fetching input =
     (if 0 < length (availableUsers items memberUid)
      then map (\<lambda>u. Candidate (lu_uid u) (name_or (lu_displayName u) (lu_cn u)) (newMember = lu_uid u))
             (availableUsers items memberUid)
      else [NoCandidates (picker_nothing fetching input ''No user matches this search.'' ''Every user is already a member.'')])"

definition add_member_button :: "bool \<Rightarrow> string \<Rightarrow> control" where
  "add_member_button pending newMember =
     Presses (if pending then ''Adding...'' else ''Add'') (\<not> (newMember = '''' \<or> pending))"

record member_dialog =
  md_open :: bool
  md_new :: string
  md_input :: string

definition member_added :: "member_dialog \<Rightarrow> member_dialog" where
  "member_added s = s\<lparr>md_new := ''''\<rparr>"

definition close_members :: "member_dialog \<Rightarrow> member_dialog" where
  "close_members s = \<lparr>md_open = False, md_new = '''', md_input = ''''\<rparr>"

definition members_open_change :: "bool \<Rightarrow> member_dialog \<Rightarrow> member_dialog" where
  "members_open_change opened s = s\<lparr>md_open := opened\<rparr>"

definition confirm_remove_member :: "string \<Rightarrow> string option \<Rightarrow> mutation option \<times> string option" where
  "confirm_remove_member dn asked =
     (case text_of asked of Some uid \<Rightarrow> Some (remove_member dn uid) | None \<Rightarrow> None, None)"

section \<open>Samba, sudo, security\<close>

definition group_samba_fields :: "bool \<Rightarrow> control list" where
  "group_samba_fields canWrite =
     [text_in canWrite ''sambaSID'' ''SID'' ''S-1-5-21-...-512'',
      text_in canWrite ''sambaGroupType'' ''Group Type'' ''2'',
      text_in canWrite ''displayName'' ''Display Name'' ''Domain Admins'']"

definition group_samba_tab :: "bool \<Rightarrow> bool \<Rightarrow> class_tab \<Rightarrow> bool \<Rightarrow> bool \<Rightarrow> control list" where
  "group_samba_tab canWrite hasObjectClass t isDirty pending =
     (if class_offer hasObjectClass t then class_offer_controls canWrite ''Samba Not Enabled'' ''Add Samba Group Mapping''
      else group_samba_fields canWrite @ class_actions canWrite isDirty t pending)"

definition group_role_row :: "bool \<Rightarrow> bool \<Rightarrow> granted_role \<Rightarrow> control list" where
  "group_role_row canWrite removing r =
     Says (gr_cn r) # role_lists r
     @ (if canWrite then [Presses ''Remove from sudo role'' (\<not> removing)] else [])"

definition group_sudo_tab :: "bool \<Rightarrow> bool \<Rightarrow> bool \<Rightarrow> string option \<Rightarrow> granted_role list \<Rightarrow> control list" where
  "group_sudo_tab canWrite loading removing failure roles =
     Says (''Sudo Roles ('' @ nat_str (length roles) @ '')'')
     # (if canWrite then [Presses ''Add to Sudo Role'' True] else [])
     @ (case failure of Some m \<Rightarrow> [Says m] | None \<Rightarrow> [])
     @ (if loading then []
        else if 0 < length roles then concat (map (group_role_row canWrite removing) roles)
        else [Says ''No sudo roles assigned''])"

definition group_security_tab :: "bool \<Rightarrow> control list" where
  "group_security_tab canDelete =
     (if canDelete then [Presses ''Delete Group'' True] else [])
     @ (if \<not> canDelete
        then [Says (''You don'' @ [CHR 0x27] @ ''t have permission to manage security settings for this group.'')] else [])"

section \<open>The page\<close>

record group_view =
  gv_canWrite :: bool
  gv_canDelete :: bool
  gv_group :: entry
  gv_dirty :: "string \<Rightarrow> bool"
  gv_pending :: "string \<Rightarrow> bool"
  gv_failure :: "string option"
  gv_members :: "listed_member list option"
  gv_samba :: class_tab
  gv_roles :: "granted_role list option"
  gv_sort :: "string list \<Rightarrow> string list"

definition group_panel :: "group_view \<Rightarrow> string \<Rightarrow> control list" where
  "group_panel v tab =
     (let w = gv_canWrite v; g = gv_group v; d = gv_dirty v; p = gv_pending v in
      if tab = ''information'' then information_tab w g (d ''information'') (p ''update'')
      else if tab = ''members'' then members_tab (gv_sort v) w (p ''removeMember'') (gv_members v) (user_texts g ''memberUid'')
      else if tab = ''samba'' then
        group_samba_tab w (has_class (Some (user_texts g ''objectClasses'')) ''sambagroupmapping'') (gv_samba v)
          (d ''samba'') (p ''samba'')
      else if tab = ''sudo'' then
        group_sudo_tab w (gv_roles v = None) (p ''leaveRole'') (gv_failure v) (coalesce (gv_roles v) [])
      else if tab = ''security'' then group_security_tab (gv_canDelete v)
      else [])"

definition group_page :: "group_view \<Rightarrow> string set \<Rightarrow> string set \<Rightarrow> string option \<Rightarrow> control list" where
  "group_page v objects modules tab =
     (case shown_panel (group_tabs_shown objects modules) (active_tab tab (group_default_tab objects modules)) of
        Some t \<Rightarrow> group_panel v t | None \<Rightarrow> [])"

lemmas group_panels = information_tab_def member_row_def members_tab_def group_samba_fields_def group_samba_tab_def
  group_role_row_def group_sudo_tab_def class_offer_controls_def class_actions_def role_lists_def

lemma group_panel_read_only:
  assumes "\<not> gv_canWrite v" "c \<in> set (group_panel v t)" "writable c"
  shows "c = Presses ''Delete Group'' True \<and> gv_canDelete v"
proof -
  have "read_only (information_tab False g d p)" "read_only (members_tab srt False r ms us)"
    "read_only (group_samba_tab False h ct d p)" "read_only (group_sudo_tab False l r f rs)"
    for g d p srt r ms us h ct l f rs
    by (auto simp: group_panels split: option.splits)
  then have "c \<in> set (group_security_tab (gv_canDelete v))"
    using assms by (auto simp: group_panel_def Let_def read_only_def list_all_iff split: if_splits)
  then show ?thesis using assms(3) by (auto simp: group_security_tab_def split: if_splits)
qed

lemma group_fields_once:
  "edited_fields (information_tab w g d p) = map fst (informationForm g)"
  "\<not> class_offer h t \<Longrightarrow> edited_fields (group_samba_tab w h t d p) = map fst (groupSambaForm g)"
  by (auto simp: group_panels informationForm_def groupSambaForm_def text_field_def)

text \<open>
  A member added on this page does not refresh the list of groups, whose rows count the members; one
  added on the page of the user does not refresh the page of the group.
\<close>

definition refreshes :: "mutation \<Rightarrow> string list \<Rightarrow> bool" where
  "refreshes m key \<longleftrightarrow>
     list_ex (\<lambda>e. case e of RefreshAll \<Rightarrow> True | Refresh k \<Rightarrow> prefix k key | _ \<Rightarrow> False) (mu_success m)"

lemma stale_after:
  "\<not> refreshes (add_member dn uid) [''groups'', q]"
  "dn \<noteq> g \<Longrightarrow> \<not> refreshes (leave_group dn uid g) [''group'', g]"
  "\<not> refreshes (rename_group dn name cn new_dn ws) [''sudo-roles'', q]"
  "\<not> refreshes (change_uid dn uid nu nd ws) [''groups'', q]"
  "\<not> refreshes (change_uid dn uid nu nd ws) [''sudo-roles'', q]"
  "\<not> refreshes (delete_user dn uid ws) [''netgroups'', q]"
  by (simp_all add: refreshes_def add_member_def leave_group_def rename_group_def change_uid_def delete_user_def
      done_with_def left_behind_def)

lemma fresh_after:
  "refreshes (add_member dn uid) [''group'', dn, ''members'']"
  "refreshes (leave_group dn uid g) [''groups'', q]"
  "refreshes (delete_user dn uid ws) [''sudo-roles'', q]"
  by (simp_all add: refreshes_def add_member_def leave_group_def delete_user_def done_with_def left_behind_def)

end
