(* ===== verification/Bulk_Dialogs.thy ===== *)
theory Bulk_Dialogs
  imports Bulk Ui_Parts Api_Routes Account
begin

text \<open>
  The bulk actions on a list: the toolbar and its dialogs on the list of users
  (\<open>components/users-bulk-actions.tsx\<close>), the deletion on the other lists
  (\<open>components/bulk-delete-actions.tsx\<close>), the toolbar itself (\<open>components/bulk-action-bar.tsx\<close>) and the
  report of a run (\<open>components/bulk-result-dialog.tsx\<close>). The runs are those of \<open>Bulk\<close>; the dash and the
  ellipsis of the texts are arguments.
\<close>

section \<open>What is done to each user\<close>

record bulk_user =
  bu_dn :: string
  bu_uid :: string
  bu_cn :: string
  bu_displayName :: "string option"

record group_pick =
  gp_dn :: string
  gp_cn :: string

datatype bulk_action =
    BulkLock
  | BulkUnlock
  | BulkAdd group_pick
  | BulkRemove group_pick
  | BulkExpire string
  | BulkDelete

definition bulk_verb :: "bulk_action \<Rightarrow> string" where
  "bulk_verb a =
     (case a of
        BulkLock \<Rightarrow> ''Locked'' | BulkUnlock \<Rightarrow> ''Unlocked''
      | BulkAdd g \<Rightarrow> ''Added to group'' | BulkRemove g \<Rightarrow> ''Removed from group''
      | BulkExpire d \<Rightarrow> if d \<noteq> '''' then ''Set expiration for'' else ''Cleared expiration for''
      | BulkDelete \<Rightarrow> ''Deleted'')"

definition bulk_worker :: "bulk_action \<Rightarrow> bulk_user \<Rightarrow> request" where
  "bulk_worker a u =
     (case a of
        BulkLock \<Rightarrow> users_lock (bu_dn u) | BulkUnlock \<Rightarrow> users_unlock (bu_dn u)
      | BulkAdd g \<Rightarrow> groups_addMember (gp_dn g) (bu_uid u)
      | BulkRemove g \<Rightarrow> groups_removeMember (gp_dn g) (bu_uid u)
      | BulkExpire d \<Rightarrow> users_setExpiration (bu_dn u) (if d \<noteq> '''' then Some d else None)
      | BulkDelete \<Rightarrow> users_delete (bu_dn u))"

text \<open>\<open>touchesGroups\<close>, \<open>touchesSudo\<close>: the lists refreshed after a run.\<close>

definition bulk_refreshed :: "bulk_action \<Rightarrow> string list list" where
  "bulk_refreshed a =
     [''users''] # (case a of BulkAdd g \<Rightarrow> [[''groups'']] | BulkRemove g \<Rightarrow> [[''groups'']] | BulkDelete \<Rightarrow> [[''groups'']] | _ \<Rightarrow> [])
     @ (if a = BulkDelete then [[''sudo-roles'']] else [])"

section \<open>The toolbar and its dialogs\<close>

datatype lock_mode = ModeLock | ModeUnlock
datatype group_mode = ModeAdd | ModeRemove

text \<open>
  The state of the component: the selection it is given, its dialogs, and the group and date they hold.
  \<open>ub_runs\<close> holds the runs in flight: the code keeps none of this, the promises do.
\<close>

record bulk_run =
  br_action :: bulk_action
  br_users :: "bulk_user list"
  br_pool :: bulk

record users_bulk =
  ub_selected :: "bulk_user list"
  ub_running :: bool
  ub_progress :: "(nat \<times> nat) option"
  ub_deleteOpen :: bool
  ub_lockMode :: "lock_mode option"
  ub_groupMode :: "group_mode option"
  ub_expirationOpen :: bool
  ub_outcome :: "(bulk_user list \<times> bulk_outcome) option"
  ub_group :: "group_pick option"
  ub_date :: string
  ub_runs :: "bulk_run list"
  ub_refreshed :: "string list list"
  ub_toasts :: "toast list"

definition users_bulk_mount :: users_bulk where
  "users_bulk_mount = \<lparr>ub_selected = [], ub_running = False, ub_progress = None, ub_deleteOpen = False,
     ub_lockMode = None, ub_groupMode = None, ub_expirationOpen = False, ub_outcome = None, ub_group = None,
     ub_date = '''', ub_runs = [], ub_refreshed = [], ub_toasts = []\<rparr>"

text \<open>The action the open dialog confirms, with its button enabled.\<close>

definition confirms :: "users_bulk \<Rightarrow> bulk_action \<Rightarrow> bool" where
  "confirms s a \<longleftrightarrow> \<not> ub_running s \<and>
     (case a of
        BulkLock \<Rightarrow> ub_lockMode s = Some ModeLock
      | BulkUnlock \<Rightarrow> ub_lockMode s = Some ModeUnlock
      | BulkAdd g \<Rightarrow> ub_groupMode s = Some ModeAdd \<and> ub_group s = Some g
      | BulkRemove g \<Rightarrow> ub_groupMode s = Some ModeRemove \<and> ub_group s = Some g
      | BulkExpire d \<Rightarrow> ub_expirationOpen s \<and> ub_date s = d
      | BulkDelete \<Rightarrow> ub_deleteOpen s)"

text \<open>\<open>run\<close>, up to the first \<open>await\<close>, and from the end of the pool; then its caller closes its dialog.\<close>

definition run_start :: "bulk_action \<Rightarrow> users_bulk \<Rightarrow> users_bulk" where
  "run_start a s = s\<lparr>ub_running := True, ub_progress := Some (0, length (ub_selected s)),
     ub_runs := ub_runs s @ [\<lparr>br_action = a, br_users = ub_selected s, br_pool = bulk_start\<rparr>]\<rparr>"

definition close_dialog :: "bulk_action \<Rightarrow> users_bulk \<Rightarrow> users_bulk" where
  "close_dialog a s =
     (case a of
        BulkLock \<Rightarrow> s\<lparr>ub_lockMode := None\<rparr> | BulkUnlock \<Rightarrow> s\<lparr>ub_lockMode := None\<rparr>
      | BulkAdd g \<Rightarrow> s\<lparr>ub_groupMode := None\<rparr> | BulkRemove g \<Rightarrow> s\<lparr>ub_groupMode := None\<rparr>
      | BulkExpire d \<Rightarrow> s\<lparr>ub_expirationOpen := False\<rparr>
      | BulkDelete \<Rightarrow> s\<lparr>ub_deleteOpen := False\<rparr>)"

definition run_finish :: "bulk_run \<Rightarrow> users_bulk \<Rightarrow> users_bulk" where
  "run_finish r s =
     (case bulk_report (bulk_verb (br_action r)) ''user'' (br_pool r) of
        (told, listed) \<Rightarrow> close_dialog (br_action r)
          (s\<lparr>ub_refreshed := ub_refreshed s @ bulk_refreshed (br_action r),
             ub_toasts := ub_toasts s @ [told],
             ub_outcome := (case listed of Some d \<Rightarrow> Some (br_users r, d) | None \<Rightarrow> ub_outcome s),
             ub_selected := [], ub_running := False, ub_progress := None,
             ub_runs := remove1 r (ub_runs s)\<rparr>))"

definition set_progress :: "bulk \<Rightarrow> (nat \<times> nat) option \<Rightarrow> (nat \<times> nat) option" where
  "set_progress b p = (if bk_progress b = [] then p else Some (last (bk_progress b)))"

text \<open>
  Steps: the page changes the selection; a button of the toolbar opens its dialog; a dialog is dismissed
  (Escape, backdrop) or cancelled; a group is picked, a date typed; the open dialog is confirmed; a run
  goes on, and ends; its report is closed. The buttons are there while something is selected.
\<close>

inductive users_bulk_step :: "bool \<Rightarrow> users_bulk \<Rightarrow> users_bulk \<Rightarrow> bool" for canDelete where
  selection: "users_bulk_step canDelete s (s\<lparr>ub_selected := us\<rparr>)"
| open_lock: "ub_selected s \<noteq> [] \<Longrightarrow> \<not> ub_running s \<Longrightarrow> users_bulk_step canDelete s (s\<lparr>ub_lockMode := Some m\<rparr>)"
| open_group: "ub_selected s \<noteq> [] \<Longrightarrow> \<not> ub_running s \<Longrightarrow> users_bulk_step canDelete s (s\<lparr>ub_groupMode := Some g\<rparr>)"
| open_expiration: "ub_selected s \<noteq> [] \<Longrightarrow> \<not> ub_running s \<Longrightarrow>
    users_bulk_step canDelete s (s\<lparr>ub_expirationOpen := True\<rparr>)"
| open_delete: "ub_selected s \<noteq> [] \<Longrightarrow> \<not> ub_running s \<Longrightarrow> canDelete \<Longrightarrow>
    users_bulk_step canDelete s (s\<lparr>ub_deleteOpen := True\<rparr>)"
| cancel_lock: "users_bulk_step canDelete s (s\<lparr>ub_lockMode := None\<rparr>)"
| cancel_delete: "users_bulk_step canDelete s (s\<lparr>ub_deleteOpen := False\<rparr>)"
| cancel_group: "users_bulk_step canDelete s (s\<lparr>ub_groupMode := None\<rparr>)"
| dismiss_group: "users_bulk_step canDelete s (s\<lparr>ub_group := None, ub_groupMode := None\<rparr>)"
| cancel_expiration: "users_bulk_step canDelete s (s\<lparr>ub_expirationOpen := False\<rparr>)"
| dismiss_expiration: "users_bulk_step canDelete s (s\<lparr>ub_date := '''', ub_expirationOpen := False\<rparr>)"
| pick_group: "ub_groupMode s \<noteq> None \<Longrightarrow> users_bulk_step canDelete s (s\<lparr>ub_group := Some p\<rparr>)"
| type_date: "ub_expirationOpen s \<Longrightarrow> users_bulk_step canDelete s (s\<lparr>ub_date := d\<rparr>)"
| confirm: "confirms s a \<Longrightarrow> users_bulk_step canDelete s (run_start a s)"
| pool: "ub_runs s = rs @ r # rs' \<Longrightarrow> bulk_step (length (br_users r)) 5 (br_pool r) b \<Longrightarrow>
    users_bulk_step canDelete s (s\<lparr>ub_runs := rs @ r\<lparr>br_pool := b\<rparr> # rs',
      ub_progress := set_progress b (ub_progress s)\<rparr>)"
| finish: "r \<in> set (ub_runs s) \<Longrightarrow> bulk_final (length (br_users r)) 5 (br_pool r) \<Longrightarrow>
    users_bulk_step canDelete s (run_finish r s)"
| close_report: "users_bulk_step canDelete s (s\<lparr>ub_outcome := None\<rparr>)"

inductive users_bulk_reach :: "bool \<Rightarrow> users_bulk \<Rightarrow> bool" for canDelete where
  mount: "users_bulk_reach canDelete users_bulk_mount"
| step: "users_bulk_reach canDelete s \<Longrightarrow> users_bulk_step canDelete s s' \<Longrightarrow> users_bulk_reach canDelete s'"

inductive_cases users_bulk_stepE: "users_bulk_step canDelete s s'"

section \<open>One run at a time\<close>

definition bulk_inv_dialogs :: "bool \<Rightarrow> users_bulk \<Rightarrow> bool" where
  "bulk_inv_dialogs canDelete s \<longleftrightarrow>
     length (ub_runs s) = (if ub_running s then 1 else 0) \<and>
     (ub_running s \<longleftrightarrow> ub_progress s \<noteq> None) \<and>
     (\<forall>r \<in> set (ub_runs s). bulk_reach (length (br_users r)) 5 (br_pool r) \<and> (br_action r = BulkDelete \<longrightarrow> canDelete)) \<and>
     (ub_deleteOpen s \<longrightarrow> canDelete)"

lemma dialogs_mount: "bulk_inv_dialogs c users_bulk_mount"
  by (simp add: bulk_inv_dialogs_def users_bulk_mount_def)

lemma closed_fields [simp]:
  "ub_runs (close_dialog a s) = ub_runs s" "ub_running (close_dialog a s) = ub_running s"
  "ub_progress (close_dialog a s) = ub_progress s" "ub_selected (close_dialog a s) = ub_selected s"
  "ub_deleteOpen (close_dialog a s) \<longleftrightarrow> ub_deleteOpen s \<and> a \<noteq> BulkDelete"
  "ub_toasts (close_dialog a s) = ub_toasts s" "ub_refreshed (close_dialog a s) = ub_refreshed s"
  by (cases a; simp add: close_dialog_def)+

lemma finished_fields [simp]:
  "ub_runs (run_finish r s) = remove1 r (ub_runs s)" "\<not> ub_running (run_finish r s)"
  "ub_progress (run_finish r s) = None" "ub_selected (run_finish r s) = []"
  "ub_deleteOpen (run_finish r s) \<longleftrightarrow> ub_deleteOpen s \<and> br_action r \<noteq> BulkDelete"
  by (simp_all add: run_finish_def split: prod.split)

lemma one_run: "length rs = 1 \<Longrightarrow> r \<in> set rs \<Longrightarrow> rs = [r]"
  by (cases rs) auto

lemma dialogs_step: "users_bulk_step c s s' \<Longrightarrow> bulk_inv_dialogs c s \<Longrightarrow> bulk_inv_dialogs c s'"
proof (erule users_bulk_stepE, goal_cases)
  case (14 a)
  then show ?case
    by (auto simp: bulk_inv_dialogs_def run_start_def confirms_def intro: bulk_reach.start)
next
  case (15 rs r rs' b)
  then have "ub_running s" by (auto simp: bulk_inv_dialogs_def split: if_splits)
  moreover have "ub_progress s \<noteq> None" using 15 calculation by (simp add: bulk_inv_dialogs_def)
  ultimately show ?case
    using 15 by (auto simp: bulk_inv_dialogs_def set_progress_def intro: bulk_reach.step)
next
  case (16 r)
  then have "ub_runs s = [r]" by (auto simp: bulk_inv_dialogs_def split: if_splits intro!: one_run)
  then show ?case using 16 by (auto simp: bulk_inv_dialogs_def)
qed (simp_all add: bulk_inv_dialogs_def)

lemma dialogs_reach: "users_bulk_reach c s \<Longrightarrow> bulk_inv_dialogs c s"
  by (induction rule: users_bulk_reach.induct) (auto intro: dialogs_mount dialogs_step)

text \<open>
  C10: Whatever is pressed and in whatever order the calls settle, there is never more than one bulk run in
  flight, and exactly one while the toolbar says so; a deletion only runs for a session that may delete;
  and when a run ends its toast counts every user it was started on, each of which had its call exactly
  once.
\<close>

theorem bulk_runs_exclusive:
  assumes "users_bulk_reach canDelete s"
  shows "length (ub_runs s) = (if ub_running s then 1 else 0) \<and>
    (\<forall>r \<in> set (ub_runs s). (br_action r = BulkDelete \<longrightarrow> canDelete) \<and>
      (bulk_final (length (br_users r)) 5 (br_pool r) \<longrightarrow>
        mset (map (\<lambda>i. bulk_worker (br_action r) (br_users r ! i)) (map fst (bk_log (br_pool r)))) =
          mset (map (bulk_worker (br_action r)) (br_users r)) \<and>
        bk_succeeded (br_pool r) + length (bk_failed (br_pool r)) = length (br_users r)))"
proof -
  have inv: "bulk_inv_dialogs canDelete s" using assms by (rule dialogs_reach)
  have fin: "mset (map (\<lambda>i. w (us ! i)) (map fst (bk_log b))) = mset (map w us) \<and>
      bk_succeeded b + length (bk_failed b) = length us"
    if "bulk_reach (length us) 5 b" "bulk_final (length us) 5 b" for us b and w :: "bulk_user \<Rightarrow> request"
  proof -
    have log: "mset (map fst (bk_log b)) = mset [0..<length us]"
      using bulk_final_log(1)[OF that] by simp
    have "mset (map (\<lambda>i. w (us ! i)) (map fst (bk_log b))) = image_mset (\<lambda>i. w (us ! i)) (mset (map fst (bk_log b)))"
      by (simp only: mset_map)
    also have "\<dots> = image_mset (\<lambda>i. w (us ! i)) (mset [0..<length us])" by (simp only: log)
    also have "\<dots> = mset (map (\<lambda>i. w (us ! i)) [0..<length us])" by (simp only: mset_map)
    also have "map (\<lambda>i. w (us ! i)) [0..<length us] = map w us"
      by (rule nth_equalityI) simp_all
    finally show ?thesis using bulk_final_log(3)[OF that] by (intro conjI) simp_all
  qed
  show ?thesis
  proof (intro conjI ballI)
    show "length (ub_runs s) = (if ub_running s then 1 else 0)" using inv by (simp add: bulk_inv_dialogs_def)
    fix r assume "r \<in> set (ub_runs s)"
    then have r: "bulk_reach (length (br_users r)) 5 (br_pool r)" "br_action r = BulkDelete \<longrightarrow> canDelete"
      using inv by (simp_all add: bulk_inv_dialogs_def)
    show "br_action r = BulkDelete \<longrightarrow> canDelete" by (rule r(2))
    show "bulk_final (length (br_users r)) 5 (br_pool r) \<longrightarrow>
        mset (map (\<lambda>i. bulk_worker (br_action r) (br_users r ! i)) (map fst (bk_log (br_pool r)))) =
          mset (map (bulk_worker (br_action r)) (br_users r)) \<and>
        bk_succeeded (br_pool r) + length (bk_failed (br_pool r)) = length (br_users r)"
      using fin[OF r(1)] by (intro impI)
  qed
qed

text \<open>Two users locked, one of them refused, up to the end of the run.\<close>

definition sample_users :: "bulk_user list" where
  "sample_users = [\<lparr>bu_dn = ''uid=jane'', bu_uid = ''jane'', bu_cn = ''Jane'', bu_displayName = None\<rparr>]"

definition sample_bulk :: users_bulk where
  "sample_bulk = users_bulk_mount\<lparr>ub_selected := sample_users, ub_lockMode := Some ModeLock, ub_running := True,
     ub_progress := Some (0, 1), ub_runs := [\<lparr>br_action = BulkLock, br_users = sample_users, br_pool = bulk_start\<rparr>]\<rparr>"

lemma sample_bulk_reach: "users_bulk_reach False sample_bulk"
proof -
  let ?s1 = "users_bulk_mount\<lparr>ub_selected := sample_users\<rparr>"
  let ?s2 = "?s1\<lparr>ub_lockMode := Some ModeLock\<rparr>"
  have 1: "users_bulk_reach False ?s1"
    by (rule users_bulk_reach.step[OF users_bulk_reach.mount users_bulk_step.selection])
  have 2: "users_bulk_reach False ?s2"
    by (rule users_bulk_reach.step[OF 1 users_bulk_step.open_lock]) (simp_all add: sample_users_def users_bulk_mount_def)
  have "confirms ?s2 BulkLock" by (simp add: confirms_def users_bulk_mount_def)
  from users_bulk_reach.step[OF 2 users_bulk_step.confirm[OF this]] show ?thesis
    by (simp add: sample_bulk_def run_start_def sample_users_def users_bulk_mount_def)
qed

lemma bulk_runs_exclusive_witness: "length (ub_runs sample_bulk) = 1"
  using bulk_runs_exclusive[OF sample_bulk_reach] by (simp add: sample_bulk_def)

section \<open>What Cancel leaves behind\<close>

text \<open>
  Escape empties what a dialog holds, its Cancel button does not, and neither does the end of its run: a
  removal opened after an addition is armed with the group of the addition.
\<close>

lemma group_survives:
  assumes "ub_group s = Some g" "\<not> ub_running s"
  shows "confirms (s\<lparr>ub_groupMode := None, ub_groupMode := Some ModeRemove\<rparr>) (BulkRemove g)"
    and "ub_group (run_finish r s) = Some g"
    and "\<not> confirms (s\<lparr>ub_group := None, ub_groupMode := None, ub_groupMode := Some ModeRemove\<rparr>) (BulkRemove g)"
  using assms by (auto simp: confirms_def run_finish_def close_dialog_def split: prod.split bulk_action.split)

text \<open>
  The permission each call asks of the session. The toolbar is shown on \<open>users:write\<close>; two of its actions
  write groups, and the server answers those with 403 unless the session also has \<open>groups:write\<close>.
\<close>

definition bulk_permission :: "bulk_action \<Rightarrow> string" where
  "bulk_permission a =
     (case a of BulkAdd g \<Rightarrow> ''groups:write'' | BulkRemove g \<Rightarrow> ''groups:write''
      | BulkDelete \<Rightarrow> ''users:delete'' | _ \<Rightarrow> ''users:write'')"

definition bulk_target :: "bulk_action \<Rightarrow> bulk_user \<Rightarrow> string" where
  "bulk_target a u = (case a of BulkAdd g \<Rightarrow> gp_dn g | BulkRemove g \<Rightarrow> gp_dn g | _ \<Rightarrow> bu_dn u)"

lemma bulk_worker_access [access_simps]:
  "bulk_target a u \<noteq> '''' \<Longrightarrow> required (bulk_worker a u) = Some (Needs (bulk_permission a))"
  by (cases a) (simp_all add: bulk_worker_def bulk_target_def bulk_permission_def access_simps)

lemma bulk_add_refused:
  assumes "bulk_target (BulkAdd g) u \<noteq> ''''" "required (bulk_worker (BulkAdd g) u) = Some x"
  shows "\<not> admitted (Some [''users:read'', ''users:write'', ''groups:read'']) x"
  using assms by (auto simp: bulk_worker_access bulk_permission_def admitted_def)

section \<open>Deletion on the other lists\<close>

text \<open>The lists, with the noun, the call and the query key each gives to \<open>BulkDeleteActions\<close>.\<close>

datatype delete_list = DeleteGroups | DeleteNetgroups | DeleteSudoRoles | DeletePolicies

definition delete_noun :: "delete_list \<Rightarrow> string" where
  "delete_noun l = (case l of DeleteGroups \<Rightarrow> ''group'' | DeleteNetgroups \<Rightarrow> ''netgroup''
     | DeleteSudoRoles \<Rightarrow> ''sudo role'' | DeletePolicies \<Rightarrow> ''password policy'')"

definition delete_call :: "delete_list \<Rightarrow> string \<Rightarrow> request" where
  "delete_call l dn = (case l of DeleteGroups \<Rightarrow> groups_delete dn | DeleteNetgroups \<Rightarrow> netgroups_delete dn
     | DeleteSudoRoles \<Rightarrow> sudoRoles_delete dn | DeletePolicies \<Rightarrow> passwordPolicies_delete dn)"

definition delete_key :: "delete_list \<Rightarrow> string list" where
  "delete_key l = (case l of DeleteGroups \<Rightarrow> [''groups''] | DeleteNetgroups \<Rightarrow> [''netgroups'']
     | DeleteSudoRoles \<Rightarrow> [''sudo-roles''] | DeletePolicies \<Rightarrow> [''password-policies''])"

record delete_actions =
  da_open :: bool
  da_running :: bool
  da_progress :: "(nat \<times> nat) option"
  da_outcome :: "bulk_outcome option"

definition delete_mount :: delete_actions where
  "delete_mount = \<lparr>da_open = False, da_running = False, da_progress = None, da_outcome = None\<rparr>"

definition delete_start :: "nat \<Rightarrow> delete_actions \<Rightarrow> delete_actions" where
  "delete_start amount s = s\<lparr>da_running := True, da_progress := Some (0, amount)\<rparr>"

text \<open>The end of a run: the state, what is refreshed, the toast; the selection is cleared.\<close>

definition delete_finish :: "delete_list \<Rightarrow> bulk \<Rightarrow> delete_actions \<Rightarrow> delete_actions \<times> string list \<times> toast" where
  "delete_finish l b s =
     (case bulk_report ''Deleted'' (delete_noun l) b of
        (told, listed) \<Rightarrow>
          (s\<lparr>da_outcome := (case listed of Some d \<Rightarrow> Some d | None \<Rightarrow> da_outcome s), da_open := False,
             da_running := False, da_progress := None\<rparr>, delete_key l, told))"

definition plural_s :: "nat \<Rightarrow> string" where
  "plural_s n = (if n = 1 then '''' else ''s'')"

definition delete_question :: "delete_list \<Rightarrow> nat \<Rightarrow> string \<times> string \<times> string" where
  "delete_question l amount =
     (''Delete '' @ delete_noun l @ ''s'',
      ''Delete '' @ nat_str amount @ '' selected '' @ delete_noun l @ plural_s amount @ ''? This permanently removes ''
        @ (if amount = 1 then ''it'' else ''them'') @ '' from the directory and cannot be undone.'',
      ''Delete '' @ nat_str amount)"

text \<open>The plural of a policy is a plain \<open>s\<close>.\<close>

lemma policies_misspelt: "fst (delete_question DeletePolicies 2) = ''Delete password policys''"
  by (simp add: delete_question_def delete_noun_def)

section \<open>The toolbar\<close>

definition bar_running :: "(nat \<times> nat) option \<Rightarrow> bool" where
  "bar_running progress = (case progress of None \<Rightarrow> False | Some (d, n) \<Rightarrow> d < n)"

definition BulkActionBar :: "string \<Rightarrow> nat \<Rightarrow> (nat \<times> nat) option \<Rightarrow> control list \<Rightarrow> control list" where
  "BulkActionBar ellipsis amount progress children =
     (if amount = 0 then []
      else Says (nat_str amount @ '' selected'') # children
        @ (case progress of None \<Rightarrow> []
           | Some (d, n) \<Rightarrow> [Says (if d < n then nat_str d @ '' of '' @ nat_str n @ '' done'' @ ellipsis else ''Finishing'' @ ellipsis)])
        @ [Presses ''Clear'' (\<not> bar_running progress)])"

definition users_bar :: "bool \<Rightarrow> bool \<Rightarrow> control list" where
  "users_bar canDelete running =
     map (\<lambda>l. Presses l (\<not> running)) [''Lock'', ''Unlock'', ''Add to group'', ''Remove from group'', ''Set expiration'']
     @ (if canDelete then [Presses ''Delete'' (\<not> running)] else [])"

definition delete_bar :: "bool \<Rightarrow> control list" where
  "delete_bar running = [Presses ''Delete'' (\<not> running)]"

text \<open>While a run is on its way its toolbar does nothing, until all its calls have settled.\<close>

lemma bar_idle:
  "d < n \<Longrightarrow> read_only (BulkActionBar e k (Some (d, n)) (users_bar c True))"
  "d < n \<Longrightarrow> read_only (BulkActionBar e k (Some (d, n)) (delete_bar True))"
  by (simp_all add: BulkActionBar_def users_bar_def delete_bar_def bar_running_def)

section \<open>The dialogs of the users\<close>

definition lock_question :: "lock_mode option \<Rightarrow> nat \<Rightarrow> string \<times> string \<times> string" where
  "lock_question mode amount =
     (if mode = Some ModeUnlock
      then (''Unlock users'', ''Unlock '' @ nat_str amount @ '' selected user'' @ plural_s amount
        @ ''? Any lockout the password policy applied after failed sign-ins is cleared too, along with the record of those attempts.'',
        ''Unlock '' @ nat_str amount)
      else (''Lock users'', ''Lock '' @ nat_str amount @ '' selected user'' @ plural_s amount
        @ ''? They will be refused by every service that authenticates against this directory until someone unlocks them.'',
        ''Lock '' @ nat_str amount))"

definition bulk_group_rows :: "group_pick list \<Rightarrow> bool \<Rightarrow> group_pick option \<Rightarrow> control list" where
  "bulk_group_rows items fetching picked =
     (if 0 < length items then map (\<lambda>g. Presses (gp_cn g) True) items
      else [Says (if fetching then ''Searching...'' else ''No groups found'')])
     @ (case picked of
          Some g \<Rightarrow> if \<not> list_ex (\<lambda>i. gp_dn i = gp_dn g) items then [Says (''Selected: '' @ gp_cn g)] else []
        | None \<Rightarrow> [])"

definition group_confirm :: "group_mode option \<Rightarrow> bool \<Rightarrow> group_pick option \<Rightarrow> control" where
  "group_confirm mode running picked =
     Presses (if running then ''Working...'' else if mode = Some ModeRemove then ''Remove'' else ''Add'')
       (\<not> (picked = None \<or> running))"

definition expiration_confirm :: "bool \<Rightarrow> string \<Rightarrow> control" where
  "expiration_confirm running date =
     Presses (if running then ''Working...'' else if date \<noteq> '''' then ''Set expiration'' else ''Clear expiration'') (\<not> running)"

section \<open>The report\<close>

definition result_title :: "bulk_outcome \<Rightarrow> string" where
  "result_title d =
     (let n = bo_succeeded d + length (bo_failed d)
      in bo_verb d @ '' '' @ nat_str (bo_succeeded d) @ '' of '' @ nat_str n @ '' '' @ bo_noun d @ plural_s n)"

definition result_text :: "string \<Rightarrow> bulk_outcome \<Rightarrow> string" where
  "result_text dash d =
     (let f = length (bo_failed d); w = length (bo_warned d) in
      (if 0 < f
       then (if f = 1 then ''1 item failed'' else nat_str f @ '' items failed'')
         @ (if 0 < bo_succeeded d
            then (if f = 1 then '' and was'' else '' and were'')
              @ '' left unchanged. Each item is applied independently, so the ones that worked are already done.''
            else '' '' @ dash @ '' nothing was changed.'')
       else '''')
      @ (if 0 < f \<and> 0 < w then '' '' else '''')
      @ (if 0 < w
         then (if w = 1 then ''1 item'' else nat_str w @ '' items'')
           @ '' went through but left references behind that the directory will not clean up on its own.''
         else ''''))"

text \<open>The list: an error for each failure, the warnings of each of the others, under the name of the item.\<close>

definition result_rows :: "('a \<Rightarrow> string) \<Rightarrow> 'a list \<Rightarrow> bulk_outcome \<Rightarrow> (string \<times> string list) list" where
  "result_rows label items d =
     map (\<lambda>(i, e). (label (items ! i), [e])) (bo_failed d) @ map (\<lambda>(i, ws). (label (items ! i), ws)) (bo_warned d)"

definition bulk_user_label :: "bulk_user \<Rightarrow> string" where
  "bulk_user_label u = (case text_of (bu_displayName u) of Some n \<Rightarrow> n | None \<Rightarrow> bu_cn u) @ '' ('' @ bu_uid u @ '')''"

end
