(* ===== verification/Account_Badge.thy ===== *)
theory Account_Badge
  imports Security_Tab
begin

text \<open>
  The state of an account in a row of a list (\<open>components/account-status.tsx\<close>): one word or two, the full
  sentence, and whether it is worth interrupting a scan for. The clock, the date formatter, the dates
  an engine reads beyond the language definition and the dash are arguments.
\<close>

datatype status_icon = IconLock | IconLockOpen | IconCalendarX | IconCalendarClock | IconCheck

datatype status_class = Destructive | Warning | Success

record badge =
  bd_icon :: status_icon
  bd_class :: status_class
  bd_label :: string
  bd_short :: string
  bd_notable :: bool

definition lockLabel :: "(string \<Rightarrow> date option) \<Rightarrow> (date \<Rightarrow> string) \<Rightarrow> string \<Rightarrow> account_status \<Rightarrow> string" where
  "lockLabel other_formats toLocaleString dash user =
     (case map_option lk_state (ac_lockout user) of
        Some LManual \<Rightarrow> ''Locked by an administrator''
      | Some LActive \<Rightarrow>
          (case lockoutLiftsAt other_formats user of
             Some t \<Rightarrow> ''Locked by the password policy until '' @ toLocaleString t
           | None \<Rightarrow> ''Locked by the password policy, which never lifts it on its own'')
      | Some LUnknown \<Rightarrow> ''Locked '' @ dash @ '' whether the policy has already lifted it is not known''
      | _ \<Rightarrow> ''Account locked'')"

text \<open>\<open>Math.ceil\<close> of the days between two instants.\<close>

definition days_until :: "date \<Rightarrow> date \<Rightarrow> int" where
  "days_until now t = - ((now - t) div 86400000)"

definition statusOf :: "(string \<Rightarrow> date option) \<Rightarrow> (date \<Rightarrow> string) \<Rightarrow> string \<Rightarrow> account_status \<Rightarrow> date \<Rightarrow> badge" where
  "statusOf other_formats toLocaleString dash user now =
     (if isLocked user then
        \<lparr>bd_icon = IconLock, bd_class = Destructive, bd_label = lockLabel other_formats toLocaleString dash user,
         bd_short = (if map_option lk_state (ac_lockout user) = Some LActive then ''Policy lockout'' else ''Locked''),
         bd_notable = True\<rparr>
      else case accountExpiration user of
        Some e \<Rightarrow>
          if e < now then
            \<lparr>bd_icon = IconCalendarX, bd_class = Destructive, bd_label = ''Account expired'', bd_short = ''Expired'',
             bd_notable = True\<rparr>
          else if hasLapsedLock user then
            \<lparr>bd_icon = IconLockOpen, bd_class = Success,
             bd_label = ''Active '' @ dash @ '' lockout expired, flag not yet cleared'', bd_short = ''Active'',
             bd_notable = False\<rparr>
          else
            (let days = days_until now e in
             \<lparr>bd_icon = IconCalendarClock,
              bd_class = (if days \<le> 7 then Destructive else if days \<le> 30 then Warning else Success),
              bd_label = ''Expires in '' @ int_str days @ '' day'' @ (if days = 1 then '''' else ''s''),
              bd_short = ''Expires in '' @ int_str days @ ''d'', bd_notable = (days \<le> 30)\<rparr>)
      | None \<Rightarrow>
          if hasLapsedLock user then
            \<lparr>bd_icon = IconLockOpen, bd_class = Success,
             bd_label = ''Active '' @ dash @ '' lockout expired, flag not yet cleared'', bd_short = ''Active'',
             bd_notable = False\<rparr>
          else
            \<lparr>bd_icon = IconCheck, bd_class = Success, bd_label = ''Active'', bd_short = ''Active'', bd_notable = False\<rparr>)"

text \<open>
  The component: nothing for a quiet list; else the words on screen, if any, those read out by a screen
  reader, if any, and the title.
\<close>

definition AccountStatus :: "(account_status \<Rightarrow> badge) \<Rightarrow> bool \<Rightarrow> bool \<Rightarrow> account_status \<Rightarrow>
    (string option \<times> string option \<times> string) option" where
  "AccountStatus state_of quiet withText user =
     (let s = state_of user in
      if quiet \<and> \<not> bd_notable s then None
      else if withText then
        Some (Some (bd_short s), if bd_label s \<noteq> bd_short s then Some ('': '' @ bd_label s) else None, bd_label s)
      else Some (None, Some (bd_label s), bd_label s))"

section \<open>Laws\<close>

lemma days_until_bounds:
  "t \<le> now + days_until now t * 86400000 \<and> now + (days_until now t - 1) * 86400000 < t"
proof -
  define q r where "q = (now - t) div 86400000" and "r = (now - t) mod 86400000"
  have "now - t = 86400000 * q + r" "0 \<le> r" "r < 86400000" by (simp_all add: q_def r_def)
  then show ?thesis by (simp add: days_until_def q_def[symmetric])
qed

lemma days_until_le: "days_until now t \<le> d \<longleftrightarrow> t \<le> now + d * 86400000"
proof
  assume "days_until now t \<le> d"
  then have "days_until now t * 86400000 \<le> d * 86400000" by simp
  then show "t \<le> now + d * 86400000" using days_until_bounds[of t now] by linarith
next
  assume "t \<le> now + d * 86400000"
  then have "(days_until now t - 1) * 86400000 < d * 86400000" using days_until_bounds[of t now] by linarith
  then show "days_until now t \<le> d" by simp
qed

text \<open>The sign-in is refused: a lock, or an expiry that has passed.\<close>

definition refused :: "account_status \<Rightarrow> date \<Rightarrow> bool" where
  "refused user now \<longleftrightarrow> isLocked user \<or> (\<exists>e. accountExpiration user = Some e \<and> e < now)"

lemma status_refused:
  "bd_icon (statusOf f l d user now) \<in> {IconLock, IconCalendarX} \<longleftrightarrow> refused user now"
  by (auto simp: statusOf_def refused_def Let_def split: option.split)

lemma past_expiration_read:
  assumes "\<And>t. text_of (ac_pwdEndTime user) = Some t \<Longrightarrow> parseLdapTimestamp t \<noteq> None"
    and "accountExpiration user \<noteq> Some now"
  shows "hasPastExpiration now user \<longleftrightarrow> (\<exists>e. accountExpiration user = Some e \<and> e < now)"
  using assms
  by (fastforce simp: hasPastExpiration_def accountExpiration_def isLdapTimestampInFuture_def split: option.splits)

lemma title_refused:
  assumes "\<And>t. text_of (ac_pwdEndTime user) = Some t \<Longrightarrow> parseLdapTimestamp t \<noteq> None"
    and "accountExpiration user \<noteq> Some now"
  shows "account_title now user \<in> {''Account Locked'', ''Account Expired''} \<longleftrightarrow> refused user now"
  using past_expiration_read[OF assms] by (simp add: account_title_def refused_def)

lemma quiet_rows:
  "AccountStatus (\<lambda>u. statusOf f l d u now) True w user = None \<longleftrightarrow>
     \<not> refused user now \<and>
     (hasLapsedLock user \<or> (\<forall>e. accountExpiration user = Some e \<longrightarrow> now + 30 * 86400000 < e))"
  by (auto simp: AccountStatus_def Let_def statusOf_def refused_def days_until_le not_le split: option.splits)

text \<open>
  C30: What a row of a list says of an account is what its Security tab says. Provided the stored end time can be
  read and is not this very instant, the row bears the lock or the struck calendar exactly when the account is
  locked or its expiry has passed, and exactly then the tab is titled Account Locked or Account Expired. A quiet
  list leaves out exactly the other accounts that carry a lapsed lock or do not expire within thirty days. A row
  that counts days counts them up: the account expires within that many days and not within one less.
\<close>

theorem badge_agrees:
  assumes "\<And>t. text_of (ac_pwdEndTime user) = Some t \<Longrightarrow> parseLdapTimestamp t \<noteq> None"
    and "accountExpiration user \<noteq> Some now"
  shows "(bd_icon (statusOf f l d user now) \<in> {IconLock, IconCalendarX} \<longleftrightarrow>
           isLocked user \<or> (\<exists>e. accountExpiration user = Some e \<and> e < now)) \<and>
         (bd_icon (statusOf f l d user now) \<in> {IconLock, IconCalendarX} \<longleftrightarrow>
           account_title now user \<in> {''Account Locked'', ''Account Expired''}) \<and>
         (AccountStatus (\<lambda>u. statusOf f l d u now) True w user = None \<longleftrightarrow>
           account_title now user \<notin> {''Account Locked'', ''Account Expired''} \<and>
           (hasLapsedLock user \<or> (\<forall>e. accountExpiration user = Some e \<longrightarrow> now + 30 * 86400000 < e))) \<and>
         (bd_icon (statusOf f l d user now) = IconCalendarClock \<longrightarrow>
           (\<exists>e n. accountExpiration user = Some e \<and> bd_short (statusOf f l d user now) = ''Expires in '' @ int_str n @ ''d'' \<and>
              e \<le> now + n * 86400000 \<and> now + (n - 1) * 86400000 < e))"
proof (intro conjI impI)
  show "bd_icon (statusOf f l d user now) \<in> {IconLock, IconCalendarX} \<longleftrightarrow>
      isLocked user \<or> (\<exists>e. accountExpiration user = Some e \<and> e < now)"
    by (simp only: status_refused refused_def)
  show "bd_icon (statusOf f l d user now) \<in> {IconLock, IconCalendarX} \<longleftrightarrow>
      account_title now user \<in> {''Account Locked'', ''Account Expired''}"
    by (simp only: status_refused title_refused[OF assms])
  show "AccountStatus (\<lambda>u. statusOf f l d u now) True w user = None \<longleftrightarrow>
      account_title now user \<notin> {''Account Locked'', ''Account Expired''} \<and>
      (hasLapsedLock user \<or> (\<forall>e. accountExpiration user = Some e \<longrightarrow> now + 30 * 86400000 < e))"
    by (simp only: quiet_rows title_refused[OF assms])
  assume "bd_icon (statusOf f l d user now) = IconCalendarClock"
  then obtain e where e: "accountExpiration user = Some e"
    "bd_short (statusOf f l d user now) = ''Expires in '' @ int_str (days_until now e) @ ''d''"
    by (auto simp: statusOf_def Let_def split: option.splits if_splits)
  then show "\<exists>e n. accountExpiration user = Some e \<and> bd_short (statusOf f l d user now) = ''Expires in '' @ int_str n @ ''d'' \<and>
      e \<le> now + n * 86400000 \<and> now + (n - 1) * 86400000 < e"
    using days_until_bounds by blast
qed

definition ending_account :: account_status where
  "ending_account = \<lparr>ac_accountLocked = None, ac_pwdAccountLockedTime = None,
     ac_pwdEndTime = Some ''20300101000000Z'', ac_lockout = None\<rparr>"

lemma ending_read: "accountExpiration ending_account = Some (date_utc 2030 0 1 0 0 0)"
  by (simp add: accountExpiration_def ending_account_def text_of_def, code_simp)

theorem badge_agrees_witness:
  "bd_icon (statusOf (\<lambda>_. None) (\<lambda>_. '''') '''' ending_account (date_utc 2030 0 1 0 0 1)) \<in> {IconLock, IconCalendarX}"
proof -
  have "\<And>t. text_of (ac_pwdEndTime ending_account) = Some t \<Longrightarrow> parseLdapTimestamp t \<noteq> None"
    using ending_read by (auto simp: accountExpiration_def split: option.splits)
  moreover have "accountExpiration ending_account \<noteq> Some (date_utc 2030 0 1 0 0 1)"
    unfolding ending_read by code_simp
  moreover have "date_utc 2030 0 1 0 0 0 < date_utc 2030 0 1 0 0 1" by code_simp
  then have "\<exists>e. accountExpiration ending_account = Some e \<and> e < date_utc 2030 0 1 0 0 1"
    using ending_read by blast
  ultimately show ?thesis
    using badge_agrees[of ending_account "date_utc 2030 0 1 0 0 1" "\<lambda>_. None" "\<lambda>_. ''''" "''''" False] by blast
qed

text \<open>
  An end time that cannot be read is no expiry to the list and a passed one to the Security tab: the list
  says the account is active, the tab that it has expired.
\<close>

lemma unreadable_end_time:
  assumes "text_of (ac_pwdEndTime user) = Some t" "parseLdapTimestamp t = None" "\<not> isLocked user" "\<not> hasLapsedLock user"
  shows "bd_label (statusOf f l d user now) = ''Active'' \<and> account_title now user = ''Account Expired''"
  using assms
  by (simp add: statusOf_def accountExpiration_def account_title_def hasPastExpiration_def isLdapTimestampInFuture_def)

text \<open>A lapsed lock hides an expiry that is due: the row says Active, and a quiet list leaves it out.\<close>

lemma lapsed_lock_hides_expiry:
  assumes "hasLapsedLock user" "\<not> isLocked user" "accountExpiration user = Some e" "now \<le> e"
  shows "bd_short (statusOf f l d user now) = ''Active'' \<and> AccountStatus (\<lambda>u. statusOf f l d u now) True w user = None"
  using assms by (simp add: statusOf_def AccountStatus_def Let_def)

text \<open>At the instant of the expiry the list still counts the days, none, and the tab says it has passed.\<close>

lemma at_the_expiry:
  assumes "accountExpiration user = Some now" "\<not> isLocked user" "\<not> hasLapsedLock user"
  shows "bd_label (statusOf f l d user now) = ''Expires in 0 days'' \<and> account_title now user = ''Account Expired''"
proof -
  have "hasPastExpiration now user"
    using assms(1) by (auto simp: accountExpiration_def hasPastExpiration_def isLdapTimestampInFuture_def split: option.splits)
  moreover have "int_str 0 = ''0''" by code_simp
  ultimately show ?thesis using assms by (simp add: statusOf_def account_title_def Let_def days_until_def)
qed

end
