(* ===== verification/List_Tables.thy ===== *)
theory List_Tables
  imports List_Page Access Bulk_Dialogs Account_Badge Audit_Log Netgroups
    "HOL-Library.Multiset"
begin

text \<open>
  What a list page draws (\<open>routes/users/index.tsx\<close> and the index pages of groups, netgroups, sudo roles and
  password policies): its header, its search, the toolbar of the selection, the table with its sortable
  columns and rows, what it says when there is nothing to show, and the deletion of a single row. The
  quoting of a search and the ellipsis are arguments.
\<close>

section \<open>The five lists\<close>

definition list_base :: "list_path \<Rightarrow> string" where
  "list_base l = (case l of LUsers \<Rightarrow> ''/users'' | LGroups \<Rightarrow> ''/groups'' | LNetgroups \<Rightarrow> ''/netgroups''
     | LSudoRoles \<Rightarrow> ''/sudo-roles'' | LPasswordPolicies \<Rightarrow> ''/password-policies'')"

definition list_heading :: "list_path \<Rightarrow> string" where
  "list_heading l = (case l of LUsers \<Rightarrow> ''Users'' | LGroups \<Rightarrow> ''Groups'' | LNetgroups \<Rightarrow> ''Netgroups''
     | LSudoRoles \<Rightarrow> ''Sudo Roles'' | LPasswordPolicies \<Rightarrow> ''Password Policies'')"

definition list_nouns :: "list_path \<Rightarrow> string" where
  "list_nouns l = (case l of LUsers \<Rightarrow> ''users'' | LGroups \<Rightarrow> ''groups'' | LNetgroups \<Rightarrow> ''netgroups''
     | LSudoRoles \<Rightarrow> ''sudo roles'' | LPasswordPolicies \<Rightarrow> ''password policies'')"

text \<open>What the search box, the empty search and the table's heading of the selection call them.\<close>

definition list_search_noun :: "list_path \<Rightarrow> string" where
  "list_search_noun l = (if l = LPasswordPolicies then ''policies'' else list_nouns l)"

definition new_label :: "list_path \<Rightarrow> string" where
  "new_label l = (case l of LUsers \<Rightarrow> ''New User'' | LGroups \<Rightarrow> ''New Group'' | LNetgroups \<Rightarrow> ''New Netgroup''
     | LSudoRoles \<Rightarrow> ''New Sudo Role'' | LPasswordPolicies \<Rightarrow> ''New Policy'')"

text \<open>\<open>canWrite\<close>, \<open>canDelete\<close>, and the one that shows the checkboxes.\<close>

definition list_can_write :: "list_path \<Rightarrow> (string \<Rightarrow> bool) \<Rightarrow> bool" where
  "list_can_write l may = may (case l of LUsers \<Rightarrow> ''users:write'' | LGroups \<Rightarrow> ''groups:write''
     | LNetgroups \<Rightarrow> ''groups:write'' | LSudoRoles \<Rightarrow> ''users:write'' | LPasswordPolicies \<Rightarrow> ''settings:write'')"

definition list_can_delete :: "list_path \<Rightarrow> (string \<Rightarrow> bool) \<Rightarrow> bool" where
  "list_can_delete l may = may (case l of LUsers \<Rightarrow> ''users:delete'' | LGroups \<Rightarrow> ''groups:delete''
     | LNetgroups \<Rightarrow> ''groups:delete'' | LSudoRoles \<Rightarrow> ''users:delete'' | LPasswordPolicies \<Rightarrow> ''settings:write'')"

definition list_selects :: "list_path \<Rightarrow> (string \<Rightarrow> bool) \<Rightarrow> bool" where
  "list_selects l may = (if l = LUsers then list_can_write l may else list_can_delete l may)"

definition list_imports :: "list_path \<Rightarrow> bool" where
  "list_imports l \<longleftrightarrow> l \<in> {LUsers, LGroups, LNetgroups}"

definition import_link :: "list_path \<Rightarrow> control list" where
  "import_link l = (if list_imports l then [Links ''Import CSV'' (list_base l @ ''/import'')] else [])"

definition new_link :: "list_path \<Rightarrow> control" where
  "new_link l = Links (new_label l) (list_base l @ ''/new'')"

definition list_header :: "list_path \<Rightarrow> (string \<Rightarrow> bool) \<Rightarrow> control list" where
  "list_header l may =
     Says (list_heading l) # (if list_can_write l may then import_link l @ [new_link l] else [])"

definition count_text :: "list_path \<Rightarrow> int \<Rightarrow> string" where
  "count_text l n =
     int_str n @ (case l of LUsers \<Rightarrow> '' user'' @ (if n \<noteq> 1 then ''s'' else '''')
       | LGroups \<Rightarrow> '' group'' @ (if n \<noteq> 1 then ''s'' else '''')
       | LNetgroups \<Rightarrow> '' netgroup'' @ (if n \<noteq> 1 then ''s'' else '''')
       | LSudoRoles \<Rightarrow> '' sudo role'' @ (if n \<noteq> 1 then ''s'' else '''')
       | LPasswordPolicies \<Rightarrow> '' polic'' @ (if n \<noteq> 1 then ''ies'' else ''y''))"

section \<open>Columns\<close>

definition list_sort_fields :: "list_path \<Rightarrow> string list" where
  "list_sort_fields l = (case l of
      LUsers \<Rightarrow> [''uid'', ''displayName'', ''mail'', ''employeeType'', ''groupsCount'']
    | LGroups \<Rightarrow> [''cn'', ''description'', ''gidNumber'', ''members'']
    | LNetgroups \<Rightarrow> [''cn'']
    | LSudoRoles \<Rightarrow> [''cn'', ''sudoOrder'']
    | LPasswordPolicies \<Rightarrow> [''cn'', ''pwdMaxAge'', ''pwdMinLength''])"

definition list_default_sort :: "list_path \<Rightarrow> string" where
  "list_default_sort l = (if l = LUsers then ''uid'' else ''cn'')"

text \<open>The head of a column: the checkbox of all rows, a button that sorts by a field, or a title.\<close>

datatype list_column = SelectAll string | SortBy string string | Titled string

definition data_columns :: "list_path \<Rightarrow> list_column list" where
  "data_columns l = (case l of
      LUsers \<Rightarrow> [SortBy ''Username'' ''uid'', SortBy ''Name'' ''displayName'', SortBy ''Email'' ''mail'',
        SortBy ''Type'' ''employeeType'', SortBy ''Groups'' ''groupsCount'', Titled ''Status'']
    | LGroups \<Rightarrow> [SortBy ''Name'' ''cn'', SortBy ''Description'' ''description'', SortBy ''GID'' ''gidNumber'',
        SortBy ''Members'' ''members'']
    | LNetgroups \<Rightarrow> [SortBy ''Name'' ''cn'', Titled ''Description'', Titled ''Contents'', Titled ''Nests'']
    | LSudoRoles \<Rightarrow> [SortBy ''Name'' ''cn'', Titled ''Users'', Titled ''Hosts'', Titled ''Commands'',
        SortBy ''Order'' ''sudoOrder'']
    | LPasswordPolicies \<Rightarrow> [SortBy ''Name'' ''cn'', SortBy ''Min Length'' ''pwdMinLength'',
        SortBy ''Max Age'' ''pwdMaxAge'', Titled ''Lockout'', Titled ''History''])"

definition row_deletes :: "list_path \<Rightarrow> bool" where
  "row_deletes l \<longleftrightarrow> l \<in> {LSudoRoles, LPasswordPolicies}"

definition list_columns :: "list_path \<Rightarrow> (string \<Rightarrow> bool) \<Rightarrow> list_column list" where
  "list_columns l may =
     (if list_selects l may then [SelectAll (''Select all '' @ list_nouns l)] else [])
     @ data_columns l
     @ (if row_deletes l \<and> list_can_delete l may then [Titled ''Actions''] else [])"

text \<open>The number of columns the skeleton and the empty state span, as the pages write it.\<close>

definition list_colspan :: "list_path \<Rightarrow> (string \<Rightarrow> bool) \<Rightarrow> nat" where
  "list_colspan l may = (case l of
      LUsers \<Rightarrow> if list_can_write l may then 7 else 6
    | LGroups \<Rightarrow> if list_can_delete l may then 5 else 4
    | LNetgroups \<Rightarrow> if list_can_delete l may then 5 else 4
    | LSudoRoles \<Rightarrow> if list_can_delete l may then 7 else 5
    | LPasswordPolicies \<Rightarrow> if list_can_write l may then 7 else 5)"

section \<open>Rows\<close>

text \<open>
  A row: the DN it stands for, what its link and its checkbox call it, a line under that name, and the
  cells after the link as the text they show.
\<close>

record list_row =
  rw_dn :: string
  rw_name :: string
  rw_note :: "string option"
  rw_cells :: "string list"

definition or_dash :: "string option \<Rightarrow> string" where
  "or_dash v = (case v of Some s \<Rightarrow> if s = '''' then ''-'' else s | None \<Rightarrow> ''-'')"

record user_row =
  ur_dn :: string
  ur_uid :: string
  ur_cn :: string
  ur_displayName :: "string option"
  ur_mail :: "string option"
  ur_employeeType :: "string option"
  ur_groupsCount :: "int option"
  ur_account :: account_status

definition row_name_of :: "user_row \<Rightarrow> string" where
  "row_name_of u = (case ur_displayName u of Some n \<Rightarrow> if n = '''' then ur_cn u else n | None \<Rightarrow> ur_cn u)"

definition user_cells :: "(account_status \<Rightarrow> badge) \<Rightarrow> user_row \<Rightarrow> list_row" where
  "user_cells state_of u =
     \<lparr>rw_dn = ur_dn u, rw_name = ur_uid u, rw_note = None,
      rw_cells = [row_name_of u, or_dash (ur_mail u), or_dash (ur_employeeType u),
        int_str (coalesce (ur_groupsCount u) 0),
        (case AccountStatus state_of False True (ur_account u) of
           Some (Some shown, spoken, title) \<Rightarrow> shown @ coalesce spoken '''' | _ \<Rightarrow> '''')]\<rparr>"

text \<open>\<open>employeeTypeTones\<close>: the tint of each employee type on the page.\<close>

definition employeeTypeTones :: "user_row list \<Rightarrow> (string \<times> hue) list" where
  "employeeTypeTones users =
     assignTones (List.map_filter (\<lambda>u. text_of (ur_employeeType u)) users)"

definition type_badge :: "user_row list \<Rightarrow> user_row \<Rightarrow> (string \<times> hue) option" where
  "type_badge users u =
     map_option (\<lambda>t. (t, coalesce (map_of (employeeTypeTones users) t) Slate)) (text_of (ur_employeeType u))"

record group_row =
  gr_dn :: string
  gr_cn :: string
  gr_description :: "string option"
  gr_gidNumber :: int
  gr_membersCount :: "int option"

definition group_cells :: "group_row \<Rightarrow> list_row" where
  "group_cells g =
     \<lparr>rw_dn = gr_dn g, rw_name = gr_cn g, rw_note = None,
      rw_cells = [or_dash (gr_description g), int_str (gr_gidNumber g), int_str (coalesce (gr_membersCount g) 0)]\<rparr>"

text \<open>What a netgroup holds, at a glance; an open slot stands for anybody, so it is named, not counted.\<close>

definition side_text :: "nat \<Rightarrow> bool \<Rightarrow> string \<Rightarrow> string option" where
  "side_text n anyone noun =
     (if 0 < n \<or> anyone
      then Some ((if 0 < n then nat_str n @ '' '' @ noun @ (if n = 1 then '''' else ''s'') else '''')
        @ (if 0 < n \<and> anyone then '' + '' else '''')
        @ (if anyone then ''any '' @ noun else ''''))
      else None)"

definition ContentsCell :: "netgroup \<Rightarrow> string list" where
  "ContentsCell n =
     (let ts = ng_triples n;
          users = length (filter (\<lambda>t. t_user t \<noteq> '''' \<and> t_user t \<noteq> NETGROUP_NO_MATCH) ts);
          hosts = length (filter (\<lambda>t. t_host t \<noteq> '''' \<and> t_host t \<noteq> NETGROUP_NO_MATCH) ts)
      in (case side_text users (list_ex (\<lambda>t. t_user t = '''') ts) ''user'' of Some x \<Rightarrow> [x] | None \<Rightarrow> [])
         @ (case side_text hosts (list_ex (\<lambda>t. t_host t = '''') ts) ''host'' of Some x \<Rightarrow> [x] | None \<Rightarrow> [])
         @ (if ts = [] then [if coalesce (ng_members n) [] \<noteq> [] then ''nested only'' else ''empty''] else [])
         @ (if netgroupKind n = KMixed then [''mixed''] else [])
         @ (if coalesce (ng_malformed n) [] \<noteq> []
            then [nat_str (length (coalesce (ng_malformed n) [])) @ '' unreadable''] else []))"

definition netgroup_cells :: "netgroup \<Rightarrow> list_row" where
  "netgroup_cells n =
     \<lparr>rw_dn = ng_dn n, rw_name = ng_cn n, rw_note = None,
      rw_cells = [or_dash (ng_description n), join_with '' '' (ContentsCell n),
        (if coalesce (ng_members n) [] \<noteq> [] then join_with '', '' (coalesce (ng_members n) []) else ''-'')]\<rparr>"

record role_row_data =
  rr_dn :: string
  rr_cn :: string
  rr_users :: "string list option"
  rr_hosts :: "string list option"
  rr_commands :: "string list option"
  rr_order :: "int option"

definition first_few :: "nat \<Rightarrow> string list option \<Rightarrow> string" where
  "first_few k v =
     (let xs = coalesce v [] in
      (if xs \<noteq> [] then join_with '', '' (take k xs) else ''-'')
      @ (if k < length xs then '' +'' @ nat_str (length xs - k) else ''''))"

definition role_cells :: "role_row_data \<Rightarrow> list_row" where
  "role_cells r =
     \<lparr>rw_dn = rr_dn r, rw_name = rr_cn r, rw_note = None,
      rw_cells = [first_few 3 (rr_users r), first_few 2 (rr_hosts r), first_few 2 (rr_commands r),
        (case rr_order r of Some k \<Rightarrow> if k \<noteq> 0 then int_str k else ''-'' | None \<Rightarrow> ''-'')]\<rparr>"

record policy_row =
  po_dn :: string
  po_cn :: string
  po_description :: "string option"
  po_minLength :: "int option"
  po_maxAge :: "int option"
  po_lockout :: "bool option"
  po_maxFailure :: "int option"
  po_inHistory :: "int option"

definition formatSeconds :: "int option \<Rightarrow> string" where
  "formatSeconds v =
     (case v of None \<Rightarrow> ''-''
      | Some seconds \<Rightarrow>
          if seconds = 0 then ''-''
          else if seconds < 60 then int_str seconds @ ''s''
          else if seconds < 3600 then int_str (seconds div 60) @ ''m''
          else if seconds < 86400 then int_str (seconds div 3600) @ ''h''
          else int_str (seconds div 86400) @ ''d'')"

definition counted :: "int option \<Rightarrow> string \<Rightarrow> string" where
  "counted v unit = (case v of Some k \<Rightarrow> if k \<noteq> 0 then int_str k @ unit else ''-'' | None \<Rightarrow> ''-'')"

definition policy_cells :: "policy_row \<Rightarrow> list_row" where
  "policy_cells p =
     \<lparr>rw_dn = po_dn p, rw_name = po_cn p, rw_note = text_of (po_description p),
      rw_cells = [counted (po_minLength p) '' chars'', formatSeconds (po_maxAge p),
        (if po_lockout p = Some True then ''after '' @ int_str (coalesce (po_maxFailure p) 0) @ '' attempts'' else ''Disabled''),
        counted (po_inHistory p) '' passwords'']\<rparr>"

section \<open>The page\<close>

record index_view =
  iv_loading :: bool
  iv_error :: "string option"
  iv_rows :: "list_row list"
  iv_total :: int
  iv_truncated :: bool
  iv_inactive :: int
  iv_q :: string
  iv_status :: "status_filter option"
  iv_sort :: string
  iv_dir :: sort_dir
  iv_page :: int
  iv_size :: int
  iv_selected :: "string set"
  iv_progress :: "(nat \<times> nat) option"
  iv_running :: bool

definition selected_here :: "index_view \<Rightarrow> list_row list" where
  "selected_here v = filter (\<lambda>r. rw_dn r \<in> iv_selected v) (iv_rows v)"

text \<open>The choices of the status filter; the value stands for itself but for \<open>active\<close>, no filter.\<close>

definition status_options :: "int \<Rightarrow> (string \<times> string) list" where
  "status_options inactiveCount =
     [(''active'', ''Active''),
      (''inactive'', ''Locked or expired'' @ (if inactiveCount > 0 then '' ('' @ int_str inactiveCount @ '')'' else '''')),
      (''all'', ''All accounts'')]"

definition status_value :: "status_filter option \<Rightarrow> string" where
  "status_value f = (case f of None \<Rightarrow> ''active'' | Some StatusInactive \<Rightarrow> ''inactive'' | Some StatusAll \<Rightarrow> ''all'')"

definition status_chosen :: "string \<Rightarrow> status_filter option" where
  "status_chosen val = (if val = ''active'' then None else map_of STATUS_FILTERS val)"

text \<open>What a table says when it has no rows: title, description and the ways out.\<close>

definition search_matches :: "list_path \<Rightarrow> string" where
  "search_matches l = (case l of
      LUsers \<Rightarrow> ''Search matches uid, name and email.''
    | LGroups \<Rightarrow> ''Search matches the group name and description.''
    | LNetgroups \<Rightarrow> ''Search matches the name, the description, the triples and nested names.''
    | LSudoRoles \<Rightarrow> ''Search matches the role name and description.''
    | LPasswordPolicies \<Rightarrow> ''Search matches the policy name and description.'')"

definition nothing_yet :: "list_path \<Rightarrow> bool \<Rightarrow> string" where
  "nothing_yet l canWrite = (case l of
      LUsers \<Rightarrow> if canWrite then ''Create one, or import a CSV to populate the directory.''
         else ''The directory has no user entries under the configured OU.''
    | LGroups \<Rightarrow> if canWrite then ''Create one, or import a CSV to populate the directory.''
         else ''The directory has no posixGroup entries under the configured OU.''
    | LNetgroups \<Rightarrow> if canWrite
         then ''A netgroup collects users or hosts, and a sudo rule can grant to all of them at once with \"+name\".''
         else ''The directory has no nisNetgroup entries under the configured OU.''
    | LSudoRoles \<Rightarrow> if canWrite then ''A sudo role grants commands to users or groups on given hosts.''
         else ''The directory has no sudoRole entries under the configured OU.''
    | LPasswordPolicies \<Rightarrow> if canWrite
         then ''A policy sets password length, history and lockout rules, and can then be assigned to users.''
         else ''The directory has no pwdPolicy entries under the configured OU.'')"

definition list_empty :: "(string \<Rightarrow> string) \<Rightarrow> list_path \<Rightarrow> (string \<Rightarrow> bool) \<Rightarrow> index_view \<Rightarrow> string \<times> string \<times> control list" where
  "list_empty quoted l may v =
     (if iv_q v \<noteq> '''' then
        (''No '' @ list_search_noun l @ '' match '' @ quoted (iv_q v), search_matches l, [Reads ''Clear search''])
      else if l = LUsers \<and> iv_status v = Some StatusInactive then
        (''No locked or expired accounts'', ''Every account can currently log in.'', [Reads ''Show active accounts''])
      else if l = LUsers \<and> iv_status v = None \<and> iv_inactive v > 0 then
        (''No active users'', ''Every account is locked or expired.'', [Reads ''Show locked or expired''])
      else
        (''No '' @ list_nouns l @ '' yet'', nothing_yet l (list_can_write l may),
         if list_can_write l may then new_link l # import_link l else []))"

definition list_toolbar :: "string \<Rightarrow> list_path \<Rightarrow> (string \<Rightarrow> bool) \<Rightarrow> index_view \<Rightarrow> control list" where
  "list_toolbar ellipsis l may v =
     (if list_selects l may
      then BulkActionBar ellipsis (length (selected_here v)) (iv_progress v)
        (if l = LUsers then users_bar (list_can_delete l may) (iv_running v) else delete_bar (iv_running v))
      else [])"

definition entry_noun :: "list_path \<Rightarrow> string" where
  "entry_noun l = (if l = LSudoRoles then ''sudo role'' else ''password policy'')"

definition row_controls :: "list_path \<Rightarrow> (string \<Rightarrow> bool) \<Rightarrow> list_row \<Rightarrow> control list" where
  "row_controls l may r =
     (if list_selects l may then [Reads (''Select '' @ rw_name r)] else [])
     @ [Links (rw_name r) (list_base l @ ''/$dn'')]
     @ (case rw_note r of Some n \<Rightarrow> [Says n] | None \<Rightarrow> [])
     @ map Says (rw_cells r)
     @ (if row_deletes l \<and> list_can_delete l may then [Presses (''Delete '' @ entry_noun l) True] else [])"

definition table_body :: "(string \<Rightarrow> string) \<Rightarrow> list_path \<Rightarrow> (string \<Rightarrow> bool) \<Rightarrow> index_view \<Rightarrow> control list" where
  "table_body quoted l may v =
     (if iv_loading v then []
      else if iv_rows v \<noteq> [] then concat (map (row_controls l may) (iv_rows v))
      else (case list_empty quoted l may v of (t, d, cs) \<Rightarrow> Says t # Says d # cs))"

text \<open>The rows of the skeleton while the first page loads.\<close>

definition skeleton_rows :: "int \<Rightarrow> int" where
  "skeleton_rows pageSize = min pageSize 8"

fun column_header :: "list_column \<Rightarrow> control" where
  "column_header (SelectAll t) = Reads t"
| "column_header (SortBy t f) = Reads t"
| "column_header (Titled t) = Says t"

fun column_field :: "list_column \<Rightarrow> string option" where
  "column_field (SortBy t f) = Some f"
| "column_field _ = None"

definition list_pager :: "index_view \<Rightarrow> control list" where
  "list_pager v =
     (if iv_total v > 0
      then [Says (pager_text (iv_page v) (iv_size v) (iv_total v)),
            Says (page_of_text (iv_page v) (total_pages (iv_total v) (iv_size v)))]
        @ map (\<lambda>(t, p, e). Reads t) (pager_buttons (iv_page v) (total_pages (iv_total v) (iv_size v)))
      else [])"

definition index_page :: "(string \<Rightarrow> string) \<Rightarrow> string \<Rightarrow> list_path \<Rightarrow> (string \<Rightarrow> bool) \<Rightarrow> index_view \<Rightarrow> control list" where
  "index_page quoted ellipsis l may v =
     list_header l may
     @ (case iv_error v of
          Some m \<Rightarrow> [Says (''Failed to load '' @ list_nouns l @ '': '' @ m)]
        | None \<Rightarrow>
            [Reads (''Search '' @ list_search_noun l @ ''...'')]
            @ (if l = LUsers then [Reads ''Account status''] else [])
            @ [Says (count_text l (iv_total v))]
            @ (if iv_truncated v
               then [Says (''Showing the first '' @ int_str (iv_total v) @ '' matches. Refine your search to narrow the results.'')]
               else [])
            @ list_toolbar ellipsis l may v
            @ map column_header (list_columns l may)
            @ table_body quoted l may v
            @ list_pager v)"

section \<open>Deleting one row\<close>

text \<open>
  \<open>deleteRole\<close> and \<open>deletePolicy\<close>, with the mutation: the row the dialog asks about, the row whose
  deletion is on its way, and the error the mutation last ended with.
\<close>

record row_deletion =
  rd_asked :: "(string \<times> string) option"
  rd_pending :: bool
  rd_error :: "string option"

datatype row_delete_event =
    RowDelete string string
  | RowDismiss
  | RowConfirm
  | RowDone "(string, string list) result"

definition row_delete_list :: "list_path \<Rightarrow> delete_list" where
  "row_delete_list l = (if l = LSudoRoles then DeleteSudoRoles else DeletePolicies)"

definition row_deleted_text :: "list_path \<Rightarrow> string" where
  "row_deleted_text l = (if l = LSudoRoles then ''Sudo role deleted'' else ''Password policy deleted'')"

definition row_delete_start :: row_deletion where
  "row_delete_start = \<lparr>rd_asked = None, rd_pending = False, rd_error = None\<rparr>"

text \<open>
  A step, with the request it sends, the queries it refreshes and what it tells. The answer carries the
  warnings of the server, which are not looked at. The mutation forgets its error when it starts again.
\<close>

definition row_delete_step :: "list_path \<Rightarrow> row_delete_event \<Rightarrow> row_deletion \<Rightarrow>
    row_deletion \<times> request option \<times> string list list \<times> toast option" where
  "row_delete_step l e s =
     (case e of
        RowDelete dn cn \<Rightarrow> (s\<lparr>rd_asked := Some (dn, cn)\<rparr>, None, [], None)
      | RowDismiss \<Rightarrow> (s\<lparr>rd_asked := None\<rparr>, None, [], None)
      | RowConfirm \<Rightarrow>
          (case rd_asked s of
             Some (dn, cn) \<Rightarrow> if rd_pending s then (s, None, [], None)
               else (s\<lparr>rd_pending := True, rd_error := None\<rparr>, Some (delete_call (row_delete_list l) dn), [], None)
           | None \<Rightarrow> (s, None, [], None))
      | RowDone (Inl m) \<Rightarrow> (s\<lparr>rd_pending := False, rd_error := Some m\<rparr>, None, [], Some (ToastError m))
      | RowDone (Inr warnings) \<Rightarrow>
          (s\<lparr>rd_asked := None, rd_pending := False\<rparr>, None, [delete_key (row_delete_list l)],
           Some (ToastSuccess (row_deleted_text l))))"

definition row_delete_dialog :: "list_path \<Rightarrow> row_deletion \<Rightarrow> (string \<times> string \<times> string option) option" where
  "row_delete_dialog l s =
     map_option (\<lambda>(dn, cn).
       (if l = LSudoRoles then ''Delete Sudo Role'' else ''Delete Password Policy'',
        ''Are you sure you want to delete '' @ (if l = LSudoRoles then ''sudo role'' else ''policy'') @ '' \"'' @ cn
          @ ''\"? This action cannot be undone.'', rd_error s)) (rd_asked s)"

section \<open>Laws\<close>

text \<open>The spans the pages write out are the number of columns; each row has a cell for each of them.\<close>

lemma columns_span: "length (list_columns l may) = list_colspan l may"
  by (cases l) (simp_all add: list_columns_def data_columns_def list_selects_def list_can_delete_def
      list_can_write_def row_deletes_def list_colspan_def)

lemma cells_fill_the_row:
  "1 + length (rw_cells (user_cells f u)) = length (data_columns LUsers)"
  "1 + length (rw_cells (group_cells g)) = length (data_columns LGroups)"
  "1 + length (rw_cells (netgroup_cells n)) = length (data_columns LNetgroups)"
  "1 + length (rw_cells (role_cells r)) = length (data_columns LSudoRoles)"
  "1 + length (rw_cells (policy_cells p)) = length (data_columns LPasswordPolicies)"
  by (simp_all add: user_cells_def group_cells_def netgroup_cells_def role_cells_def policy_cells_def
      data_columns_def)

text \<open>The headers sort by the fields the address of the page accepts, each once; the first is the default.\<close>

lemma headers_sort:
  "mset (List.map_filter column_field (list_columns l may)) = mset (list_sort_fields l) \<and> distinct (list_sort_fields l)"
  by (cases l) (simp_all add: list_columns_def data_columns_def list_sort_fields_def List.map_filter_def
      list_selects_def row_deletes_def)

lemma default_sort_first: "list_default_sort l = hd (list_sort_fields l)"
  by (cases l) (simp_all add: list_default_sort_def list_sort_fields_def)

lemma users_sort_fields: "list_sort_fields LUsers = USER_SORT_FIELDS"
  by (simp add: list_sort_fields_def USER_SORT_FIELDS_def)

lemma status_filter_read_back: "status_chosen (status_value f) = f"
  by (cases f; simp add: status_chosen_def status_value_def STATUS_FILTERS_def split: status_filter.split)

text \<open>The cell of a netgroup: an open slot is always named, and a mixed netgroup says so.\<close>

lemma side_text_names_any: "side_text n True noun = Some x \<Longrightarrow> suffix (''any '' @ noun) x"
  by (auto simp: side_text_def suffix_def)

lemma kind_flags_counts:
  "kind_flags ts u h = (u \<or> 0 < length (filter (slot_names \<circ> t_user) ts), h \<or> 0 < length (filter (slot_names \<circ> t_host) ts))"
  by (induction ts arbitrary: u h) auto

lemma mixed_says_so:
  "netgroupKind n = KMixed \<longleftrightarrow>
     0 < length (filter (\<lambda>t. t_user t \<noteq> '''' \<and> t_user t \<noteq> NETGROUP_NO_MATCH) (ng_triples n)) \<and>
     0 < length (filter (\<lambda>t. t_host t \<noteq> '''' \<and> t_host t \<noteq> NETGROUP_NO_MATCH) (ng_triples n))"
  by (simp add: netgroupKind_def kind_flags_counts comp_def slot_names_def)

text \<open>What a cell of a sudo role leaves out is counted.\<close>

lemma first_few_counts:
  assumes "xs \<noteq> []"
  shows "first_few k (Some xs) = join_with '', '' (take k xs) @
     (if length (drop k xs) = 0 then '''' else '' +'' @ nat_str (length (drop k xs)))"
  using assms by (simp add: first_few_def Let_def)

text \<open>
  Past the last page the table says that there is nothing yet and offers to create the first entry, under
  a count that is not zero.
\<close>

lemma past_the_last_page:
  assumes "iv_rows v = []" "iv_q v = ''''" "iv_status v = Some StatusAll" "iv_total v = 7" "\<not> iv_loading v"
    "iv_error v = None"
  shows "{Says ''No users yet'', Says (count_text LUsers 7)} \<subseteq> set (index_page quoted ellipsis LUsers may v)"
  using assms by (simp add: index_page_def table_body_def list_empty_def list_nouns_def)

text \<open>
  A selection that reaches a page without its rows marks the header of the checkboxes, over rows none of
  which is selected and with no toolbar to clear it.
\<close>

lemma ghost_selection:
  assumes "selected \<noteq> {}" "set rows \<inter> selected = {}"
  shows "someSelected rows selected \<and> selectedRows rows selected = []"
  using assms by (auto simp: someSelected_def allSelected_def selectedRows_def list_all_iff neq_Nil_conv filter_empty_conv)

section \<open>Offered only what is allowed\<close>

definition list_module :: "list_path \<Rightarrow> module_id" where
  "list_module l = (case l of LUsers \<Rightarrow> MUsers | LGroups \<Rightarrow> MGroups | LNetgroups \<Rightarrow> MNetgroups
     | LSudoRoles \<Rightarrow> MSudo | LPasswordPolicies \<Rightarrow> MPolicies)"

text \<open>Where the links of a page lead.\<close>

fun link_target :: "control \<Rightarrow> string option" where
  "link_target (Links name target) = Some target"
| "link_target _ = None"

lemma no_links [simp]:
  "c \<in> set (BulkActionBar e k p (users_bar d r)) \<Longrightarrow> link_target c = None"
  "c \<in> set (BulkActionBar e k p (delete_bar r)) \<Longrightarrow> link_target c = None"
  "link_target (column_header h) = None"
  "c \<in> set (list_pager v) \<Longrightarrow> link_target c = None"
  by (auto simp: BulkActionBar_def users_bar_def delete_bar_def list_pager_def pager_buttons_def
      intro: column_header.cases[of h] split: if_splits option.splits prod.splits)

lemma toolbar_no_links: "c \<in> set (list_toolbar e l may v) \<Longrightarrow> link_target c = None"
  by (auto simp: list_toolbar_def split: if_splits)

definition create_targets :: "list_path \<Rightarrow> string list" where
  "create_targets l = (if list_imports l then [list_base l @ ''/import''] else []) @ [list_base l @ ''/new'']"

lemma create_links:
  "c \<in> set (import_link l) \<or> c = new_link l \<Longrightarrow> link_target c = Some t \<Longrightarrow> t \<in> set (create_targets l)"
  by (auto simp: import_link_def new_link_def create_targets_def split: if_splits)

lemma row_links:
  "c \<in> set (row_controls l may r) \<Longrightarrow> link_target c = Some t \<Longrightarrow> t = list_base l @ ''/$dn''"
  by (auto simp: row_controls_def split: if_splits option.splits)

lemma body_links:
  assumes "c \<in> set (table_body quoted l may v)" "link_target c = Some t"
  shows "t = list_base l @ ''/$dn'' \<or> list_can_write l may \<and> t \<in> set (create_targets l)"
proof (cases "iv_loading v \<or> iv_rows v \<noteq> []")
  case True
  then show ?thesis using assms row_links by (auto simp: table_body_def split: if_splits)
next
  case False
  obtain a d cs where e: "list_empty quoted l may v = (a, d, cs)" by (cases "list_empty quoted l may v")
  then have "c \<in> set cs" using False assms by (auto simp: table_body_def)
  with e have "list_can_write l may \<and> (c = new_link l \<or> c \<in> set (import_link l))"
    using assms(2) by (auto simp: list_empty_def split: if_splits)
  then show ?thesis using assms(2) create_links by blast
qed

lemma header_links:
  assumes "c \<in> set (list_header l may)" "link_target c = Some t"
  shows "list_can_write l may \<and> t \<in> set (create_targets l)"
proof -
  have "list_can_write l may \<and> (c = new_link l \<or> c \<in> set (import_link l))"
    using assms by (auto simp: list_header_def split: if_splits)
  then show ?thesis using assms(2) create_links by blast
qed

lemma page_links:
  assumes "c \<in> set (index_page quoted ellipsis l may v)" "link_target c = Some t"
  shows "t = list_base l @ ''/$dn'' \<or> list_can_write l may \<and> t \<in> set (create_targets l)"
proof (cases "c \<in> set (list_header l may)")
  case True
  then show ?thesis using header_links assms(2) by blast
next
  case False
  then have "c \<in> set (table_body quoted l may v)"
    using assms toolbar_no_links[of c ellipsis l may v] no_links(4)[of c v]
    by (auto simp: index_page_def split: option.splits if_splits)
  then show ?thesis using body_links assms(2) by blast
qed

text \<open>The guards behind those links.\<close>

lemma list_detail_guards [simp]:
  "map_of route_guards ''/users/$dn'' = Some user_detail_guard"
  "map_of route_guards ''/groups/$dn'' = Some group_detail_guard"
  "map_of route_guards ''/netgroups/$dn'' = Some netgroup_detail_guard"
  "map_of route_guards ''/sudo-roles/$dn'' = Some sudo_detail_guard"
  "map_of route_guards ''/password-policies/$dn'' = Some policy_detail_guard"
  by (simp_all add: route_guards_def)

lemma list_targets:
  "list_base LUsers @ ''/$dn'' = ''/users/$dn''" "create_targets LUsers = [''/users/import'', ''/users/new'']"
  "list_base LGroups @ ''/$dn'' = ''/groups/$dn''" "create_targets LGroups = [''/groups/import'', ''/groups/new'']"
  "list_base LNetgroups @ ''/$dn'' = ''/netgroups/$dn''"
  "create_targets LNetgroups = [''/netgroups/import'', ''/netgroups/new'']"
  "list_base LSudoRoles @ ''/$dn'' = ''/sudo-roles/$dn''" "create_targets LSudoRoles = [''/sudo-roles/new'']"
  "list_base LPasswordPolicies @ ''/$dn'' = ''/password-policies/$dn''"
  "create_targets LPasswordPolicies = [''/password-policies/new'']"
  by (simp_all add: list_base_def create_targets_def list_imports_def)

lemma detail_guard_passes:
  assumes "requireModule answer (list_module l) = Pass" "require_login ses = Pass"
    and "l = LPasswordPolicies \<Longrightarrow> hasPermission ses ''settings:read''"
  shows "\<exists>guard. map_of route_guards (list_base l @ ''/$dn'') = Some guard \<and> guard ses answer = Pass"
  using assms
  by (cases l; simp only: list_targets list_detail_guards)
     (simp_all add: list_module_def guard_defs and_then_Pass require_permission_def)

lemma create_guard_passes:
  assumes "requireModule answer (list_module l) = Pass" "list_can_write l (hasPermission ses)"
    and "t \<in> set (create_targets l)"
  shows "\<exists>guard. map_of route_guards t = Some guard \<and> guard ses answer = Pass"
proof -
  have "require_login ses = Pass" using assms(2) hasPermission_signed_in by (auto simp: list_can_write_def)
  then show ?thesis using assms
    by (cases l) (auto simp: list_targets list_module_def list_can_write_def guard_defs and_then_Pass
        require_permission_def)
qed

lemma delete_needs:
  assumes "dn \<noteq> ''''"
  shows "required (delete_call k dn) = Some (Needs (case k of DeleteGroups \<Rightarrow> ''groups:delete''
     | DeleteNetgroups \<Rightarrow> ''groups:delete'' | DeleteSudoRoles \<Rightarrow> ''users:delete'' | DeletePolicies \<Rightarrow> ''settings:write''))"
  using assms by (cases k) (simp_all add: delete_call_def access_simps)

lemma row_delete_shown:
  "Presses (''Delete '' @ entry_noun l) True \<in> set (row_controls l may r) \<longleftrightarrow>
     row_deletes l \<and> list_can_delete l may"
  by (auto simp: row_controls_def split: option.splits)

text \<open>The request a button of a row or of the toolbar leads to, for each entry it is about.\<close>

definition list_delete_call :: "list_path \<Rightarrow> string \<Rightarrow> request" where
  "list_delete_call l dn =
     (case l of LUsers \<Rightarrow> users_delete dn | LGroups \<Rightarrow> delete_call DeleteGroups dn
      | LNetgroups \<Rightarrow> delete_call DeleteNetgroups dn | LSudoRoles \<Rightarrow> delete_call DeleteSudoRoles dn
      | LPasswordPolicies \<Rightarrow> delete_call DeletePolicies dn)"

definition button_calls :: "list_path \<Rightarrow> string \<Rightarrow> string option \<Rightarrow> string \<Rightarrow> request list" where
  "button_calls l label expiration dn =
     (if label = ''Delete'' \<or> label = ''Delete '' @ entry_noun l then [list_delete_call l dn]
      else if label = ''Lock'' then [users_lock dn]
      else if label = ''Unlock'' then [users_unlock dn]
      else if label = ''Set expiration'' then [users_setExpiration dn expiration]
      else [])"

lemma list_delete_needs:
  assumes "dn \<noteq> ''''" "list_can_delete l may"
  shows "\<exists>p. required (list_delete_call l dn) = Some (Needs p) \<and> may p"
  using assms by (cases l) (simp_all add: list_delete_call_def delete_needs list_can_delete_def access_simps)

lemma toolbar_button:
  assumes "Presses label True \<in> set (list_toolbar ellipsis l may v)"
  shows "list_selects l may \<and>
    (label = ''Clear'' \<or> l = LUsers \<and> label \<in> {''Lock'', ''Unlock'', ''Add to group'', ''Remove from group'', ''Set expiration''} \<or>
     list_can_delete l may \<and> label = ''Delete'')"
  using assms
  by (auto simp: list_toolbar_def BulkActionBar_def users_bar_def delete_bar_def list_selects_def
      split: if_splits option.splits prod.splits)

lemma row_button:
  "Presses label True \<in> set (row_controls l may r) \<Longrightarrow> list_can_delete l may \<and> label = ''Delete '' @ entry_noun l"
  by (auto simp: row_controls_def split: option.splits if_splits)

text \<open>
  C31: A list page offers only what is allowed. Every link on it leads to a route whose guard lets the session
  through: to entries of its kind, and to the creation and import pages only for a session that may write. Every
  button of the toolbar and of a row that deletes entries of the list, on the list of users too, and those that
  lock, unlock and set the expiration of users, are there only for a session with the permission the server asks
  for each call they make. (The two buttons that change groups are not: \<open>bulk_add_refused\<close>.)
\<close>

theorem list_offers_permitted:
  assumes "requireModule answer (list_module l) = Pass" "require_login ses = Pass"
    and "l = LPasswordPolicies \<Longrightarrow> hasPermission ses ''settings:read''"
    and "c \<in> set (index_page quoted ellipsis l (hasPermission ses) v)"
  shows "(\<forall>name t. c = Links name t \<longrightarrow> (\<exists>guard. map_of route_guards t = Some guard \<and> guard ses answer = Pass)) \<and>
    (\<forall>label r expiration dn call.
       (Presses label True \<in> set (list_toolbar ellipsis l (hasPermission ses) v) \<or>
        Presses label True \<in> set (row_controls l (hasPermission ses) r)) \<and>
       dn \<noteq> '''' \<and> call \<in> set (button_calls l label expiration dn) \<longrightarrow>
       (\<exists>p. required call = Some (Needs p) \<and> hasPermission ses p))"
proof (intro conjI allI impI)
  fix name t assume "c = Links name t"
  then have "t = list_base l @ ''/$dn'' \<or> list_can_write l (hasPermission ses) \<and> t \<in> set (create_targets l)"
    using page_links[OF assms(4)] by simp
  then show "\<exists>guard. map_of route_guards t = Some guard \<and> guard ses answer = Pass"
    using detail_guard_passes[OF assms(1-3)] create_guard_passes[OF assms(1)] by blast
next
  fix label r expiration dn call
  assume a: "(Presses label True \<in> set (list_toolbar ellipsis l (hasPermission ses) v) \<or>
      Presses label True \<in> set (row_controls l (hasPermission ses) r)) \<and>
    dn \<noteq> '''' \<and> call \<in> set (button_calls l label expiration dn)"
  show "\<exists>p. required call = Some (Needs p) \<and> hasPermission ses p"
  proof (cases "call = list_delete_call l dn \<and> list_can_delete l (hasPermission ses)")
    case True
    then show ?thesis using list_delete_needs a by blast
  next
    case False
    with a toolbar_button[of label ellipsis l "hasPermission ses" v] row_button[of label l "hasPermission ses" r]
    have "list_selects l (hasPermission ses) \<and> l = LUsers \<and>
        call \<in> {users_lock dn, users_unlock dn, users_setExpiration dn expiration}"
      by (auto simp: button_calls_def entry_noun_def split: if_splits)
    then show ?thesis using a by (auto simp: list_selects_def list_can_write_def access_simps)
  qed
qed

definition sample_index :: index_view where
  "sample_index = \<lparr>iv_loading = False, iv_error = None, iv_rows = [], iv_total = 0, iv_truncated = False,
     iv_inactive = 0, iv_q = '''', iv_status = None, iv_sort = ''uid'', iv_dir = Asc, iv_page = 1, iv_size = 25,
     iv_selected = {}, iv_progress = None, iv_running = False\<rparr>"

theorem list_offers_permitted_witness:
  "\<exists>guard. map_of route_guards ''/users/import'' = Some guard \<and> guard (Some sample_session) None = Pass"
proof -
  have w: "list_can_write LUsers (hasPermission (Some sample_session))"
    by (simp add: list_can_write_def sample_session_def hasPermission_def)
  have l: "Links ''Import CSV'' ''/users/import''
      \<in> set (index_page id ''...'' LUsers (hasPermission (Some sample_session)) sample_index)"
    using w by (simp add: index_page_def list_header_def import_link_def list_imports_def list_base_def)
  have g: "requireModule None (list_module LUsers) = Pass" "require_login (Some sample_session) = Pass"
    by (simp_all add: requireModule_def require_login_def)
  show ?thesis using list_offers_permitted[OF g _ l] by blast
qed

section \<open>Deleting one row\<close>

text \<open>The events the page can see: a confirmation while nothing is pending, an answer while one is.\<close>

definition row_delete_enabled :: "row_delete_event \<Rightarrow> row_deletion \<Rightarrow> bool" where
  "row_delete_enabled e s =
     (case e of RowDelete dn cn \<Rightarrow> rd_asked s = None | RowDismiss \<Rightarrow> rd_asked s \<noteq> None
      | RowConfirm \<Rightarrow> rd_asked s \<noteq> None \<and> \<not> rd_pending s | RowDone r \<Rightarrow> rd_pending s)"

inductive row_delete_reach :: "list_path \<Rightarrow> row_delete_event list \<Rightarrow> row_deletion \<Rightarrow> request list \<Rightarrow> bool" for l where
  row_delete_init: "row_delete_reach l [] row_delete_start []"
| row_delete_more: "row_delete_reach l es s rs \<Longrightarrow> row_delete_enabled e s \<Longrightarrow>
     row_delete_reach l (es @ [e]) (fst (row_delete_step l e s))
       (rs @ (case fst (snd (row_delete_step l e s)) of Some r \<Rightarrow> [r] | None \<Rightarrow> []))"

definition answers :: "row_delete_event list \<Rightarrow> nat" where
  "answers es = length (filter (\<lambda>e. case e of RowDone r \<Rightarrow> True | _ \<Rightarrow> False) es)"

definition pressed :: "row_delete_event list \<Rightarrow> string set" where
  "pressed es = {dn. \<exists>cn. RowDelete dn cn \<in> set es}"

lemma row_delete_inv:
  assumes "row_delete_reach l es s rs"
  shows "length rs = answers es + (if rd_pending s then 1 else 0) \<and>
    set rs \<subseteq> delete_call (row_delete_list l) ` pressed es \<and>
    (\<forall>dn cn. rd_asked s = Some (dn, cn) \<longrightarrow> RowDelete dn cn \<in> set es)"
  using assms
proof (induction rule: row_delete_reach.induct)
  case row_delete_init
  then show ?case by (simp add: row_delete_start_def answers_def)
next
  case (row_delete_more es s rs e)
  then show ?case
    by (cases e) (fastforce simp: row_delete_step_def row_delete_enabled_def answers_def pressed_def
        split: option.splits sum.splits)+
qed

text \<open>
  An error of one deletion is shown in the dialog that asks about the next row: the mutation keeps it until
  it starts again.
\<close>

lemma stale_error_shown:
  assumes "dn' \<noteq> dn"
  shows "map_option (\<lambda>(t, d, e). e) (row_delete_dialog l (fst (row_delete_step l (RowDelete dn' cn')
      (fst (row_delete_step l RowDismiss (fst (row_delete_step l (RowDone (Inl m))
        \<lparr>rd_asked = Some (dn, cn), rd_pending = True, rd_error = None\<rparr>))))))) = Some (Some m)"
  by (simp add: row_delete_step_def row_delete_dialog_def)

text \<open>The warnings of the server are dropped: an answer with warnings ends like one without.\<close>

lemma row_warnings_dropped:
  "row_delete_step l (RowDone (Inr ws)) s = row_delete_step l (RowDone (Inr [])) s"
  by (simp add: row_delete_step_def)

end
