(* ===== verification/Audit_Page.thy ===== *)
theory Audit_Page
  imports Audit_Log List_Tables
begin

text \<open>
  The two logs on screen (\<open>routes/audit-logs.tsx\<close>, \<open>components/directory-changes.tsx\<close>): the filters, the
  table with its opened rows, what stands in it when it is empty or loading, the pages, and the two texts
  that tell an operator how to let the app read the directory's own log. Dates in the locale's form come
  in as a function; icons, colours of the rows and widths are left out.
\<close>

section \<open>The filters\<close>

definition clear_button :: "bool \<Rightarrow> control list" where
  "clear_button hasFilters = (if hasFilters then [Presses ''Clear filters'' True] else [])"

definition app_filters :: "string \<Rightarrow> string list \<Rightarrow> audit_view \<Rightarrow> control list" where
  "app_filters ellipsis knownActors v =
     [Edits ''q'' ''Actor or resource'' TextIn (''uid or DN fragment'' @ ellipsis) True,
      Edits ''actor'' ''Actor'' (SelectIn (actorOptions (av_actor v) knownActors)) '''' True,
      Edits ''resourceType'' ''Resource type'' (SelectIn RESOURCE_TYPE_OPTIONS) '''' True,
      Edits ''action'' ''Action'' (SelectIn ACTION_OPTIONS) '''' True,
      Edits ''from'' ''From'' DateIn '''' True,
      Edits ''to'' ''To'' DateIn '''' True]
     @ clear_button (app_hasFilters v)"

definition change_filters :: "string \<Rightarrow> audit_search \<Rightarrow> control list" where
  "change_filters ellipsis s =
     [Edits ''q'' ''Entry or actor'' TextIn (''DN fragment'' @ ellipsis) True,
      Edits ''origin'' ''Made'' (SelectIn ORIGIN_OPTIONS) '''' True,
      Edits ''type'' ''Operation'' (SelectIn CHANGE_TYPE_OPTIONS) '''' True,
      Edits ''from'' ''From'' DateIn '''' True,
      Edits ''to'' ''To'' DateIn '''' True]
     @ clear_button (change_hasFilters s)"

text \<open>The \<open>max\<close> of the first date and the \<open>min\<close> of the second, which the browser's picker follows.\<close>

definition date_limits :: "audit_view \<Rightarrow> string option \<times> string option" where
  "date_limits v = (or_undefined (av_to v), or_undefined (av_from v))"

section \<open>What this app recorded\<close>

definition total_text :: "int \<Rightarrow> bool \<Rightarrow> string" where
  "total_text n hasFilters = int_str n @ (if hasFilters then '' matching'' else '' total'') @ '' entries''"

text \<open>An entry with its id and its creation time, as the listing has it.\<close>

record listed_log =
  ll_id :: string
  ll_createdAt :: string
  ll_log :: audit_log

definition toggle_label :: "bool \<Rightarrow> string" where
  "toggle_label isOpen = (if isOpen then ''Hide details'' else ''Show details'')"

text \<open>
  A row: its toggle, when, who (the DN as the title), what and its colour, the kind of entry, the
  entry's name with the route it links to, the change in one line, and the details when it is open.
\<close>

record ('x, 'd) log_row =
  lr_toggle :: string
  lr_time :: string
  lr_actor :: string
  lr_actorTitle :: "string option"
  lr_action :: string
  lr_hue :: hue
  lr_entry :: 'x
  lr_change :: string
  lr_details :: "'d option"

type_synonym resource_shown = "string \<times> (string \<times> (codec_error, string) result) option \<times> units"
type_synonym entry_details = "(string \<times> change_cells) list \<times> (string \<times> units) list"

definition resource_cell :: "audit_log \<Rightarrow> resource_shown" where
  "resource_cell en = (al_resourceType en @ '': '', resourceLink en, resourceLabel en)"

definition app_row :: "parser \<Rightarrow> (json \<Rightarrow> string) \<Rightarrow> (string \<Rightarrow> string) \<Rightarrow> string \<Rightarrow> string set \<Rightarrow> listed_log \<Rightarrow>
    (resource_shown, entry_details) log_row" where
  "app_row safe_parse json_text localised dash expanded e =
     (let en = ll_log e; isOpen = ll_id e \<in> expanded; changes = changesOf safe_parse en; extras = otherDetails en
      in \<lparr>lr_toggle = toggle_label isOpen, lr_time = localised (ll_createdAt e),
          lr_actor = al_actorUid en, lr_actorTitle = or_undefined (al_actorDn en),
          lr_action = al_action en, lr_hue = actionTone (al_action en), lr_entry = resource_cell en,
          lr_change = summarise dash changes extras,
          lr_details = (if isOpen then Some (EntryDetails json_text dash en changes extras) else None)\<rparr>)"

text \<open>The note in an empty table: title, text, and whether the filters can be cleared there.\<close>

definition app_empty :: "string \<Rightarrow> audit_view \<Rightarrow> string \<times> string \<times> control list" where
  "app_empty dash v =
     (if app_hasFilters v
      then (''No entries match these filters'',
            ''The log is not empty '' @ dash @ '' try a wider date range, resource type or action.'', clear_button True)
      else (''No audit entries yet'',
            ''Every change made through the UI is recorded here, along with the actor and their IP.'', clear_button False))"

text \<open>The pages below a table, when there is anything: what is shown, and the buttons.\<close>

definition log_pager :: "audit_view \<Rightarrow> int \<Rightarrow> (string \<times> (string \<times> int \<times> bool) list) option" where
  "log_pager v n =
     (if n > 0
      then Some (pager_text (av_page v) (av_size v) n, pager_buttons (av_page v) (total_pages n (av_size v)))
      else None)"

datatype 'r log_body = Skeleton int | LogRows "'r list" | LogEmpty string string "control list"

definition log_body :: "bool \<Rightarrow> int \<Rightarrow> string \<times> string \<times> control list \<Rightarrow> 'r list \<Rightarrow> 'r log_body" where
  "log_body loading pageSize note rows =
     (if loading then Skeleton (skeleton_rows pageSize)
      else if rows = [] then LogEmpty (fst note) (fst (snd note)) (snd (snd note))
      else LogRows rows)"

text \<open>The rows an answer brought and the number of entries there are; \<^const>\<open>None\<close> before the first answer.\<close>

type_synonym 'r listing = "('r list \<times> int) option"

definition rows_of :: "'r listing \<Rightarrow> 'r list" where
  "rows_of l = coalesce (map_option fst l) []"

definition total_of :: "'r listing \<Rightarrow> int" where
  "total_of l = coalesce (map_option snd l) 0"

record 'r log_view =
  lg_head :: "control list"
  lg_filters :: "control list"
  lg_dimmed :: bool
  lg_body :: "'r log_body"
  lg_pager :: "(string \<times> (string \<times> int \<times> bool) list) option"

definition AppAuditLog :: "parser \<Rightarrow> (json \<Rightarrow> string) \<Rightarrow> (string \<Rightarrow> string) \<Rightarrow> string \<Rightarrow> string \<Rightarrow> string list \<Rightarrow> string set \<Rightarrow>
    audit_view \<Rightarrow> bool \<Rightarrow> bool \<Rightarrow> string option \<Rightarrow> listed_log listing \<Rightarrow> (string, (resource_shown, entry_details) log_row log_view) result" where
  "AppAuditLog safe_parse json_text localised dash ellipsis knownActors expanded v loading fetching failure l =
     (case failure of
        Some message \<Rightarrow> Inl (''Failed to load audit logs: '' @ message)
      | None \<Rightarrow> Inr \<lparr>
          lg_head = [Says (total_text (total_of l) (app_hasFilters v)), Links ''Export CSV'' (audit_export v)],
          lg_filters = app_filters ellipsis knownActors v,
          lg_dimmed = (fetching \<and> \<not> loading),
          lg_body = log_body loading (av_size v) (app_empty dash v)
            (map (app_row safe_parse json_text localised dash expanded) (rows_of l)),
          lg_pager = log_pager v (total_of l)\<rparr>)"

section \<open>What the directory recorded\<close>

record listed_change =
  ld_id :: string
  ld_time :: "string option"
  ld_change :: directory_change

definition made_text :: "string \<Rightarrow> change_origin \<Rightarrow> string" where
  "made_text apos g =
     (case g of
        Ldapwarden \<Rightarrow> ''Through ldapwarden: the app recorded a request by this identity at that moment, in the other tab.''
      | Policy \<Rightarrow> ''By the password policy, during a bind: failed attempts, the lockout they cause, or its lifting.''
      | External \<Rightarrow> ''Outside ldapwarden: nothing in this app'' @ apos @ ''s audit log accounts for it.'')"

text \<open>The opened row: the attributes changed, the heading and the values before, and the list below.\<close>

type_synonym change_panel =
  "(string \<times> string \<times> string) list \<times> (string \<times> (string \<times> string) list) option \<times> (string \<times> string) list"

definition change_panel :: "string \<Rightarrow> string \<Rightarrow> directory_change \<Rightarrow> change_panel" where
  "change_panel dash apos c =
     (let (attrs, old, renamed) = ChangeDetails dash c
      in (attrs,
          if old = [] then None
          else Some (if dc_type c = ''delete'' then ''The entry held'' else ''Values before the change'', old),
          [(''Actor DN'', if dc_actor c \<noteq> '''' then dc_actor c else dash @ '' (the server itself)''),
           (''Entry DN'', dc_dn c)]
          @ (case renamed of Some t \<Rightarrow> [(''Renamed to'', t)] | None \<Rightarrow> [])
          @ [(''Made'', made_text apos (dc_origin c))]))"

definition change_row_shown :: "(string \<Rightarrow> string) \<Rightarrow> string \<Rightarrow> string \<Rightarrow> string set \<Rightarrow> listed_change \<Rightarrow>
    (string \<times> string, change_panel) log_row" where
  "change_row_shown localised dash apos expanded e =
     (let c = ld_change e; isOpen = ld_id e \<in> expanded
      in \<lparr>lr_toggle = toggle_label isOpen,
          lr_time = (case opt_chain (ld_time e) or_undefined of Some t \<Rightarrow> localised t | None \<Rightarrow> ld_id e),
          lr_actor = (if dc_actor c \<noteq> '''' then shortName dash (dc_actor c) else dash),
          lr_actorTitle = or_undefined (dc_actor c),
          lr_action = dc_type c, lr_hue = type_tone (dc_type c),
          lr_entry = (dc_dn c, ORIGIN_LABELS (dc_origin c)),
          lr_change = summariseChange dash c,
          lr_details = (if isOpen then Some (change_panel dash apos c) else None)\<rparr>)"

definition change_empty :: "audit_search \<Rightarrow> string \<times> string \<times> control list" where
  "change_empty s =
     (let v = audit_values s
      in (changes_empty_title v,
          if av_origin v = ''external''
          then ''Every write the directory logged in this window came through this app or the password policy. Choose \"All writes\" to see them.''
          else ''Try a wider date range or another filter.'',
          clear_button (change_hasFilters s)))"

definition window_note :: "string \<Rightarrow> audit_view \<Rightarrow> string" where
  "window_note dash v =
     ''Every write the directory accepted, from its own log '' @ dash
     @ '' including the ones made with ldapmodify, scripts or other tools, which this app'' @ [CHR 0x27]
     @ ''s audit log cannot know about.''
     @ (if av_from v = '''' \<and> av_to v = '''' then '' Last 24 hours unless you pick dates.'' else '''')"

text \<open>An answer: its status, the search base, the identity the app binds as, the counts per origin, whether it was cut.\<close>

record changes_answer =
  ca_status :: string
  ca_base :: "string option"
  ca_bindDn :: string
  ca_counts :: "string \<Rightarrow> int option"
  ca_truncated :: bool
  ca_rows :: "listed_change list"
  ca_total :: int

definition counts_text :: "(string \<Rightarrow> int option) \<Rightarrow> string" where
  "counts_text counts =
     ''In this window: '' @ int_str (coalesce (counts ''external'') 0) @ '' outside ldapwarden, ''
     @ int_str (coalesce (counts ''ldapwarden'') 0) @ '' through ldapwarden, ''
     @ int_str (coalesce (counts ''policy'') 0) @ '' by the password policy.''"

definition truncated_note :: string where
  "truncated_note = ''This window holds more writes than can be examined at once; only the most recent are listed. Pick a narrower date range to see the rest.''"

datatype ('t, 's) changes_view = ChangesFailed string | ChangesHelp 's | ChangesListed 't

definition DirectoryChangesView :: "(string \<Rightarrow> string) \<Rightarrow> string \<Rightarrow> string \<Rightarrow> string \<Rightarrow> string set \<Rightarrow> audit_search \<Rightarrow>
    bool \<Rightarrow> bool \<Rightarrow> string option \<Rightarrow> changes_answer option \<Rightarrow>
    ((string \<times> string, change_panel) log_row log_view, changes_page) changes_view" where
  "DirectoryChangesView localised dash apos ellipsis expanded s loading fetching failure answer =
     (let v = audit_values s;
          help = (case answer of Some a \<Rightarrow> changes_shown (ca_status a) (ca_base a) (ca_bindDn a) | None \<Rightarrow> ChangesTable);
          n = coalesce (map_option ca_total answer) 0
      in case failure of
           Some message \<Rightarrow> ChangesFailed (''Failed to load directory changes: '' @ message)
         | None \<Rightarrow> if help \<noteq> ChangesTable then ChangesHelp help
             else ChangesListed \<lparr>
               lg_head = Says (window_note dash v)
                 # (case answer of
                      Some a \<Rightarrow> Says (counts_text (ca_counts a)) # (if ca_truncated a then [Says truncated_note] else [])
                    | None \<Rightarrow> []),
               lg_filters = change_filters ellipsis s,
               lg_dimmed = (fetching \<and> \<not> loading),
               lg_body = log_body loading (av_size v) (change_empty s)
                 (map (change_row_shown localised dash apos expanded) (coalesce (map_option ca_rows answer) [])),
               lg_pager = log_pager v n\<rparr>)"

section \<open>The page\<close>

definition audit_tabs :: "(string \<times> string) list" where
  "audit_tabs = [(''app'', ''Through ldapwarden''), (''directory'', ''In the directory'')]"

definition audit_panel :: "audit_search \<Rightarrow> string option" where
  "audit_panel s = shown_panel (map fst audit_tabs) (av_view (audit_values s))"

section \<open>Setting up the directory's log\<close>

abbreviation newline :: char where "newline \<equiv> CHR 0x0A"

definition acl_line :: "string \<Rightarrow> string" where
  "acl_line bindDn = ''olcAccess: {0}to * by dn.exact='' @ CHR 0x22 # bindDn @ CHR 0x22 # '' read by * none''"

definition accessLogLDIF :: "string \<Rightarrow> string" where
  "accessLogLDIF bindDn = join_with [newline] [
     ''dn: cn=module{0},cn=config'', ''changetype: modify'', ''add: olcModuleLoad'', ''olcModuleLoad: accesslog'', '''',
     ''dn: olcDatabase={2}mdb,cn=config'', ''changetype: add'', ''objectClass: olcDatabaseConfig'',
     ''objectClass: olcMdbConfig'', ''olcDatabase: {2}mdb'', ''olcSuffix: cn=accesslog'',
     ''olcDbDirectory: /var/lib/ldap/accesslog'', ''olcDbIndex: default eq'',
     ''olcDbIndex: entryCSN,objectClass,reqEnd,reqResult,reqStart,reqDN eq'', acl_line bindDn, '''',
     ''dn: olcOverlay=accesslog,olcDatabase={1}mdb,cn=config'', ''changetype: add'', ''objectClass: olcOverlayConfig'',
     ''objectClass: olcAccessLogConfig'', ''olcOverlay: accesslog'', ''olcAccessLogDB: cn=accesslog'',
     ''olcAccessLogOps: writes'', ''olcAccessLogSuccess: TRUE'', ''olcAccessLogOld: (objectClass=*)'',
     ''olcAccessLogPurge: 07+00:00 01+00:00'']"

definition grantLDIF :: "string \<Rightarrow> string" where
  "grantLDIF bindDn = join_with [newline]
     [''dn: olcDatabase={2}mdb,cn=config'', ''changetype: modify'', ''add: olcAccess'', acl_line bindDn]"

definition help_texts :: "changes_page \<Rightarrow> string list" where
  "help_texts p =
     (case p of
        ChangesSetup bindDn \<Rightarrow> [accessLogLDIF bindDn, ''LDAP_ACCESSLOG_BASE=cn=accesslog'']
      | ChangesUnreadable base bindDn \<Rightarrow> [base, bindDn, grantLDIF bindDn]
      | ChangesTable \<Rightarrow> [])"

section \<open>Clearing the filters\<close>

lemma asked_filters: "audit_query_params (audit_filters v) \<noteq> [] \<longleftrightarrow> app_hasFilters v"
  by (simp add: filters_exported)

lemma clear_offered:
  "Presses ''Clear filters'' True \<in> set (app_filters ellipsis known v) \<longleftrightarrow> app_hasFilters v"
  "Presses ''Clear filters'' True \<in> set (change_filters ellipsis s) \<longleftrightarrow> change_hasFilters s"
  by (simp_all add: app_filters_def change_filters_def clear_button_def)

lemma no_filters_left: "\<not> app_hasFilters (view_step ClearFilters v)"
  by (simp add: app_hasFilters_def)

lemma change_filters_differ:
  assumes "chosen s"
  shows "change_hasFilters s \<longleftrightarrow> change_params (audit_values s) \<noteq> change_params default_view"
proof -
  have "as_origin s \<noteq> None \<longleftrightarrow> av_origin (audit_values s) \<noteq> ''external''"
    using assms by (auto simp: audit_values_def chosen_def opt_ok_def)
  then show ?thesis
    by (auto simp: change_hasFilters_def change_params_def default_view_def no_search_def audit_values_def
        or_undefined_def Let_def)
qed

text \<open>
  The navigation of Clear filters clears all filters of a log (what the search box does with a term it committed before is
  \<open>clear_keeps_term\<close> below). The button stands there exactly when the
  listing is asked for less than everything (in the directory's log: for something else than the writes
  made outside); after it the listing has no filter left, the button is gone and the list starts at its first page, whatever
  address the page was opened with and whatever was set before; the page size stays.
\<close>

theorem clear_filters_complete:
  fixes raw :: json and es :: "audit_event list"
  defines "s \<equiv> fold audit_step es (auditSearch raw)"
  defines "app \<equiv> audit_values (audit_step ClearFilters s)"
  defines "directory \<equiv> audit_step ClearChangeFilters s"
  shows "(Presses ''Clear filters'' True \<in> set (app_filters ellipsis known (audit_values s)) \<longleftrightarrow>
      audit_query_params (audit_filters (audit_values s)) \<noteq> []) \<and>
    (Presses ''Clear filters'' True \<in> set (change_filters ellipsis s) \<longleftrightarrow>
      change_params (audit_values s) \<noteq> change_params default_view) \<and>
    audit_query_params (audit_filters app) = [] \<and>
    Presses ''Clear filters'' True \<notin> set (app_filters ellipsis known app) \<and>
    change_params (audit_values directory) = change_params default_view \<and>
    Presses ''Clear filters'' True \<notin> set (change_filters ellipsis directory) \<and>
    av_page app = 1 \<and> av_page (audit_values directory) = 1 \<and>
    av_size app = av_size (audit_values s) \<and> av_size (audit_values directory) = av_size (audit_values s)"
proof -
  have c: "chosen s"
    unfolding s_def by (cases es rule: rev_cases) (simp_all add: auditSearch_chosen step_chosen)
  have d: "chosen directory" by (simp add: directory_def step_chosen)
  have a: "app = view_step ClearFilters (audit_values s)"
    using step_values[OF c, of ClearFilters] by (simp add: app_def)
  have v: "audit_values directory = view_step ClearChangeFilters (audit_values s)"
    using step_values[OF c, of ClearChangeFilters] by (simp add: directory_def)
  have p: "change_params (audit_values directory) = change_params default_view"
    unfolding v change_params_def default_view_def no_search_def by (simp add: audit_values_def or_undefined_def)
  have n: "\<not> app_hasFilters app" using no_filters_left a by simp
  then have q: "audit_query_params (audit_filters app) = []" using filters_exported by blast
  have h: "\<not> change_hasFilters directory" using change_filters_differ[OF d] p by simp
  have "av_page app = 1 \<and> av_page (audit_values directory) = 1 \<and>
      av_size app = av_size (audit_values s) \<and> av_size (audit_values directory) = av_size (audit_values s)"
    unfolding a v by simp
  then show ?thesis using n h p q by (simp only: clear_offered asked_filters change_filters_differ[OF c]) simp
qed

section \<open>What the setup text grants\<close>

text \<open>A reader of LDIF as RFC 2849 has it, for lines that are neither folded nor encoded: entries are separated by empty lines.\<close>

definition ldif_pair :: "string \<Rightarrow> (string \<times> string) option" where
  "ldif_pair l = (case cut_at CHR '':'' l of Some (a, c # v) \<Rightarrow> if c = CHR '' '' then Some (a, v) else None | _ \<Rightarrow> None)"

fun paragraphs :: "string list \<Rightarrow> string list list" where
  "paragraphs [] = [[]]"
| "paragraphs (l # ls) =
     (if l = '''' then [] # paragraphs ls else (case paragraphs ls of p # ps \<Rightarrow> (l # p) # ps | [] \<Rightarrow> [[l]]))"

definition ldif_records :: "string \<Rightarrow> (string \<times> string) option list list" where
  "ldif_records t = map (map ldif_pair) (paragraphs (split_on newline t))"

text \<open>Whom a rule of this form lets read: the text up to the first quote, if the rest is as it should be.\<close>

definition acl_head :: string where
  "acl_head = ''{0}to * by dn.exact='' @ [CHR 0x22]"

definition acl_reader :: "string \<Rightarrow> string option" where
  "acl_reader v =
     (if take (length acl_head) v = acl_head
      then (case cut_at (CHR 0x22) (drop (length acl_head) v) of
              Some (who, rest) \<Rightarrow> if rest = '' read by * none'' then Some who else None
            | None \<Rightarrow> None)
      else None)"

definition acl_value :: "string \<Rightarrow> string" where
  "acl_value bindDn = acl_head @ bindDn @ CHR 0x22 # '' read by * none''"

lemma acl_line_value: "ldif_pair (acl_line bindDn) = Some (''olcAccess'', acl_value bindDn)"
  by (simp add: ldif_pair_def acl_line_def acl_value_def acl_head_def)

lemma acl_reader_value: "acl_reader (acl_value bindDn) = Some bindDn \<longleftrightarrow> CHR 0x22 \<notin> set bindDn"
proof (cases "CHR 0x22 \<in> set bindDn")
  case True
  then obtain a b where "bindDn = a @ CHR 0x22 # b" "CHR 0x22 \<notin> set a" by (meson split_list_first)
  then show ?thesis by (auto simp: acl_reader_def acl_value_def cut_at_append split: if_splits)
next
  case False
  then show ?thesis by (simp add: acl_reader_def acl_value_def cut_at_append)
qed

lemma acl_line_one_line: "newline \<in> set (acl_line bindDn) \<longleftrightarrow> newline \<in> set bindDn"
  by (auto simp: acl_line_def)

lemma setup_paragraphs:
  assumes "newline \<notin> set bindDn"
  shows "ldif_records (accessLogLDIF bindDn) = map (map Some) [
    [(''dn'', ''cn=module{0},cn=config''), (''changetype'', ''modify''), (''add'', ''olcModuleLoad''),
     (''olcModuleLoad'', ''accesslog'')],
    [(''dn'', ''olcDatabase={2}mdb,cn=config''), (''changetype'', ''add''), (''objectClass'', ''olcDatabaseConfig''),
     (''objectClass'', ''olcMdbConfig''), (''olcDatabase'', ''{2}mdb''), (''olcSuffix'', ''cn=accesslog''),
     (''olcDbDirectory'', ''/var/lib/ldap/accesslog''), (''olcDbIndex'', ''default eq''),
     (''olcDbIndex'', ''entryCSN,objectClass,reqEnd,reqResult,reqStart,reqDN eq''), (''olcAccess'', acl_value bindDn)],
    [(''dn'', ''olcOverlay=accesslog,olcDatabase={1}mdb,cn=config''), (''changetype'', ''add''),
     (''objectClass'', ''olcOverlayConfig''), (''objectClass'', ''olcAccessLogConfig''), (''olcOverlay'', ''accesslog''),
     (''olcAccessLogDB'', ''cn=accesslog''), (''olcAccessLogOps'', ''writes''), (''olcAccessLogSuccess'', ''TRUE''),
     (''olcAccessLogOld'', ''(objectClass=*)''), (''olcAccessLogPurge'', ''07+00:00 01+00:00'')]]"
proof -
  have a: "acl_line bindDn \<noteq> []" by (simp add: acl_line_def)
  show ?thesis
    unfolding ldif_records_def accessLogLDIF_def
    by (subst split_join) (simp_all add: acl_line_one_line assms a acl_line_value, simp_all add: ldif_pair_def)
qed

lemma grant_paragraphs:
  assumes "newline \<notin> set bindDn"
  shows "ldif_records (grantLDIF bindDn) = map (map Some) [
    [(''dn'', ''olcDatabase={2}mdb,cn=config''), (''changetype'', ''modify''), (''add'', ''olcAccess''),
     (''olcAccess'', acl_value bindDn)]]"
proof -
  have a: "acl_line bindDn \<noteq> []" by (simp add: acl_line_def)
  show ?thesis
    unfolding ldif_records_def grantLDIF_def
    by (subst split_join) (simp_all add: acl_line_one_line assms a acl_line_value, simp_all add: ldif_pair_def)
qed

definition acl_rules :: "string \<Rightarrow> string list" where
  "acl_rules t = List.map_filter (\<lambda>p. opt_chain p (\<lambda>(a, v). if a = ''olcAccess'' then Some v else None)) (concat (ldif_records t))"

lemma rules_read:
  assumes "newline \<notin> set bindDn" and "t \<in> {accessLogLDIF bindDn, grantLDIF bindDn}"
  shows "acl_rules t = [acl_value bindDn]"
  using assms(2)
  by (auto simp: acl_rules_def setup_paragraphs[OF assms(1)] grant_paragraphs[OF assms(1)] List.map_filter_def)

text \<open>
  The setup text and the grant text that the directory's log shows are LDIF that opens the log to the identity the app
  binds as and nobody else: read back, each has one access rule, on the log's own database, and the
  rule names that identity exactly when its DN holds no quotation mark (which the code does not escape).
\<close>

theorem setup_grants_bind_dn:
  assumes "newline \<notin> set bindDn" and "t \<in> {accessLogLDIF bindDn, grantLDIF bindDn}"
  shows "\<exists>rule. acl_rules t = [rule] \<and>
    (\<forall>r \<in> set (ldif_records t). Some (''olcAccess'', rule) \<in> set r \<longrightarrow> hd r = Some (''dn'', ''olcDatabase={2}mdb,cn=config'')) \<and>
    (acl_reader rule = Some bindDn \<longleftrightarrow> CHR 0x22 \<notin> set bindDn)"
proof -
  have "\<forall>r \<in> set (ldif_records t). Some (''olcAccess'', acl_value bindDn) \<in> set r \<longrightarrow>
      hd r = Some (''dn'', ''olcDatabase={2}mdb,cn=config'')"
    using assms(2) by (auto simp: setup_paragraphs[OF assms(1)] grant_paragraphs[OF assms(1)])
  then show ?thesis using rules_read[OF assms] acl_reader_value by blast
qed

lemma setup_grants_bind_dn_witness:
  "\<exists>rule. acl_rules (grantLDIF ''cn=app,dc=x'') = [rule] \<and> acl_reader rule = Some ''cn=app,dc=x''"
  using setup_grants_bind_dn[of "''cn=app,dc=x''" "grantLDIF ''cn=app,dc=x''"] by auto


section \<open>The search box and the address\<close>

text \<open>
  The search in the address and the box of the view on screen (\<open>useUrlSearchInput\<close>). A navigation is done before
  the next event. The operator's events: a control, a text in the box, and the box's timer running out.
\<close>

record audit_page =
  ap_search :: audit_search
  ap_box :: search_sync

datatype audit_use = Uses audit_event | TypesQuery string | QueryTimer

definition search_term :: "audit_search \<Rightarrow> string" where
  "search_term s = coalesce (as_q s) ''''"

definition open_audit :: "json \<Rightarrow> audit_page" where
  "open_audit raw = \<lparr>ap_search = auditSearch raw, ap_box = search_mount (search_term (auditSearch raw))\<rparr>"

text \<open>What the effect of the box asks to commit is written to the address, which is rendered again.\<close>

definition page_commits :: "audit_page \<Rightarrow> audit_page" where
  "page_commits p =
     (case ss_commits (ap_box p) of
        [] \<Rightarrow> p
      | v # vs \<Rightarrow>
          (let s = audit_step (CommitQuery v) (ap_search p)
           in \<lparr>ap_search = s, ap_box = search_render (search_term s) ((ap_box p)\<lparr>ss_commits := vs\<rparr>)\<rparr>))"

text \<open>Clear filters empties the box first; the other view has a box of its own, mounted anew.\<close>

definition clears :: "audit_event \<Rightarrow> bool" where
  "clears e \<longleftrightarrow> e = ClearFilters \<or> e = ClearChangeFilters"

definition audit_use_step :: "audit_use \<Rightarrow> audit_page \<Rightarrow> audit_page" where
  "audit_use_step u p =
     page_commits
       (case u of
          Uses e \<Rightarrow>
            (let s = audit_step e (ap_search p);
                 box = (if clears e then setInput '''' (ap_box p) else ap_box p)
             in \<lparr>ap_search = s,
                 ap_box = (if av_view (audit_values s) \<noteq> av_view (audit_values (ap_search p))
                           then search_mount (search_term s) else search_render (search_term s) box)\<rparr>)
        | TypesQuery v \<Rightarrow> p\<lparr>ap_box := setInput v (ap_box p)\<rparr>
        | QueryTimer \<Rightarrow> p\<lparr>ap_box := timer_fires (ap_box p)\<rparr>)"

text \<open>What the operator set: the controls, and the text in the box, which counts once the timer has run out.\<close>

fun told :: "audit_use \<Rightarrow> audit_view \<times> string \<Rightarrow> audit_view \<times> string" where
  "told (Uses e) (x, t) =
     (view_step e x, if clears e \<or> av_view (view_step e x) \<noteq> av_view x then '''' else t)"
| "told (TypesQuery v) (x, t) = (x, v)"
| "told QueryTimer (x, t) = (if t = av_q x then x else x\<lparr>av_q := t, av_page := 1\<rparr>, t)"

text \<open>
  The uses covered: the controls with what they offer, and a button that takes back a committed term, Clear filters
  or the tab that is already selected, only while none is (\<open>clear_keeps_term\<close>).
\<close>

fun use_covered :: "audit_use \<Rightarrow> audit_view \<times> string \<Rightarrow> bool" where
  "use_covered (Uses e) (x, t) \<longleftrightarrow>
     audit_offered e \<and> (\<forall>v. e \<noteq> CommitQuery v) \<and>
     (av_q (view_step e x) \<noteq> av_q x \<longrightarrow> av_view (view_step e x) \<noteq> av_view x)"
| "use_covered u xt \<longleftrightarrow> True"

fun uses_covered :: "audit_use list \<Rightarrow> audit_view \<times> string \<Rightarrow> bool" where
  "uses_covered [] xt \<longleftrightarrow> True"
| "uses_covered (u # us) xt \<longleftrightarrow> use_covered u xt \<and> uses_covered us (told u xt)"

definition box_agrees :: "audit_page \<Rightarrow> audit_view \<times> string \<Rightarrow> bool" where
  "box_agrees p xt \<longleftrightarrow>
     chosen (ap_search p) \<and> audit_values (ap_search p) = fst xt \<and>
     typing (av_q (fst xt)) (snd xt) (ap_box p) \<and> ss_commits (ap_box p) = []"

lemma search_term_values: "search_term s = av_q (audit_values s)"
  by (simp add: search_term_def audit_values_def)

lemma typing_render [simp]: "typing u v b \<Longrightarrow> search_render u b = b"
  by (cases b) (auto simp: typing_def search_defs)

lemma typing_mount: "typing u u (search_mount u)" "ss_commits (search_mount u) = []"
  using settled_typing[OF settled_mount] by (auto simp: search_mount_def)

lemma typing_commits [simp]: "typing u v (b\<lparr>ss_commits := c\<rparr>) \<longleftrightarrow> typing u v b"
  by (simp add: typing_def)

lemma typing_fires_same:
  assumes "typing u u b"
  shows "typing u u (timer_fires b)"
proof -
  obtain t c where b: "b = \<lparr>ss_url = u, ss_last = u, ss_input = \<lparr>db_value = u, db_debounced = u, db_timer = t\<rparr>,
      ss_deps = (u, u), ss_commits = c\<rparr>"
    using assms by (cases b; cases "ss_input b") (simp add: typing_def)
  show ?thesis
    using assms by (cases t) (simp_all add: b typing_def timer_fires_def search_defs)
qed

lemma page_commits_none: "ss_commits (ap_box p) = [] \<Longrightarrow> page_commits p = p"
  by (simp add: page_commits_def)

lemma uses_agree:
  assumes "box_agrees p (x, t)" and "use_covered (Uses e) (x, t)"
  shows "box_agrees (audit_use_step (Uses e) p) (told (Uses e) (x, t))"
proof -
  let ?s = "audit_step e (ap_search p)"
  have x: "audit_values (ap_search p) = x" "chosen (ap_search p)" "typing (av_q x) t (ap_box p)" "ss_commits (ap_box p) = []"
    using assms(1) by (simp_all add: box_agrees_def)
  have s: "audit_values ?s = view_step e x" "chosen ?s"
    using step_values[OF x(2), of e] assms(2) x(1) by (simp_all add: step_chosen)
  show ?thesis
  proof (cases "av_view (view_step e x) = av_view x")
    case True
    then have q: "av_q (view_step e x) = av_q x" using assms(2) by simp
    have b: "typing (av_q x) (if clears e then '''' else t) (if clears e then setInput '''' (ap_box p) else ap_box p)"
      "ss_commits (if clears e then setInput '''' (ap_box p) else ap_box p) = []"
      using x(3,4) typing_setInput[of "av_q x" t "ap_box p" "''''"] by auto
    show ?thesis using True q b s x
      by (simp add: audit_use_step_def Let_def search_term_values page_commits_none box_agrees_def)
  next
    case False
    then obtain v where "e = SetView v" by (cases e) auto
    then have "av_q (view_step e x) = ''''" by (simp add: default_view_def audit_values_def no_search_def)
    with False s x typing_mount[of "''''"] show ?thesis
      by (simp add: audit_use_step_def Let_def search_term_values page_commits_none box_agrees_def)
  qed
qed

lemma types_agree:
  assumes "box_agrees p (x, t)"
  shows "box_agrees (audit_use_step (TypesQuery v) p) (told (TypesQuery v) (x, t))"
  using assms typing_setInput[of "av_q x" t "ap_box p" v]
  by (simp add: box_agrees_def audit_use_step_def page_commits_none)

lemma timer_agrees:
  assumes "box_agrees p (x, t)"
  shows "box_agrees (audit_use_step QueryTimer p) (told QueryTimer (x, t))"
proof -
  have x: "audit_values (ap_search p) = x" "chosen (ap_search p)" "typing (av_q x) t (ap_box p)" "ss_commits (ap_box p) = []"
    using assms by (simp_all add: box_agrees_def)
  let ?b = "timer_fires (ap_box p)" and ?s = "audit_step (CommitQuery t) (ap_search p)"
  note f = typing_fires[OF x(3)]
  show ?thesis
  proof (cases "t = av_q x")
    case True
    then have c: "ss_commits ?b = []" using f x(4) by simp
    have "typing (av_q x) t ?b" using typing_fires_same x(3) True by simp
    with True c x show ?thesis by (simp add: audit_use_step_def page_commits_none box_agrees_def)
  next
    case False
    then have c: "ss_commits ?b = [t]" using f x(4) by simp
    have s: "audit_values ?s = x\<lparr>av_q := t, av_page := 1\<rparr>" "chosen ?s"
      using step_values[OF x(2), of "CommitQuery t"] x(1) by (simp_all add: step_chosen)
    have b: "search_render t (?b\<lparr>ss_commits := []\<rparr>) = (search_render t ?b)\<lparr>ss_commits := []\<rparr>"
      using f c by (auto simp: search_defs split: if_splits)
    have "typing t t (search_render t (?b\<lparr>ss_commits := []\<rparr>))"
      unfolding b using f settled_typing by auto
    then show ?thesis using False c s x b
      by (simp add: audit_use_step_def page_commits_def search_term_values box_agrees_def Let_def)
  qed
qed

lemma use_agrees:
  assumes "box_agrees p xt" and "use_covered u xt"
  shows "box_agrees (audit_use_step u p) (told u xt)"
proof (cases xt)
  case (Pair x t)
  with assms show ?thesis by (cases u) (simp_all only: uses_agree types_agree timer_agrees)
qed

lemma open_agrees: "box_agrees (open_audit raw) (audit_values (auditSearch raw), search_term (auditSearch raw))"
  using typing_mount by (simp add: box_agrees_def open_audit_def auditSearch_chosen search_term_values)

lemma run_agrees:
  "box_agrees p xt \<Longrightarrow> uses_covered us xt \<Longrightarrow> box_agrees (fold audit_use_step us p) (fold told us xt)"
  by (induction us arbitrary: p xt) (simp_all add: use_agrees)

text \<open>
  C34: The audit page keeps in its address what the operator set. Whatever address it is opened with, and however
  its controls and the typing into its search box alternate, reading the address after each event, with the
  defaults put in, gives what applying the choices directly gives: each control changes its own value and no other,
  every filter starts over at page 1, and a term typed is put in the address when the box's timer runs out, so that
  then the address holds exactly what controls and box show. Listing and export of that address ask for the same
  filters, the listing for its own page besides. (Uses that take back a committed term without leaving the view are
  not covered: the box puts it back, \<open>clear_keeps_term\<close>. Dates are those with a year of four digits.)
\<close>

theorem audit_address_follows_controls:
  assumes "uses_covered us (audit_values (auditSearch raw), search_term (auditSearch raw))"
  shows "let p = fold audit_use_step us (open_audit raw);
             x = fold told us (audit_values (auditSearch raw), search_term (auditSearch raw));
             p' = audit_use_step QueryTimer p; v = audit_values (ap_search p')
         in (audit_values (ap_search p), db_value (ss_input (ap_box p))) = x \<and>
            v = (if snd x = av_q (fst x) then fst x else (fst x)\<lparr>av_q := snd x, av_page := 1\<rparr>) \<and>
            av_q v = db_value (ss_input (ap_box p')) \<and> db_value (ss_input (ap_box p')) = snd x \<and>
            read_query (query_of (rq_path (audit_list_request v))) =
              read_query (query_of (audit_export v)) @ as_read (audit_query_params (audit_paging v))"
proof -
  define p where "p = fold audit_use_step us (open_audit raw)"
  define y where "y = fold told us (audit_values (auditSearch raw), search_term (auditSearch raw))"
  have a: "box_agrees p y" unfolding p_def y_def by (rule run_agrees[OF open_agrees assms])
  have "box_agrees (audit_use_step QueryTimer p) (told QueryTimer y)" by (rule use_agrees[OF a]) simp
  moreover obtain x t where xt: "y = (x, t)" by fastforce
  moreover have "read_query (query_of (rq_path (audit_list_request v))) =
      read_query (query_of (audit_export v)) @ as_read (audit_query_params (audit_paging v))" for v
    unfolding audit_list_request_def audit_export_def by (rule audit_listing_reads)
  ultimately show ?thesis
    using a unfolding p_def[symmetric] y_def[symmetric] Let_def by (auto simp: box_agrees_def typing_def)
qed

text \<open>A filter chosen while the operator is typing.\<close>

lemma audit_address_follows_controls_witness:
  "let us = [Uses (SetPage 3), TypesQuery ''jd'', Uses (SetAction ''user.lock''), TypesQuery ''jdoe''];
       p = audit_use_step QueryTimer (fold audit_use_step us (open_audit (JObj [])))
   in as_q (ap_search p) \<noteq> None \<and> av_q (audit_values (ap_search p)) = ''jdoe'' \<and>
      av_action (audit_values (ap_search p)) = ''user.lock''"
proof -
  let ?us = "[Uses (SetPage 3), TypesQuery ''jd'', Uses (SetAction ''user.lock''), TypesQuery ''jdoe'']"
  have q: "av_q (audit_values (auditSearch (JObj []))) = ''''" "search_term (auditSearch (JObj [])) = ''''" by code_simp+
  have "''user.lock'' \<in> fst ` set ACTION_OPTIONS" by code_simp
  then have c: "uses_covered ?us (audit_values (auditSearch (JObj [])), search_term (auditSearch (JObj [])))" by simp
  have n: "as_q (ap_search p) \<noteq> None" if "av_q (audit_values (ap_search p)) = ''jdoe''" for p
    using that by (cases "as_q (ap_search p)") (simp_all add: audit_values_def)
  let ?p = "audit_use_step QueryTimer (fold audit_use_step ?us (open_audit (JObj [])))"
  have "audit_values (ap_search ?p) =
      (audit_values (auditSearch (JObj [])))\<lparr>av_action := ''user.lock'', av_q := ''jdoe'', av_page := 1\<rparr>"
    using audit_address_follows_controls[OF c, unfolded Let_def, THEN conjunct2, THEN conjunct1] q
    by (simp add: clears_def)
  with n[of ?p] show ?thesis unfolding Let_def by simp
qed

text \<open>
  Clear filters does not take back a term that was committed: the effect of the box finds the debounced value still
  on the old term and commits it again.
\<close>

lemma clear_keeps_term:
  "let p = fold audit_use_step [TypesQuery ''jdoe'', QueryTimer, Uses (SetAction ''user.lock''), Uses ClearFilters] (open_audit (JObj []))
   in as_action (ap_search p) = None \<and> as_q (ap_search p) = Some ''jdoe'' \<and> db_value (ss_input (ap_box p)) = ''jdoe''"
  by code_simp

end
