(* ===== verification/Rule_Pages.thy ===== *)
theory Rule_Pages
  imports Sudo_Forms Group_Page List_Tables
begin

text \<open>
  The pages of sudo rules (\<open>routes/sudo-roles/$dn.tsx\<close>, \<open>routes/sudo-roles/new.tsx\<close>) and netgroups
  (\<open>routes/netgroups/$dn.tsx\<close>, \<open>routes/netgroups/new.tsx\<close>): their controls and mutations, what a rule's page
  says of the netgroups it names (\<open>components/netgroup-usage.tsx\<close>, \<open>components/netgroup-picker.tsx\<close>), and what
  a netgroup's page says of its contents and of the rules that name it
  (\<open>components/netgroup-expansion.tsx\<close>, \<open>components/netgroup-sudo-usage.tsx\<close>). Quotes and dashes outside
  Latin-1 are arguments.
\<close>

section \<open>The netgroups a rule names\<close>

definition NAME_LOOKUP_LIMIT :: int where
  "NAME_LOOKUP_LIMIT = 50"

definition name_lookup :: "string \<Rightarrow> request" where
  "name_lookup name = netgroups_list (Some \<lparr>qp_search = Some name, qp_sort = None, qp_order = None,
     qp_limit = Some NAME_LOOKUP_LIMIT, qp_offset = None, qp_status = None\<rparr>)"

text \<open>
  \<open>useNetgroupResolutions\<close>: the lookups of the names, each once, and how a name resolves from their answers
  (\<^const>\<open>None\<close> while there is none). Lookups are made only where netgroups are supported.
\<close>

definition lookups :: "bool \<Rightarrow> string list \<Rightarrow> string list \<Rightarrow> request list" where
  "lookups supported sudoUser sudoHost = (if supported then map name_lookup (resolution_names sudoUser sudoHost) else [])"

definition resolve_name :: "(string \<Rightarrow> netgroups_response option) \<Rightarrow> string list \<Rightarrow> string list \<Rightarrow> string \<Rightarrow> netgroup_resolution" where
  "resolve_name answer sudoUser sudoHost name =
     (if name \<in> set (resolution_names sudoUser sudoHost) then resolveNetgroupByName name (answer name) else Unknown)"

definition NetgroupUsageWarnings :: "string \<Rightarrow> bool \<Rightarrow> bool \<Rightarrow> (string \<Rightarrow> netgroup_resolution) \<Rightarrow> string list \<Rightarrow> string list \<Rightarrow> string list" where
  "NetgroupUsageWarnings dash supported answered resolve sudoUser sudoHost =
     (if \<not> supported \<or> resolution_names sudoUser sudoHost = [] \<or> \<not> answered then []
      else
        let problems = usage_problems resolve sudoUser sudoHost in
        if problems = [] then []
        else usage_title problems
          # map (\<lambda>p. ''+'' @ np_name p @ '' in '' @ (if np_side p = SideUsers then ''Users'' else ''Hosts'') @ '': '' @ problemText dash p) problems)"

definition NetgroupContents :: "bool \<Rightarrow> string list \<Rightarrow> string list \<Rightarrow> (string \<times> netgroup_side) list" where
  "NetgroupContents supported sudoUser sudoHost =
     (if \<not> supported \<or> resolution_names sudoUser sudoHost = [] then []
      else map (\<lambda>n. (n, SideUsers)) (namedNetgroups sudoUser) @ map (\<lambda>n. (n, SideHosts)) (namedNetgroups sudoHost))"

text \<open>The dialog that picks a netgroup: what it shows of a candidate, its remarks and its button.\<close>

definition candidate_line :: "string \<Rightarrow> netgroup \<Rightarrow> string \<times> string" where
  "candidate_line dash n =
     (ng_cn n, kindSummary (netgroupKind n)
        @ (case text_of (ng_description n) of Some d \<Rightarrow> '' '' @ dash @ '' '' @ d | None \<Rightarrow> ''''))"

definition picker_remarks :: "string \<Rightarrow> sudo_list \<Rightarrow> netgroup list \<Rightarrow> string option \<Rightarrow> string list" where
  "picker_remarks dash f candidates selected =
     (let kind = map_option netgroupKind (List.find (\<lambda>n. Some (ng_cn n) = selected) candidates);
          fit = picker_fit f candidates selected;
          slots = (if f = SudoUser then ''user'' else ''host'') in
      (if fit = FitIgnored
       then [''This netgroup names '' @ (if kind = Some KUsers then ''users'' else ''hosts'') @ '', and you are adding it to ''
               @ (if f = SudoUser then ''Users.'' else ''Hosts.''),
             ''Sudo would read the '' @ slots @ '' slots of its members, which are empty '' @ dash
               @ '' the rule would match nobody, without any error. You can add it anyway if that is deliberate.''] else [])
      @ (if fit = FitPartial
         then [''This netgroup names both users and hosts. Added here, sudo reads only its '' @ slots @ '' slots '' @ dash
                 @ '' the rest is ignored, which is fine if that is what you meant.''] else [])
      @ (if kind = Some KEmpty
         then [''This netgroup names nothing of its own; whatever it holds comes from the netgroups it nests. Open it to see what it resolves to.'']
         else []))"

definition NetgroupPicker :: "bool \<Rightarrow> control list" where
  "NetgroupPicker supported = (if supported then [Presses ''Netgroup'' True] else [])"

section \<open>The page of a sudo rule\<close>

definition sudo_card_title :: "sudo_list \<Rightarrow> string" where
  "sudo_card_title f = (case f of SudoUser \<Rightarrow> ''Users'' | SudoHost \<Rightarrow> ''Hosts'' | SudoCommand \<Rightarrow> ''Commands''
     | SudoRunAs \<Rightarrow> ''Run As (Deprecated)'' | SudoRunAsUser \<Rightarrow> ''Run As User'' | SudoRunAsGroup \<Rightarrow> ''Run As Group''
     | SudoOption \<Rightarrow> ''Options'')"

definition sudo_placeholder :: "sudo_list \<Rightarrow> string" where
  "sudo_placeholder f = (case f of SudoUser \<Rightarrow> ''Username or ALL'' | SudoHost \<Rightarrow> ''Hostname or ALL''
     | SudoCommand \<Rightarrow> ''/usr/bin/command or ALL'' | SudoRunAs \<Rightarrow> ''Username'' | SudoRunAsUser \<Rightarrow> ''Username or ALL''
     | SudoRunAsGroup \<Rightarrow> ''Group name or ALL'' | SudoOption \<Rightarrow> ''!authenticate, env_keep, etc.'')"

text \<open>A card with the values of one list: its chips, the input that adds to it, and the netgroup picker.\<close>

definition sudo_card :: "string \<Rightarrow> bool \<Rightarrow> bool \<Rightarrow> sudo_form \<Rightarrow> sudo_list \<Rightarrow> control list" where
  "sudo_card none canWrite supported s f =
     Says (sudo_card_title f @ '' ('' @ nat_str (length (su_values s f)) @ '')'')
     # MultiValueField (su_values s f) canWrite none None
     @ (if canWrite
        then [Edits (sudo_key f) '''' TextIn (sudo_placeholder f) True, Presses '''' True]
          @ (if f \<in> {SudoUser, SudoHost} then NetgroupPicker supported else [])
        else [])"

text \<open>Who and where, then what and as whom; the page that creates a rule lists the last in another order.\<close>

definition sudo_who_cards :: "string \<Rightarrow> bool \<Rightarrow> bool \<Rightarrow> sudo_form \<Rightarrow> control list" where
  "sudo_who_cards none canWrite supported s =
     sudo_card none canWrite supported s SudoUser @ sudo_card none canWrite supported s SudoHost"

definition sudo_what_cards :: "bool \<Rightarrow> bool \<Rightarrow> sudo_form \<Rightarrow> control list" where
  "sudo_what_cards canWrite supported s =
     concat (map (sudo_card ''None configured'' canWrite supported s)
       [SudoCommand, SudoRunAs, SudoRunAsUser, SudoRunAsGroup, SudoOption])"

definition new_sudo_what_cards :: "bool \<Rightarrow> sudo_form \<Rightarrow> control list" where
  "new_sudo_what_cards supported s =
     concat (map (sudo_card ''None added yet'' True supported s)
       [SudoCommand, SudoRunAsUser, SudoRunAsGroup, SudoRunAs, SudoOption])"

definition sudo_basics :: "bool \<Rightarrow> control list" where
  "sudo_basics canWrite =
     [Edits ''description'' ''Description'' TextIn ''Optional description'' canWrite,
      Edits ''sudoOrder'' ''Order (Priority)'' NumberIn ''0'' canWrite,
      Edits ''sudoNotBefore'' ''Not Before'' TextIn ''YYYYMMDDHHmmssZ (e.g., 20240101000000Z)'' canWrite,
      Edits ''sudoNotAfter'' ''Not After'' TextIn ''YYYYMMDDHHmmssZ (e.g., 20251231235959Z)'' canWrite]"

definition sudo_page :: "bool \<Rightarrow> bool \<Rightarrow> bool \<Rightarrow> string \<Rightarrow> string list \<Rightarrow> sudo_form \<Rightarrow> bool \<Rightarrow> bool \<Rightarrow> control list" where
  "sudo_page canWrite canDelete supported cn netgroup_notes s isDirty pending =
     [Reads ''Back to sudo roles'', Says cn]
     @ (if canWrite then [] else [ReadOnlyNotice])
     @ [Shows ''Name (CN)'' cn] @ sudo_basics canWrite
     @ sudo_who_cards ''None configured'' canWrite supported s
     @ (if namesNetgroup s then map Says netgroup_notes else [])
     @ sudo_what_cards canWrite supported s
     @ (if canDelete then [Presses ''Delete'' True] else [])
     @ (if canWrite then FormActions isDirty pending True [] else [])"

definition new_sudo_page :: "bool \<Rightarrow> bool \<Rightarrow> string list \<Rightarrow> string \<Rightarrow> sudo_form \<Rightarrow> bool \<Rightarrow> control list" where
  "new_sudo_page canWrite supported netgroup_notes cn s pending =
     (if \<not> canWrite then [Says (''You don'' @ [CHR 0x27] @ ''t have permission to create sudo roles.'')]
      else
        [Reads ''Back to sudo roles'', Says ''New Sudo Role'',
         Edits ''cn'' ''Name (CN) *'' TextIn ''my-sudo-role'' True]
        @ sudo_basics True
        @ sudo_who_cards ''None added yet'' True supported s
        @ (if namesNetgroup s then map Says netgroup_notes else [])
        @ new_sudo_what_cards supported s
        @ [Presses ''Cancel'' True,
           Presses (if pending then ''Creating...'' else ''Create Sudo Role'') (\<not> (cn = '''' \<or> pending))])"

definition sudo_update_mutation :: "string \<Rightarrow> sudo_form \<Rightarrow> mutation" where
  "sudo_update_mutation dn s =
     done_with (sudo_save dn s) [[''sudo-roles''], [''sudo-role'', dn]] ''Sudo role updated successfully''"

definition sudo_delete_mutation :: "string \<Rightarrow> mutation" where
  "sudo_delete_mutation dn =
     \<lparr>mu_request = sudoRoles_delete dn,
      mu_success = [Refresh [''sudo-roles''], Toasted (ToastSuccess ''Sudo role deleted''), Went ''/sudo-roles'' None]\<rparr>"

definition sudo_create_mutation :: "string \<Rightarrow> sudo_form \<Rightarrow> string \<Rightarrow> mutation" where
  "sudo_create_mutation cn s new_dn =
     \<lparr>mu_request = sudo_create cn s,
      mu_success = [Refresh [''sudo-roles''], Toasted (ToastSuccess ''Sudo role created successfully''),
        Went ''/sudo-roles/$dn'' (Some (encodeDN (units_of new_dn)))]\<rparr>"

section \<open>The page of a netgroup\<close>

definition TripleEditor :: "bool \<Rightarrow> string list option \<Rightarrow> triple_editor \<Rightarrow> control list" where
  "TripleEditor canWrite suggestions s =
     (if te_triples s = [] then [Says ''No members yet'']
      else concat (map (\<lambda>t. [Says (describeTriple t), Says (formatTriple t)]
             @ (if canWrite then [Presses (''Remove '' @ formatTriple t) True] else [])) (te_triples s)))
     @ (if canWrite then
          [Edits ''user'' ''User'' TextIn ''Leave empty for any user'' True]
          @ (if trim (te_user s) \<noteq> '''' \<and> te_user s \<noteq> NETGROUP_NO_MATCH
             then map Reads (coalesce suggestions []) else [])
          @ [Edits ''host'' ''Host'' TextIn ''Leave empty for any host'' True, Says (describeTriple (typed_triple s))]
          @ (if \<not> can_add_triple s
             then [Says ''Fill in at least one field: leaving both empty would match every user on every host.''] else [])
          @ [Presses ''Add member'' (can_add_triple s)]
        else [])"

definition malformed_note :: "netgroup \<Rightarrow> control list" where
  "malformed_note n =
     (case coalesce (ng_malformed n) [] of [] \<Rightarrow> []
      | vs \<Rightarrow> Says (nat_str (length vs) @ '' value'' @ (if length vs = 1 then '''' else ''s'') @ '' in this entry could not be read'')
          # map Says vs)"

definition netgroup_page :: "bool \<Rightarrow> bool \<Rightarrow> netgroup \<Rightarrow> netgroup_form \<Rightarrow> triple_editor \<Rightarrow> string list option \<Rightarrow> bool \<Rightarrow> bool \<Rightarrow>
    control list \<Rightarrow> control list \<Rightarrow> control list" where
  "netgroup_page canWrite canDelete n s ed suggestions isDirty pending expansion usage =
     [Reads ''Back to netgroups'', Says (ng_cn n)]
     @ (if canWrite then [] else [ReadOnlyNotice])
     @ malformed_note n
     @ [Shows ''Name (CN)'' (ng_cn n), Edits ''description'' ''Description'' TextIn '''' canWrite,
        Says (''Members ('' @ nat_str (length (nf_triples s)) @ '')'')]
     @ TripleEditor canWrite suggestions (ed\<lparr>te_triples := nf_triples s\<rparr>)
     @ [Says (''Nested netgroups ('' @ nat_str (length (nf_members s)) @ '')'')]
     @ MultiValueField (nf_members s) canWrite ''None nested'' (Some ''nested netgroup'')
     @ (if canWrite then [Edits ''members'' '''' TextIn ''Netgroup name'' True, Presses ''Add'' True] else [])
     @ (if canWrite then FormActions isDirty pending True [] else [])
     @ expansion @ usage
     @ (if canDelete then [Says ''Danger Zone'', Presses ''Delete'' True] else [])"

definition new_netgroup_page :: "string \<Rightarrow> bool \<Rightarrow> (netgroup_kind \<Rightarrow> string) \<Rightarrow> string \<Rightarrow> triple_editor \<Rightarrow> string list option \<Rightarrow> bool \<Rightarrow> control list" where
  "new_netgroup_page dash canWrite netgroupKindLabel cn ed suggestions pending =
     (if \<not> canWrite then []
      else
        let kind = netgroupKind \<lparr>ng_dn = '''', ng_cn = cn, ng_description = None, ng_triples = te_triples ed,
              ng_malformed = None, ng_members = None\<rparr> in
        [Reads ''Back to netgroups'', Says ''Create Netgroup'', Edits ''cn'' ''Name (CN) *'' TextIn ''ops'' True,
         Edits ''description'' ''Description'' TextIn '''' True]
        @ TripleEditor True suggestions ed
        @ (if kind = KMixed
           then [Says (''This netgroup names both users and hosts. That is legal, but a sudo rule reads only one side of it ''
             @ dash @ '' the users when named in Users, the hosts when named in Hosts '' @ dash
             @ '' and ignores the other half without saying so.'')] else [])
        @ (if kind \<in> {KUsers, KHosts} then [Says (netgroupKindLabel kind)] else [])
        @ [Presses (if pending then ''Creating...'' else ''Create Netgroup'') (\<not> (pending \<or> trim cn = ''''))])"

definition netgroup_update_mutation :: "string \<Rightarrow> netgroup_form \<Rightarrow> mutation" where
  "netgroup_update_mutation dn s = done_with (netgroup_save dn s) [[''netgroups''], [''netgroup'', dn]] ''Netgroup updated''"

definition netgroup_delete_mutation :: "string \<Rightarrow> string option \<Rightarrow> string list \<Rightarrow> mutation" where
  "netgroup_delete_mutation dn cn warnings =
     \<lparr>mu_request = netgroups_delete dn,
      mu_success = [Refresh [''netgroups''], Refresh [''sudo-roles''], Toasted (ToastSuccess ''Netgroup deleted''),
        left_behind (''Netgroup '' @ coalesce cn '''' @ '' deleted: references left behind'') warnings,
        Went ''/netgroups'' None]\<rparr>"

definition netgroup_create_mutation :: "string \<Rightarrow> string \<Rightarrow> netgroup_triple list \<Rightarrow> string \<Rightarrow> mutation" where
  "netgroup_create_mutation cn description triples new_dn =
     \<lparr>mu_request = netgroup_create cn description triples,
      mu_success = [Refresh [''netgroups''], Toasted (ToastSuccess ''Netgroup created''),
        Went ''/netgroups/$dn'' (Some (encodeDN (units_of new_dn)))]\<rparr>"

section \<open>What a netgroup contains, and where it is used\<close>

record expansion_side =
  es_title :: string
  es_members :: "netgroup_member list"
  es_open :: bool
  es_openVia :: "string list"
  es_anyLabel :: string
  es_emptyLabel :: string
  es_usedFrom :: string

definition users_side :: "netgroup_expansion \<Rightarrow> expansion_side" where
  "users_side x = \<lparr>es_title = ''Users'', es_members = nx_users x, es_open = matchesAnyUser x,
     es_openVia = coalesce (nx_openUser x) [], es_anyLabel = ''Matches every user'', es_emptyLabel = ''No user'',
     es_usedFrom = ''the Users field of a sudo rule''\<rparr>"

definition hosts_side :: "netgroup_expansion \<Rightarrow> expansion_side" where
  "hosts_side x = \<lparr>es_title = ''Hosts'', es_members = nx_hosts x, es_open = matchesAnyHost x,
     es_openVia = coalesce (nx_openHost x) [], es_anyLabel = ''Matches every host'', es_emptyLabel = ''No host'',
     es_usedFrom = ''the Hosts field of a sudo rule''\<rparr>"

text \<open>\<open>Side\<close>: an open slot is told before the names, and overrides them.\<close>

definition side_lines :: "string \<Rightarrow> expansion_side \<Rightarrow> string list" where
  "side_lines dash e =
     [es_title e @ (if es_open e then '''' else ''('' @ nat_str (length (es_members e)) @ '')'')]
     @ (if es_open e
        then [es_anyLabel e @ '' '' @ dash @ '' '' @ join_with '', '' (es_openVia e) @ '' leave''
                @ (if length (es_openVia e) = 1 then ''s'' else '''') @ '' the slot open. Used from '' @ es_usedFrom e
                @ '', this places no restriction.'']
        else if es_members e = [] then [es_emptyLabel e] else [])
     @ map (\<lambda>m. nm_name m @ (case text_of (nm_via m) of Some v \<Rightarrow> ''via '' @ v | None \<Rightarrow> '''')) (es_members e)
     @ (if es_open e \<and> es_members e \<noteq> [] then [''The names above are redundant while the slot is open.''] else [])"

definition listed_note :: "string \<Rightarrow> string list \<Rightarrow> control list" where
  "listed_note title vs = (if vs = [] then [] else Says title # map Says vs)"

definition NetgroupExpansionPanel :: "string \<Rightarrow> string \<Rightarrow> string option \<Rightarrow> netgroup_expansion option \<Rightarrow> control list" where
  "NetgroupExpansionPanel dash ellipsis failure expansion =
     Says ''Effective contents''
     # (case failure of
          Some m \<Rightarrow> [Says ''The effective contents could not be resolved.'', Says m, Reads ''Try again'']
        | None \<Rightarrow>
            (case expansion of
               None \<Rightarrow> [Says (''Resolving'' @ ellipsis)]
             | Some x \<Rightarrow>
                 map Says (side_lines dash (users_side x) @ side_lines dash (hosts_side x))
                 @ listed_note ''This netgroup nests itself'' (coalesce (nx_cycles x) [])
                 @ (let gone = coalesce (nx_dangling x) [] in
                    listed_note (nat_str (length gone) @ '' nested netgroup'' @ (if length gone = 1 then '''' else ''s'') @ '' do not exist'') gone)))"

text \<open>One rule that names the netgroup.\<close>

definition named_on :: "string \<Rightarrow> role_row_data \<Rightarrow> bool \<times> bool" where
  "named_on reference r = (reference \<in> set (coalesce (rr_users r) []), reference \<in> set (coalesce (rr_hosts r) []))"

definition rule_ignores :: "netgroup_kind \<Rightarrow> bool \<times> bool \<Rightarrow> bool" where
  "rule_ignores kind named \<longleftrightarrow>
     (case named of (inUsers, inHosts) \<Rightarrow>
        inUsers \<noteq> inHosts \<and> netgroupSideFit kind (if inUsers then SideUsers else SideHosts) = FitIgnored)"

definition RuleRow :: "string \<Rightarrow> string \<Rightarrow> netgroup_kind \<Rightarrow> string option \<Rightarrow> role_row_data \<Rightarrow> control list" where
  "RuleRow dash reference kind description r =
     (case named_on reference r of (inUsers, inHosts) \<Rightarrow>
        [Links (rr_cn r) ''/sudo-roles/$dn'',
         Says (if inUsers \<and> inHosts then ''named in Users and Hosts''
               else if inUsers then ''grants to its users'' else ''restricts to its hosts'')]
        @ (case text_of description of Some d \<Rightarrow> [Says d] | None \<Rightarrow> [])
        @ (if rule_ignores kind (inUsers, inHosts)
           then [Says (''This netgroup names '' @ (if kind = KUsers then ''users'' else ''hosts'') @ '', and the rule reads its ''
                   @ (if inUsers then ''user'' else ''host'') @ '' slots '' @ dash
                   @ '' which are empty, so the rule matches nobody through it.'')] else []))"

definition NetgroupSudoUsage :: "string \<Rightarrow> string \<Rightarrow> netgroup \<Rightarrow> (role_row_data \<times> string option) list option \<Rightarrow> bool \<Rightarrow> string option \<Rightarrow> control list" where
  "NetgroupSudoUsage dash ellipsis n roles loading failure =
     Says (''Used by sudo ('' @ nat_str (length (coalesce roles [])) @ '')'')
     # (case failure of
          Some m \<Rightarrow> [Says ''The sudo rules could not be searched.'', Says m, Reads ''Try again'']
        | None \<Rightarrow>
            if loading then [Says (''Searching'' @ ellipsis)]
            else if coalesce roles [] = [] then
              [Says (''No sudo rule names +'' @ ng_cn n @ ''. This netgroup grants nothing on its own '' @ dash
                 @ '' it can still reach people through a netgroup that nests it.'')]
            else concat (map (\<lambda>(r, d). RuleRow dash (''+'' @ ng_cn n) (netgroupKind n) d r) (coalesce roles [])))"

section \<open>Laws\<close>

text \<open>The inputs of a rule's page are the fields its save sends, each once.\<close>

lemmas sudo_cards = sudo_who_cards_def sudo_what_cards_def new_sudo_what_cards_def

lemma sudo_card_edits:
  "edited_fields (sudo_card none True b s f) = [sudo_key f]"
  "edited_fields (sudo_card none False b s f) = []"
  by (simp_all add: sudo_card_def NetgroupPicker_def)

lemma sudo_page_fields:
  "mset (edited_fields (sudo_page True d b cn [] s dirty pending)) = mset (map fst (sudo_fields s))"
  "mset (edited_fields (new_sudo_page True b [] cn s pending)) = mset (''cn'' # map fst (sudo_fields s))"
  by (simp_all add: sudo_page_def new_sudo_page_def sudo_basics_def sudo_cards sudo_card_edits sudo_key_def
      sudo_fields_def sudo_lists_def)

text \<open>Without the permissions the two detail pages change nothing.\<close>

lemma sudo_card_read_only: "read_only (sudo_card none False b s f)"
  by (simp add: sudo_card_def)

lemma says_read_only: "read_only (map Says xs)"
  by (simp add: read_only_def list_all_iff)

lemma sudo_page_read_only: "read_only (sudo_page False False b cn notes s dirty pending)"
  by (simp add: sudo_page_def sudo_basics_def sudo_cards sudo_card_read_only says_read_only)

lemma TripleEditor_read_only: "read_only (TripleEditor False sg ed)"
  by (simp add: TripleEditor_def read_only_concat list_all_iff)

lemma netgroup_page_read_only:
  "read_only expansion \<Longrightarrow> read_only usage \<Longrightarrow> read_only (netgroup_page False False n s ed sg dirty pending expansion usage)"
  by (simp add: netgroup_page_def malformed_note_def TripleEditor_read_only says_read_only split: list.split)

lemma netgroup_panels_read_only:
  "read_only (NetgroupExpansionPanel dash el failure x)" "read_only (NetgroupSudoUsage dash el n roles loading failure)"
proof -
  show "read_only (NetgroupExpansionPanel dash el failure x)"
    by (simp add: NetgroupExpansionPanel_def listed_note_def Let_def says_read_only split: option.split)
  have "read_only (RuleRow dash ref k d r)" for ref k d r
    by (simp add: RuleRow_def split: prod.split option.split)
  then show "read_only (NetgroupSudoUsage dash el n roles loading failure)"
    by (simp add: NetgroupSudoUsage_def read_only_concat list_all_iff split: option.split prod.split)
qed

section \<open>A netgroup named on the other side\<close>

text \<open>
  The netgroup \<open>(web01,,)\<close> in the users of a rule. An empty slot means any user (\<open>describeTriple\<close>), and the warning
  says that its empty user slots match nobody.
\<close>

definition web_hosts :: netgroup where
  "web_hosts = \<lparr>ng_dn = '''', ng_cn = ''web'', ng_description = None,
     ng_triples = [\<lparr>t_host = ''web01'', t_user = '''', t_domain = ''''\<rparr>], ng_malformed = None, ng_members = None\<rparr>"

lemma open_rule_said_to_match_nobody:
  "NetgroupUsageWarnings ''-'' True True (\<lambda>_. Found web_hosts) [''+web''] [] =
     [''A netgroup on this rule will be ignored'',
      ''+web in Users: it names hosts, and this side reads the user slots - which are empty, so it matches nobody.''] \<and>
   map describeTriple (ng_triples web_hosts) = [''any user on web01'']"
  by (simp add: NetgroupUsageWarnings_def resolution_names_def namedNetgroups_def usage_problems_def usage_title_def
      onlyPartial_def problemText_def netgroupSideFit_def netgroupKind_def web_hosts_def slot_names_def
      kind_is_side_def NETGROUP_NO_MATCH_def describeTriple_def slotLabel_def Let_def)

text \<open>The same remark on the page of the netgroup, in the dialog that picks it, and next to its contents, which say the opposite.\<close>

lemma open_rule_said_elsewhere:
  "rule_ignores (netgroupKind web_hosts) (True, False)"
  "picker_fit SudoUser [web_hosts] (Some ''web'') = FitIgnored"
  "NetgroupSummary SideUsers (Found web_hosts) None (Some \<lparr>nx_root = ''web'', nx_users = [], nx_hosts = [], nx_openUser = Some [''web''],
     nx_openHost = None, nx_cycles = None, nx_dangling = None\<rparr>) = SummaryEverybody [''web'']"
  by (simp_all add: rule_ignores_def picker_fit_def picker_side_def netgroupSideFit_def netgroupKind_def web_hosts_def
      slot_names_def kind_is_side_def NETGROUP_NO_MATCH_def NetgroupSummary_def)

text \<open>A rule that may be created: a blank name passes on the page of sudo roles, not on that of netgroups.\<close>

lemma blank_name_passes:
  "Presses ''Create Sudo Role'' True \<in> set (new_sudo_page True b [] '' '' s False)"
  "Presses ''Create Netgroup'' True \<notin> set (new_netgroup_page d True lab '' '' ed sg False)"
proof -
  have "trim '' '' = ''''" by code_simp
  then show "Presses ''Create Netgroup'' True \<notin> set (new_netgroup_page d True lab '' '' ed sg False)"
    by (auto simp: new_netgroup_page_def TripleEditor_def Let_def split: if_splits)
qed (simp add: new_sudo_page_def)

end
