(* ===== verification/New_Pages.thy ===== *)
theory New_Pages
  imports Create_Forms Rule_Pages List_Tables
begin

text \<open>
  The controls of the pages that create a user or a group (\<open>routes/users/new.tsx\<close>, \<open>routes/groups/new.tsx\<close>),
  of the two pages of a password policy (\<open>routes/password-policies/$dn.tsx\<close>, \<open>new.tsx\<close>), and the five list pages with
  their dialogs. Help texts that say nothing of the entry are left out.
\<close>

section \<open>A new user\<close>

text \<open>What the directory would hand out next, once it is known.\<close>

record next_ids =
  ni_next :: int
  ni_min :: int

definition input :: "string \<Rightarrow> string \<Rightarrow> string \<Rightarrow> control" where
  "input k label placeholder = Edits k label TextIn placeholder True"

text \<open>The number field: its \<open>min\<close> is the browser's to enforce; the button goes back to automatic.\<close>

definition number_field :: "string \<Rightarrow> string \<Rightarrow> string \<Rightarrow> string \<Rightarrow> string \<Rightarrow> next_ids option \<Rightarrow> control list" where
  "number_field k label noun entries typed ids =
     [Edits k label NumberIn '''' True, Presses (''Use the next free '' @ noun) (typed \<noteq> '''')]
     @ (case ids of
          None \<Rightarrow> []
        | Some i \<Rightarrow> [Says (''Min: '' @ int_str (ni_min i) @ ''. Leave it as it is and the next free number is picked when the ''
            @ entries @ '' at once cannot both get '' @ int_str (ni_next i) @ ''.'')])"

definition primary_field :: "string \<Rightarrow> (string \<times> string) list \<Rightarrow> int \<Rightarrow> control list" where
  "primary_field dash options notListed =
     Edits ''primaryGroup'' ''Primary Group'' (SelectIn options) '''' True
     # (if notListed > 0
        then [Says (int_str notListed @ '' further '' @ (if notListed = 1 then ''group is'' else ''groups are'')
               @ '' not listed here '' @ dash @ '' search for them under Additional Groups instead.'')]
        else [])"

text \<open>The chosen groups with a button each, the search, and under a term the candidates.\<close>

record group_search =
  gs_input :: string
  gs_fetching :: bool
  gs_items :: "string list"
  gs_overflow :: int

definition membership_fields :: "string \<Rightarrow> new_user \<Rightarrow> group_search \<Rightarrow> control list" where
  "membership_fields dash s g =
     concat (map (\<lambda>cn. [Says cn, Presses (''Remove '' @ cn) True]) (nu_groups s))
     @ [Reads ''Search groups to add...'']
     @ (if gs_input g \<noteq> ''''
        then (if availableGroups (gs_items g) s \<noteq> []
              then map (\<lambda>cn. Presses cn True) (availableGroups (gs_items g) s)
              else [Says (if gs_fetching g then ''Searching...'' else ''No matching groups'')])
          @ (case PickerOverflow dash (gs_overflow g) of Some t \<Rightarrow> [Says t] | None \<Rightarrow> [])
        else [])"

definition new_user_account :: "string \<Rightarrow> (string \<times> string) list \<Rightarrow> int \<Rightarrow> next_ids option \<Rightarrow> new_user \<Rightarrow> control list" where
  "new_user_account dash options notListed ids s =
     [input ''uid'' ''Username (UID) *'' '''', input ''givenName'' ''First Name *'' '''', input ''sn'' ''Last Name *'' '''',
      input ''cn'' ''Common Name (CN)'' ''Auto-generated if empty'',
      input ''displayName'' ''Display Name'' ''Auto-generated if empty'']
     @ number_field ''uidNumber'' ''UID Number *'' ''UID'' ''account is created, so two people creating accounts''
         (fld (nu_fields s) ''uidNumber'') ids
     @ primary_field dash options notListed"

definition new_user_details :: "bool \<Rightarrow> text_form \<Rightarrow> control list" where
  "new_user_details canExpire f =
     [Edits ''mail'' ''Email'' EmailIn '''' True, input ''telephoneNumber'' ''Phone'' '''',
      input ''title'' ''Title'' '''', input ''departmentNumber'' ''Department'' '''', input ''o'' ''Organization'' '''',
      input ''employeeType'' ''Employee Type'' '''',
      input ''homeDirectory'' ''Home Directory'' (''/home/'' @ (if fld f ''uid'' \<noteq> '''' then fld f ''uid'' else ''username'')),
      input ''loginShell'' ''Login Shell'' '''',
      Edits ''password'' ''Initial password'' PasswordIn ''Leave empty to set one later'' True]
     @ (if fld f ''password'' = ''''
        then [Says ''Without a password the account cannot sign in. You can set one later, or send the user a reset link from their Security tab.'']
        else [])
     @ [input ''description'' ''Description'' '''']
     @ (if canExpire then [Edits ''expirationDate'' ''Account Expiration Date'' DateIn '''' True] else [])"

definition NewUserPage :: "string \<Rightarrow> bool \<Rightarrow> bool \<Rightarrow> (string \<times> string) list \<Rightarrow> int \<Rightarrow> next_ids option \<Rightarrow> new_user \<Rightarrow>
    group_search \<Rightarrow> bool \<Rightarrow> control list" where
  "NewUserPage dash canWrite canExpire options notListed ids s g pending =
     (if \<not> canWrite then []
      else [Reads ''Back to users'', Says ''Create New User'']
        @ new_user_account dash options notListed ids s @ new_user_details canExpire (nu_fields s)
        @ membership_fields dash s g
        @ [Presses (if pending then ''Creating...'' else ''Create User'') (\<not> pending)])"

text \<open>A candidate picked: the group joins the list and the search starts over.\<close>

definition pick_candidate :: "string \<Rightarrow> new_user \<times> group_search \<Rightarrow> new_user \<times> group_search" where
  "pick_candidate cn p = (new_user_step (PickGroup cn) (fst p), (snd p)\<lparr>gs_input := ''''\<rparr>)"

section \<open>A new group\<close>

definition NewGroupPage :: "bool \<Rightarrow> next_ids option \<Rightarrow> text_form \<Rightarrow> bool \<Rightarrow> control list" where
  "NewGroupPage canWrite ids f pending =
     (if \<not> canWrite then []
      else [Reads ''Back to groups'', Says ''Create New Group'', input ''cn'' ''Name (CN) *'' '''']
        @ number_field ''gidNumber'' ''GID Number *'' ''GID'' ''group is created, so two people creating groups'' (fld f ''gidNumber'') ids
        @ [input ''description'' ''Description'' '''',
           Presses (if pending then ''Creating...'' else ''Create Group'') (\<not> pending)])"

section \<open>The pages of a password policy\<close>

definition policy_number_in :: "bool \<Rightarrow> policy_number \<Rightarrow> string \<Rightarrow> control" where
  "policy_number_in canWrite n label = Edits (number_key n) label NumberIn '''' canWrite"

definition policy_switch :: "bool \<Rightarrow> policy_flag \<Rightarrow> string \<Rightarrow> control" where
  "policy_switch canWrite b label = Edits (flag_key b) label SwitchIn '''' canWrite"

definition general_card :: "bool \<Rightarrow> string \<Rightarrow> control list" where
  "general_card canWrite about =
     [Edits ''description'' ''Description'' AreaIn about canWrite,
      Edits ''pwdAttribute'' ''Password Attribute'' TextIn ''userPassword'' canWrite]"

definition quality_card :: "bool \<Rightarrow> control list" where
  "quality_card canWrite =
     [policy_number_in canWrite MinLength ''Minimum Length'', policy_number_in canWrite CheckQuality ''Check Quality'',
      Edits ''pwdCheckModule'' ''Check Module'' TextIn ''e.g., check_password.so'' canWrite]"

definition policy_expiration_card :: "bool \<Rightarrow> control list" where
  "policy_expiration_card canWrite =
     [policy_number_in canWrite MinAge ''Minimum Age (seconds)'', policy_number_in canWrite MaxAge ''Maximum Age (seconds)'',
      policy_number_in canWrite ExpireWarning ''Expire Warning (seconds)'', policy_number_in canWrite GraceAuthNLimit ''Grace Logins'']"

definition history_card :: "bool \<Rightarrow> control list" where
  "history_card canWrite = [policy_number_in canWrite InHistory ''Passwords in History'']"

definition lockout_label :: "policy_number \<Rightarrow> string" where
  "lockout_label n =
     (if n = MaxFailure then ''Max Failures'' else if n = LockoutDuration then ''Lockout Duration (s)'' else ''Failure Reset (s)'')"

definition lockout_card :: "bool \<Rightarrow> policy_form \<Rightarrow> control list" where
  "lockout_card canWrite f =
     policy_switch canWrite Lockout ''Enable Lockout''
     # map (\<lambda>n. policy_number_in canWrite n (lockout_label n)) (lockout_fields_shown f)"

definition user_options_card :: "bool \<Rightarrow> control list" where
  "user_options_card canWrite =
     [policy_switch canWrite MustChange ''Must Change on Reset'', policy_switch canWrite AllowUserChange ''Allow User Change'',
      policy_switch canWrite SafeModify ''Safe Modify'']"

definition policy_cards :: "bool \<Rightarrow> string \<Rightarrow> policy_form \<Rightarrow> control list" where
  "policy_cards canWrite about f =
     general_card canWrite about @ quality_card canWrite @ policy_expiration_card canWrite @ history_card canWrite
     @ lockout_card canWrite f @ user_options_card canWrite"

definition PasswordPolicyDetailPage :: "bool \<Rightarrow> string \<Rightarrow> string \<Rightarrow> policy_form \<Rightarrow> bool \<Rightarrow> bool \<Rightarrow> control list" where
  "PasswordPolicyDetailPage canWrite cn dn f isDirty pending =
     [Reads ''Back to password policies'', Says cn, Reads dn]
     @ (if \<not> canWrite then [ReadOnlyNotice] else [])
     @ policy_cards canWrite '''' f
     @ (if canWrite then Presses ''Delete'' True # FormActions isDirty pending True [] else [])"

definition policy_delete_text :: "string \<Rightarrow> string" where
  "policy_delete_text cn =
     ''Delete '' @ cn @ ''? Accounts that name it in pwdPolicySubentry are left as they are and stop getting it; they are listed once the policy is gone. This cannot be undone.''"

definition policy_delete_dialog :: "string \<Rightarrow> bool \<Rightarrow> string option \<Rightarrow> confirm_dialog \<Rightarrow> control list" where
  "policy_delete_dialog cn pending failure s =
     (if cd_open s then Says ''Delete password policy'' # Says (policy_delete_text cn)
        # (case text_of failure of Some m \<Rightarrow> [Says m] | None \<Rightarrow> []) else [])
     @ confirm_buttons ''Delete Policy'' ''Deleting...'' ''Cancel'' (Some cn) pending s"

definition NewPasswordPolicyPage :: "policy_form \<Rightarrow> bool \<Rightarrow> control list" where
  "NewPasswordPolicyPage f pending =
     [Reads ''Back to password policies'', Edits ''cn'' ''Policy Name *'' TextIn ''e.g., default-policy'' True]
     @ policy_cards True ''Description of this policy'' f
     @ [Presses (if pending then ''Creating...'' else ''Create Policy'') (\<not> pending)]"

section \<open>The list pages\<close>

text \<open>
  The five index pages with what floats above them: the dialog that deletes a row, where a list has one.
  The functions of the toolbar and of the rows are those of \<open>List_Tables\<close>.
\<close>

type_synonym index_screen = "control list \<times> (string \<times> string \<times> string option) option"

definition UsersPage :: "(string \<Rightarrow> string) \<Rightarrow> string \<Rightarrow> (string \<Rightarrow> bool) \<Rightarrow> index_view \<Rightarrow> index_screen" where
  "UsersPage quoted ellipsis may v = (index_page quoted ellipsis LUsers may v, None)"

definition GroupsPage :: "(string \<Rightarrow> string) \<Rightarrow> string \<Rightarrow> (string \<Rightarrow> bool) \<Rightarrow> index_view \<Rightarrow> index_screen" where
  "GroupsPage quoted ellipsis may v = (index_page quoted ellipsis LGroups may v, None)"

definition NetgroupsPage :: "(string \<Rightarrow> string) \<Rightarrow> string \<Rightarrow> (string \<Rightarrow> bool) \<Rightarrow> index_view \<Rightarrow> index_screen" where
  "NetgroupsPage quoted ellipsis may v = (index_page quoted ellipsis LNetgroups may v, None)"

definition SudoRolesPage :: "(string \<Rightarrow> string) \<Rightarrow> string \<Rightarrow> (string \<Rightarrow> bool) \<Rightarrow> index_view \<Rightarrow> row_deletion \<Rightarrow> index_screen" where
  "SudoRolesPage quoted ellipsis may v d = (index_page quoted ellipsis LSudoRoles may v, row_delete_dialog LSudoRoles d)"

definition PasswordPoliciesPage :: "(string \<Rightarrow> string) \<Rightarrow> string \<Rightarrow> (string \<Rightarrow> bool) \<Rightarrow> index_view \<Rightarrow> row_deletion \<Rightarrow> index_screen" where
  "PasswordPoliciesPage quoted ellipsis may v d =
     (index_page quoted ellipsis LPasswordPolicies may v, row_delete_dialog LPasswordPolicies d)"

section \<open>Every field once\<close>

lemma policy_cards_fields:
  "edited_fields (policy_cards w about f) = [''description'', ''pwdAttribute'', ''pwdMinLength'', ''pwdCheckQuality'',
     ''pwdCheckModule'', ''pwdMinAge'', ''pwdMaxAge'', ''pwdExpireWarning'', ''pwdGraceAuthNLimit'', ''pwdInHistory'', ''pwdLockout'']
     @ map number_key (lockout_fields_shown f) @ [''pwdMustChange'', ''pwdAllowUserChange'', ''pwdSafeModify'']"
  by (simp add: policy_cards_def general_card_def quality_card_def policy_expiration_card_def history_card_def lockout_card_def
      user_options_card_def policy_number_in_def policy_switch_def number_key_def flag_key_def lockout_fields_shown_def)

lemma policy_cards_read_only: "read_only (policy_cards False about f)"
  by (simp add: policy_cards_def general_card_def quality_card_def policy_expiration_card_def history_card_def lockout_card_def
      user_options_card_def policy_number_in_def policy_switch_def)

lemma saved_policy_fields: "map fst (policy_fields f) = [''description'', ''pwdAttribute'', ''pwdMinAge'', ''pwdMaxAge'',
     ''pwdInHistory'', ''pwdCheckQuality'', ''pwdMinLength'', ''pwdExpireWarning'', ''pwdGraceAuthNLimit'', ''pwdLockout'',
     ''pwdLockoutDuration'', ''pwdMaxFailure'', ''pwdFailureCountInterval'', ''pwdMustChange'', ''pwdAllowUserChange'',
     ''pwdSafeModify'', ''pwdCheckModule'']"
  by (simp add: policy_fields_def Let_def number_key_def flag_key_def)

text \<open>A page of policies has a control for every field a save writes, but for the three of a lockout that is off.\<close>

lemma policy_page_fields:
  "mset (edited_fields (policy_cards w about f)) =
     mset (filter (\<lambda>k. pf_flag f Lockout \<or> k \<notin> {''pwdMaxFailure'', ''pwdLockoutDuration'', ''pwdFailureCountInterval''})
       (map fst (policy_fields f)))"
  unfolding policy_cards_fields saved_policy_fields
  by (cases "pf_flag f Lockout") (simp_all add: lockout_fields_shown_def number_key_def)

lemma edited_presses [simp]: "edited_fields (map (\<lambda>cn. Presses (label cn) b) xs) = []"
  by (induction xs) simp_all

lemma new_user_fields_on_screen:
  "mset (edited_fields (NewUserPage dash True canExpire opts n ids s g p)) =
     mset (''primaryGroup'' # filter (\<lambda>k. canExpire \<or> k \<noteq> ''expirationDate'') (map fst new_user_fields))"
  by (cases canExpire; cases ids)
    (simp_all add: NewUserPage_def new_user_account_def new_user_details_def membership_fields_def number_field_def primary_field_def
      input_def new_user_fields_def Let_def edited_fields_concat comp_def split: option.split)

lemma new_group_fields_on_screen:
  "edited_fields (NewGroupPage True ids f p) = map fst new_group_fields"
  by (cases ids) (simp_all add: NewGroupPage_def number_field_def input_def new_group_fields_def)


section \<open>Choices\<close>

text \<open>The groups chosen stay distinct: the candidates offered are those not chosen yet.\<close>

lemma picked_once:
  assumes "distinct (nu_groups s)" "cn \<in> set (availableGroups items s)"
  shows "distinct (nu_groups (fst (pick_candidate cn (s, g))))"
  using assms by (simp add: pick_candidate_def new_user_step_def availableGroups_def)

text \<open>
  A primary group that is gone from the groups read again: its number is sent as 0 and no group is
  asked for, a request the server refuses.
\<close>

lemma vanished_primary:
  assumes "nu_primary s \<noteq> ''''" "nu_primary s \<notin> go_cn ` set groups"
  shows "map_of (new_user_body groups s) ''gidNumber'' = Some (Some (JNum 0))"
    and "map_of (new_user_body groups s) ''createPrimaryGroup'' = Some None"
proof -
  have "List.find (\<lambda>g. go_cn g = nu_primary s) groups = None" using assms(2) by (force simp: find_None_iff)
  then show "map_of (new_user_body groups s) ''gidNumber'' = Some (Some (JNum 0))"
    "map_of (new_user_body groups s) ''createPrimaryGroup'' = Some None"
    using assms(1) by (simp_all add: new_user_body_def resolvedGidNumber_def Let_def)
qed

end
