(* ===== verification/Dashboard.thy ===== *)
theory Dashboard
  imports List_Tables
begin

text \<open>
  The landing page (\<open>routes/index.tsx\<close>): its figures, the warnings about enforcement, the accounts about
  to expire, the recent activity and the health of the scheduled tasks, with the links it offers; and how
  it words the time since or until an instant. The clock, the formatters of the locale, the dates an
  engine reads beyond the language definition and the dash are arguments.
\<close>

section \<open>Time in words\<close>

text \<open>\<open>Math.round\<close>.\<close>

definition js_round :: "rat \<Rightarrow> int" where
  "js_round x = \<lfloor>x + 1 / 2\<rfloor>"

text \<open>The units with what each divides into before the next; the last has no bound.\<close>

definition time_units :: "(string \<times> rat option) list" where
  "time_units = [(''second'', Some 60), (''minute'', Some 60), (''hour'', Some 24), (''day'', Some 30),
     (''month'', Some 12), (''year'', None)]"

text \<open>The loop over the units: the number handed to the formatter, and its unit.\<close>

fun pick_unit :: "rat \<Rightarrow> (string \<times> rat option) list \<Rightarrow> (int \<times> string) option" where
  "pick_unit val [] = None"
| "pick_unit val ((u, None) # us) = Some (- js_round val, u)"
| "pick_unit val ((u, Some k) # us) = (if \<bar>val\<bar> < k then Some (- js_round val, u) else pick_unit (val / k) us)"

definition relativeTime :: "(int \<Rightarrow> string \<Rightarrow> string) \<Rightarrow> (date \<Rightarrow> string) \<Rightarrow> (string \<Rightarrow> date option) \<Rightarrow> date \<Rightarrow> string \<Rightarrow> string" where
  "relativeTime format toLocaleDateString other_formats now instant =
     (case new_date other_formats instant of
        None \<Rightarrow> ''Invalid Date''
      | Some t \<Rightarrow>
          (case pick_unit (of_int (js_round (of_int (now - t) / 1000))) time_units of
             Some (n, u) \<Rightarrow> format n u
           | None \<Rightarrow> toLocaleDateString t))"

text \<open>\<open>daysUntil\<close>, for a date that can be read.\<close>

definition daysUntil :: "(string \<Rightarrow> date option) \<Rightarrow> date \<Rightarrow> string \<Rightarrow> int option" where
  "daysUntil other_formats now instant = map_option (days_until now) (new_date other_formats instant)"

section \<open>The data\<close>

record expiring_account =
  ea_dn :: string
  ea_uid :: string
  ea_displayName :: "string option"
  ea_expiresAt :: string

record overview =
  ov_users :: int
  ov_active :: int
  ov_locked :: int
  ov_expired :: int
  ov_expiring :: "expiring_account list"
  ov_groups :: int
  ov_sudoRoles :: int
  ov_policies :: int
  ov_truncated :: bool

record task_run =
  tr_status :: string
  tr_usersChecked :: int
  tr_notificationsSent :: int
  tr_startedAt :: string

record task_health =
  th_taskName :: string
  th_schedule :: string
  th_lastRun :: "task_run option"
  th_overdue :: bool
  th_expectedAt :: "string option"
  th_nextRun :: string

section \<open>The page\<close>

text \<open>Accounts that cannot log in, each once whatever the reasons.\<close>

definition cannotLogIn :: "overview option \<Rightarrow> int" where
  "cannotLogIn v = (case v of Some o' \<Rightarrow> ov_users o' - ov_active o' | None \<Rightarrow> 0)"

definition needsAttention :: "overview option \<Rightarrow> int" where
  "needsAttention v = cannotLogIn v + (case v of Some o' \<Rightarrow> int (length (ov_expiring o')) | None \<Rightarrow> 0)"

definition greeting :: "session option \<Rightarrow> string" where
  "greeting ses =
     (case text_of (map_option ses_displayName ses) of
        Some n \<Rightarrow> ''Welcome back, '' @ hd (split_on (CHR '' '') n)
      | None \<Rightarrow> ''Overview'')"

definition attention_text :: "int \<Rightarrow> string" where
  "attention_text n =
     (if n > 0 then (if n = 1 then ''1 account needs attention'' else int_str n @ '' accounts need attention'')
      else ''Nothing needs attention right now'')"

datatype enforcement_notice = NotEnforcedNotice | UnknownNotice

text \<open>The notice about enforcement, and whether it links to the admin page.\<close>

definition enforcement_notice :: "bool \<Rightarrow> string option \<Rightarrow> bool \<Rightarrow> int \<Rightarrow> (enforcement_notice \<times> bool) option" where
  "enforcement_notice info_loaded policyEnforcement isAdmin locked_out =
     (let enforcement = coalesce policyEnforcement ''unknown'' in
      if info_loaded \<and> enforcement = ''not-enforced'' then Some (NotEnforcedNotice, isAdmin)
      else if info_loaded \<and> enforcement = ''unknown'' \<and> (isAdmin \<or> locked_out > 0) then Some (UnknownNotice, isAdmin)
      else None)"

record stat_card =
  sc_label :: string
  sc_value :: "int option"
  sc_hint :: "string option"
  sc_to :: string
  sc_status :: "status_filter option"

definition stat_cards :: "overview option \<Rightarrow> bool \<Rightarrow> stat_card list" where
  "stat_cards v canReadSettings =
     [\<lparr>sc_label = ''Users'', sc_value = map_option ov_users v,
        sc_hint = map_option (\<lambda>o'. int_str (ov_active o') @ '' active'') v, sc_to = ''/users'', sc_status = None\<rparr>,
      \<lparr>sc_label = ''Locked or expired'', sc_value = map_option (\<lambda>o'. cannotLogIn (Some o')) v,
        sc_hint = map_option (\<lambda>o'. int_str (ov_locked o') @ '' locked, '' @ int_str (ov_expired o') @ '' expired'') v,
        sc_to = ''/users'', sc_status = Some StatusInactive\<rparr>,
      \<lparr>sc_label = ''Groups'', sc_value = map_option ov_groups v, sc_hint = None, sc_to = ''/groups'', sc_status = None\<rparr>,
      \<lparr>sc_label = ''Sudo roles'', sc_value = map_option ov_sudoRoles v,
        sc_hint = (if canReadSettings then Some (int_str (coalesce (map_option ov_policies v) 0) @ '' password policies'') else None),
        sc_to = ''/sudo-roles'', sc_status = None\<rparr>]"

definition expiring_text :: "int \<Rightarrow> string" where
  "expiring_text days =
     (if days \<le> 0 then ''today'' else ''in '' @ int_str days @ '' day'' @ (if days = 1 then '''' else ''s''))"

text \<open>The target of a recent entry: its text, and whether it is a link.\<close>

definition activity_target :: "audit_log \<Rightarrow> (units \<times> bool) option" where
  "activity_target en =
     (let target = (case resourceName en of
            Some n \<Rightarrow> Some (units_of n)
          | None \<Rightarrow> (case al_resourceDn en of Some dn \<Rightarrow> if dn = [] then None else Some dn | None \<Rightarrow> None))
      in map_option (\<lambda>t. (t, resourceLink en \<noteq> None)) target)"

definition task_state :: "(string \<Rightarrow> string) \<Rightarrow> task_health \<Rightarrow> string" where
  "task_state relative task =
     (if th_overdue task then
        (case text_of (th_expectedAt task) of Some t \<Rightarrow> ''Missed its run '' @ relative t | None \<Rightarrow> ''Overdue'')
      else if map_option tr_status (th_lastRun task) = Some ''failed'' then ''Last run failed''
      else if th_lastRun task = None then ''Not run yet''
      else ''OK'')"

definition task_row :: "(string \<Rightarrow> string) \<Rightarrow> task_health \<Rightarrow> string list" where
  "task_row relative task =
     [taskLabel (th_taskName task), task_state relative task]
     @ (case th_lastRun task of
          Some r \<Rightarrow> [taskCheckedLabel (th_taskName task) (tr_usersChecked r),
                     taskNotifiedLabel (tr_notificationsSent r), ''last '' @ relative (tr_startedAt r)]
        | None \<Rightarrow> [])
     @ [''next '' @ relative (th_nextRun task)]"

record dashboard_view =
  dv_session :: "session option"
  dv_error :: "string option"
  dv_loading :: bool
  dv_overview :: "overview option"
  dv_infoLoaded :: bool
  dv_enforcement :: "string option"
  dv_audit :: "audit_log list option"
  dv_tasks :: "task_health list option"

definition dashboard_header :: "dashboard_view \<Rightarrow> control list" where
  "dashboard_header v =
     [Says (greeting (dv_session v)), Says (attention_text (needsAttention (dv_overview v)))]
     @ (if hasPermission (dv_session v) ''users:write''
        then [Links ''Import CSV'' ''/users/import'', Links ''New User'' ''/users/new''] else [])"

definition dashboard_notices :: "dashboard_view \<Rightarrow> control list" where
  "dashboard_notices v =
     (if coalesce (map_option ov_truncated (dv_overview v)) False
      then [Says ''The directory stopped short of counting every entry, so these figures are lower bounds.''] else [])
     @ (case enforcement_notice (dv_infoLoaded v) (dv_enforcement v)
            (map_option ses_roleName (dv_session v) = Some ''admin'') (cannotLogIn (dv_overview v)) of
          Some (NotEnforcedNotice, l) \<Rightarrow> Says ''The directory does not enforce locks or expiry.''
            # (if l then [Links ''See directory enforcement'' ''/admin''] else [])
        | Some (UnknownNotice, l) \<Rightarrow> Says ''Whether locks and expiry are enforced is not known yet.''
            # (if l then [Links ''Run the policy self-test'' ''/admin''] else [])
        | None \<Rightarrow> [])"

definition expiring_card :: "(string \<Rightarrow> int option) \<Rightarrow> dashboard_view \<Rightarrow> control list" where
  "expiring_card days v =
     Says ''Expiring within 30 days''
     # (if dv_loading v then []
        else (case dv_overview v of
                Some o' \<Rightarrow> if ov_expiring o' \<noteq> []
                  then concat (map (\<lambda>a. [Links (case text_of (ea_displayName a) of Some n \<Rightarrow> n | None \<Rightarrow> ea_uid a) ''/users/$dn'',
                    Says (case days (ea_expiresAt a) of Some d \<Rightarrow> expiring_text d | None \<Rightarrow> ''in NaN days'')]) (ov_expiring o'))
                  else [Says ''No account expires in the next 30 days.'']
              | None \<Rightarrow> [Says ''No account expires in the next 30 days.'']))"

definition activity_card :: "dashboard_view \<Rightarrow> control list" where
  "activity_card v =
     (if hasPermission (dv_session v) ''audit:read'' then
        Says ''Recent activity''
        # (case dv_audit v of
             None \<Rightarrow> []
           | Some [] \<Rightarrow> [Says ''Nothing recorded yet.'']
           | Some logs \<Rightarrow>
               concat (map (\<lambda>en. Says (al_action en) # Says (al_actorUid en)
                 # (case (activity_target en, resourceLink en) of
                      (Some _, Some (route, _)) \<Rightarrow> [Links '''' route] | _ \<Rightarrow> [])) logs)
               @ [Links ''View the audit log'' ''/audit-logs''])
      else [])"

definition tasks_card :: "(string \<Rightarrow> string) \<Rightarrow> dashboard_view \<Rightarrow> control list" where
  "tasks_card relative v =
     (if hasPermission (dv_session v) ''settings:read'' then
        Says ''Scheduled tasks''
        # (case dv_tasks v of
             None \<Rightarrow> []
           | Some [] \<Rightarrow> [Says ''Every scheduled task is disabled: no expiration notice is sent and no lockout is recorded.'']
           | Some ts \<Rightarrow> concat (map (\<lambda>t. map Says (task_row relative t)) ts)
               @ [Links ''Run history and manual runs'' ''/admin''])
      else [])"

definition dashboard :: "(string \<Rightarrow> string) \<Rightarrow> (string \<Rightarrow> int option) \<Rightarrow> dashboard_view \<Rightarrow> control list" where
  "dashboard relative days v =
     (case dv_error v of
        Some m \<Rightarrow> [Says (''Failed to load the dashboard: '' @ m)]
      | None \<Rightarrow>
          dashboard_header v @ dashboard_notices v
          @ map (\<lambda>c. Links (sc_label c) (sc_to c)) (stat_cards (dv_overview v) (hasPermission (dv_session v) ''settings:read''))
          @ expiring_card days v @ activity_card v @ tasks_card relative v)"

section \<open>Laws\<close>

lemma js_round_near: "\<bar>of_int (js_round x) - x\<bar> \<le> 1 / 2"
proof -
  have "of_int \<lfloor>x + 1 / 2\<rfloor> \<le> x + 1 / 2 \<and> x + 1 / 2 < of_int \<lfloor>x + 1 / 2\<rfloor> + 1"
    using floor_correct[of "x + 1 / 2"] by simp
  then show ?thesis unfolding js_round_def abs_le_iff by (simp add: field_simps)
qed

text \<open>The seconds of each unit, as the loop makes them.\<close>

definition unit_seconds :: "(string \<times> rat) list" where
  "unit_seconds = [(''second'', 1), (''minute'', 60), (''hour'', 3600), (''day'', 86400), (''month'', 2592000),
     (''year'', 31104000)]"

lemma scaled_near:
  fixes s k :: rat
  assumes "0 < k"
  shows "\<bar>of_int (- js_round (s / k)) * k + s\<bar> \<le> k / 2"
proof -
  have "\<bar>of_int (js_round (s / k)) - s / k\<bar> * k \<le> 1 / 2 * k"
    using js_round_near[of "s / k"] assms by (intro mult_right_mono) auto
  moreover have "\<bar>of_int (js_round (s / k)) - s / k\<bar> * k = \<bar>(of_int (js_round (s / k)) - s / k) * k\<bar>"
    using assms by (simp add: abs_mult)
  moreover have "(of_int (js_round (s / k)) - s / k) * k = - (of_int (- js_round (s / k)) * k + s)"
    using assms by (simp add: left_diff_distrib)
  ultimately show ?thesis by (simp only: abs_minus_cancel)
qed

text \<open>
  The time in words is off by at most half its unit, and always in the largest unit the time fills:
  some unit is found for every distance, the fallback to a date is never taken, and anything but
  seconds is at least one whole unit away.
\<close>

theorem relative_time_close:
  "\<exists>n u k. pick_unit s time_units = Some (n, u) \<and> map_of unit_seconds u = Some k \<and>
     \<bar>of_int n * k + s\<bar> \<le> k / 2 \<and> (u = ''second'' \<or> k \<le> \<bar>s\<bar>)"
proof -
  have n: "\<bar>of_int (- js_round (s / k)) * k + s\<bar> \<le> k / 2" if "k \<in> {1, 60, 3600, 86400, 2592000, 31104000}" for k :: rat
    using that by (intro scaled_near) auto
  consider "\<bar>s\<bar> < 60" | "60 \<le> \<bar>s\<bar>" "\<bar>s\<bar> < 3600" | "3600 \<le> \<bar>s\<bar>" "\<bar>s\<bar> < 86400" | "86400 \<le> \<bar>s\<bar>" "\<bar>s\<bar> < 2592000"
    | "2592000 \<le> \<bar>s\<bar>" "\<bar>s\<bar> < 31104000" | "31104000 \<le> \<bar>s\<bar>" by linarith
  then show ?thesis
    by cases (use n[of 1] n[of 60] n[of 3600] n[of 86400] n[of 2592000] n[of 31104000] in
      \<open>simp_all add: time_units_def unit_seconds_def abs_divide\<close>)
qed

text \<open>Just short of an hour is sixty minutes, just short of a day twenty-four hours.\<close>

lemma unit_overflows:
  "pick_unit 3599 time_units = Some (- 60, ''minute'')"
  "pick_unit 86399 time_units = Some (- 24, ''hour'')"
  by (simp_all add: time_units_def js_round_def floor_eq_iff)

text \<open>The dashboard and the list of users count the same days to an expiry.\<close>

lemma days_agree:
  "new_date f instant = accountExpiration user \<Longrightarrow> accountExpiration user = Some e \<Longrightarrow> daysUntil f now instant = Some (days_until now e)"
  by (simp add: daysUntil_def)

text \<open>
  The cards lead to lists whatever modules the deployment has, and the last link to the admin page whatever
  the role: the guards send the session back to the dashboard it came from.
\<close>

lemma card_bounces:
  assumes "dv_error v = None" "dv_session v = Some ses" "\<not> moduleAvailable MSudo (Some info)"
  shows "Links ''Sudo roles'' ''/sudo-roles'' \<in> set (dashboard relative days v) \<and>
    sudo_list_guard (dv_session v) (Some info) = Redirect ''/''"
  using assms by (simp add: dashboard_def stat_cards_def guard_defs and_then_def require_login_def requireModule_def)

lemma admin_link_bounces:
  assumes "dv_error v = None" "dv_session v = Some ses" "hasPermission (Some ses) ''settings:read''"
    and "ses_roleName ses \<noteq> ''admin''" "dv_tasks v = Some (t # ts)"
  shows "Links ''Run history and manual runs'' ''/admin'' \<in> set (dashboard relative days v) \<and>
    admin_guard (dv_session v) info = Redirect ''/''"
  using assms by (simp add: dashboard_def tasks_card_def guard_defs and_then_def require_login_def)

end
