(* ===== verification/Admin_Page.thy ===== *)
theory Admin_Page
  imports Dashboard
begin

text \<open>
  The administration page (\<open>routes/admin.tsx\<close>): the configuration it shows, the scheduled tasks and their
  manual runs, the LDIF export and the policy self-test. \<open>String\<close> of a number, the date formatter and the dash
  are arguments.
\<close>

section \<open>Configuration values\<close>

datatype config_source = FromEnv | FromFile | FromDefault

datatype config_data = CText string | CNumber rat | CBool bool | CList "string list"

record config_value =
  cv_value :: config_data
  cv_source :: config_source
  cv_envVar :: "string option"

definition source_label :: "config_source \<Rightarrow> string" where
  "source_label s = (case s of FromEnv \<Rightarrow> ''Environment'' | FromFile \<Rightarrow> ''Secret file'' | FromDefault \<Rightarrow> ''Default'')"

definition displayValue :: "(rat \<Rightarrow> string) \<Rightarrow> config_value \<Rightarrow> string" where
  "displayValue number_text c =
     (case cv_value c of CText s \<Rightarrow> s | CNumber r \<Rightarrow> number_text r
      | CBool b \<Rightarrow> if b then ''true'' else ''false'' | CList xs \<Rightarrow> join_with '', '' xs)"

text \<open>\<open>ConfigField\<close>: label, where the value comes from, the read-only value, description and variable.\<close>

definition ConfigField :: "(rat \<Rightarrow> string) \<Rightarrow> string \<Rightarrow> string \<Rightarrow> config_value \<Rightarrow> control list" where
  "ConfigField number_text label description c =
     [Says (source_label (cv_source c)), Shows label (displayValue number_text c), Says description]
     @ (case text_of (cv_envVar c) of Some v \<Rightarrow> [Says v] | None \<Rightarrow> [])"

text \<open>The fields of each card, in order: section and key of the configuration, label, description.\<close>

definition directory_fields :: "string \<Rightarrow> (string \<times> string \<times> string \<times> string) list" where
  "directory_fields dash = [
     (''server'', ''host'', ''Host'', ''Bind address for the HTTP server''),
     (''server'', ''port'', ''Port'', ''Port number for the HTTP server''),
     (''database'', ''url'', ''Connection URL'', ''PostgreSQL connection string (password masked)''),
     (''ldap'', ''url'', ''Server URL'', ''LDAP server URL''),
     (''ldap'', ''baseDn'', ''Base DN'', ''Base Distinguished Name''),
     (''ldap'', ''bindDn'', ''Bind DN'', ''DN used for binding to LDAP''),
     (''ldap'', ''userOu'', ''Users OU'', ''Organizational Unit for users''),
     (''ldap'', ''groupOu'', ''Groups OU'', ''Organizational Unit for groups''),
     (''ldap'', ''sudoersOu'', ''Sudoers OU'', ''Organizational Unit for sudo roles''),
     (''ldap'', ''ppolicyOu'', ''Password Policies OU'', ''Organizational Unit for password policies''),
     (''ldap'', ''defaultPolicyDn'', ''Default Policy DN'',
       ''The policy in olcPPolicyDefault, which applies to entries with no pwdPolicySubentry. Not readable from ''
       @ ''cn=config, so it has to be declared here '' @ dash @ '' without it a ppolicy lockout cannot be told from ''
       @ ''one that has already expired.''),
     (''ldap'', ''minUid'', ''Min UID'', ''Minimum UID for new users''),
     (''ldap'', ''minGid'', ''Min GID'', ''Minimum GID for new groups''),
     (''ldap'', ''tlsMode'', ''TLS Mode'', ''none, ssl, or starttls''),
     (''ldap'', ''tlsSkipVerify'', ''TLS Skip Verify'', ''Skip certificate verification''),
     (''ldap'', ''tlsCaFile'', ''TLS CA File'',
       ''PEM bundle the directory'' @ [CHR 0x27] @ ''s certificate is checked against, instead of the system CAs''),
     (''ldap'', ''tlsCertFile'', ''TLS Client Certificate'', ''Presented to a directory that requires one''),
     (''ldap'', ''tlsKeyFile'', ''TLS Client Key'', ''Private key of the client certificate'')]"

definition app_fields :: "(string \<times> string \<times> string \<times> string) list" where
  "app_fields = [
     (''session'', ''ttl'', ''Session TTL'', ''Session time-to-live duration''),
     (''app'', ''adminGroup'', ''Admin Group'', ''LDAP group that grants admin privileges''),
     (''app'', ''organization'', ''Organization'', ''Organization name for emails''),
     (''app'', ''publicUrl'', ''Public URL'', ''Public URL for password reset links''),
     (''app'', ''modules'', ''Modules'', ''Enabled high-level modules (tabs)''),
     (''app'', ''usersObjects'', ''Users Objects'', ''LDAP objectClasses for users''),
     (''app'', ''groupsObjects'', ''Groups Objects'', ''LDAP objectClasses for groups''),
     (''mail'', ''host'', ''Host'', ''SMTP server hostname''),
     (''mail'', ''port'', ''Port'', ''SMTP server port''),
     (''mail'', ''ssl'', ''SSL Mode'', ''none, starttls, or ssl''),
     (''mail'', ''user'', ''User'', ''SMTP username''),
     (''mail'', ''password'', ''Password'', ''SMTP password (masked)''),
     (''mail'', ''from'', ''From Address'', ''Sender email address'')]"

definition config_fields :: "string \<Rightarrow> (string \<times> string \<times> string \<times> string) list" where
  "config_fields dash = directory_fields dash @ app_fields"

section \<open>Scheduled tasks\<close>

datatype admin_task = UsersExpiration | PasswordsExpiration | LockoutScan

definition task_name :: "admin_task \<Rightarrow> string" where
  "task_name t = (case t of UsersExpiration \<Rightarrow> ''users_expiration'' | PasswordsExpiration \<Rightarrow> ''passwords_expiration''
     | LockoutScan \<Rightarrow> ''lockouts_scan'')"

definition task_trigger :: "admin_task \<Rightarrow> request" where
  "task_trigger t = (case t of UsersExpiration \<Rightarrow> admin_scheduledTasks_triggerUsersExpiration
     | PasswordsExpiration \<Rightarrow> admin_scheduledTasks_triggerPasswordsExpiration
     | LockoutScan \<Rightarrow> admin_scheduledTasks_triggerLockoutScan)"

definition config_truthy :: "config_value option \<Rightarrow> bool" where
  "config_truthy c = (case map_option cv_value c of None \<Rightarrow> False | Some (CText s) \<Rightarrow> s \<noteq> ''''
     | Some (CNumber r) \<Rightarrow> r \<noteq> 0 | Some (CBool b) \<Rightarrow> b | Some (CList xs) \<Rightarrow> True)"

text \<open>The schedule of the task when it is known, which tasks are running, and the card of one.\<close>

definition task_card :: "(rat \<Rightarrow> string) \<Rightarrow> (admin_task \<Rightarrow> config_value option) \<Rightarrow> admin_task set \<Rightarrow> admin_task \<Rightarrow> control list" where
  "task_card number_text schedule pending t =
     [Says (taskLabel (task_name t)),
      Says (if config_truthy (schedule t) then displayValue number_text (the (schedule t)) else ''Disabled''),
      Presses ''Run Now'' (\<not> (t \<in> pending \<or> \<not> config_truthy (schedule t)))]"

record trigger_result =
  tg_usersChecked :: int
  tg_notificationsSent :: int
  tg_errors :: "string list option"

text \<open>\<open>reportRun\<close>: the list of runs is read again, the counts are told, and errors are reported.\<close>

definition reportRun :: "admin_task \<Rightarrow> trigger_result \<Rightarrow> page_effect list" where
  "reportRun t r =
     [Refresh [''admin'', ''scheduled-tasks'', ''runs''],
      Toasted (ToastSuccess (taskLabel (task_name t) @ '' completed: '' @ taskCheckedLabel (task_name t) (tg_usersChecked r)
        @ '', '' @ taskNotifiedLabel (tg_notificationsSent r))),
      Reported \<lparr>oc_title = taskLabel (task_name t) @ '' completed with errors'',
        oc_description = Some ''The run finished, but these steps failed. The accounts they concern were not handled.'',
        oc_items = coalesce (tg_errors r) [], oc_tone = Some ToneError\<rparr>]"

record listed_run =
  lr_taskName :: string
  lr_status :: string
  lr_triggeredBy :: string
  lr_usersChecked :: int
  lr_notificationsSent :: int
  lr_startedAt :: string

definition run_row :: "(string \<Rightarrow> string) \<Rightarrow> listed_run \<Rightarrow> string list" where
  "run_row instant_text r =
     [taskLabel (lr_taskName r), lr_triggeredBy r, taskCheckedLabel (lr_taskName r) (lr_usersChecked r),
      taskNotifiedLabel (lr_notificationsSent r), instant_text (lr_startedAt r)]"

definition runs_shown :: "(string \<Rightarrow> string) \<Rightarrow> listed_run list option \<Rightarrow> string list list" where
  "runs_shown instant_text runs =
     (case runs of None \<Rightarrow> [[''No task runs yet'']] | Some [] \<Rightarrow> [[''No task runs yet'']]
      | Some rs \<Rightarrow> map (run_row instant_text) (take 5 rs))"

section \<open>Directory export\<close>

definition EXPORT_SCOPE_OPTIONS :: "(string \<times> string) list" where
  "EXPORT_SCOPE_OPTIONS = [(''sub'', ''The entry and everything under it''),
     (''one'', ''The entries directly under it''), (''base'', ''The entry alone'')]"

record export_form =
  ef_base :: string
  ef_scope :: string
  ef_operational :: bool

definition export_start :: "string \<Rightarrow> export_form" where
  "export_start defaultBase = \<lparr>ef_base = defaultBase, ef_scope = ''sub'', ef_operational = False\<rparr>"

text \<open>The address of the download, when there is one.\<close>

definition export_link :: "export_form \<Rightarrow> string option" where
  "export_link s =
     (if trim (ef_base s) \<noteq> '''' then Some (admin_exportUrl (trim (ef_base s)) (ef_scope s) (ef_operational s)) else None)"

definition export_card :: "export_form \<Rightarrow> control list" where
  "export_card s =
     [Edits ''base'' ''Base DN'' TextIn '''' True, Edits ''scope'' ''Scope'' (SelectIn EXPORT_SCOPE_OPTIONS) '''' True,
      Edits ''operational'' ''Include every operational attribute'' SwitchIn '''' True,
      Says ''The file contains every password hash in the export. Store it like any other secret.'']
     @ (case export_link s of Some url \<Rightarrow> [Links ''Download LDIF'' url] | None \<Rightarrow> [Presses ''Download LDIF'' False])"

section \<open>The policy self-test\<close>

record selftest_result =
  st_result :: string
  st_probeDn :: string
  st_steps :: "string list"
  st_cleanedUp :: bool
  st_detail :: "string option"

record enforcement_card =
  ec_confirmOpen :: bool
  ec_pending :: bool
  ec_result :: "selftest_result option"

datatype selftest_event = AskSelftest | DismissSelftest | ConfirmSelftest | SelftestDone "(string, selftest_result) result"

datatype selftest_effect = SelftestRefresh "string list" | SelftestSuccess string | SelftestWarning string | SelftestError string

definition enforcement_mount :: enforcement_card where
  "enforcement_mount = \<lparr>ec_confirmOpen = False, ec_pending = False, ec_result = None\<rparr>"

definition selftest_verdict :: "string \<Rightarrow> selftest_effect" where
  "selftest_verdict r =
     (if r = ''enforced'' then SelftestSuccess ''The directory enforces the password policy''
      else if r = ''not-enforced'' then SelftestWarning ''The directory does not enforce any password policy''
      else SelftestWarning ''The self-test could not reach a conclusion'')"

text \<open>A step, with the request it sends and what it tells. The buttons that are disabled do nothing.\<close>

definition selftest_step :: "selftest_event \<Rightarrow> enforcement_card \<Rightarrow> enforcement_card \<times> request option \<times> selftest_effect list" where
  "selftest_step e s =
     (case e of
        AskSelftest \<Rightarrow> (if ec_pending s then (s, None, []) else (s\<lparr>ec_confirmOpen := True\<rparr>, None, []))
      | DismissSelftest \<Rightarrow> (s\<lparr>ec_confirmOpen := False\<rparr>, None, [])
      | ConfirmSelftest \<Rightarrow>
          (if ec_confirmOpen s \<and> \<not> ec_pending s then (s\<lparr>ec_pending := True\<rparr>, Some admin_policySelfTest, []) else (s, None, []))
      | SelftestDone (Inl m) \<Rightarrow> (s\<lparr>ec_pending := False\<rparr>, None, [SelftestError m])
      | SelftestDone (Inr r) \<Rightarrow>
          (s\<lparr>ec_pending := False, ec_confirmOpen := False, ec_result := Some r\<rparr>, None,
           [SelftestRefresh [''admin'', ''config''], selftest_verdict (st_result r)]))"

text \<open>The state of the policy on the card: label and explanation.\<close>

definition enforcement_state :: "string \<Rightarrow> string option \<Rightarrow> string \<times> string" where
  "enforcement_state dash policyEnforcement =
     (let enforcement = coalesce policyEnforcement ''unknown'' in
      if enforcement = ''enforced'' then
        (''Enforced'', ''A password policy applies. Locking an account and expiring it will be honoured by the directory.'')
      else if enforcement = ''not-enforced'' then
        (''Not enforced'', ''No password policy applies. Locking and account expiry will be written to the directory and ignored ''
           @ dash @ '' accounts will keep authenticating. Set olcPPolicyDefault on the ppolicy overlay, or a pwdPolicySubentry on each entry.'')
      else if enforcement = ''unknown'' then
        (''Unknown'', ''This bind identity cannot read cn=config, which is normal. Every other signal is identical whether or not a policy ''
           @ ''applies, so the app will not guess. Run the self-test for a definitive answer.'')
      else (enforcement, ''''))"

definition selftest_text :: "selftest_result \<Rightarrow> string list" where
  "selftest_text r =
     [if st_result r = ''enforced'' then ''Enforced: a locked probe account was refused.''
      else if st_result r = ''not-enforced'' then ''Not enforced: a locked probe account authenticated anyway.''
      else ''Inconclusive.'']
     @ (case text_of (st_detail r) of Some d \<Rightarrow> [d] | None \<Rightarrow> [])
     @ st_steps r
     @ (if \<not> st_cleanedUp r then [''The probe entry could not be removed.'', st_probeDn r] else [])"

definition enforcement_controls :: "string \<Rightarrow> string option \<Rightarrow> bool \<Rightarrow> enforcement_card \<Rightarrow> control list" where
  "enforcement_controls dash policyEnforcement scheduledExpiry s =
     [Says (if scheduledExpiry then ''Supported'' else ''Unavailable''),
      Says (fst (enforcement_state dash policyEnforcement)), Says (snd (enforcement_state dash policyEnforcement)),
      Presses (if ec_pending s then ''Testing...'' else ''Run self-test'') (\<not> ec_pending s)]
     @ (case ec_result s of Some r \<Rightarrow> map Says (selftest_text r) | None \<Rightarrow> [])"

section \<open>The page\<close>

text \<open>
  What is shown: the skeleton, an error, or the page. With no configuration and no error the page reads a
  property of \<open>undefined\<close>: that is the case \<open>AdminThrows\<close>.
\<close>

datatype 'a admin_shown = AdminLoading | AdminFailed string | AdminThrows | AdminShows 'a

definition AdminPage :: "bool \<Rightarrow> string option \<Rightarrow> 'a option \<Rightarrow> 'a admin_shown" where
  "AdminPage isLoading error config =
     (if isLoading then AdminLoading
      else case error of Some m \<Rightarrow> AdminFailed (''Failed to load configuration: '' @ m)
      | None \<Rightarrow> (case config of None \<Rightarrow> AdminThrows | Some c \<Rightarrow> AdminShows c))"

text \<open>
  The query of the configuration is enabled by \<open>settings:read\<close>; while it is disabled it neither loads nor
  fails nor has data.
\<close>

definition admin_query :: "bool \<Rightarrow> bool \<Rightarrow> string option \<Rightarrow> 'a option \<Rightarrow> bool \<times> string option \<times> 'a option" where
  "admin_query enabled isLoading error config = (if enabled then (isLoading, error, config) else (False, None, None))"

section \<open>The roles of the server\<close>

text \<open>\<open>DefaultRoles\<close> of the server: the permissions a session of each role has.\<close>

definition default_roles :: "(string \<times> string list) list" where
  "default_roles =
     [(''admin'', [''users:read'', ''users:write'', ''users:delete'', ''groups:read'', ''groups:write'', ''groups:delete'',
        ''audit:read'', ''schema:read'', ''schema:write'', ''settings:read'', ''settings:write'']),
      (''readonly'', [''users:read'', ''groups:read'', ''schema:read''])]"

definition has_role :: "session \<Rightarrow> bool" where
  "has_role ses \<longleftrightarrow>
     (case map_of default_roles (ses_roleName ses) of Some ps \<Rightarrow> ses_permissions ses = ps | None \<Rightarrow> False)"

section \<open>Laws\<close>

text \<open>The configuration values of a schema: section and key.\<close>

fun value_keys :: "schema \<Rightarrow> (string \<times> string) list" where
  "value_keys (ZObject fs) =
     concat (map (\<lambda>(s, f). case f of ZObject gs \<Rightarrow> map (\<lambda>(k, g). (s, k)) (filter (\<lambda>(k, g). g = ConfigValueSchema) gs) | _ \<Rightarrow> []) fs)"
| "value_keys _ = []"

text \<open>Every configuration value the response has to have is shown, once, and no other is read.\<close>

lemma config_shown_once:
  "mset (map (\<lambda>(s, k, l, d). (s, k)) (config_fields dash)) = mset (value_keys ConfigResponseSchema)"
  by (simp add: config_fields_def directory_fields_def app_fields_def ConfigResponseSchema_def)

text \<open>The page throws only without \<open>settings:read\<close>, which no session the guard lets in with a role of the server lacks.\<close>

lemma admin_page_never_throws:
  assumes "admin_guard (Some ses) info = Pass" "has_role ses"
    and "isLoading \<or> error \<noteq> None \<or> config \<noteq> None"
  shows "(case admin_query (hasPermission (Some ses) ''settings:read'') isLoading error config of
      (l, e, c) \<Rightarrow> AdminPage l e c) \<noteq> AdminThrows"
proof -
  have "ses_roleName ses = ''admin''"
    using assms(1) by (simp add: guard_defs and_then_def require_login_def split: if_splits)
  then have "hasPermission (Some ses) ''settings:read''"
    using assms(2) by (auto simp: has_role_def default_roles_def hasPermission_def)
  then show ?thesis using assms(3) by (auto simp: admin_query_def AdminPage_def split: option.split)
qed

text \<open>The cards name the tasks the scheduler knows, and every error of a run is reported.\<close>

lemma tasks_named: "map task_name [UsersExpiration, PasswordsExpiration, LockoutScan] = map fst TASKS"
  by (simp add: task_name_def TASKS_def)

lemma run_errors_reported:
  "\<exists>oc. Reported oc \<in> set (reportRun t r) \<and> oc_items oc = coalesce (tg_errors r) []"
  by (auto simp: reportRun_def)

text \<open>The server reads the export's base, scope and choice as they are on the form, the base trimmed.\<close>

lemma export_reads_back:
  assumes "export_link s = Some url"
  shows "read_query (query_of url) =
    as_read ([(''base'', trim (ef_base s)), (''scope'', ef_scope s)] @ (if ef_operational s then [(''operational'', ''true'')] else []))"
proof -
  have "url = (API_BASE @ ''/admin/export'') @
      query_suffix ([(''base'', trim (ef_base s)), (''scope'', ef_scope s)] @ (if ef_operational s then [(''operational'', ''true'')] else []))"
    using assms by (simp add: export_link_def admin_exportUrl_def query_suffix_def search_params_Nil Let_def split: if_splits)
  then show ?thesis using query_of_suffix[of "API_BASE @ ''/admin/export''"] by (simp add: API_BASE_def)
qed

text \<open>The self-test: the answers there can be come from the requests made, one at a time.\<close>

inductive selftest_reach :: "enforcement_card \<Rightarrow> nat \<Rightarrow> nat \<Rightarrow> bool" where
  selftest_init: "selftest_reach enforcement_mount 0 0"
| selftest_more: "selftest_reach s sent done \<Longrightarrow> (case e of SelftestDone r \<Rightarrow> ec_pending s | _ \<Rightarrow> True) \<Longrightarrow>
     selftest_reach (fst (selftest_step e s))
       (sent + (if fst (snd (selftest_step e s)) = None then 0 else 1))
       (done + (case e of SelftestDone r \<Rightarrow> 1 | _ \<Rightarrow> 0))"

lemma selftest_one_at_a_time:
  "selftest_reach s sent done \<Longrightarrow> sent = done + (if ec_pending s then 1 else 0)"
  by (induction rule: selftest_reach.induct)
     (auto simp: enforcement_mount_def selftest_step_def split: selftest_event.splits sum.splits if_splits)

text \<open>
  A verdict refreshes the configuration of this page only: the server information, which the dashboard and
  the Security tab read and which never goes stale on its own, keeps the old one.
\<close>

lemma verdict_not_spread:
  "snd (snd (selftest_step (SelftestDone (Inr r)) s)) = [SelftestRefresh [''admin'', ''config''], selftest_verdict (st_result r)]"
  by (simp add: selftest_step_def)

end
