(* ===== verification/Page_Access.thy ===== *)
theory Page_Access
  imports Audit_Page New_Pages Group_Page Dashboard Admin_Page
begin

text \<open>
  What the pages ask of the server: for each route the calls its page makes by itself (its queries, with the
  condition that enables each) and the calls its controls make (its mutations, with the permission under which
  the control is there). A call of a dialog counts for the page that can open it. The theorem compares
  them with the permissions of the server's routes, for the roles the server has.
\<close>

section \<open>The calls\<close>

text \<open>What the calls are about: the entry shown, another one, a search, filters, a body, a text, a date.\<close>

record call_args =
  cl_dn :: string
  cl_other :: string
  cl_params :: "list_params option"
  cl_filters :: "(string \<times> query_value option) list"
  cl_body :: json
  cl_text :: string
  cl_rows :: "json list"
  cl_date :: "string option"

type_synonym calls = "(string \<Rightarrow> bool) \<Rightarrow> server_info option \<Rightarrow> call_args \<Rightarrow> request list"

definition given :: "bool \<Rightarrow> 'a list \<Rightarrow> 'a list" where
  "given c xs = (if c then xs else [])"

text \<open>A module as the detail pages ask for it: its name, in lower case.\<close>

definition module_on :: "string \<Rightarrow> server_info option \<Rightarrow> bool" where
  "module_on m info \<longleftrightarrow> m \<in> to_lower ` set (useEnabledModules info)"

definition dashboard_calls :: calls where
  "dashboard_calls may info a =
     overview_get # given (may ''audit:read'') [auditLogs_list (Some (cl_filters a))]
     @ given (may ''settings:read'') [admin_scheduledTasks_getHealth]"

definition bulk_calls :: calls where
  "bulk_calls may info a =
     [users_unlock (cl_dn a), users_lock (cl_dn a), groups_list (cl_params a), groups_addMember (cl_other a) (cl_text a),
      groups_removeMember (cl_other a) (cl_text a), users_setExpiration (cl_dn a) (cl_date a)]
     @ given (may ''users:delete'') [users_delete (cl_dn a)]"

definition users_page_calls :: calls where
  "users_page_calls may info a = users_list (cl_params a) # given (may ''users:write'') (bulk_calls may info a)"

definition user_identity_calls :: calls where
  "user_identity_calls may info a = given (may ''users:write'')
     [groups_list (cl_params a), users_list (cl_params a), groups_addMember (cl_other a) (cl_text a),
      groups_removeMember (cl_other a) (cl_text a), users_update (cl_dn a) (cl_body a)]"

definition user_posix_calls :: calls where
  "user_posix_calls may info a =
     given (may ''users:write'') [users_update (cl_dn a) (cl_body a), users_changePosixIds (cl_dn a) (cl_body a)]"

definition user_ssh_calls :: calls where
  "user_ssh_calls may info a =
     given (may ''users:write'') [users_addSSHKey (cl_dn a) (cl_text a), users_removeSSHKey (cl_dn a) (cl_text a)]"

definition user_samba_calls :: calls where
  "user_samba_calls may info a = given (may ''users:write'') [users_updateSamba (cl_dn a) (cl_body a)]"

definition user_shadow_calls :: calls where
  "user_shadow_calls may info a = given (may ''users:write'') [users_updateShadow (cl_dn a) (cl_body a)]"

definition user_sudo_calls :: calls where
  "user_sudo_calls may info a =
     users_getSudoRoles (cl_dn a) # given (moduleAvailable MNetgroups info) [users_getNetgroups (cl_dn a)]
     @ given (may ''users:write'') [sudoRoles_list (cl_params a), sudoRoles_addUser (cl_other a) (cl_text a),
         sudoRoles_removeUser (cl_other a) (cl_text a)]"

definition user_security_calls :: calls where
  "user_security_calls may info a =
     given (module_on ''policies'' info) [passwordPolicies_list (cl_params a)]
     @ given (may ''users:write'')
         [users_changeUid (cl_dn a) (cl_text a), users_update (cl_dn a) (cl_body a), users_removePassword (cl_dn a),
          users_changePassword (cl_dn a) (cl_text a), users_lock (cl_dn a), users_unlock (cl_dn a),
          users_setExpiration (cl_dn a) (cl_date a), users_sendPasswordReset (cl_dn a)]
     @ given (may ''users:delete'') [users_delete (cl_dn a)]"

definition user_page_calls :: calls where
  "user_page_calls may info a =
     [users_get (cl_dn a), users_getGroups (cl_dn a)] @ user_identity_calls may info a @ user_posix_calls may info a
     @ user_ssh_calls may info a @ user_samba_calls may info a @ user_shadow_calls may info a
     @ given (module_on ''sudo'' info) (user_sudo_calls may info a) @ user_security_calls may info a"

definition new_user_calls :: calls where
  "new_user_calls may info a = [nextIds_get, groups_list (cl_params a), users_create (cl_body a)]"

definition users_import_calls :: calls where
  "users_import_calls may info a = [users_import (cl_rows a)]"

definition groups_page_calls :: calls where
  "groups_page_calls may info a = groups_list (cl_params a) # given (may ''groups:delete'') [groups_delete (cl_dn a)]"

definition group_sudo_calls :: calls where
  "group_sudo_calls may info a =
     groups_getSudoRoles (cl_dn a)
     # given (may ''groups:write'') [sudoRoles_list (cl_params a), sudoRoles_addGroup (cl_other a) (cl_text a),
         sudoRoles_removeGroup (cl_other a) (cl_text a)]"

definition group_page_calls :: calls where
  "group_page_calls may info a =
     [groups_get (cl_dn a), groups_members (cl_dn a)]
     @ given (may ''groups:write'')
         [groups_update (cl_dn a) (cl_body a), users_list (cl_params a), groups_addMember (cl_dn a) (cl_text a),
          groups_removeMember (cl_dn a) (cl_text a), groups_changeCn (cl_dn a) (cl_text a), groups_updateSamba (cl_dn a) (cl_body a)]
     @ given (module_on ''sudo'' info) (group_sudo_calls may info a)
     @ given (may ''groups:delete'') [groups_delete (cl_dn a)]"

definition new_group_calls :: calls where
  "new_group_calls may info a = [nextIds_get, groups_create (cl_body a)]"

definition groups_import_calls :: calls where
  "groups_import_calls may info a = [groups_import (cl_rows a)]"

definition netgroups_page_calls :: calls where
  "netgroups_page_calls may info a = netgroups_list (cl_params a) # given (may ''groups:delete'') [netgroups_delete (cl_dn a)]"

text \<open>The editor of triples searches the users whether or not they can be edited.\<close>

definition netgroup_page_calls :: calls where
  "netgroup_page_calls may info a =
     [netgroups_get (cl_dn a), netgroups_expand (cl_dn a), netgroups_getSudoRoles (cl_dn a), users_list (cl_params a)]
     @ given (may ''groups:write'') [netgroups_update (cl_dn a) (cl_body a)]
     @ given (may ''groups:delete'') [netgroups_delete (cl_dn a)]"

definition new_netgroup_calls :: calls where
  "new_netgroup_calls may info a = [users_list (cl_params a), netgroups_create (cl_body a)]"

definition netgroups_import_calls :: calls where
  "netgroups_import_calls may info a = [netgroups_import (cl_rows a)]"

definition sudo_roles_page_calls :: calls where
  "sudo_roles_page_calls may info a = sudoRoles_list (cl_params a) # given (may ''users:delete'') [sudoRoles_delete (cl_dn a)]"

text \<open>The netgroups a rule names are looked up, and those found expanded; the picker searches them.\<close>

definition rule_netgroup_calls :: calls where
  "rule_netgroup_calls may info a =
     given (moduleAvailable MNetgroups info)
       [name_lookup (cl_text a), netgroups_expand (cl_other a), netgroups_list (cl_params a)]"

definition sudo_role_page_calls :: calls where
  "sudo_role_page_calls may info a =
     sudoRoles_get (cl_dn a) # rule_netgroup_calls may info a
     @ given (may ''users:write'') [sudoRoles_update (cl_dn a) (cl_body a)]
     @ given (may ''users:delete'') [sudoRoles_delete (cl_dn a)]"

definition new_sudo_role_calls :: calls where
  "new_sudo_role_calls may info a = rule_netgroup_calls may info a @ [sudoRoles_create (cl_body a)]"

definition policies_page_calls :: calls where
  "policies_page_calls may info a =
     passwordPolicies_list (cl_params a) # given (may ''settings:write'') [passwordPolicies_delete (cl_dn a)]"

definition policy_page_calls :: calls where
  "policy_page_calls may info a =
     passwordPolicies_get (cl_dn a)
     # given (may ''settings:write'') [passwordPolicies_update (cl_dn a) (cl_body a), passwordPolicies_delete (cl_dn a)]"

definition new_policy_calls :: calls where
  "new_policy_calls may info a = [passwordPolicies_create (cl_body a)]"

definition audit_page_calls :: calls where
  "audit_page_calls may info a =
     [auditLogs_list (Some (cl_filters a)), auditLogs_actors, directoryChanges_list (cl_filters a)]"

definition admin_page_calls :: calls where
  "admin_page_calls may info a =
     given (may ''settings:read'') [admin_getConfig, admin_scheduledTasks_getConfig, admin_scheduledTasks_getRuns None]
     @ [admin_scheduledTasks_triggerUsersExpiration, admin_scheduledTasks_triggerPasswordsExpiration,
        admin_scheduledTasks_triggerLockoutScan, admin_policySelfTest]"

text \<open>Around every page: the picture of the operator, the password dialog, signing out, and the palette's searches.\<close>

definition palette_calls :: "nav_section list \<Rightarrow> list_params option \<Rightarrow> request list" where
  "palette_calls secs params =
     concat (map (\<lambda>s. case sec_key s of
         SecUsers \<Rightarrow> [users_list params] | SecGroups \<Rightarrow> [groups_list params] | SecNetgroups \<Rightarrow> [netgroups_list params]
       | SecSudo \<Rightarrow> [sudoRoles_list params] | SecPolicies \<Rightarrow> [passwordPolicies_list params] | SecAudit \<Rightarrow> []) secs)"

definition shell_calls :: "session option \<Rightarrow> server_info option \<Rightarrow> call_args \<Rightarrow> request list" where
  "shell_calls ses info a =
     [auth_avatar, serverInfo, auth_changePassword (cl_text a) (cl_text a), auth_logout]
     @ palette_calls (useSections ses info) (cl_params a)"

definition page_calls :: "(string \<times> calls) list" where
  "page_calls = [
     (''/'', dashboard_calls),
     (''/users'', users_page_calls), (''/users/$dn'', user_page_calls),
     (''/users/new'', new_user_calls), (''/users/import'', users_import_calls),
     (''/groups'', groups_page_calls), (''/groups/$dn'', group_page_calls),
     (''/groups/new'', new_group_calls), (''/groups/import'', groups_import_calls),
     (''/sudo-roles'', sudo_roles_page_calls), (''/sudo-roles/$dn'', sudo_role_page_calls),
     (''/sudo-roles/new'', new_sudo_role_calls),
     (''/netgroups'', netgroups_page_calls), (''/netgroups/$dn'', netgroup_page_calls),
     (''/netgroups/new'', new_netgroup_calls), (''/netgroups/import'', netgroups_import_calls),
     (''/password-policies'', policies_page_calls), (''/password-policies/$dn'', policy_page_calls),
     (''/password-policies/new'', new_policy_calls),
     (''/audit-logs'', audit_page_calls), (''/admin'', admin_page_calls)]"

lemma every_route_has_its_calls: "map fst page_calls = map fst route_guards"
  by (simp add: page_calls_def route_guards_def)

section \<open>What the server admits\<close>

definition served :: "string list \<Rightarrow> request list \<Rightarrow> bool" where
  "served permissions rs \<longleftrightarrow> (\<forall>r \<in> set rs. \<exists>x. required r = Some x \<and> admitted (Some permissions) x)"

lemma served_simps [simp]:
  "served ps []"
  "served ps (r # rs) \<longleftrightarrow> (\<exists>x. required r = Some x \<and> admitted (Some ps) x) \<and> served ps rs"
  "served ps (rs @ qs) \<longleftrightarrow> served ps rs \<and> served ps qs"
  "served ps (given c rs) \<longleftrightarrow> (c \<longrightarrow> served ps rs)"
  by (auto simp: served_def given_def)

lemma admitted_simps [simp]:
  "admitted (Some ps) (Needs p) \<longleftrightarrow> p \<in> set ps" "admitted (Some ps) SignedIn" "admitted q Public"
  by (simp_all add: admitted_def)

lemma session_access:
  "required auth_avatar = Some SignedIn" "required (auth_changePassword s t) = Some SignedIn"
  "required auth_logout = Some SignedIn"
  using collection_required[of None JNull "[]" "[]" s t]
  by (simp_all add: collection_requests_def collection_access_def)

lemma name_lookup_access: "required (name_lookup n) = Some (Needs ''groups:read'')"
  by (simp add: name_lookup_def access_simps)

lemmas calls_defs = dashboard_calls_def bulk_calls_def users_page_calls_def user_identity_calls_def user_posix_calls_def user_ssh_calls_def user_samba_calls_def user_shadow_calls_def
  user_sudo_calls_def user_security_calls_def user_page_calls_def new_user_calls_def users_import_calls_def
  groups_page_calls_def group_sudo_calls_def group_page_calls_def new_group_calls_def groups_import_calls_def
  netgroups_page_calls_def netgroup_page_calls_def new_netgroup_calls_def netgroups_import_calls_def
  sudo_roles_page_calls_def rule_netgroup_calls_def sudo_role_page_calls_def new_sudo_role_calls_def
  policies_page_calls_def policy_page_calls_def new_policy_calls_def audit_page_calls_def admin_page_calls_def

definition admin_permissions :: "string list" where
  "admin_permissions = [''users:read'', ''users:write'', ''users:delete'', ''groups:read'', ''groups:write'', ''groups:delete'',
        ''audit:read'', ''schema:read'', ''schema:write'', ''settings:read'', ''settings:write'']"

definition reader_permissions :: "string list" where
  "reader_permissions = [''users:read'', ''groups:read'', ''schema:read'']"

lemma admin_may [simp]:
  "''users:read'' \<in> set admin_permissions" "''users:write'' \<in> set admin_permissions" "''users:delete'' \<in> set admin_permissions"
  "''groups:read'' \<in> set admin_permissions" "''groups:write'' \<in> set admin_permissions" "''groups:delete'' \<in> set admin_permissions"
  "''audit:read'' \<in> set admin_permissions" "''settings:read'' \<in> set admin_permissions" "''settings:write'' \<in> set admin_permissions"
  by (simp_all add: admin_permissions_def)

lemma reader_permitted [simp]:
  "''users:read'' \<in> set reader_permissions" "''groups:read'' \<in> set reader_permissions"
  "''settings:read'' \<notin> set reader_permissions"
  by (simp_all add: reader_permissions_def)

lemma admin_served:
  assumes "cl_dn a \<noteq> ''''" "cl_other a \<noteq> ''''"
  shows "\<forall>(path, calls) \<in> set page_calls. served admin_permissions (calls may info a)"
  unfolding page_calls_def
  by (simp add: calls_defs access_simps name_lookup_access assms)

definition reader_may :: "string \<Rightarrow> bool" where
  "reader_may p \<longleftrightarrow> p \<in> set reader_permissions"

lemma reader_may_simps [simp]:
  "reader_may ''users:read''" "reader_may ''groups:read''" "\<not> reader_may ''users:write''" "\<not> reader_may ''users:delete''"
  "\<not> reader_may ''groups:write''" "\<not> reader_may ''groups:delete''" "\<not> reader_may ''audit:read''"
  "\<not> reader_may ''settings:read''" "\<not> reader_may ''settings:write''"
  by (simp_all add: reader_may_def reader_permissions_def)

text \<open>The routes whose guard lets a reader through.\<close>

definition reader_routes :: "string list" where
  "reader_routes = [''/'', ''/users'', ''/users/$dn'', ''/groups'', ''/groups/$dn'', ''/sudo-roles'', ''/sudo-roles/$dn'',
     ''/netgroups'', ''/netgroups/$dn'']"

lemma reader_served:
  assumes "cl_dn a \<noteq> ''''" "cl_other a \<noteq> ''''"
  shows "\<forall>(path, calls) \<in> set page_calls. path \<in> set reader_routes \<and> path \<noteq> ''/users/$dn'' \<longrightarrow>
    served reader_permissions (calls reader_may info a)"
  unfolding page_calls_def reader_routes_def
  by (simp add: calls_defs access_simps name_lookup_access assms)

lemma reader_user_page:
  assumes "cl_dn a \<noteq> ''''" "r \<in> set (user_page_calls reader_may info a)" "r \<noteq> passwordPolicies_list (cl_params a)"
  shows "\<exists>x. required r = Some x \<and> admitted (Some reader_permissions) x"
  using assms(2,3) by (auto simp: calls_defs given_def access_simps assms(1) split: if_splits)

lemma role_cases:
  assumes "has_role ses"
  obtains "ses_roleName ses = ''admin''" "ses_permissions ses = admin_permissions"
    | "ses_roleName ses = ''readonly''" "ses_permissions ses = reader_permissions"
  using assms by (auto simp: has_role_def default_roles_def admin_permissions_def reader_permissions_def split: if_splits)

lemma reader_routes_pass:
  assumes "ses_roleName ses = ''readonly''" "ses_permissions ses = reader_permissions"
    and "map_of route_guards path = Some guard" "guard (Some ses) answer = Pass"
  shows "path \<in> set reader_routes"
  using assms(3,4)
  by (simp add: route_guards_def reader_routes_def split: if_splits)
    (auto simp: guard_defs and_then_Pass require_permission_def hasPermission_def assms(1,2) reader_permissions_def split: if_splits)

lemma palette_served:
  "served ps (palette_calls secs q) \<longleftrightarrow> (\<forall>s \<in> set secs. served ps (palette_calls [s] q))"
  by (auto simp: served_def palette_calls_def)

text \<open>The palette searches only what its session may read, whatever its role.\<close>

lemma shell_served: "served (ses_permissions ses) (shell_calls (Some ses) info a)"
proof -
  have "served (ses_permissions ses) (palette_calls [s] (cl_params a))" if "s \<in> set (useSections (Some ses) info)" for s
    using that by (auto simp: useSections_def Let_def hasPermission_def palette_calls_def access_simps split: if_splits)
  then show ?thesis by (simp add: shell_calls_def session_access access_simps palette_served[of _ "useSections (Some ses) info"])
qed

lemma may_of: "hasPermission (Some ses) = (\<lambda>p. p \<in> set (ses_permissions ses))"
  by (simp add: hasPermission_def fun_eq_iff)

lemma page_found: "map_of page_calls path = Some calls \<Longrightarrow> (path, calls) \<in> set page_calls"
  by (rule map_of_SomeD)

lemma user_page_found: "map_of page_calls ''/users/$dn'' = Some calls \<longleftrightarrow> calls = user_page_calls"
  by (auto simp: page_calls_def)

text \<open>
  C13: No page asks for what its operator is refused, but for one call. With the roles the server has, a page
  whose guard lets the session through, and everything around it, sends only requests that have a
  route and whose permission the session holds - its own queries and those of every control it offers
  - except the page of a user, whose Security tab asks for the list of password policies also for the
  role that may not read it.
\<close>

theorem pages_served:
  assumes "has_role ses" "map_of route_guards path = Some guard" "guard (Some ses) answer = Pass"
    and "map_of page_calls path = Some calls" "cl_dn a \<noteq> ''''" "cl_other a \<noteq> ''''"
    and "r \<in> set (calls (hasPermission (Some ses)) info a @ shell_calls (Some ses) info a)"
  shows "(\<exists>x. required r = Some x \<and> admitted (Some (ses_permissions ses)) x) \<longleftrightarrow>
    \<not> (path = ''/users/$dn'' \<and> ses_roleName ses = ''readonly'' \<and> r = passwordPolicies_list (cl_params a))"
proof (cases rule: role_cases[OF assms(1)])
  case 1
  have "served admin_permissions (calls (hasPermission (Some ses)) info a)"
    using admin_served[OF assms(5,6)] page_found[OF assms(4)] by blast
  then show ?thesis using assms(7) shell_served[of ses info a] 1 by (auto simp: served_def)
next
  case 2
  have m: "hasPermission (Some ses) = reader_may" by (simp add: may_of 2 reader_may_def fun_eq_iff)
  have p: "path \<in> set reader_routes" by (rule reader_routes_pass[OF 2 assms(2,3)])
  have "\<exists>x. required r = Some x \<and> admitted (Some reader_permissions) x"
    if n: "\<not> (path = ''/users/$dn'' \<and> r = passwordPolicies_list (cl_params a))"
  proof (cases "r \<in> set (shell_calls (Some ses) info a)")
    case True
    then show ?thesis using shell_served[of ses info a] 2 by (simp add: served_def)
  next
    case False
    then have r: "r \<in> set (calls reader_may info a)" using assms(7) m by simp
    show ?thesis
    proof (cases "path = ''/users/$dn''")
      case True
      then show ?thesis using r n assms(4) reader_user_page[OF assms(5)] by (simp add: user_page_found)
    next
      case False
      then have "served reader_permissions (calls reader_may info a)"
        using reader_served[OF assms(5,6)] page_found[OF assms(4)] p by blast
      then show ?thesis using r by (simp add: served_def)
    qed
  qed
  moreover have "\<not> (\<exists>x. required (passwordPolicies_list q) = Some x \<and> admitted (Some reader_permissions) x)" for q
    by (simp add: access_simps)
  ultimately show ?thesis using 2 by auto
qed

text \<open>A reader opens the page of a user: the list of policies is asked for and refused.\<close>

definition sample_reader :: session where
  "sample_reader = \<lparr>ses_id = None, ses_userDn = ''uid=r'', ses_userUid = ''r'', ses_displayName = ''R'', ses_mail = None,
     ses_roleName = ''readonly'', ses_permissions = reader_permissions, ses_expiresAt = ''''\<rparr>"

definition sample_args :: call_args where
  "sample_args = \<lparr>cl_dn = ''uid=x'', cl_other = ''cn=y'', cl_params = None, cl_filters = [], cl_body = JNull, cl_text = ''t'',
     cl_rows = [], cl_date = None\<rparr>"

theorem pages_served_witness:
  "passwordPolicies_list None \<in> set (user_page_calls (hasPermission (Some sample_reader)) None sample_args) \<and>
   \<not> (\<exists>x. required (passwordPolicies_list None) = Some x \<and> admitted (Some (ses_permissions sample_reader)) x)"
proof -
  have role: "has_role sample_reader"
    by (simp add: has_role_def default_roles_def sample_reader_def reader_permissions_def)
  have guard: "map_of route_guards ''/users/$dn'' = Some user_detail_guard" "user_detail_guard (Some sample_reader) None = Pass"
    by (simp_all add: route_guards_def guard_defs and_then_def require_login_def requireModule_def)
  have page: "map_of page_calls ''/users/$dn'' = Some user_page_calls" by (simp add: user_page_found)
  have dns: "cl_dn sample_args \<noteq> ''''" "cl_other sample_args \<noteq> ''''" by (simp_all add: sample_args_def)
  have on: "module_on ''policies'' None"
    by (simp add: module_on_def useEnabledModules_def DEFAULT_MODULES_def to_lower_def lower_def is_upper_def code_def)
  have r: "passwordPolicies_list None \<in> set (user_page_calls (hasPermission (Some sample_reader)) None sample_args)"
    by (simp add: user_page_calls_def user_security_calls_def given_def on sample_args_def)
  then show ?thesis
    using pages_served[OF role guard page dns, of "passwordPolicies_list None" None]
    by (simp add: sample_reader_def sample_args_def)
qed

end
