(* ===== verification/Shell_Frame.thy ===== *)
theory Shell_Frame
  imports Sign_In Passwords App_Shell Ui_Parts Outcome_Queue Audit_Search
begin

text \<open>
  What stands around and outside the pages: the frame of the app with its menus and the password dialog
  (\<open>routes/__root.tsx\<close>), the controls of the login page and of the page behind a reset link, the page of
  an entry that cannot be loaded (\<open>components/detail-load-error.tsx\<close>), of a route that threw
  (\<open>components/route-error.tsx\<close>) or does not exist, the dialog of an outcome
  (\<open>components/outcome-dialog.tsx\<close>), the picture of a person (\<open>components/ui/avatar.tsx\<close>), and the
  line that names the build. Search, theme and palette are in \<open>App_Shell\<close>.
\<close>

section \<open>The frame\<close>

text \<open>An entry of a menu: a link (text, route, parameter), or something to press.\<close>

datatype menu_item = MenuLink string string "string option" | MenuPress string

definition bar_links :: "session option \<Rightarrow> server_info option \<Rightarrow> (string \<times> string \<times> string option) list" where
  "bar_links ses info =
     map (\<lambda>s. (sec_to s, coalesce (sec_shortLabel s) (sec_label s), if sec_shortLabel s \<noteq> None then Some (sec_label s) else None))
       (useSections ses info)"

definition mobile_menu :: "session option \<Rightarrow> server_info option \<Rightarrow> menu_item list" where
  "mobile_menu ses info = MenuPress ''Search'' # map (\<lambda>(to, label). MenuLink label to None) (main_menu ses info)"

text \<open>
  The links of the frame, in the order it draws them; the notice before the session ends, the footer, the palette
  and the dialog of an outcome, which it draws too, have their own definitions, here and in \<open>Sign_In\<close>.
  The account menu is built whenever the frame is, open or not: the link to one's own page encodes the DN of
  the session there, which throws for a DN that cannot be encoded.
\<close>

definition account_menu :: "units \<Rightarrow> bool \<Rightarrow> (codec_error, menu_item list) result" where
  "account_menu userDn isAdmin =
     map_sum id (\<lambda>dn.
       [MenuPress ''Change Password'', MenuLink ''My Profile'' ''/users/$dn'' (Some dn)]
       @ (if isAdmin then [MenuLink ''Administration'' ''/admin'' None] else [])
       @ [MenuPress ''Logout'']) (encodeDN userDn)"

definition account_label :: "session \<Rightarrow> string list" where
  "account_label s =
     [ses_displayName s, (case ses_mail s of Some m \<Rightarrow> if m \<noteq> '''' then m else ses_userUid s | None \<Rightarrow> ses_userUid s),
      ''Role: '' @ ses_roleName s]"

record frame =
  fr_mobile :: "menu_item list"
  fr_bar :: "(string \<times> string \<times> string option) list"
  fr_account :: "menu_item list"

text \<open>What the root draws: the DN of the session as the server sent it, in code units.\<close>

datatype root_screen = RootWaits | RootBare | RootFrame frame | RootThrows codec_error

definition RootComponent :: "units \<Rightarrow> session option \<Rightarrow> server_info option \<Rightarrow> string \<Rightarrow> root_screen" where
  "RootComponent userDn ses info pathname =
     (case root_shows (ses \<noteq> None) pathname of
        Waiting \<Rightarrow> RootWaits
      | BarePage \<Rightarrow> RootBare
      | FullPage \<Rightarrow> (case account_menu userDn (useIsAdmin ses) of
            Inl e \<Rightarrow> RootThrows e
          | Inr menu \<Rightarrow> RootFrame \<lparr>fr_mobile = mobile_menu ses info, fr_bar = bar_links ses info, fr_account = menu\<rparr>))"

section \<open>The password dialog\<close>

definition new_passwords_match :: "string \<Rightarrow> string \<Rightarrow> bool" where
  "new_passwords_match new_password confirm \<longleftrightarrow> new_password \<noteq> '''' \<and> confirm \<noteq> '''' \<and> new_password = confirm"

definition new_passwords_differ :: "string \<Rightarrow> string \<Rightarrow> bool" where
  "new_passwords_differ new_password confirm \<longleftrightarrow> new_password \<noteq> '''' \<and> confirm \<noteq> '''' \<and> new_password \<noteq> confirm"

definition match_notes :: "string \<Rightarrow> string \<Rightarrow> control list" where
  "match_notes new_password confirm =
     (if new_passwords_differ new_password confirm then [Says ''Passwords do not match''] else [])
     @ (if new_passwords_match new_password confirm then [Says ''Passwords match''] else [])"

definition strength_note :: "string \<Rightarrow> control list" where
  "strength_note password = (case PasswordStrength password of Some (bars, label) \<Rightarrow> [Says label] | None \<Rightarrow> [])"

definition password_dialog_view :: "bool \<Rightarrow> password_dialog \<Rightarrow> control list" where
  "password_dialog_view pending s =
     (if \<not> pd_open s then []
      else
        [Edits ''currentPassword'' ''Current Password'' PasswordIn '''' True,
         Edits ''newPassword'' ''New Password'' PasswordIn '''' True] @ strength_note (pd_new s)
        @ [Edits ''confirmPassword'' ''Confirm Password'' PasswordIn '''' True] @ match_notes (pd_new s) (pd_confirm s)
        @ [Presses ''Cancel'' True,
           Presses (if pending then ''Changing...'' else ''Change Password'')
             (\<not> (pd_current s = '''' \<or> \<not> new_passwords_match (pd_new s) (pd_confirm s) \<or> pending))])"

text \<open>
  The dialog opens and closes through one handler; the answer of the change closes it when it succeeds. The state
  belongs to the root, which stays mounted when a session ends or starts: only what is drawn changes then.
\<close>

datatype dialog_event = DialogOpens bool | TypesCurrent string | TypesNew string | TypesConfirm string | ChangeAnswered bool
  | SessionEnds | SessionStarts

definition password_dialog_step :: "dialog_event \<Rightarrow> password_dialog \<Rightarrow> password_dialog" where
  "password_dialog_step e s =
     (case e of
        DialogOpens b \<Rightarrow> if b then s\<lparr>pd_open := True\<rparr> else closePasswordDialog s
      | TypesCurrent v \<Rightarrow> if pd_open s then s\<lparr>pd_current := v\<rparr> else s
      | TypesNew v \<Rightarrow> if pd_open s then s\<lparr>pd_new := v\<rparr> else s
      | TypesConfirm v \<Rightarrow> if pd_open s then s\<lparr>pd_confirm := v\<rparr> else s
      | ChangeAnswered ok \<Rightarrow> if ok then closePasswordDialog s else s
      | SessionEnds \<Rightarrow> s
      | SessionStarts \<Rightarrow> s)"

section \<open>Signing in, and a new password by a link\<close>

definition LoginPage :: "bool \<Rightarrow> login_search \<Rightarrow> login_form \<Rightarrow> control list" where
  "LoginPage authenticated q s =
     (if authenticated then []
      else Says ''Sign in with your LDAP credentials''
        # (case login_notice q s of Some t \<Rightarrow> [Says t] | None \<Rightarrow> [])
        @ [Edits ''username'' ''Username or email'' TextIn ''Enter your username or email'' True,
           Edits ''password'' ''Password'' PasswordIn ''Enter your password'' True,
           Presses (if lf_loading s then ''Signing in...'' else ''Sign In'') (\<not> lf_loading s)])"

text \<open>The form of the reset page: whose password it is, the error of the last try, the fields.\<close>

record reset_info =
  ri_organization :: string
  ri_displayName :: string
  ri_uid :: string

definition reset_form :: "reset_info option \<Rightarrow> string option \<Rightarrow> bool \<Rightarrow> string \<Rightarrow> string \<Rightarrow> control list" where
  "reset_form info failure pending password confirm =
     (case info of
        Some i \<Rightarrow> [Says (ri_organization i), Says (''Reset password for '' @ ri_displayName i @ '' ('' @ ri_uid i @ '')'')]
      | None \<Rightarrow> [Says ''Reset password for  ()''])
     @ (case failure of Some m \<Rightarrow> [Says m] | None \<Rightarrow> [])
     @ [Edits ''password'' ''New Password'' PasswordIn '''' True] @ strength_note password
     @ [Edits ''confirmPassword'' ''Confirm Password'' PasswordIn '''' True] @ match_notes password confirm
     @ [Presses (if pending then ''Resetting...'' else ''Reset Password'') (\<not> (\<not> new_passwords_match password confirm \<or> pending)),
        Links ''Back to login'' ''/login'']"

definition reset_screen :: "reset_page \<Rightarrow> reset_info option \<Rightarrow> string option \<Rightarrow> bool \<Rightarrow> string \<Rightarrow> string \<Rightarrow> control list" where
  "reset_screen page info failure pending password confirm =
     (case page of
        ResetLoading \<Rightarrow> []
      | ResetUnchecked m \<Rightarrow> [Says ''Could not check this link'',
          Says (''The server could not be reached or answered with an error ('' @ m @ ''). The link itself may still be valid: try again in a moment.''),
          Reads ''Try again'']
      | ResetDead \<Rightarrow> [Says ''Invalid or Expired Link'',
          Says ''This password reset link is invalid or has expired. Please request a new password reset link.'', Links ''Go to Login'' ''/login'']
      | ResetDone \<Rightarrow> [Says ''Password Changed'',
          Says ''Your password has been successfully changed. You can now log in with your new password.'', Links ''Go to Login'' ''/login'']
      | ResetForm \<Rightarrow> reset_form info failure pending password confirm)"

section \<open>When a page cannot be shown\<close>

text \<open>The error of the entry's query: its message and, for an \<open>ApiError\<close>, its status; \<^const>\<open>None\<close> when there was no data.\<close>

definition entry_missing :: "(string \<times> int option) option \<Rightarrow> bool" where
  "entry_missing error = (case error of Some (_, Some st) \<Rightarrow> st = 404 \<or> st = 400 | _ \<Rightarrow> False)"

definition DetailLoadError :: "(string \<times> int option) option \<Rightarrow> string \<Rightarrow> string \<Rightarrow> string \<Rightarrow> control list" where
  "DetailLoadError error noun list_path label =
     (if \<not> entry_missing error
      then [Links (''Back to '' @ label) list_path,
            Says (''Failed to load '' @ noun @ '': '' @ coalesce (map_option fst error) ''no data returned'')]
      else [Says (''This '' @ noun @ '' does not exist''), Links (''Back to '' @ label) list_path])"

text \<open>What a route threw: an \<open>Error\<close> with its message, nothing, or something with a text.\<close>

datatype thrown = ThrownError string | ThrownNothing | ThrownOther string

definition thrown_message :: "thrown \<Rightarrow> string" where
  "thrown_message t = (case t of ThrownError m \<Rightarrow> m | ThrownNothing \<Rightarrow> '''' | ThrownOther s \<Rightarrow> s)"

definition RouteError :: "thrown \<Rightarrow> control list" where
  "RouteError t =
     [Says ''Something went wrong'',
      Says ''An unexpected error occurred while rendering this page. You can try again or return home.'']
     @ (if thrown_message t \<noteq> '''' then [Says (thrown_message t)] else [])
     @ [Reads ''Try again'', Links ''Go to home'' ''/'']"

definition NotFound :: "control list" where
  "NotFound =
     [Says ''Page not found'', Says (''The page you'' @ [CHR 0x27] @ ''re looking for doesn'' @ [CHR 0x27] @ ''t exist or may have been moved.''), Links ''Go to home'' ''/'']"

definition BackToList :: "'a list_memory \<Rightarrow> list_path \<Rightarrow> 'a option" where
  "BackToList mem path = recallListSearch path mem"

text \<open>The line with an entry's DN and its copy button, and what copying says.\<close>

definition DNLine :: "string option \<Rightarrow> control list" where
  "DNLine dn = (case dn of Some d \<Rightarrow> if d \<noteq> '''' then [Says d, Reads ''Copy DN''] else [] | None \<Rightarrow> [])"

definition copied :: "string \<Rightarrow> bool \<Rightarrow> toast" where
  "copied done_text ok = (if ok then ToastSuccess done_text else ToastError ''Could not copy: the browser refused clipboard access'')"

section \<open>The dialog of an outcome\<close>

definition OutcomeHost :: "outcome list \<Rightarrow> control list" where
  "OutcomeHost queue =
     (case queue of
        [] \<Rightarrow> []
      | oc # _ \<Rightarrow>
          [Says (oc_title oc),
           Says (case oc_description oc of Some d \<Rightarrow> d
                 | None \<Rightarrow> ''The change went through. What follows is left for you to check or do.'')]
          @ map Says (oc_items oc) @ [Reads ''Copy'', Reads ''Done''])"

section \<open>A person's picture\<close>

text \<open>
  The source of the picture, whether its loading failed, and the source of the last rendering; \<open>upper\<close> stands for
  \<open>toUpperCase\<close>, which knows letters beyond ASCII.
\<close>

record avatar =
  pic_failed :: bool
  pic_prevSrc :: "string option"

definition imageSrc :: "string option \<Rightarrow> string option \<Rightarrow> string option" where
  "imageSrc src url =
     (case opt_chain src or_undefined of
        Some s \<Rightarrow> Some (''data:image/jpeg;base64,'' @ s)
      | None \<Rightarrow> opt_chain url or_undefined)"

definition initials :: "(string \<Rightarrow> string) \<Rightarrow> string option \<Rightarrow> string option" where
  "initials upper fallback =
     map_option (\<lambda>f. take 2 (upper (concat (map (take 1) (split_on CHR '' '' f))))) fallback"

definition avatar_mount :: "string option \<Rightarrow> avatar" where
  "avatar_mount source = \<lparr>pic_failed = False, pic_prevSrc = source\<rparr>"

definition avatar_render :: "string option \<Rightarrow> avatar \<Rightarrow> avatar" where
  "avatar_render source s = (if source \<noteq> pic_prevSrc s then \<lparr>pic_failed = False, pic_prevSrc = source\<rparr> else s)"

datatype avatar_event = AvatarSource "string option" | AvatarLoadFails

definition avatar_step :: "avatar_event \<Rightarrow> avatar \<Rightarrow> avatar" where
  "avatar_step e s = (case e of AvatarSource source \<Rightarrow> avatar_render source s | AvatarLoadFails \<Rightarrow> s\<lparr>pic_failed := True\<rparr>)"

datatype avatar_view = Picture string | Initials string | Silhouette

definition avatar_shows :: "(string \<Rightarrow> string) \<Rightarrow> string option \<Rightarrow> avatar \<Rightarrow> avatar_view" where
  "avatar_shows upper fallback s =
     (case pic_prevSrc s of
        Some source \<Rightarrow> if \<not> pic_failed s then Picture source
          else (case opt_chain (initials upper fallback) or_undefined of Some i \<Rightarrow> Initials i | None \<Rightarrow> Silhouette)
      | None \<Rightarrow> (case opt_chain (initials upper fallback) or_undefined of Some i \<Rightarrow> Initials i | None \<Rightarrow> Silhouette))"

section \<open>Small parts\<close>

definition Switch_click :: "bool \<Rightarrow> bool \<Rightarrow> bool option" where
  "Switch_click disabled checked = (if disabled then None else Some (\<not> checked))"

record build_version =
  bv_version :: string
  bv_revision :: "string option"
  bv_modified :: bool

definition BuildFooter :: "string \<Rightarrow> build_version option \<Rightarrow> string list" where
  "BuildFooter dot info =
     (case info of
        None \<Rightarrow> []
      | Some v \<Rightarrow> [''LDAP Warden '' @ bv_version v]
          @ (case opt_chain (bv_revision v) or_undefined of Some r \<Rightarrow> [dot @ r] | None \<Rightarrow> [])
          @ (if bv_modified v then ['' (modified)''] else []))"

section \<open>The frame, checked\<close>

definition item_targets :: "menu_item list \<Rightarrow> string list" where
  "item_targets ms = List.map_filter (\<lambda>m. case m of MenuLink _ to _ \<Rightarrow> Some to | MenuPress _ \<Rightarrow> None) ms"

definition frame_targets :: "frame \<Rightarrow> string list" where
  "frame_targets f = item_targets (fr_mobile f) @ map (fst) (fr_bar f) @ item_targets (fr_account f)"

lemma encodeDN_fails_iff: "encodeDN us = Inl e \<longleftrightarrow> e = InvalidCharacterError \<and> (\<exists>u \<in> set us. 255 < unat u)"
proof (cases "list_all (\<lambda>u. unat u < 256) us")
  case True
  then show ?thesis by (force simp: encodeDN_text list_all_iff)
next
  case False
  then have "\<exists>u \<in> set us. 255 < unat u" by (force simp: list_all_iff)
  with False show ?thesis by (auto simp: encodeDN_def btoa_def)
qed

lemma item_targets_simps [simp]:
  "item_targets [] = []"
  "item_targets (MenuPress x # ms) = item_targets ms"
  "item_targets (MenuLink x to p # ms) = to # item_targets ms"
  by (simp_all add: item_targets_def List.map_filter_simps)

lemma item_targets_links: "item_targets (map (\<lambda>x. MenuLink (l x) (f x) (p x)) xs) = map f xs"
  by (induction xs) auto

lemma frame_shape:
  assumes "RootComponent us ses info path = RootFrame f"
  shows "\<exists>ms. account_menu us (useIsAdmin ses) = Inr ms \<and>
    set (frame_targets f) = {''/''} \<union> sec_to ` set (useSections ses info) \<union> set (item_targets ms)"
proof -
  from assms obtain ms where ms: "account_menu us (useIsAdmin ses) = Inr ms"
    and f: "f = \<lparr>fr_mobile = mobile_menu ses info, fr_bar = bar_links ses info, fr_account = ms\<rparr>"
    by (auto simp: RootComponent_def split: root_view.splits sum.splits)
  have "item_targets (fr_mobile f) = ''/'' # map sec_to (useSections ses info)"
    by (simp add: f mobile_menu_def main_menu_def case_prod_unfold comp_def item_targets_links)
  moreover have "map fst (fr_bar f) = map sec_to (useSections ses info)"
    by (simp add: f bar_links_def comp_def)
  ultimately have "set (frame_targets f) = {''/''} \<union> sec_to ` set (useSections ses info) \<union> set (item_targets ms)"
    by (auto simp: frame_targets_def f)
  with ms show ?thesis by blast
qed

lemma dashboard_passes: "ses \<noteq> None \<Longrightarrow> passes ses answer ''/''"
  by (simp add: passes_def detail_guards guard_defs require_login_def)

lemma admin_passes: "ses \<noteq> None \<Longrightarrow> useIsAdmin ses \<Longrightarrow> passes ses answer ''/admin''"
  by (simp add: passes_def guard_defs and_then_Pass require_login_def useIsAdmin_def)

lemma section_passes:
  assumes "s \<in> set (useSections ses info)" and "answer = info \<or> answer = None"
  shows "passes ses answer (sec_to s)"
  using section_guard_passes[OF assms(1) section_links_members(1) assms(2)] by (simp add: passes_def)

lemma account_targets:
  "account_menu us adm = Inr ms \<Longrightarrow> set (item_targets ms) = {''/users/$dn''} \<union> (if adm then {''/admin''} else {})"
  by (cases "encodeDN us") (auto simp: account_menu_def)

lemma frame_targets_pass:
  assumes ses: "ses \<noteq> None" and a: "answer = info \<or> answer = None"
    and f: "RootComponent us ses info path = RootFrame f" and t: "t \<in> set (frame_targets f)" and n: "t \<noteq> ''/users/$dn''"
  shows "passes ses answer t"
proof -
  from frame_shape[OF f] obtain ms where ms: "account_menu us (useIsAdmin ses) = Inr ms"
    and ts: "set (frame_targets f) = {''/''} \<union> sec_to ` set (useSections ses info) \<union> set (item_targets ms)"
    by blast
  from t n have "t = ''/'' \<or> t \<in> sec_to ` set (useSections ses info) \<or> (useIsAdmin ses \<and> t = ''/admin'')"
    by (simp only: ts account_targets[OF ms]) (simp split: if_splits)
  then show ?thesis
    using dashboard_passes[OF ses] section_passes[OF _ a] admin_passes[OF ses] by (elim disjE imageE) simp_all
qed

lemma sections_not_admin: "s \<in> set (useSections ses info) \<Longrightarrow> sec_to s \<noteq> ''/admin''"
  by (auto simp: useSections_def Let_def split: if_splits)

lemma frame_admin:
  assumes "RootComponent us ses info path = RootFrame f"
  shows "''/admin'' \<in> set (frame_targets f) \<longleftrightarrow> useIsAdmin ses"
proof -
  have "''/admin'' \<notin> sec_to ` set (useSections ses info)" using sections_not_admin by fastforce
  moreover from frame_shape[OF assms] obtain ms where "account_menu us (useIsAdmin ses) = Inr ms"
    and "set (frame_targets f) = {''/''} \<union> sec_to ` set (useSections ses info) \<union> set (item_targets ms)" by blast
  ultimately show ?thesis using account_targets by simp
qed

text \<open>
  C14: The frame. The root throws exactly for a session whose DN has a code unit above 255, whatever the
  route; without a session it never does. When it draws the frame, every link of its bar and its menus
  leads to a route whose guard lets the session through, but the link to one's own page, which is there
  whether or not the users module is on; the link to the administration is there exactly for administrators.
\<close>

theorem frame_opens_exact:
  "(RootComponent us ses info path = RootThrows e \<longleftrightarrow>
      ses \<noteq> None \<and> e = InvalidCharacterError \<and> (\<exists>u \<in> set us. 255 < unat u)) \<and>
   (\<forall>f. RootComponent us ses info path = RootFrame f \<longrightarrow>
      (\<forall>t \<in> set (frame_targets f). t = ''/users/$dn'' \<or> passes ses info t \<and> passes ses None t) \<and>
      (''/admin'' \<in> set (frame_targets f) \<longleftrightarrow> useIsAdmin ses))"
proof (intro conjI allI impI ballI)
  show "RootComponent us ses info path = RootThrows e \<longleftrightarrow>
      ses \<noteq> None \<and> e = InvalidCharacterError \<and> (\<exists>u \<in> set us. 255 < unat u)"
    by (cases ses; cases "encodeDN us")
      (auto simp: RootComponent_def root_shows_def account_menu_def simp flip: encodeDN_fails_iff)
next
  fix f t
  assume f: "RootComponent us ses info path = RootFrame f" and t: "t \<in> set (frame_targets f)"
  have "ses \<noteq> None" using f by (auto simp: RootComponent_def root_shows_def split: if_splits)
  then show "t = ''/users/$dn'' \<or> passes ses info t \<and> passes ses None t"
    using frame_targets_pass[OF _ _ f t, of info] frame_targets_pass[OF _ _ f t, of None] by blast
next
  fix f
  assume "RootComponent us ses info path = RootFrame f"
  then show "''/admin'' \<in> set (frame_targets f) \<longleftrightarrow> useIsAdmin ses" by (rule frame_admin)
qed

theorem frame_opens_exact_witness:
  "RootComponent [8 + 256] (Some sample_session) None ''/users'' = RootThrows InvalidCharacterError \<and>
   (\<exists>f. RootComponent (units_of ''uid=jo'') (Some sample_session) None ''/users'' = RootFrame f \<and>
      ''/users'' \<in> set (frame_targets f) \<and> passes (Some sample_session) None ''/users'')"
proof -
  let ?u = "units_of ''uid=jo''"
  have lat: "\<not> (\<exists>x \<in> set ?u. 255 < unat x)" by (simp add: units_of_def) code_simp
  have "\<exists>f. RootComponent ?u (Some sample_session) None ''/users'' = RootFrame f"
  proof (cases "RootComponent ?u (Some sample_session) None ''/users''")
    case (RootThrows e)
    then show ?thesis using frame_opens_exact[of ?u "Some sample_session" None "''/users''" e] lat by blast
  qed (simp_all add: RootComponent_def root_shows_def split: sum.splits)
  then obtain f where f: "RootComponent ?u (Some sample_session) None ''/users'' = RootFrame f" by blast
  have "''/users'' \<in> sec_to ` set (useSections (Some sample_session) None)"
    by (simp add: useSections_def sample_session_def hasPermission_def moduleAvailable_def
        useEnabledModules_def DEFAULT_MODULES_def)
  then have t: "''/users'' \<in> set (frame_targets f)" using frame_shape[OF f] by auto
  then have "''/users'' = ''/users/$dn'' \<or> passes (Some sample_session) None ''/users''"
    using bspec[OF frame_opens_exact[THEN conjunct2, THEN spec, THEN mp, OF f, THEN conjunct1] t] by simp
  then have "passes (Some sample_session) None ''/users''" by simp
  moreover have "RootComponent [8 + 256] (Some sample_session) None ''/users'' = RootThrows InvalidCharacterError"
    by (subst frame_opens_exact[THEN conjunct1]) simp
  ultimately show ?thesis using f t by blast
qed

section \<open>The dialog and the picture, checked\<close>

text \<open>The button of the dialog is enabled exactly when submitting the form sends the change.\<close>

lemma submit_enabled:
  "Presses ''Change Password'' True \<in> set (password_dialog_view pending s) \<longleftrightarrow>
    pd_open s \<and> \<not> pending \<and> submit_password s \<noteq> None"
  by (auto simp: password_dialog_view_def submit_password_def new_passwords_match_def strength_note_def match_notes_def
      split: option.splits)

text \<open>
  A session that ends while the dialog is open takes it off the screen and nothing out of it: whoever signs in next in
  the same tab finds it open, with the password that was typed.
\<close>

lemma password_outlives_session:
  "let s = fold password_dialog_step [DialogOpens True, TypesCurrent ''s3cret'', SessionEnds, SessionStarts]
             \<lparr>pd_open = False, pd_current = '''', pd_new = '''', pd_confirm = ''''\<rparr>
   in pd_open s \<and> pd_current s = ''s3cret'' \<and> password_dialog_view False s \<noteq> []"
  by (simp add: password_dialog_step_def password_dialog_view_def)

text \<open>A picture given up on failed itself, and nothing else was shown since.\<close>

lemma avatar_failure_own:
  "pic_failed (fold avatar_step es (avatar_mount src)) \<Longrightarrow>
    \<exists>before after. es = before @ AvatarLoadFails # after \<and>
      (\<forall>x. AvatarSource x \<in> set after \<longrightarrow> x = pic_prevSrc (fold avatar_step es (avatar_mount src))) \<and>
      pic_prevSrc (fold avatar_step before (avatar_mount src)) = pic_prevSrc (fold avatar_step es (avatar_mount src))"
proof (induction es rule: rev_induct)
  case Nil
  then show ?case by (simp add: avatar_mount_def)
next
  case (snoc e es)
  let ?s = "fold avatar_step es (avatar_mount src)"
  show ?case
  proof (cases e)
    case AvatarLoadFails
    then show ?thesis by (intro exI[of _ es] exI[of _ "[]"]) (simp add: avatar_step_def)
  next
    case (AvatarSource x)
    have "avatar_step e ?s = (if x = pic_prevSrc ?s then ?s else \<lparr>pic_failed = False, pic_prevSrc = x\<rparr>)"
      using AvatarSource by (simp add: avatar_step_def avatar_render_def)
    with snoc.prems have x: "x = pic_prevSrc ?s" "pic_failed ?s" by (simp_all split: if_splits)
    with snoc.IH obtain a b where "es = a @ AvatarLoadFails # b"
      "\<forall>y. AvatarSource y \<in> set b \<longrightarrow> y = pic_prevSrc ?s" "pic_prevSrc (fold avatar_step a (avatar_mount src)) = pic_prevSrc ?s"
      by blast
    moreover have "avatar_step e ?s = ?s" using x AvatarSource by (simp add: avatar_step_def avatar_render_def)
    ultimately show ?thesis using AvatarSource x
      by (intro exI[of _ a] exI[of _ "b @ [e]"]) simp
  qed
qed

text \<open>The page of an entry says that it does not exist for no answer but 400 and 404.\<close>

lemma load_error_exact:
  "Says (''This '' @ noun @ '' does not exist'') \<in> set (DetailLoadError error noun path label) \<longleftrightarrow>
     (\<exists>m st. error = Some (m, Some st) \<and> (st = 404 \<or> st = 400))"
  by (auto simp: DetailLoadError_def entry_missing_def split: option.splits)

end
