(* ===== verification/Record_Switch.thy ===== *)
theory Record_Switch
  imports Edit_Forms Ui_Parts
begin

text \<open>
  From one entry to another on the same route (\<open>routes/users/$dn.tsx\<close>, \<open>routes/sudo-roles/$dn.tsx\<close>,
  \<open>routes/netgroups/$dn.tsx\<close>, \<open>routes/password-policies/$dn.tsx\<close>): the palette, a link or the browser's Back
  changes the parameter \<open>dn\<close>, the query cache may already hold the other entry, and the form of
  \<open>lib/form-sync.ts\<close> sees the other entry as new data. Whether the router mounts the component anew when only
  the parameter changes is its own: the argument \<open>remounts\<close>, which is false unless a route sets
  \<open>remountDeps\<close>, and no route does. The texts of forms are \<open>JSON.stringify\<close>, the argument \<open>text_of\<close>.
\<close>

section \<open>The identity tab\<close>

text \<open>
  The DN in the address, the answers the cache holds under \<open>['user', dn]\<close>, the tab with its form and its photo
  while it is mounted, and the visit the guard holds back. The identity tab is the one such a visit opens; the
  skeleton of a loading entry unmounts it.
\<close>

record identity_page =
  ip_dn :: string
  ip_cache :: "string \<Rightarrow> entry option"
  ip_tab :: "(text_form synced_form \<times> photo_state) option"
  ip_held :: "string option"

definition identity_mount :: "(text_form \<Rightarrow> string) \<Rightarrow> entry \<Rightarrow> text_form synced_form \<times> photo_state" where
  "identity_mount text_of user =
     (form_mount text_of (Some (identityForm user)) (identityForm user), photo_mount (str_opt user ''jpegPhoto''))"

text \<open>A render: a skeleton without the entry, and otherwise the tab, whose form sees the data of the entry.\<close>

definition identity_render :: "(text_form \<Rightarrow> string) \<Rightarrow> identity_page \<Rightarrow> identity_page" where
  "identity_render text_of p =
     p\<lparr>ip_tab :=
        (case ip_cache p (ip_dn p) of
           None \<Rightarrow> None
         | Some user \<Rightarrow>
             (case ip_tab p of
                None \<Rightarrow> Some (identity_mount text_of user)
              | Some (f, photo) \<Rightarrow> Some (arrive text_of (Some (identityForm user)) f, photo)))\<rparr>"

definition open_user :: "(text_form \<Rightarrow> string) \<Rightarrow> bool \<Rightarrow> string \<Rightarrow> identity_page \<Rightarrow> identity_page" where
  "open_user text_of remounts dn p =
     identity_render text_of
       (p\<lparr>ip_dn := dn, ip_tab := (if remounts \<and> dn \<noteq> ip_dn p then None else ip_tab p), ip_held := None\<rparr>)"

text \<open>What arms the guard, and what Save sends.\<close>

definition identity_dirty :: "(text_form \<Rightarrow> string) \<Rightarrow> identity_page \<Rightarrow> bool" where
  "identity_dirty text_of p =
     (case ip_tab p of None \<Rightarrow> False | Some (f, photo) \<Rightarrow> form_dirty text_of f \<or> ph_changed photo)"

definition identity_save :: "identity_page \<Rightarrow> request option" where
  "identity_save p =
     (case (ip_cache p (ip_dn p), ip_tab p) of
        (Some user, Some (f, photo)) \<Rightarrow> Some (identity_update (ip_dn p) user (sf_form f) (photo_sent photo))
      | _ \<Rightarrow> None)"

datatype visit_event =
    Visits string
  | LeavesAnyway
  | StaysHere
  | EntryArrives string entry
  | TypesForm text_form
  | TakesPhoto reader_outcome
  | RemovesPhoto

definition identity_step :: "(text_form \<Rightarrow> string) \<Rightarrow> bool \<Rightarrow> visit_event \<Rightarrow> identity_page \<Rightarrow> identity_page" where
  "identity_step text_of remounts e p =
     (case e of
        Visits dn \<Rightarrow> if identity_dirty text_of p then p\<lparr>ip_held := Some dn\<rparr> else open_user text_of remounts dn p
      | LeavesAnyway \<Rightarrow> (case ip_held p of None \<Rightarrow> p | Some dn \<Rightarrow> open_user text_of remounts dn p)
      | StaysHere \<Rightarrow> p\<lparr>ip_held := None\<rparr>
      | EntryArrives dn user \<Rightarrow> identity_render text_of (p\<lparr>ip_cache := (ip_cache p)(dn \<mapsto> user)\<rparr>)
      | TypesForm form \<Rightarrow> p\<lparr>ip_tab := map_option (\<lambda>(f, photo). (edit_form form f, photo)) (ip_tab p)\<rparr>
      | TakesPhoto r \<Rightarrow> p\<lparr>ip_tab := map_option (\<lambda>(f, photo). (f, fst (photo_read r photo))) (ip_tab p)\<rparr>
      | RemovesPhoto \<Rightarrow> p\<lparr>ip_tab := map_option (\<lambda>(f, photo). (f, handlePhotoRemove photo)) (ip_tab p)\<rparr>)"

definition first_visit :: "(text_form \<Rightarrow> string) \<Rightarrow> (string \<Rightarrow> entry option) \<Rightarrow> string \<Rightarrow> identity_page" where
  "first_visit text_of cache dn =
     identity_render text_of \<lparr>ip_dn = dn, ip_cache = cache, ip_tab = None, ip_held = None\<rparr>"

text \<open>The operator changes nothing.\<close>

fun looks_only :: "visit_event \<Rightarrow> bool" where
  "looks_only (TypesForm form) = False"
| "looks_only (TakesPhoto r) = False"
| "looks_only RemovesPhoto = False"
| "looks_only _ = True"

section \<open>The pages that hold their form themselves\<close>

text \<open>
  On the pages of sudo roles, netgroups and policies the form belongs to the page, so a loading entry does not
  unmount it; \<open>project\<close> is the literal \<open>serverForm\<close>, \<open>initial\<close> the first value of the form.
\<close>

record ('e, 'a) rule_page =
  rp_dn :: string
  rp_cache :: "string \<Rightarrow> 'e option"
  rp_form :: "'a synced_form"

definition rule_mount :: "('a \<Rightarrow> string) \<Rightarrow> ('e \<Rightarrow> 'a) \<Rightarrow> ('e option \<Rightarrow> 'a) \<Rightarrow> (string \<Rightarrow> 'e option) \<Rightarrow> string \<Rightarrow> ('e, 'a) rule_page" where
  "rule_mount text_of project initial cache dn =
     \<lparr>rp_dn = dn, rp_cache = cache, rp_form = form_mount text_of (map_option project (cache dn)) (initial (cache dn))\<rparr>"

definition open_rule :: "('a \<Rightarrow> string) \<Rightarrow> ('e \<Rightarrow> 'a) \<Rightarrow> ('e option \<Rightarrow> 'a) \<Rightarrow> bool \<Rightarrow> string \<Rightarrow> ('e, 'a) rule_page \<Rightarrow> ('e, 'a) rule_page" where
  "open_rule text_of project initial remounts dn p =
     (if remounts \<and> dn \<noteq> rp_dn p then rule_mount text_of project initial (rp_cache p) dn
      else p\<lparr>rp_dn := dn, rp_form := arrive text_of (map_option project (rp_cache p dn)) (rp_form p)\<rparr>)"

definition rule_arrives :: "('a \<Rightarrow> string) \<Rightarrow> ('e \<Rightarrow> 'a) \<Rightarrow> string \<Rightarrow> 'e \<Rightarrow> ('e, 'a) rule_page \<Rightarrow> ('e, 'a) rule_page" where
  "rule_arrives text_of project dn e p =
     (let cache = (rp_cache p)(dn \<mapsto> e)
      in p\<lparr>rp_cache := cache, rp_form := arrive text_of (map_option project (cache (rp_dn p))) (rp_form p)\<rparr>)"

text \<open>
  The sudo role and policy pages read the first value of their form from the entry, if it is there; the page of
  a netgroup starts empty either way.
\<close>

definition rule_first :: "('e \<Rightarrow> 'a) \<Rightarrow> 'a \<Rightarrow> 'e option \<Rightarrow> 'a" where
  "rule_first project blank data = (case data of None \<Rightarrow> blank | Some e \<Rightarrow> project e)"

text \<open>Save replaces the fields of the entry in the address by the whole form.\<close>

definition rule_save :: "('e, 'a) rule_page \<Rightarrow> string \<times> 'a" where
  "rule_save p = (rp_dn p, sf_form (rp_form p))"

datatype 'e rule_event = GoesTo string | Loads string 'e

definition rule_step :: "('a \<Rightarrow> string) \<Rightarrow> ('e \<Rightarrow> 'a) \<Rightarrow> ('e option \<Rightarrow> 'a) \<Rightarrow> 'e rule_event \<Rightarrow> ('e, 'a) rule_page \<Rightarrow> ('e, 'a) rule_page" where
  "rule_step text_of project initial ev p =
     (case ev of
        GoesTo dn \<Rightarrow> open_rule text_of project initial False dn p
      | Loads dn e \<Rightarrow> rule_arrives text_of project dn e p)"

section \<open>A page that is only looked at\<close>

definition tab_in_step :: "(text_form \<Rightarrow> string) \<Rightarrow> (text_form synced_form \<times> photo_state) option \<Rightarrow> entry option \<Rightarrow> bool" where
  "tab_in_step text_of tab data =
     (case (tab, data) of
        (None, None) \<Rightarrow> True
      | (Some (f, photo), Some user) \<Rightarrow> in_step text_of (identityForm user) f \<and> \<not> ph_changed photo
      | _ \<Rightarrow> False)"

definition looked_at :: "(text_form \<Rightarrow> string) \<Rightarrow> identity_page \<Rightarrow> bool" where
  "looked_at text_of p \<longleftrightarrow> ip_held p = None \<and> tab_in_step text_of (ip_tab p) (ip_cache p (ip_dn p))"

lemma mount_in_step: "tab_in_step text_of (Some (identity_mount text_of user)) (Some user)"
  by (simp add: tab_in_step_def identity_mount_def in_step_def form_mount_def sync_defs photo_mount_def)

lemma render_in_step:
  assumes "ip_tab p = None \<or> (\<exists>d. tab_in_step text_of (ip_tab p) d)" and "ip_held p = None"
  shows "looked_at text_of (identity_render text_of p)"
proof (cases "ip_cache p (ip_dn p)")
  case None
  then show ?thesis using assms(2) by (simp add: looked_at_def identity_render_def tab_in_step_def)
next
  case (Some user)
  show ?thesis
  proof (cases "ip_tab p")
    case None
    with Some assms(2) show ?thesis
      using mount_in_step by (simp add: looked_at_def identity_render_def)
  next
    case tab: (Some fp)
    obtain f photo where fp: "fp = (f, photo)" by fastforce
    from assms(1) tab fp obtain u where "in_step text_of (identityForm u) f" "\<not> ph_changed photo"
      by (auto simp: tab_in_step_def split: option.splits)
    then show ?thesis using arrive_in_step[of text_of] Some tab fp assms(2)
      by (simp add: looked_at_def identity_render_def tab_in_step_def)
  qed
qed

lemma looked_at_clean: "looked_at text_of p \<Longrightarrow> \<not> identity_dirty text_of p"
  by (auto simp: looked_at_def tab_in_step_def identity_dirty_def in_step_def form_dirty_def serverJSON_def
      split: option.splits)

lemma open_looked_at:
  assumes "looked_at text_of p"
  shows "looked_at text_of (open_user text_of remounts dn p)"
  unfolding open_user_def
  by (rule render_in_step) (use assms in \<open>auto simp: looked_at_def\<close>)

lemma step_looked_at:
  assumes "looked_at text_of p" and "looks_only e"
  shows "looked_at text_of (identity_step text_of remounts e p)"
proof (cases e)
  case (EntryArrives dn user)
  have "looked_at text_of (identity_render text_of (p\<lparr>ip_cache := (ip_cache p)(dn \<mapsto> user)\<rparr>))"
    by (rule render_in_step) (use assms(1) in \<open>auto simp: looked_at_def\<close>)
  then show ?thesis by (simp add: identity_step_def EntryArrives)
qed (use assms looked_at_clean[OF assms(1)] open_looked_at[OF assms(1)] in
  \<open>auto simp: identity_step_def looked_at_def split: option.splits\<close>)

lemma run_looked_at:
  "looked_at text_of p \<Longrightarrow> list_all looks_only es \<Longrightarrow> looked_at text_of (fold (identity_step text_of remounts) es p)"
  by (induction es arbitrary: p) (simp_all add: step_looked_at)

lemma first_visit_looked_at: "looked_at text_of (first_visit text_of cache dn)"
  unfolding first_visit_def by (rule render_in_step) simp_all

text \<open>
  C5: Looking never mixes up the text fields of users. Whatever users are visited, in whatever order their data
  arrives, and whether or not the router mounts the tab anew, an identity tab of the page of a user on which
  nothing was typed and no photo picked holds no visit back, shows the text fields of the user in the address, or
  nothing while that user is loading, and has no photo to send. (The photo it shows is another matter:
  \<open>photo_of_another\<close>.)
\<close>

theorem looking_shows_own_entry:
  assumes "list_all looks_only es"
  shows "let p = fold (identity_step text_of remounts) es (first_visit text_of cache dn) in
    ip_held p = None \<and> \<not> identity_dirty text_of p \<and>
    (ip_tab p = None \<longleftrightarrow> ip_cache p (ip_dn p) = None) \<and>
    (\<forall>f photo user. ip_tab p = Some (f, photo) \<and> ip_cache p (ip_dn p) = Some user \<longrightarrow>
       text_of (sf_form f) = text_of (identityForm user) \<and> \<not> ph_changed photo)"
proof -
  define p where "p = fold (identity_step text_of remounts) es (first_visit text_of cache dn)"
  have "looked_at text_of p" unfolding p_def by (rule run_looked_at[OF first_visit_looked_at assms])
  then have "ip_held p = None \<and> \<not> identity_dirty text_of p \<and>
    (ip_tab p = None \<longleftrightarrow> ip_cache p (ip_dn p) = None) \<and>
    (\<forall>f photo user. ip_tab p = Some (f, photo) \<and> ip_cache p (ip_dn p) = Some user \<longrightarrow>
       text_of (sf_form f) = text_of (identityForm user) \<and> \<not> ph_changed photo)"
    using looked_at_clean[of text_of p] by (auto simp: looked_at_def tab_in_step_def in_step_def split: option.splits)
  then show ?thesis by (simp add: p_def Let_def)
qed

text \<open>Two entries, and a text of a form.\<close>

definition sample_ann :: entry where "sample_ann = [(''cn'', JStr ''Ann''), (''mail'', JStr ''ann@example.org'')]"
definition sample_bo :: entry where "sample_bo = [(''cn'', JStr ''Bo''), (''mail'', JStr ''bo@example.org'')]"
definition sample_text :: "text_form \<Rightarrow> string" where "sample_text f = concat (map (\<lambda>(k, v). v @ '';'') f)"

definition sample_walk :: "visit_event list" where
  "sample_walk = [EntryArrives ''uid=ann'' sample_ann, EntryArrives ''uid=bo'' sample_bo, Visits ''uid=bo'']"

theorem looking_shows_own_entry_witness:
  "let p = fold (identity_step sample_text False) sample_walk (first_visit sample_text (\<lambda>_. None) ''uid=ann'')
   in ip_dn p = ''uid=bo'' \<and> ip_tab p \<noteq> None \<and> \<not> identity_dirty sample_text p"
proof -
  define p where "p = fold (identity_step sample_text False) sample_walk (first_visit sample_text (\<lambda>_. None) ''uid=ann'')"
  have l: "list_all looks_only sample_walk" by (simp add: sample_walk_def)
  note T = looking_shows_own_entry[OF l, of sample_text False "\<lambda>_. None" "''uid=ann''", folded p_def, unfolded Let_def]
  have "ip_dn p = ''uid=bo''" "ip_cache p ''uid=bo'' = Some sample_bo" unfolding p_def by code_simp+
  with T show ?thesis unfolding p_def[symmetric] Let_def by simp
qed

section \<open>Leaving with unsaved changes\<close>

lemma open_unmounted:
  assumes "ip_cache p dn = None \<or> remounts \<and> dn \<noteq> ip_dn p \<or> ip_tab p = None"
  shows "open_user text_of remounts dn p = first_visit text_of (ip_cache p) dn"
  using assms
  by (cases p) (auto simp: open_user_def first_visit_def identity_render_def split: option.splits)

lemma leave_afresh:
  assumes "ip_cache p dn = None \<or> remounts \<and> dn \<noteq> ip_dn p" and "ip_held p = None"
  shows "identity_step text_of remounts LeavesAnyway (identity_step text_of remounts (Visits dn) p) =
    first_visit text_of (ip_cache p) dn"
proof (cases "identity_dirty text_of p")
  case True
  have "open_user text_of remounts dn (p\<lparr>ip_held := Some dn\<rparr>) = first_visit text_of (ip_cache p) dn"
    using open_unmounted[of "p\<lparr>ip_held := Some dn\<rparr>" dn remounts text_of] assms(1) by auto
  with True show ?thesis by (simp add: identity_step_def)
next
  case False
  have "open_user text_of remounts dn p = first_visit text_of (ip_cache p) dn"
    by (rule open_unmounted) (use assms(1) in auto)
  moreover have "ip_held (first_visit text_of (ip_cache p) dn) = None" by (simp add: first_visit_def identity_render_def)
  ultimately show ?thesis using False by (simp add: identity_step_def)
qed

lemma looked_at_shown:
  assumes "looked_at text_of p" and "ip_cache p (ip_dn p) = Some user"
  shows "\<exists>f photo. ip_tab p = Some (f, photo) \<and> text_of (sf_form f) = text_of (identityForm user) \<and> photo_sent photo = None"
  using assms by (auto simp: looked_at_def tab_in_step_def in_step_def photo_sent_def split: option.splits)

text \<open>
  C3: The guard keeps its word when the user asked for is not in the cache yet (or the router mounts the page
  anew). A dirty identity tab holds the visit back, and staying puts everything back as it was. Leaving anyway
  discards the whole draft, fields, photo and held visit: the page is the one a first visit to that user opens, and
  once the entry has arrived its own text fields are in the form, nothing is dirty and no photo is sent.
\<close>

theorem leaving_starts_afresh:
  assumes "ip_cache p dn = None \<or> remounts \<and> dn \<noteq> ip_dn p" and "ip_held p = None"
  shows "let step = identity_step text_of remounts; asked = step (Visits dn) p;
             gone = step LeavesAnyway asked; shown = step (EntryArrives dn user) gone
         in (identity_dirty text_of p \<longrightarrow>
               ip_dn asked = ip_dn p \<and> ip_tab asked = ip_tab p \<and> ip_held asked = Some dn \<and> step StaysHere asked = p) \<and>
            gone = first_visit text_of (ip_cache p) dn \<and>
            ip_dn shown = dn \<and> \<not> identity_dirty text_of shown \<and>
            (\<exists>f photo. ip_tab shown = Some (f, photo) \<and> text_of (sf_form f) = text_of (identityForm user) \<and>
               photo_sent photo = None \<and>
               identity_save shown = Some (identity_update dn user (sf_form f) None))"
proof -
  define asked where "asked = identity_step text_of remounts (Visits dn) p"
  define gone where "gone = identity_step text_of remounts LeavesAnyway asked"
  define shown where "shown = identity_step text_of remounts (EntryArrives dn user) gone"
  have stays: "ip_dn asked = ip_dn p \<and> ip_tab asked = ip_tab p \<and> ip_held asked = Some dn \<and>
      identity_step text_of remounts StaysHere asked = p" if "identity_dirty text_of p"
    using that assms(2) by (cases p) (simp add: asked_def identity_step_def)
  have gone: "gone = first_visit text_of (ip_cache p) dn"
    unfolding gone_def asked_def by (rule leave_afresh[OF assms])
  have look: "looked_at text_of shown"
    unfolding shown_def gone by (intro step_looked_at first_visit_looked_at) simp
  have dn: "ip_dn shown = dn" "ip_cache shown dn = Some user"
    by (simp_all add: shown_def gone identity_step_def identity_render_def first_visit_def)
  from looked_at_shown[OF look, of user] dn obtain f photo where
    f: "ip_tab shown = Some (f, photo)" "text_of (sf_form f) = text_of (identityForm user)" "photo_sent photo = None"
    by auto
  then have "identity_save shown = Some (identity_update dn user (sf_form f) None)"
    using dn by (simp add: identity_save_def)
  then show ?thesis
    using stays gone dn f looked_at_clean[OF look]
    unfolding Let_def asked_def[symmetric] gone_def[symmetric] shown_def[symmetric] by auto
qed

text \<open>Ann's name is edited and her photo removed, then Bo is asked for.\<close>

definition sample_draft :: text_form where "sample_draft = edit_field ''cn'' ''Anna'' (identityForm sample_ann)"

definition sample_page :: identity_page where
  "sample_page =
     fold (identity_step sample_text False) [TypesForm sample_draft, RemovesPhoto]
       (first_visit sample_text [''uid=ann'' \<mapsto> sample_ann] ''uid=ann'')"

theorem leaving_starts_afresh_witness:
  "let asked = identity_step sample_text False (Visits ''uid=bo'') sample_page;
       q = identity_step sample_text False LeavesAnyway asked
   in ip_held asked = Some ''uid=bo'' \<and> q = first_visit sample_text (ip_cache sample_page) ''uid=bo'' \<and>
      ip_tab sample_page \<noteq> None"
proof -
  have h: "ip_cache sample_page ''uid=bo'' = None" "ip_held sample_page = None" "identity_dirty sample_text sample_page"
    "ip_tab sample_page \<noteq> None"
    by code_simp+
  show ?thesis
    using leaving_starts_afresh[of sample_page "''uid=bo''" False sample_text sample_bo] h by (simp add: Let_def)
qed

text \<open>
  With the other entry in the cache, and the router as it is, the draft stays instead: it is now an edit of the
  other user, and Save sends every field that differs, and the photo that was picked, to that user's entry.
\<close>

lemma cached_leave_keeps_draft:
  assumes "ip_tab p = Some (f, photo)" and "ip_held p = Some dn" and "ip_cache p dn = Some user"
    and "\<not> pristine text_of f" and "text_of (sf_form f) \<noteq> text_of (identityForm user)"
  shows "identity_save (identity_step text_of False LeavesAnyway p) =
    Some (identity_update dn user (sf_form f) (photo_sent photo))"
  using assms arrive_keeps_draft[OF assms(4), of "Some (identityForm user)"]
  by (simp add: identity_step_def open_user_def identity_render_def identity_save_def)

section \<open>The photo, and the pages of rules\<close>

text \<open>
  The photo is no part of the form: a page that is only looked at can show the photo of the user before, and the
  photo picked for one user is sent to the next.
\<close>

lemma photo_of_another:
  "let ann = [(''cn'', JStr ''Ann''), (''jpegPhoto'', JStr ''QW5u'')];
       p = fold (identity_step sample_text False) [EntryArrives ''uid=bo'' sample_bo, Visits ''uid=bo'']
             (first_visit sample_text [''uid=ann'' \<mapsto> ann] ''uid=ann'')
   in ip_dn p = ''uid=bo'' \<and> map_option (ph_photo \<circ> snd) (ip_tab p) = Some ''QW5u''"
  by code_simp

text \<open>
  On the pages that hold their form a draft moves to the next entry even when that entry has to be loaded first:
  after Leave the form is unchanged, whatever data of the next entry arrives other than the draft itself, and Save
  writes the whole draft to the next entry.
\<close>

lemma rule_draft_moves:
  assumes "rp_cache p dn = None" and "\<not> pristine text_of (rp_form p)"
    and "text_of (project e) \<noteq> text_of (sf_form (rp_form p))"
  shows "rule_save (rule_arrives text_of project dn e (open_rule text_of project initial False dn p)) =
    (dn, sf_form (rp_form p))"
proof -
  let ?f = "arrive text_of None (rp_form p)"
  have i: "sf_form ?f = sf_form (rp_form p)" "sf_last ?f = sf_last (rp_form p)"
    using arrive_idle[of None text_of "rp_form p"] by auto
  with assms have "\<not> pristine text_of ?f" by (simp add: pristine_def)
  from arrive_keeps_draft[OF this, of "Some (project e)"] assms i show ?thesis
    by (simp add: rule_save_def rule_arrives_def open_rule_def)
qed

text \<open>A page of rules on which nothing was typed: its form is the entry it last saw.\<close>

definition rule_looked_at :: "('a \<Rightarrow> string) \<Rightarrow> ('e \<Rightarrow> 'a) \<Rightarrow> ('e, 'a) rule_page \<Rightarrow> bool" where
  "rule_looked_at text_of project p \<longleftrightarrow>
     (let f = rp_form p; data = map_option project (rp_cache p (rp_dn p))
      in pristine text_of f \<and> sf_server f = data \<and> sf_deps f = map_option text_of data \<and>
         (\<forall>v. data = Some v \<longrightarrow> text_of (sf_form f) = text_of v))"

lemma arrive_looked_at:
  assumes "pristine text_of f" and "sf_deps f = map_option text_of (sf_server f)"
    and "\<forall>v. sf_server f = Some v \<longrightarrow> text_of (sf_form f) = text_of v"
  shows "pristine text_of (arrive text_of d f) \<and>
    (\<forall>v. d = Some v \<longrightarrow> text_of (sf_form (arrive text_of d f)) = text_of v)"
proof (cases d)
  case None
  then show ?thesis using assms(1) arrive_idle[of None text_of f] by (simp add: pristine_def)
next
  case (Some w)
  show ?thesis
  proof (cases "Some (text_of w) = sf_deps f")
    case True
    then obtain v where v: "sf_server f = Some v" "text_of v = text_of w" using assms(2) by (cases "sf_server f") auto
    have "sf_form (arrive text_of d f) = sf_form f \<and> sf_last (arrive text_of d f) = sf_last f"
      using arrive_idle[of d text_of f] True Some by simp
    then show ?thesis using assms(1,3) v Some by (auto simp: pristine_def)
  next
    case False
    then show ?thesis using arrive_takes[of text_of f w] assms(1) Some by (auto simp: pristine_def)
  qed
qed

lemma rule_step_looked_at:
  assumes "rule_looked_at text_of project p"
  shows "rule_looked_at text_of project (rule_step text_of project initial ev p)"
proof -
  have arrives: "pristine text_of (arrive text_of d (rp_form p)) \<and>
      (\<forall>v. d = Some v \<longrightarrow> text_of (sf_form (arrive text_of d (rp_form p))) = text_of v)" for d
    by (rule arrive_looked_at) (use assms in \<open>auto simp: rule_looked_at_def Let_def\<close>)
  show ?thesis
  proof (cases ev)
    case (GoesTo dn)
    then show ?thesis
      using arrives[of "map_option project (rp_cache p dn)"]
      by (simp add: rule_looked_at_def Let_def rule_step_def open_rule_def del: map_option_eq_Some)
  next
    case (Loads dn e)
    then show ?thesis
      using arrives[of "map_option project (((rp_cache p)(dn \<mapsto> e)) (rp_dn p))"]
      by (simp add: rule_looked_at_def Let_def rule_step_def rule_arrives_def del: map_option_eq_Some fun_upd_apply)
  qed
qed

lemma rule_run_looked_at:
  "rule_looked_at text_of project p \<Longrightarrow> rule_looked_at text_of project (fold (rule_step text_of project initial) evs p)"
  by (induction evs arbitrary: p) (simp_all add: rule_step_looked_at)

lemma rule_first_looked_at:
  "cache dn = Some e \<Longrightarrow> rule_looked_at text_of project (rule_mount text_of project (rule_first project blank) cache dn)"
  by (simp add: rule_looked_at_def Let_def rule_mount_def rule_first_def form_mount_def sync_defs)

text \<open>Entries that load while a draft is in the form.\<close>

lemma loads_keep_draft:
  assumes "\<not> pristine text_of (rp_form p)"
    and "\<forall>e. (rp_dn p, e) \<in> set ls \<or> rp_cache p (rp_dn p) = Some e \<longrightarrow> text_of (project e) \<noteq> text_of (sf_form (rp_form p))"
  shows "rp_dn (fold (\<lambda>(d, e). rule_step text_of project initial (Loads d e)) ls p) = rp_dn p \<and>
    sf_form (rp_form (fold (\<lambda>(d, e). rule_step text_of project initial (Loads d e)) ls p)) = sf_form (rp_form p)"
  using assms
proof (induction ls arbitrary: p)
  case (Cons l ls)
  obtain d e where l: "l = (d, e)" by fastforce
  let ?q = "rule_step text_of project initial (Loads d e) p"
  have "\<forall>v. map_option project (((rp_cache p)(d \<mapsto> e)) (rp_dn p)) = Some v \<longrightarrow> text_of v \<noteq> text_of (sf_form (rp_form p))"
    using Cons.prems(2) l by (auto split: if_splits)
  from arrive_keeps_draft[OF Cons.prems(1) this]
  have q: "rp_dn ?q = rp_dn p" "rp_cache ?q = (rp_cache p)(d \<mapsto> e)" "sf_form (rp_form ?q) = sf_form (rp_form p)"
    "sf_last (rp_form ?q) = sf_last (rp_form p)"
    by (simp_all add: rule_step_def rule_arrives_def Let_def)
  have "\<not> pristine text_of (rp_form ?q)" using Cons.prems(1) q by (simp add: pristine_def)
  then show ?case
    using Cons.IH[of ?q] Cons.prems(2) q l by (auto split: if_splits)
qed simp

text \<open>
  C4: The page of a sudo role or of a password policy, opened on an entry that was in the cache. Whatever entries
  of the route are visited and loaded, in whatever order, while nothing is typed the page is never dirty and, once
  the entry of its address is there, its form holds that entry. What is then typed there is what Save writes, to
  the entry of the address, whatever else is loaded before it, as long as none of that entry's data, loaded before
  or meanwhile, is what was typed.
\<close>

theorem rule_page_shows_and_saves_own:
  assumes "cache dn = Some e0"
    and "p = fold (rule_step text_of project (rule_first project blank)) evs
               (rule_mount text_of project (rule_first project blank) cache dn)"
    and "rp_cache p (rp_dn p) = Some e"
    and "\<forall>e'. e' = e \<or> (rp_dn p, e') \<in> set loads \<longrightarrow> text_of (project e') \<noteq> text_of draft"
  shows "text_of (sf_form (rp_form p)) = text_of (project e) \<and> \<not> form_dirty text_of (rp_form p) \<and>
    rule_save (fold (\<lambda>(d, e'). rule_step text_of project (rule_first project blank) (Loads d e')) loads
        (p\<lparr>rp_form := edit_form draft (rp_form p)\<rparr>)) = (rp_dn p, draft)"
proof -
  have look: "rule_looked_at text_of project p"
    unfolding assms(2) using assms(1) by (intro rule_run_looked_at rule_first_looked_at)
  then have shown: "text_of (sf_form (rp_form p)) = text_of (project e)" "\<not> form_dirty text_of (rp_form p)"
    "sf_last (rp_form p) = Some (text_of (project e))"
    using assms(3) by (simp_all add: rule_looked_at_def Let_def dirty_iff pristine_def)
  let ?t = "p\<lparr>rp_form := edit_form draft (rp_form p)\<rparr>"
  have "\<not> pristine text_of (rp_form ?t)" using shown(3) assms(4) by (simp add: pristine_def)
  from loads_keep_draft[OF this, of loads project] assms(3,4) shown(1,2) show ?thesis
    by (auto simp: rule_save_def)
qed

theorem rule_page_shows_and_saves_own_witness:
  "let show = (\<lambda>xs. concat (map (\<lambda>x. x @ '';'') xs)); load = rule_first id [];
       p = fold (rule_step show id load) [GoesTo ''cn=db'', Loads ''cn=db'' [''psql'']]
             (rule_mount show id load [''cn=web'' \<mapsto> [''nginx'']] ''cn=web'')
   in show (sf_form (rp_form p)) = ''psql;'' \<and>
      rule_save (fold (\<lambda>(d, e'). rule_step show id load (Loads d e')) [(''cn=web'', [''httpd'']), (''cn=db'', [''pg''])]
        (p\<lparr>rp_form := edit_form [''psql'', ''reboot''] (rp_form p)\<rparr>)) = (''cn=db'', [''psql'', ''reboot''])"
proof -
  let ?show = "\<lambda>xs::string list. concat (map (\<lambda>x. x @ '';'') xs)" and ?load = "rule_first id ([] :: string list)"
  let ?evs = "[GoesTo ''cn=db'', Loads ''cn=db'' [''psql'']]" and ?loads = "[(''cn=web'', [''httpd'']), (''cn=db'', [''pg''])]"
  define p where "p = fold (rule_step ?show id ?load) ?evs (rule_mount ?show id ?load [''cn=web'' \<mapsto> [''nginx'']] ''cn=web'')"
  have h: "rp_dn p = ''cn=db''" "rp_cache p ''cn=db'' = Some [''psql'']" unfolding p_def by code_simp+
  have "\<forall>e'. e' = [''psql''] \<or> (''cn=db'', e') \<in> set ?loads \<longrightarrow> ?show (id e') \<noteq> ?show [''psql'', ''reboot'']" by auto
  from rule_page_shows_and_saves_own[where evs = ?evs and project = id and text_of = ?show and blank = "[]" and p = p
      and cache = "[''cn=web'' \<mapsto> [''nginx'']]" and loads = ?loads and draft = "[''psql'', ''reboot'']"
      and dn = "''cn=web''" and ?e0.0 = "[''nginx'']" and e = "[''psql'']"] this h
  show ?thesis unfolding p_def[symmetric] Let_def by (simp add: p_def[symmetric])
qed

end
