(* ===== verification/Pick_Dialogs.thy ===== *)
theory Pick_Dialogs
  imports Group_Page Rule_Pages Bulk_Dialogs Shell_Frame
begin

text \<open>
  The dialogs that pick from the directory or ask to be confirmed in writing: adding a user to groups, choosing a
  manager, adding a user or a group to a sudo role, adding a member (\<open>routes/users/$dn.tsx\<close>,
  \<open>routes/groups/$dn.tsx\<close>), putting a netgroup on a rule (\<open>components/netgroup-picker.tsx\<close>), the dialogs of the
  users toolbar (\<open>components/users-bulk-actions.tsx\<close>), changing the POSIX numbers and renaming a group
  (\<open>components/posix-ids-change.tsx\<close>, \<open>components/group-rename.tsx\<close>): what each draws while it is open, and what
  it holds when it is closed, whichever way that happened.
\<close>

section \<open>What the dialogs draw\<close>

text \<open>The note below the candidates; \<open>dash\<close> is the dash of its sentence.\<close>

definition overflow_note :: "string \<Rightarrow> int \<Rightarrow> control list" where
  "overflow_note dash unshown = (case PickerOverflow dash unshown of Some t \<Rightarrow> [Says t] | None \<Rightarrow> [])"

definition add_groups_dialog :: "string \<Rightarrow> member_group list \<Rightarrow> member_group list \<Rightarrow> int \<Rightarrow> bool \<Rightarrow> string \<Rightarrow> string list \<Rightarrow> bool \<Rightarrow> control list" where
  "add_groups_dialog dash groups items unshown fetching term selected pending =
     [Says ''Add to Groups'', Edits ''search'' '''' TextIn ''Search groups...'' True]
     @ (case groups_selected_text selected of Some t \<Rightarrow> [Says t] | None \<Rightarrow> [])
     @ (let availableGroups = groupsNotJoined items groups in
        if 0 < length availableGroups then map (\<lambda>g. Presses (mg_cn g) True) availableGroups
        else [Says (picker_nothing fetching term ''No group matches this search.'' ''This user is already in every group.'')])
     @ overflow_note dash unshown
     @ [Presses ''Cancel'' True, add_groups_button pending selected]"

fun manager_control :: "manager_row \<Rightarrow> control" where
  "manager_control ClearManager = Presses ''Clear manager'' True"
| "manager_control (PickManager dn name is_it) = Presses name True"
| "manager_control (NoManagers t) = Says t"

definition manager_dialog :: "string \<Rightarrow> string \<Rightarrow> listed_user list \<Rightarrow> int \<Rightarrow> bool \<Rightarrow> string \<Rightarrow> string \<Rightarrow> control list" where
  "manager_dialog dash dn items unshown fetching term manager =
     [Says ''Select Manager'', Edits ''search'' '''' TextIn ''Search users...'' True]
     @ map manager_control (manager_rows dn items manager fetching term)
     @ overflow_note dash unshown"

definition role_choice :: "granted_role \<Rightarrow> control list" where
  "role_choice r =
     Presses (granted_role.gr_cn r) True # (case role_commands_text r of Some t \<Rightarrow> [Says t] | None \<Rightarrow> [])"

text \<open>\<open>noun\<close> is what is added to the role, a user or a group.\<close>

definition add_role_dialog :: "string \<Rightarrow> string \<Rightarrow> granted_role list \<Rightarrow> granted_role list \<Rightarrow> int \<Rightarrow> bool \<Rightarrow> string \<Rightarrow> string \<Rightarrow> bool \<Rightarrow> control list" where
  "add_role_dialog dash noun held items unshown fetching term selectedRole pending =
     [Says ''Add to Sudo Role'', Edits ''search'' '''' TextIn ''Search sudo roles...'' True]
     @ (let availableRoles = rolesNotHeld items held in
        if 0 < length availableRoles then concat (map role_choice availableRoles)
        else [Says (picker_nothing fetching term ''No sudo role matches this search.''
                     (''This '' @ noun @ '' is already in every sudo role.''))])
     @ overflow_note dash unshown
     @ [Presses ''Cancel'' True, add_role_button pending selectedRole]"

fun member_control :: "member_row_shown \<Rightarrow> control list" where
  "member_control (Candidate uid name is_it) = [Presses name True, Says uid]"
| "member_control (NoCandidates t) = [Says t]"

definition add_member_dialog :: "string \<Rightarrow> string list \<Rightarrow> listed_user list \<Rightarrow> int \<Rightarrow> bool \<Rightarrow> string \<Rightarrow> string \<Rightarrow> bool \<Rightarrow> control list" where
  "add_member_dialog dash memberUid items unshown fetching term newMember pending =
     [Says ''Add Member'', Edits ''search'' '''' TextIn ''Search users...'' True]
     @ concat (map member_control (candidate_rows items memberUid newMember fetching term))
     @ overflow_note dash unshown
     @ [Presses ''Close'' True, add_member_button pending newMember]"

text \<open>The netgroups of a rule, with the remarks about the one selected.\<close>

definition netgroup_dialog :: "string \<Rightarrow> sudo_list \<Rightarrow> string list \<Rightarrow> netgroup list \<Rightarrow> int \<Rightarrow> bool \<Rightarrow> string \<Rightarrow> string option \<Rightarrow> control list" where
  "netgroup_dialog dash f existing items unshown fetching term selected =
     (let candidates = netgroup_candidates existing items in
      [Says (''Add a netgroup to '' @ (if f = SudoUser then ''Users'' else ''Hosts'')),
       Edits ''search'' '''' TextIn ''Search netgroups...'' True]
      @ (if 0 < length candidates
         then concat (map (\<lambda>n. case candidate_line dash n of (name, line) \<Rightarrow> [Presses name True, Says line]) candidates)
         else [Says (picker_empty_text fetching term)])
      @ overflow_note dash unshown
      @ map Says (picker_remarks dash f candidates selected)
      @ [Presses ''Cancel'' True, Presses ''Add'' (picker_pick selected \<noteq> None)])"

text \<open>The two dialogs of the users toolbar that ask for something; a group dialog is open in a mode.\<close>

definition bulk_group_dialog :: "string \<Rightarrow> group_mode option \<Rightarrow> nat \<Rightarrow> group_pick list \<Rightarrow> int \<Rightarrow> bool \<Rightarrow> bool \<Rightarrow> group_pick option \<Rightarrow> control list" where
  "bulk_group_dialog dash mode amount items unshown fetching running picked =
     (if mode = None then []
      else
        [Says (if mode = Some ModeRemove then ''Remove from group'' else ''Add to group''),
         Says (if mode = Some ModeRemove
               then ''Remove the '' @ nat_str amount @ '' selected user'' @ plural_s amount @ '' from a group.''
               else ''Add the '' @ nat_str amount @ '' selected user'' @ plural_s amount @ '' to a group.''),
         Edits ''search'' '''' TextIn ''Search groups...'' True]
        @ bulk_group_rows items fetching None @ overflow_note dash unshown
        @ (case picked of
             Some g \<Rightarrow> if \<not> list_ex (\<lambda>i. gp_dn i = gp_dn g) items then [Says (''Selected: '' @ gp_cn g)] else []
           | None \<Rightarrow> [])
        @ [Presses ''Cancel'' True, group_confirm mode running picked])"

definition bulk_expiration_dialog :: "bool \<Rightarrow> nat \<Rightarrow> bool \<Rightarrow> string \<Rightarrow> control list" where
  "bulk_expiration_dialog opened amount running date =
     (if \<not> opened then []
      else
        [Says ''Set expiration'',
         Says (''Set the account expiration date for the '' @ nat_str amount @ '' selected user'' @ plural_s amount
                @ ''. Leave empty to clear any existing expiration.''),
         Edits ''date'' ''Expiration date'' DateIn '''' True,
         Says ''The accounts stop working at the end of this day, UTC.'',
         Presses ''Cancel'' True, expiration_confirm running date])"

section \<open>What the dialogs hold\<close>

text \<open>A dialog with a search box and what is picked; a row is pressed, or a term typed, only while it is open.\<close>

record 'a choosing =
  ch_open :: bool
  ch_picked :: 'a
  ch_term :: string

datatype choose_event = OpenChange bool | PressRow string | TypeTerm string | PressCancel | PressAdd | AddSucceeds

definition groups_step :: "choose_event \<Rightarrow> string list choosing \<Rightarrow> string list choosing" where
  "groups_step e s =
     (case e of
        OpenChange b \<Rightarrow> s\<lparr>ch_open := b\<rparr>
      | PressRow dn \<Rightarrow> if ch_open s then s\<lparr>ch_picked := toggle_group dn (ch_picked s)\<rparr> else s
      | TypeTerm v \<Rightarrow> if ch_open s then s\<lparr>ch_term := v\<rparr> else s
      | PressAdd \<Rightarrow> s
      | _ \<Rightarrow> \<lparr>ch_open = False, ch_picked = [], ch_term = ''''\<rparr>)"

definition role_step :: "choose_event \<Rightarrow> string choosing \<Rightarrow> string choosing" where
  "role_step e s =
     (case e of
        OpenChange b \<Rightarrow> s\<lparr>ch_open := b\<rparr>
      | PressRow dn \<Rightarrow> if ch_open s then s\<lparr>ch_picked := dn\<rparr> else s
      | TypeTerm v \<Rightarrow> if ch_open s then s\<lparr>ch_term := v\<rparr> else s
      | PressAdd \<Rightarrow> s
      | _ \<Rightarrow> \<lparr>ch_open = False, ch_picked = '''', ch_term = ''''\<rparr>)"

text \<open>The picker of netgroups closes through one function, also when it hands a netgroup over.\<close>

definition close_netgroups :: "string option choosing" where
  "close_netgroups = \<lparr>ch_open = False, ch_picked = None, ch_term = ''''\<rparr>"

definition netgroups_step :: "choose_event \<Rightarrow> string option choosing \<Rightarrow> string option choosing" where
  "netgroups_step e s =
     (case e of
        OpenChange b \<Rightarrow> if b then s\<lparr>ch_open := True\<rparr> else close_netgroups
      | PressRow cn \<Rightarrow> if ch_open s then s\<lparr>ch_picked := Some cn\<rparr> else s
      | TypeTerm v \<Rightarrow> if ch_open s then s\<lparr>ch_term := v\<rparr> else s
      | AddSucceeds \<Rightarrow> s
      | _ \<Rightarrow> close_netgroups)"

text \<open>The dialogs that are confirmed in writing: fields by name, Cancel, the answer.\<close>

datatype written_event = OpensTo bool | TypesNumber bool string | TypesConfirmation string | CancelsWritten | Starts | Succeeds | Fails

definition posix_close :: "posix_dialog \<Rightarrow> posix_dialog" where
  "posix_close s = s\<lparr>px_open := False, px_newUid := '''', px_newGid := '''', px_confirm := ''''\<rparr>"

definition posix_step :: "written_event \<Rightarrow> posix_dialog \<Rightarrow> posix_dialog" where
  "posix_step e s =
     (case e of
        OpensTo b \<Rightarrow> if b then s\<lparr>px_open := True\<rparr> else posix_close s
      | TypesNumber for_uid v \<Rightarrow> if px_open s then (if for_uid then s\<lparr>px_newUid := v\<rparr> else s\<lparr>px_newGid := v\<rparr>) else s
      | TypesConfirmation v \<Rightarrow> if px_open s then s\<lparr>px_confirm := v\<rparr> else s
      | CancelsWritten \<Rightarrow> posix_close s
      | Starts \<Rightarrow> s\<lparr>px_pending := True\<rparr>
      | Succeeds \<Rightarrow> posix_close (s\<lparr>px_pending := False\<rparr>)
      | Fails \<Rightarrow> s\<lparr>px_pending := False\<rparr>)"

definition group_rename_step :: "written_event \<Rightarrow> bool \<times> rename_dialog \<Rightarrow> bool \<times> rename_dialog" where
  "group_rename_step e s =
     (case e of
        OpensTo b \<Rightarrow> rename_open_change b s
      | TypesNumber for_uid v \<Rightarrow> if fst s then (fst s, (snd s)\<lparr>rn_new := v\<rparr>) else s
      | TypesConfirmation v \<Rightarrow> if fst s then (fst s, (snd s)\<lparr>rn_confirm := v\<rparr>) else s
      | CancelsWritten \<Rightarrow> close_rename s
      | Starts \<Rightarrow> (fst s, (snd s)\<lparr>rn_pending := True\<rparr>)
      | Succeeds \<Rightarrow> close_rename (fst s, (snd s)\<lparr>rn_pending := False\<rparr>)
      | Fails \<Rightarrow> (fst s, (snd s)\<lparr>rn_pending := False\<rparr>))"

section \<open>Closed dialogs hold nothing\<close>

text \<open>
  The interface of a dialog that empties itself: no step leaves it closed with something in it, if it was not so
  before. What every run of such a dialog keeps is proved once.
\<close>

locale tidy_dialog =
  fixes step :: "'e \<Rightarrow> 's \<Rightarrow> 's" and opened :: "'s \<Rightarrow> bool" and blank :: "'s \<Rightarrow> bool"
  assumes step_tidy: "opened s \<or> blank s \<Longrightarrow> opened (step e s) \<or> blank (step e s)"
begin

lemma run_tidy: "opened s \<or> blank s \<Longrightarrow> opened (fold step es s) \<or> blank (fold step es s)"
  by (induction es arbitrary: s) (simp_all add: step_tidy)

lemma closed_blank: "blank s \<Longrightarrow> \<not> opened (fold step es s) \<Longrightarrow> blank (fold step es s)"
  using run_tidy[of s es] by blast

end

definition posix_blank :: "posix_dialog \<Rightarrow> bool" where
  "posix_blank s \<longleftrightarrow> px_newUid s = '''' \<and> px_newGid s = '''' \<and> px_confirm s = ''''"

definition rename_blank :: "bool \<times> rename_dialog \<Rightarrow> bool" where
  "rename_blank s \<longleftrightarrow> rn_new (snd s) = '''' \<and> rn_confirm (snd s) = ''''"

definition password_blank :: "password_dialog \<Rightarrow> bool" where
  "password_blank s \<longleftrightarrow> pd_current s = '''' \<and> pd_new s = '''' \<and> pd_confirm s = ''''"

definition nothing_picked :: "string option choosing \<Rightarrow> bool" where
  "nothing_picked s \<longleftrightarrow> ch_picked s = None \<and> ch_term s = ''''"

interpretation passwords: tidy_dialog password_dialog_step pd_open password_blank
  by unfold_locales
    (auto simp: password_dialog_step_def closePasswordDialog_def password_blank_def split: dialog_event.splits)

interpretation netgroups: tidy_dialog netgroups_step ch_open nothing_picked
  by unfold_locales (auto simp: netgroups_step_def close_netgroups_def nothing_picked_def split: choose_event.splits)

interpretation posix: tidy_dialog posix_step px_open posix_blank
  by unfold_locales (auto simp: posix_step_def posix_close_def posix_blank_def split: written_event.splits)

interpretation renaming: tidy_dialog group_rename_step fst rename_blank
  by unfold_locales
    (auto simp: group_rename_step_def rename_open_change_def close_rename_def rename_blank_def split: written_event.splits)

text \<open>
  C39: The dialogs for one's own password, for the netgroups of a rule, for the POSIX numbers and for the name of a
  group: whatever is opened, typed, picked, cancelled, sent or answered, in whatever order, a dialog that is closed
  holds nothing of it, so that it never opens again with a confirmation or a password already typed. (The end of a
  session does not close the password dialog, it only takes it off the screen: \<open>password_outlives_session\<close>.)
\<close>

theorem closed_dialogs_hold_nothing:
  "(password_blank p \<and> \<not> pd_open (fold password_dialog_step es1 p) \<longrightarrow> password_blank (fold password_dialog_step es1 p)) \<and>
   (nothing_picked n \<and> \<not> ch_open (fold netgroups_step es2 n) \<longrightarrow> nothing_picked (fold netgroups_step es2 n)) \<and>
   (posix_blank x \<and> \<not> px_open (fold posix_step es3 x) \<longrightarrow> posix_blank (fold posix_step es3 x)) \<and>
   (rename_blank r \<and> \<not> fst (fold group_rename_step es3 r) \<longrightarrow> rename_blank (fold group_rename_step es3 r))"
  using passwords.closed_blank netgroups.closed_blank posix.closed_blank renaming.closed_blank by blast

theorem closed_dialogs_hold_nothing_witness:
  "posix_blank (fold posix_step [OpensTo True, TypesNumber True ''1001'', TypesConfirmation ''ann'', Starts, Succeeds] posix_closed)"
proof -
  let ?es = "[OpensTo True, TypesNumber True ''1001'', TypesConfirmation ''ann'', Starts, Succeeds]"
  have "posix_blank posix_closed" "\<not> px_open (fold posix_step ?es posix_closed)"
    by (simp_all add: posix_blank_def posix_closed_def posix_step_def posix_close_def)
  then show ?thesis
    by (rule closed_dialogs_hold_nothing[THEN conjunct2, THEN conjunct2, THEN conjunct1, THEN mp, OF conjI])
qed

section \<open>What the other dialogs keep\<close>

text \<open>
  Escape closes the dialogs of groups and of sudo roles without emptying them; Cancel and a success empty them.
\<close>

lemma escape_keeps_pick:
  "ch_open s \<Longrightarrow> ch_picked (groups_step (OpenChange False) s) = ch_picked s"
  "ch_open r \<Longrightarrow> ch_picked (role_step (OpenChange False) r) = ch_picked r"
  "md_new (members_open_change False m) = md_new m"
  by (simp_all add: groups_step_def role_step_def members_open_change_def)

lemma role_still_chosen:
  "let s = fold role_step [OpenChange True, PressRow ''cn=admins'', OpenChange False, OpenChange True]
             \<lparr>ch_open = False, ch_picked = '''', ch_term = ''''\<rparr>
   in add_role_button False (ch_picked s) = Presses ''Add'' True"
  by (simp add: role_step_def add_role_button_def)

text \<open>The rows pressed since the dialog was last emptied.\<close>

fun pressed_since :: "choose_event list \<Rightarrow> string list \<Rightarrow> string list" where
  "pressed_since [] acc = acc"
| "pressed_since (PressRow dn # es) acc = pressed_since es (dn # acc)"
| "pressed_since (PressCancel # es) acc = pressed_since es []"
| "pressed_since (AddSucceeds # es) acc = pressed_since es []"
| "pressed_since (_ # es) acc = pressed_since es acc"

lemma toggle_distinct: "distinct xs \<Longrightarrow> distinct (toggle_group dn xs)"
  by (auto simp: toggle_group_def)

lemma toggle_members: "set (toggle_group dn xs) \<subseteq> insert dn (set xs)"
  by (auto simp: toggle_group_def)

text \<open>What the dialog of the groups sends is distinct, and every group of it was pressed since it was last emptied.\<close>

lemma groups_picked:
  "distinct (ch_picked s) \<Longrightarrow> set (ch_picked s) \<subseteq> set acc \<Longrightarrow>
    distinct (ch_picked (fold groups_step es s)) \<and> set (ch_picked (fold groups_step es s)) \<subseteq> set (pressed_since es acc)"
proof (induction es arbitrary: s acc)
  case (Cons e es)
  show ?case
  proof (cases e)
    case (PressRow dn)
    have "distinct (ch_picked (groups_step e s)) \<and> set (ch_picked (groups_step e s)) \<subseteq> set (dn # acc)"
      using Cons.prems toggle_distinct toggle_members[of dn "ch_picked s"] by (auto simp: groups_step_def PressRow)
    then show ?thesis using Cons.IH[of "groups_step e s" "dn # acc"] PressRow by simp
  qed (use Cons in \<open>auto simp: groups_step_def\<close>)
qed simp

end
