(* ===== verification/Work_Screens.thy ===== *)
theory Work_Screens
  imports "HOL-Library.Multiset" Csv_Import App_Shell Ui_Parts
begin

text \<open>
  Two screens that are machines of their own, drawn: the import of a file (\<open>components/csv-import.tsx\<close>, its machine
  in \<open>Csv_Import\<close>) and the command palette (\<open>components/command-palette.tsx\<close>, its machine in \<open>App_Shell\<close>). The
  buttons of the first are enabled exactly for the steps of the machine; the second names each of its rows once.
\<close>

section \<open>The import\<close>

definition upload_card :: "import_field list \<Rightarrow> string option \<Rightarrow> control list" where
  "upload_card fs note =
     (let needed = filter fl_required fs in
      [Says ''Choose a CSV file'', Presses ''Select CSV file'' True, Reads ''Download template'',
       Says (''Required column'' @ (if length needed = 1 then '''' else ''s'') @ '': ''
         @ join_with '', '' (map fl_label needed)
         @ ''. Any other column is optional, and columns your file does not have can be left unmapped.'')]
      @ (case note of Some t \<Rightarrow> [Says t] | None \<Rightarrow> []))"

definition map_card :: "import_field list \<Rightarrow> csv_import \<Rightarrow> control list" where
  "map_card fs s =
     [Says ''Map columns'',
      Says (''Match each field to a column from your file. '' @ nat_str (length (ci_rows s)) @ '' row''
        @ (if length (ci_rows s) = 1 then '''' else ''s'') @ '' detected.'')]
     @ map (\<lambda>f. Edits (fl_key f) (fl_label f @ (if fl_required f then '' *'' else '''')) PickerIn (snd (column_choice s f)) True) fs
     @ (case unmapped_notice fs s of Some t \<Rightarrow> [Says t] | None \<Rightarrow> [])
     @ [Presses ''Back'' True, Presses ''Preview'' (can_preview fs s)]"

definition preview_card :: "string \<Rightarrow> import_field list \<Rightarrow> csv_import \<Rightarrow> control list" where
  "preview_card noun fs s =
     [Says ''Preview'',
      Says (nat_str (length (validRows (parsedRows fs s))) @ '' valid, '' @ int_str (invalidCount (parsedRows fs s))
        @ '' invalid. Invalid rows are skipped on import.'')]
     @ concat (map (\<lambda>(n, cells, states). Says (nat_str n) # map Says cells @ map Says states) (preview_table fs s))
     @ [Presses ''Back'' True,
        Presses (if ci_submitting s then ''Importing...''
                 else ''Import '' @ nat_str (length (validRows (parsedRows fs s))) @ '' '' @ noun) (can_submit fs s)]"

definition result_card :: "string \<Rightarrow> import_result \<Rightarrow> control list" where
  "result_card back result =
     [Says ''Import complete'',
      Says (nat_str (ir_created result) @ '' created, '' @ nat_str (ir_failed result) @ '' failed.'')]
     @ concat (map (\<lambda>(n, key, e). [Says (nat_str n), Says key, Says (coalesce e '''')]) (failed_rows result))
     @ [Reads ''Download report'', Links ''Done'' back]"

definition import_screen :: "string \<Rightarrow> string \<Rightarrow> string \<Rightarrow> string option \<Rightarrow> import_field list \<Rightarrow> csv_import \<Rightarrow> control list" where
  "import_screen back heading noun note fs s =
     [Links ''Back to the list'' back, Says heading]
     @ map (\<lambda>(label, passed, active). Says label) (Steps (ci_stage s))
     @ (case ci_stage s of
          Upload \<Rightarrow> upload_card fs note
        | MapColumns \<Rightarrow> map_card fs s
        | Preview \<Rightarrow> preview_card noun fs s
        | ResultStage \<Rightarrow> (case ci_result s of Some r \<Rightarrow> result_card back r | None \<Rightarrow> []))"

section \<open>The palette\<close>

definition optionId :: "nat \<Rightarrow> string" where
  "optionId i = ''palette-option-'' @ nat_str i"

text \<open>Runs of characters other than letters and digits become one hyphen.\<close>

definition id_char :: "char \<Rightarrow> bool" where
  "id_char c \<longleftrightarrow> (97 \<le> code c \<and> code c \<le> 122) \<or> is_digit c"

fun hyphenated :: "bool \<Rightarrow> string \<Rightarrow> string" where
  "hyphenated inside [] = []"
| "hyphenated inside (c # cs) =
     (if id_char c then c # hyphenated False cs
      else if inside then hyphenated True cs else CHR ''-'' # hyphenated True cs)"

definition groupId :: "string \<Rightarrow> string" where
  "groupId heading = ''palette-group-'' @ hyphenated False (to_lower heading)"

text \<open>A row: its element id, label and hint, whether it is the highlighted one, and its index among the commands.\<close>

record palette_row =
  pr_index :: nat
  pr_id :: string
  pr_label :: string
  pr_hint :: "string option"
  pr_active :: bool

definition palette_row_of :: "int \<Rightarrow> nat \<times> command \<Rightarrow> palette_row" where
  "palette_row_of highlighted ic =
     \<lparr>pr_index = fst ic, pr_id = optionId (fst ic), pr_label = cmd_label (snd ic), pr_hint = opt_chain (cmd_hint (snd ic)) (\<lambda>h. if h = '''' then None else Some h),
      pr_active = (int (fst ic) = highlighted)\<rparr>"

definition palette_groups :: "nav_section list \<Rightarrow> bool \<Rightarrow> palette \<Rightarrow> (string \<times> string \<times> palette_row list) list" where
  "palette_groups secs isAdmin s =
     (let commands = palette_list secs isAdmin s in
      map (\<lambda>heading. (groupId heading, heading,
             map (palette_row_of (boundedIndex secs isAdmin s))
               (filter (\<lambda>ic. cmd_group (snd ic) = heading) (enumerate 0 commands))))
        (groupsInOrder commands []))"

text \<open>The text that stands for no rows; the quotation marks around the term are arguments.\<close>

definition palette_nothing :: "string \<Rightarrow> string \<Rightarrow> palette \<Rightarrow> string" where
  "palette_nothing lq rq s =
     (if pl_term s \<noteq> '''' then ''Nothing matches '' @ lq @ pl_term s @ rq else ''Start typing to search the directory'')"

text \<open>The element the input names as the active one.\<close>

definition active_descendant :: "nav_section list \<Rightarrow> bool \<Rightarrow> palette \<Rightarrow> string option" where
  "active_descendant secs isAdmin s =
     (if 0 < length (palette_list secs isAdmin s) then Some (optionId (nat (boundedIndex secs isAdmin s))) else None)"

section \<open>The screens follow their machines\<close>

lemma steps_say: "Presses l b \<notin> set (map (\<lambda>(label, passed, active). Says label) xs)"
  by auto

lemma map_card_presses:
  "Presses l True \<in> set (map_card fs s) \<longleftrightarrow> l = ''Back'' \<or> (l = ''Preview'' \<and> can_preview fs s)"
  by (auto simp: map_card_def split: option.splits)

lemma preview_rows_say:
  "Presses l b \<notin> set (concat (map (\<lambda>(n, cells, states). Says (nat_str n) # map Says cells @ map Says states) xs))"
  by auto

lemma preview_card_presses:
  "Presses l True \<in> set (preview_card noun fs s) \<longleftrightarrow>
     l = ''Back'' \<or> (l = ''Import '' @ nat_str (length (validRows (parsedRows fs s))) @ '' '' @ noun \<and> can_submit fs s)"
  by (auto simp: preview_card_def can_submit_def)

lemma upload_card_presses: "Presses l True \<in> set (upload_card fs note) \<longleftrightarrow> l = ''Select CSV file''"
  by (auto simp: upload_card_def Let_def split: option.splits)

lemma result_card_presses: "Presses l True \<notin> set (result_card back r)"
  by (auto simp: result_card_def)

text \<open>
  The enabled buttons of the import are those of the steps its machine can take: a file can be chosen, the mapping
  previewed, the valid rows sent, and the two middle stages left backwards.
\<close>

lemma import_buttons:
  "Presses l True \<in> set (import_screen back heading noun note fs s) \<longleftrightarrow>
     (case ci_stage s of
        Upload \<Rightarrow> l = ''Select CSV file''
      | MapColumns \<Rightarrow> l = ''Back'' \<or> (l = ''Preview'' \<and> can_preview fs s)
      | Preview \<Rightarrow> l = ''Back'' \<or> (l = ''Import '' @ nat_str (length (validRows (parsedRows fs s))) @ '' '' @ noun \<and> can_submit fs s)
      | ResultStage \<Rightarrow> False)"
  using steps_say[of l True "Steps (ci_stage s)"]
  by (auto simp: import_screen_def upload_card_presses map_card_presses preview_card_presses result_card_presses
      split: csv_stage.splits option.splits)

lemma groupsInOrder_set: "set (groupsInOrder cs acc) = set acc \<union> cmd_group ` set cs"
  by (induction cs arbitrary: acc) auto

lemma groupsInOrder_distinct: "distinct acc \<Longrightarrow> distinct (groupsInOrder cs acc)"
  by (induction cs arbitrary: acc) auto

text \<open>Sorting a list under its headings loses nothing and repeats nothing.\<close>

lemma mset_under_headings:
  "distinct gs \<Longrightarrow> f ` set xs \<subseteq> set gs \<Longrightarrow> mset (concat (map (\<lambda>g. filter (\<lambda>x. f x = g) xs) gs)) = mset xs"
proof (induction gs arbitrary: xs)
  case (Cons g gs)
  let ?rest = "filter (\<lambda>x. f x \<noteq> g) xs"
  have "filter (\<lambda>x. f x = h) xs = filter (\<lambda>x. f x = h) ?rest" if "h \<in> set gs" for h
    using that Cons.prems(1) by (auto intro!: filter_cong simp: filter_filter)
  then have "concat (map (\<lambda>g. filter (\<lambda>x. f x = g) xs) gs) = concat (map (\<lambda>g. filter (\<lambda>x. f x = g) ?rest) gs)"
    by (metis (no_types, lifting) map_cong)
  moreover have "mset (concat (map (\<lambda>g. filter (\<lambda>x. f x = g) ?rest) gs)) = mset ?rest"
    by (rule Cons.IH) (use Cons.prems in auto)
  ultimately show ?case using multiset_partition[of "mset xs" "\<lambda>x. f x = g"] by (simp add: mset_filter)
qed simp

definition shown_rows :: "nav_section list \<Rightarrow> bool \<Rightarrow> palette \<Rightarrow> palette_row list" where
  "shown_rows secs isAdmin s = concat (map (\<lambda>(gid, heading, rows). rows) (palette_groups secs isAdmin s))"

lemma shown_indices:
  "mset (map pr_index (shown_rows secs isAdmin s)) = mset [0..<length (palette_list secs isAdmin s)]"
proof -
  let ?cs = "palette_list secs isAdmin s"
  let ?xs = "enumerate 0 ?cs"
  let ?gs = "groupsInOrder ?cs []"
  have "map pr_index (shown_rows secs isAdmin s) =
      map fst (concat (map (\<lambda>g. filter (\<lambda>x. cmd_group (snd x) = g) ?xs) ?gs))"
    by (simp add: shown_rows_def palette_groups_def Let_def map_concat comp_def palette_row_of_def)
  moreover have "mset (concat (map (\<lambda>g. filter (\<lambda>x. (cmd_group \<circ> snd) x = g) ?xs) ?gs)) = mset ?xs"
    by (rule mset_under_headings)
      (auto simp: groupsInOrder_distinct groupsInOrder_set in_set_enumerate_eq)
  ultimately have "mset (map pr_index (shown_rows secs isAdmin s)) = image_mset fst (mset ?xs)"
    by (simp add: comp_def)
  also have "\<dots> = mset (map fst ?xs)" by (simp only: mset_map)
  finally show ?thesis by (simp only: map_fst_enumerate add_0)
qed

text \<open>
  Every command is one row of the palette, and when there is a row, exactly one is marked: the one the input names
  as its active element and Enter runs.
\<close>

lemma palette_marks_one:
  assumes "palette_list secs isAdmin s \<noteq> []" and "0 \<le> pl_active s"
  shows "\<exists>r. filter pr_active (shown_rows secs isAdmin s) = [r] \<and> active_descendant secs isAdmin s = Some (pr_id r)"
proof -
  let ?n = "length (palette_list secs isAdmin s)" and ?b = "boundedIndex secs isAdmin s"
  let ?rows = "shown_rows secs isAdmin s" and ?here = "\<lambda>i::nat. int i = boundedIndex secs isAdmin s"
  have n: "0 < ?n" using assms(1) by simp
  have b: "0 \<le> ?b" "?b < int ?n" using assms(2) n by (auto simp: boundedIndex_def)
  have one: "length (filter (\<lambda>r. ?here (pr_index r)) ?rows) = 1"
  proof -
    have "length (filter ?here (map pr_index ?rows)) = size (filter_mset ?here (mset [0..<?n]))"
      by (metis mset_filter shown_indices size_mset)
    also have "\<dots> = card (set (filter ?here [0..<?n]))"
      by (metis distinct_card distinct_filter distinct_upt mset_filter size_mset)
    also have "set (filter ?here [0..<?n]) = {nat ?b}" using b by auto
    finally show ?thesis by (simp add: filter_map comp_def)
  qed
  have row: "pr_active r = ?here (pr_index r) \<and> pr_id r = optionId (pr_index r)" if "r \<in> set ?rows" for r
    using that by (auto simp: shown_rows_def palette_groups_def Let_def palette_row_of_def)
  then have "filter pr_active ?rows = filter (\<lambda>r. ?here (pr_index r)) ?rows" by (intro filter_cong) auto
  then obtain r where r: "filter pr_active ?rows = [r]" using one by (metis One_nat_def length_0_conv length_Suc_conv)
  then have "r \<in> set ?rows" "pr_active r" using filter_set[of pr_active ?rows] by auto
  with row have "int (pr_index r) = ?b" "pr_id r = optionId (pr_index r)" by auto
  then have "nat ?b = pr_index r" by (metis nat_int)
  then show ?thesis using r n \<open>pr_id r = optionId (pr_index r)\<close> by (simp add: active_descendant_def)
qed

end
