(* ===== verification/Spec2Isabelle.thy ===== *)
theory Spec2Isabelle
  imports Netgroups Access Dn_Names Account Bulk Outcome_Queue List_Page Api_Client Csv_Import Security_Tab Sudo_Forms
    Passwords Sign_In Audit_Log App_Shell Create_Forms Ui_Parts Api_Routes User_Page Group_Page Bulk_Dialogs List_Tables Audit_Page New_Pages Dashboard Admin_Page Rule_Pages Page_Access Shell_Frame Record_Switch Pick_Dialogs Work_Screens
begin

text \<open>
  A verification library for the web client of LDAP Warden (\<open>web/src\<close>), the single-page application
  with which operators administer users, groups, netgroups, sudo roles and password policies of an LDAP
  directory through the server's HTTP API.

  \<^bold>\<open>The program.\<close> A session (\<open>lib/auth.tsx\<close>) and what the server says about itself
  (\<open>lib/use-server-info.ts\<close>) decide which sections and routes there are. Every exchange with the server
  goes through one function (\<open>fetchApi\<close> of \<open>lib/api.ts\<close>), which checks each answer against a schema and
  tells the session when a call was refused for want of one. List pages keep their view in the address
  (\<open>lib/list-search.ts\<close>); detail pages keep drafts of the entry they show in step with what the server
  sends (\<open>lib/form-sync.ts\<close>) and save the fields that changed; bulk actions run a pool of calls
  (\<open>lib/bulk.ts\<close>); files of entries are imported in batches (\<open>components/csv-import.tsx\<close>).

  \<^bold>\<open>The theories.\<close> \<open>Prelude\<close> holds what all share. The language and its library: \<open>Js_Value\<close> (JSON,
  numbers), \<open>Js_Text\<close> (strings), \<open>Js_Date\<close>, \<open>Uri\<close> (percent-encoding, query strings), \<open>Zod\<close> (schemas as
  data; the locale \<open>zod\<close> states what the package documents of \<open>safeParse\<close>, and \<open>zod_run\<close>, an evaluator
  of the schemas, interprets it).

  \<^item> Data and API: \<open>Api_Schemas\<close> (every response schema of \<open>lib/api.ts\<close>), \<open>Api_Types\<close> (the types read off
    accepted values), \<open>Api_Requests\<close> (every endpoint as its request), \<open>Api_Client\<close> (one call as a machine
    driven by network, timer and caller), \<open>Api_Routes\<close> (the route table of the server, which tells the
    permission each request needs).
  \<^item> Session and navigation: \<open>Auth_State\<close> (the \<open>AuthProvider\<close>), \<open>Sign_In\<close> (login, redirects, password
    dialog, reset link), \<open>Access\<close> (modules, sections, the guard of every route), \<open>App_Shell\<close> (command
    palette, shortcuts, theme), \<open>Shell_Frame\<close> (the frame with its menus, the pages shown on an error),
    \<open>Page_Access\<close> (the requests of every page against the permissions of the server).
  \<^item> Reading the directory: \<open>Dn_Codec\<close> and \<open>Dn_Names\<close> (DNs in addresses, comparison, titles), \<open>Ldap_Time\<close>,
    \<open>Account\<close> and \<open>Account_Badge\<close> (locks and expiries), \<open>Netgroups\<close>.
  \<^item> Lists: \<open>List_Search\<close> (the view in the address), \<open>List_Page\<close> (selection and handlers), \<open>List_Tables\<close>
    (what the five index pages draw), \<open>Bulk\<close> (the pool as a step relation) and \<open>Bulk_Dialogs\<close> (the toolbars
    around it), \<open>Pick_Dialogs\<close> (the dialogs that pick or are confirmed in writing), \<open>Outcome_Queue\<close>, \<open>Csv_Import\<close>, \<open>Audit_Search\<close> and \<open>Audit_Log\<close>.
  \<^item> Forms and pages: \<open>Form_Sync\<close> (drafts), \<open>Edit_Forms\<close>, \<open>Sudo_Forms\<close>, \<open>Create_Forms\<close> (what each form
    sends), \<open>Passwords\<close>, \<open>Pickers\<close>, \<open>Ui_Parts\<close> (the building blocks), \<open>Work_Screens\<close> (import and palette, drawn), \<open>Detail_Pages\<close> (tabs and
    mutations), \<open>Security_Tab\<close>, \<open>User_Page\<close> and \<open>Group_Page\<close> (every control of the two pages),
    \<open>Rule_Pages\<close> (sudo rules and netgroups), \<open>New_Pages\<close> (the pages that create, and the lists of policies),
    \<open>Audit_Page\<close> (both logs and the setup of the directory's own), \<open>Admin_Page\<close> (configuration, tasks,
    self-test) and \<open>Dashboard\<close>; \<open>Record_Switch\<close> composes query cache, guard and form: what a draft becomes on
    the way to another entry.

  \<^bold>\<open>How code corresponds to definitions.\<close> Definitions keep the source's names where they can. A React
  component with state is a record of its \<open>useState\<close> values and refs and a step function over the events it can
  see; what it draws is a function to a list of \<open>control\<close>s (inputs with the field they edit, buttons with
  the condition that enables them, links, texts). A mutation is its request and the list of its effects
  (queries refreshed, toasts, navigation). A string is a list of Latin-1 characters; only the DN codec and
  percent-decoding work on lists of 16-bit code units. Optional properties are options, and a
  condition on one treats the empty string as absent. Numbers read from text are exact rationals: \<open>1e400\<close> is an
  integer here and \<open>Infinity\<close> in the browser, and digits beyond 2^53 are not rounded. What a component throws while it
  renders is a value of the function that draws it; the palette keeps the failure of \<open>encodeDN\<close> in the row it concerns,
  where the browser's render would throw (not with the Latin-1 texts of the model).

  \<^bold>\<open>What the lemmas show.\<close> Invariants of the state machines (drafts, session, bulk pool and toolbars, palette,
  import), by induction over their runs; round trips (DNs, addresses, queries, CSV templates, password
  policies, netgroup triples); the life of a draft (values typed are never overwritten by other data; a form opened
  on its data follows it otherwise); refinements (the audit page and its search box against what the operator set;
  a row builder against a reference; the session against its history); safety across
  components (links lead to routes whose guard passes, deletions are offered only with the permission the
  server asks for, no control on one's own page that would lock one out, read-only pages edit nothing, no page asks for
  what its session is refused but one, every call arrives with the documented permission, an entry not yet cached is
  opened without the draft of the one before, closed dialogs hold nothing); termination of the
  bulk pool and exact bounds of the password generator. Where the code does not do what it means to, the property
  is stated for the cases in which it does and a lemma shows the case in which it does not: a form that is mounted
  before its data (\<open>first_arrival_not_taken\<close>), a draft taken along to a cached entry (\<open>cached_leave_keeps_draft\<close>,
  \<open>rule_draft_moves\<close>), a cleared search that comes back (\<open>clear_keeps_term\<close>), a password dialog that outlives its
  session (\<open>password_outlives_session\<close>), and others that name the theory's own remarks.

  \<^bold>\<open>Bounds and fuel.\<close> No definition uses fuel. The bulk pool and the call machine are relations or folds over
  events; that they end is a theorem (\<open>bulk_terminates\<close>, \<open>fetch_settles\<close>). The password generator consumes a
  given list of random octets and returns \<open>None\<close> when they run out; \<open>generate_password_exact\<close> says when
  they suffice.

  \<^bold>\<open>Parameters.\<close> What the client takes from elsewhere is an argument: the parser of CSV text (Papa Parse; what it
  writes for a template is taken to be what it reads back, cell by cell), the schema validator, \<open>JSON.stringify\<close> of logged values, random octets, the clock and the time zone, date and
  number formatting and the ordering of the locale, the dates an engine reads beyond the language definition,
  the router's reading of an address and whether it mounts a page anew for another parameter, and the typographic characters outside Latin-1 (dashes, quotes, the
  ellipsis) in texts.

  \<^bold>\<open>Not modelled.\<close> The server (\<open>internal\<close>, \<open>cmd\<close>), but for its route table and permissions; the rendering
  of markup, styles and icons, and the primitives of \<open>components/ui\<close> that only style (they hold no
  logic); the generated route tree; react-query's cache beyond which queries a success refreshes and which entry it holds (\<open>Record_Switch\<close>); the
  clipboard, file downloads and printing; the browser's own enforcement of input attributes, except where a
  definition says so.
\<close>

end
